(* ===== verification/VF_Prelude.thy ===== *)
theory VF_Prelude
  imports Main "HOL-Library.Word" "HOL-Library.State_Monad"
begin

section \<open>Shared notions: the state monad of effects and its proof rules\<close>

text \<open>
  The prelude of the VaultForge development. It holds the collections of proof rules the
  component theories fill (\<open>wp\<close> for symbolic execution of effectful code, \<open>go_defs\<close> for
  definitions that are unfolded on concrete inputs), the weakest-precondition rules for the state
  monad in which the request handlers are written, and generic facts on lists, options and words.
\<close>

named_theorems wp "weakest-precondition rules for effectful operations"
named_theorems go_defs "definitions unfolded when a concrete input is evaluated"

subsection \<open>Machine types\<close>

type_synonym byte = "8 word"
type_synonym u32 = "32 word"
type_synonym u64 = "64 word"
type_synonym i64 = "64 word"
  \<comment> \<open>Go's int64: the same bits as \<open>u64\<close>, read with \<open>sint\<close>\<close>

text \<open>Times are nanoseconds since the Unix epoch; a Go \<open>error\<close> is its message.\<close>

type_synonym time = int
type_synonym error = string

abbreviation second :: int where
  "second \<equiv> 1000000000"

subsection \<open>Weakest preconditions\<close>

text \<open>
  \<open>wp m Q s\<close>: running \<open>m\<close> from \<open>s\<close> ends with a result and a state that satisfy \<open>Q\<close>. The
  monad is deterministic and total, so this is both partial and total correctness.
\<close>

definition wp :: "('s, 'a) State_Monad.state \<Rightarrow> ('a \<Rightarrow> 's \<Rightarrow> bool) \<Rightarrow> 's \<Rightarrow> bool" where
  "wp m Q s \<longleftrightarrow> (case run_state m s of (a, t) \<Rightarrow> Q a t)"

lemma wp_return [wp]: "wp (State_Monad.return a) Q s = Q a s"
  by (simp add: wp_def)

lemma wp_bind [wp]: "wp (State_Monad.bind m f) Q s = wp m (\<lambda>a. wp (f a) Q) s"
  by (simp add: wp_def split: prod.splits)

lemma wp_State [wp]: "wp (State_Monad.State f) Q s = (case f s of (a, t) \<Rightarrow> Q a t)"
  by (simp add: wp_def)

lemma wp_if [wp]: "wp (if b then m else n) Q s = (if b then wp m Q s else wp n Q s)"
  by simp

lemma wp_sum [wp]:
  "wp (case r of Inl e \<Rightarrow> f e | Inr a \<Rightarrow> g a) Q s
     = (case r of Inl e \<Rightarrow> wp (f e) Q s | Inr a \<Rightarrow> wp (g a) Q s)"
  by (simp split: sum.splits)

lemma wp_option [wp]:
  "wp (case r of None \<Rightarrow> m | Some a \<Rightarrow> g a) Q s
     = (case r of None \<Rightarrow> wp m Q s | Some a \<Rightarrow> wp (g a) Q s)"
  by (simp split: option.splits)

lemma wp_let [wp]: "wp (let x = a in f x) Q s = wp (f a) Q s"
  by simp

lemma wp_mono: "wp m Q s \<Longrightarrow> (\<And>a t. Q a t \<Longrightarrow> R a t) \<Longrightarrow> wp m R s"
  by (auto simp: wp_def split: prod.splits)

lemma wp_conj: "wp m Q s \<Longrightarrow> wp m R s \<Longrightarrow> wp m (\<lambda>a t. Q a t \<and> R a t) s"
  by (auto simp: wp_def split: prod.splits)

lemma wp_run: "wp m Q s \<Longrightarrow> run_state m s = (a, t) \<Longrightarrow> Q a t"
  by (simp add: wp_def)

lemma wpI: "(\<And>a t. run_state m s = (a, t) \<Longrightarrow> Q a t) \<Longrightarrow> wp m Q s"
  by (auto simp: wp_def split: prod.splits)

text \<open>The same rules for stepping through a program with \<open>intro\<close>.\<close>

lemma wp_returnI: "Q a s \<Longrightarrow> wp (State_Monad.return a) Q s"
  by (simp add: wp_return)

lemma wp_bindI: "wp m (\<lambda>a. wp (f a) Q) s \<Longrightarrow> wp (State_Monad.bind m f) Q s"
  by (simp add: wp_bind)

lemma wp_ifI: "(b \<Longrightarrow> wp m Q s) \<Longrightarrow> (\<not> b \<Longrightarrow> wp n Q s) \<Longrightarrow> wp (if b then m else n) Q s"
  by simp

lemma wp_sumI:
  "(\<And>e. r = Inl e \<Longrightarrow> wp (f e) Q s) \<Longrightarrow> (\<And>a. r = Inr a \<Longrightarrow> wp (g a) Q s) \<Longrightarrow>
     wp (case r of Inl e \<Rightarrow> f e | Inr a \<Rightarrow> g a) Q s"
  by (cases r) auto

lemma wp_optionI:
  "(r = None \<Longrightarrow> wp m Q s) \<Longrightarrow> (\<And>a. r = Some a \<Longrightarrow> wp (g a) Q s) \<Longrightarrow>
     wp (case r of None \<Rightarrow> m | Some a \<Rightarrow> g a) Q s"
  by (cases r) auto

lemma wp_listI:
  "(r = [] \<Longrightarrow> wp m Q s) \<Longrightarrow> (\<And>a as. r = a # as \<Longrightarrow> wp (g a as) Q s) \<Longrightarrow>
     wp (case r of [] \<Rightarrow> m | a # as \<Rightarrow> g a as) Q s"
  by (cases r) auto

lemma wp_letI: "wp (f a) Q s \<Longrightarrow> wp (let x = a in f x) Q s"
  by simp

lemmas wp_intros = wp_returnI wp_bindI wp_ifI wp_sumI wp_optionI wp_listI wp_letI

subsection \<open>Lists\<close>

lemma list_all_eq_Ball: "list_all P xs \<longleftrightarrow> (\<forall>x\<in>set xs. P x)"
  by (simp add: list_all_iff)

lemma foldl_fixed: "(\<And>x. x \<in> set xs \<Longrightarrow> f a x = a) \<Longrightarrow> foldl f a xs = a"
  by (induction xs) auto

subsection \<open>Signed 64-bit words\<close>

lemma sint_word_of_int_i64: "- (2 ^ 63) \<le> i \<Longrightarrow> i < 2 ^ 63 \<Longrightarrow> sint (word_of_int i :: i64) = i"
  by (simp add: sint_sbintrunc' signed_take_bit_int_eq_self)

lemma sint_of_nat_i64: "n < 2 ^ 63 \<Longrightarrow> sint (of_nat n :: i64) = int n"
  using sint_word_of_int_i64 [of "int n"] by simp

lemma sint_i64_range: "- (2 ^ 63) \<le> sint (v :: i64)" "sint (v :: i64) < 2 ^ 63"
  using sint_range_size [of v] by (simp_all add: word_size)

lemma i64_of_nat_sint: "0 \<le> sint (v :: i64) \<Longrightarrow> of_nat (nat (sint v)) = v"
  by simp

lemma unat_byte: "unat (b :: byte) < 256"
proof -
  have "(unsigned b :: nat) < 2 ^ LENGTH(8)" by (rule unsigned_less)
  then show ?thesis by simp
qed

lemma unat_u64: "unat (w :: u64) < 2 ^ 64"
proof -
  have "(unsigned w :: nat) < 2 ^ LENGTH(64)" by (rule unsigned_less)
  then show ?thesis by simp
qed

end
