(* ===== verification/VF_Trace.thy ===== *)
theory VF_Trace
  imports VF_Prelude
begin

section \<open>Programs with a trail of their calls\<close>

text \<open>
  A program that reaches the outside through interfaces runs on a state with two parts: the state
  \<open>'x\<close> behind the interfaces and the trail, the list of the calls made so far with their results.
  The trail is not part of the program; it lets the properties speak of the order of calls for any
  implementation of the interfaces. \<open>act\<close> makes a call and notes it; \<open>appends P m\<close> says that \<open>m\<close>
  appends calls that satisfy \<open>P\<close>, with one rule per construct of the code; \<open>guarded ok bad past tr\<close>
  says of a trail \<open>tr\<close> that every call in \<open>bad\<close> comes when the calls before it satisfy \<open>ok\<close>.
\<close>

record ('x, 'e) traced =
  ext :: 'x
  trail :: "'e list"

definition act :: "('x, 'a) State_Monad.state \<Rightarrow> ('a \<Rightarrow> 'e) \<Rightarrow> (('x, 'e) traced, 'a) State_Monad.state" where
  "act m ev = State_Monad.State
     (\<lambda>s. case run_state m (ext s) of (a, x) \<Rightarrow> (a, \<lparr>ext = x, trail = trail s @ [ev a]\<rparr>))"

lemma wp_act [wp]:
  "wp (act m ev) Q s =
     (case run_state m (ext s) of (a, x) \<Rightarrow> Q a \<lparr>ext = x, trail = trail s @ [ev a]\<rparr>)"
  by (simp add: act_def wp_State split: prod.splits)

subsection \<open>Running a program\<close>

text \<open>A run starts with an empty trail; its result is the response, the trail and the state.\<close>

definition serve :: "(('x, 'e) traced, 'a) State_Monad.state \<Rightarrow> 'x \<Rightarrow> 'a \<times> 'e list \<times> 'x" where
  "serve m x = (case run_state m \<lparr>ext = x, trail = []\<rparr> of (r, s) \<Rightarrow> (r, trail s, ext s))"

lemma serve_wp:
  assumes "wp m (\<lambda>r s. Q r (trail s) (ext s)) \<lparr>ext = x, trail = []\<rparr>"
    and "serve m x = (r, tr, x')"
  shows "Q r tr x'"
  using assms by (auto simp: serve_def wp_def split: prod.splits)

subsection \<open>Calls that must be preceded by others\<close>

fun guarded :: "('e list \<Rightarrow> 'e \<Rightarrow> bool) \<Rightarrow> ('e \<Rightarrow> bool) \<Rightarrow> 'e list \<Rightarrow> 'e list \<Rightarrow> bool" where
  "guarded ok bad past [] = True"
| "guarded ok bad past (e # es) = ((if bad e then ok past e else True) \<and> guarded ok bad (past @ [e]) es)"

lemma guarded_append:
  "guarded ok bad past (es @ fs) \<longleftrightarrow> guarded ok bad past es \<and> guarded ok bad (past @ es) fs"
  by (induction es arbitrary: past) auto

lemma guarded_quiet: "list_all (\<lambda>e. \<not> bad e) es \<Longrightarrow> guarded ok bad past es"
  by (induction es arbitrary: past) auto

lemma guardedD:
  "guarded ok bad past tr \<Longrightarrow> tr = es @ e # fs \<Longrightarrow> bad e \<Longrightarrow> ok (past @ es) e"
  by (simp add: guarded_append)

text \<open>\<open>appends P m\<close>: whatever the interfaces do, \<open>m\<close> appends a list of calls that satisfies \<open>P\<close>.\<close>

definition appends :: "('e list \<Rightarrow> 'a \<Rightarrow> bool) \<Rightarrow> (('x, 'e) traced, 'a) State_Monad.state \<Rightarrow> bool" where
  "appends P m \<longleftrightarrow> (\<forall>s. wp m (\<lambda>r t. \<exists>es. trail t = trail s @ es \<and> P es r) s)"

lemma appendsI: "(\<And>s. wp m (\<lambda>r t. \<exists>es. trail t = trail s @ es \<and> P es r) s) \<Longrightarrow> appends P m"
  by (simp add: appends_def)

lemma appends_mono: "appends P m \<Longrightarrow> (\<And>es r. P es r \<Longrightarrow> Q es r) \<Longrightarrow> appends Q m"
  unfolding appends_def by (blast intro: wp_mono)

lemma appends_conj: "appends P m \<Longrightarrow> appends Q m \<Longrightarrow> appends (\<lambda>es r. P es r \<and> Q es r) m"
  by (fastforce simp: appends_def wp_def split: prod.splits)

lemma appends_return: "P [] a \<Longrightarrow> appends P (State_Monad.return a)"
  by (simp add: appends_def wp)

lemma appends_act: "(\<And>a. P [ev a] a) \<Longrightarrow> appends P (act m ev)"
  by (auto simp: appends_def wp split: prod.splits)

lemma appends_bind:
  fixes m :: "(('x, 'e) traced, 'a) State_Monad.state"
  assumes "appends (\<lambda>es a. appends (\<lambda>fs r. P (es @ fs) r) (f a)) m"
  shows "appends P (State_Monad.bind m f)"
  unfolding appends_def wp
proof
  fix s :: "('x, 'e) traced"
  from assms have "wp m (\<lambda>a t. \<exists>es. trail t = trail s @ es \<and>
      appends (\<lambda>fs r. P (es @ fs) r) (f a)) s"
    by (simp add: appends_def [where m = m])
  then show "wp m (\<lambda>a. wp (f a) (\<lambda>r t. \<exists>es. trail t = trail s @ es \<and> P es r)) s"
  proof (rule wp_mono)
    fix a and t :: "('x, 'e) traced"
    assume "\<exists>es. trail t = trail s @ es \<and> appends (\<lambda>fs r. P (es @ fs) r) (f a)"
    then obtain es where es: "trail t = trail s @ es"
      and app: "appends (\<lambda>fs r. P (es @ fs) r) (f a)"
      by blast
    have f: "wp (f a) (\<lambda>r u. \<exists>fs. trail u = trail t @ fs \<and> P (es @ fs) r) t"
      using app by (simp add: appends_def)
    show "wp (f a) (\<lambda>r u. \<exists>es. trail u = trail s @ es \<and> P es r) t"
      by (rule wp_mono [OF f]) (auto simp: es)
  qed
qed

lemma appends_act_bind:
  "(\<And>a. appends (\<lambda>fs r. P (ev a # fs) r) (f a)) \<Longrightarrow> appends P (State_Monad.bind (act m ev) f)"
  by (rule appends_bind, rule appends_act) simp

lemma appends_serve:
  assumes "appends P m" "serve m x = (r, tr, x')"
  shows "P tr r"
proof -
  have "wp m (\<lambda>r s. P (trail s) r) \<lparr>ext = x, trail = []\<rparr>"
    by (rule wp_mono [OF assms(1) [unfolded appends_def, rule_format]]) auto
  from serve_wp [OF this assms(2)] show ?thesis .
qed

lemma appends_case:
  "appends P m \<Longrightarrow> (case serve m x of (r, tr, x') \<Rightarrow> P tr r)"
  by (auto split: prod.splits intro: appends_serve)

text \<open>Case distinctions of the code, as introduction rules.\<close>

lemma appends_sum:
  "(\<And>e. r = Inl e \<Longrightarrow> appends P (f e)) \<Longrightarrow> (\<And>a. r = Inr a \<Longrightarrow> appends P (g a)) \<Longrightarrow>
     appends P (case r of Inl e \<Rightarrow> f e | Inr a \<Rightarrow> g a)"
  by (cases r) auto

lemma appends_option:
  "(r = None \<Longrightarrow> appends P m) \<Longrightarrow> (\<And>a. r = Some a \<Longrightarrow> appends P (g a)) \<Longrightarrow>
     appends P (case r of None \<Rightarrow> m | Some a \<Rightarrow> g a)"
  by (cases r) auto

lemma appends_list:
  "(r = [] \<Longrightarrow> appends P m) \<Longrightarrow> (\<And>a as. r = a # as \<Longrightarrow> appends P (g a as)) \<Longrightarrow>
     appends P (case r of [] \<Rightarrow> m | a # as \<Rightarrow> g a as)"
  by (cases r) auto

lemma appends_if:
  "(b \<Longrightarrow> appends P m) \<Longrightarrow> (\<not> b \<Longrightarrow> appends P n) \<Longrightarrow> appends P (if b then m else n)"
  by simp

lemma appends_let: "appends P (f a) \<Longrightarrow> appends P (let x = a in f x)"
  by simp

lemmas appends_rules = appends_return appends_act_bind appends_act appends_sum appends_option
  appends_list appends_if appends_let

text \<open>Straight-line code: flatten nested binds and push binds into the branches.\<close>

lemma bind_if: "State_Monad.bind (if b then m else n) f =
    (if b then State_Monad.bind m f else State_Monad.bind n f)"
  by simp

lemma bind_sum: "State_Monad.bind (case r of Inl e \<Rightarrow> m e | Inr a \<Rightarrow> n a) f =
    (case r of Inl e \<Rightarrow> State_Monad.bind (m e) f | Inr a \<Rightarrow> State_Monad.bind (n a) f)"
  by (cases r) simp_all

lemma bind_option: "State_Monad.bind (case r of None \<Rightarrow> m | Some a \<Rightarrow> n a) f =
    (case r of None \<Rightarrow> State_Monad.bind m f | Some a \<Rightarrow> State_Monad.bind (n a) f)"
  by (cases r) simp_all

end
