(* ===== verification/Go_Text.thy ===== *)
theory Go_Text
  imports VF_Prelude
begin

section \<open>Go strings, runes and decimal numbers\<close>

text \<open>
  What the program uses of Go's strings and of \<open>strings\<close>, \<open>strconv\<close> and \<open>fmt\<close>. A Go string is
  its bytes: a \<^typ>\<open>string\<close> of HOL, one \<^typ>\<open>char\<close> per byte, so \<open>length\<close> is Go's \<open>len\<close>. A
  \<open>for _, c := range s\<close> loop runs over the runes \<open>runes s\<close>, decoded as the Go specification says
  (an ill-formed byte is one U+FFFD). The Unicode tables (case folding, lower case, white space)
  and the text of \<open>strconv.Quote\<close> are fields of the record \<open>unicode\<close>: they matter for
  non-ASCII input only. The lemmas show that loops which look for ASCII characters can be read
  byte by byte, and that decimal printing and parsing of int64 values are inverse.
\<close>

subsection \<open>Bytes and runes\<close>

type_synonym rune = int

definition ord :: "char \<Rightarrow> int" where
  "ord c = of_char c"

definition chr :: "int \<Rightarrow> char" where
  "chr n = char_of n"

definition bytes_of :: "string \<Rightarrow> byte list" where
  "bytes_of s = map (\<lambda>c. word_of_int (ord c)) s"

definition string_of :: "byte list \<Rightarrow> string" where
  "string_of bs = map (\<lambda>b. chr (uint b)) bs"

definition runeError :: rune where
  "runeError = 0xFFFD"

definition in_range :: "int \<Rightarrow> int \<Rightarrow> char \<Rightarrow> bool" where
  "in_range lo hi c \<longleftrightarrow> lo \<le> ord c \<and> ord c \<le> hi"

definition low6 :: "char \<Rightarrow> int" where
  "low6 c = ord c - 0x80"

text \<open>The second byte's range depends on the first (no overlong forms, no surrogates).\<close>

definition lo2 :: "int \<Rightarrow> int" where
  "lo2 b0 = (if b0 = 0xE0 then 0xA0 else if b0 = 0xF0 then 0x90 else 0x80)"

definition hi2 :: "int \<Rightarrow> int" where
  "hi2 b0 = (if b0 = 0xED then 0x9F else if b0 = 0xF4 then 0x8F else 0xBF)"

fun decode_rune :: "string \<Rightarrow> rune \<times> nat" where
  "decode_rune [] = (runeError, 0)"
| "decode_rune (c # cs) =
    (let b0 = ord c in
     if b0 < 0x80 then (b0, 1)
     else if 0xC2 \<le> b0 \<and> b0 \<le> 0xDF then
       (case cs of
          c1 # _ \<Rightarrow> if in_range 0x80 0xBF c1 then ((b0 - 0xC0) * 64 + low6 c1, 2) else (runeError, 1)
        | _ \<Rightarrow> (runeError, 1))
     else if 0xE0 \<le> b0 \<and> b0 \<le> 0xEF then
       (case cs of
          c1 # c2 # _ \<Rightarrow>
            if in_range (lo2 b0) (hi2 b0) c1 \<and> in_range 0x80 0xBF c2
            then (((b0 - 0xE0) * 64 + low6 c1) * 64 + low6 c2, 3) else (runeError, 1)
        | _ \<Rightarrow> (runeError, 1))
     else if 0xF0 \<le> b0 \<and> b0 \<le> 0xF4 then
       (case cs of
          c1 # c2 # c3 # _ \<Rightarrow>
            if in_range (lo2 b0) (hi2 b0) c1 \<and> in_range 0x80 0xBF c2 \<and> in_range 0x80 0xBF c3
            then ((((b0 - 0xF0) * 64 + low6 c1) * 64 + low6 c2) * 64 + low6 c3, 4)
            else (runeError, 1)
        | _ \<Rightarrow> (runeError, 1))
     else (runeError, 1))"

function runes :: "string \<Rightarrow> rune list" where
  "runes [] = []"
| "runes (c # cs) =
     (let (r, n) = decode_rune (c # cs) in r # runes (drop (n - 1) cs))"
  by pat_completeness auto
termination
  by (relation "measure length") auto

declare runes.simps(2) [simp del]
declare decode_rune.simps(2) [simp del]

text \<open>\<open>utf8.EncodeRune\<close>: surrogates and values above U+10FFFF become U+FFFD.\<close>

definition valid_rune :: "rune \<Rightarrow> bool" where
  "valid_rune r \<longleftrightarrow> 0 \<le> r \<and> r \<le> 0x10FFFF \<and> \<not> (0xD800 \<le> r \<and> r \<le> 0xDFFF)"

definition encode_rune :: "rune \<Rightarrow> string" where
  "encode_rune r0 =
    (let r = (if valid_rune r0 then r0 else runeError) in
     if r < 0x80 then [chr r]
     else if r < 0x800 then [chr (0xC0 + r div 64), chr (0x80 + r mod 64)]
     else if r < 0x10000 then
       [chr (0xE0 + r div 4096), chr (0x80 + r div 64 mod 64), chr (0x80 + r mod 64)]
     else
       [chr (0xF0 + r div 262144), chr (0x80 + r div 4096 mod 64),
        chr (0x80 + r div 64 mod 64), chr (0x80 + r mod 64)])"

definition to_valid_utf8 :: "string \<Rightarrow> string" where
  "to_valid_utf8 s = concat (map encode_rune (runes s))"

subsection \<open>Facts on bytes and runes\<close>

lemma ord_range: "0 \<le> ord c" "ord c < 256"
  unfolding ord_def using of_char_mod_256 [of c, where ?'a = int] by (metis pos_mod_sign zero_less_numeral)
    (metis of_char_mod_256 pos_mod_bound zero_less_numeral)

lemma ord_chr: "0 \<le> n \<Longrightarrow> n < 256 \<Longrightarrow> ord (chr n) = n"
  by (simp add: ord_def chr_def)

lemma chr_ord [simp]: "chr (ord c) = c"
  by (simp add: ord_def chr_def)

lemma ord_inj: "ord c = ord d \<longleftrightarrow> c = d"
  by (metis chr_ord)

lemma string_of_bytes_of [simp]: "string_of (bytes_of s) = s"
proof -
  have "chr (uint (word_of_int (ord c) :: byte)) = c" for c
    using ord_range [of c] by (simp add: uint_word_of_int)
  then show ?thesis by (simp add: string_of_def bytes_of_def comp_def)
qed

lemma bytes_of_inj: "bytes_of s = bytes_of t \<longleftrightarrow> s = t"
  by (metis string_of_bytes_of)

lemma bytes_of_append: "bytes_of (s @ t) = bytes_of s @ bytes_of t"
  by (simp add: bytes_of_def)

lemma length_bytes_of [simp]: "length (bytes_of s) = length s"
  by (simp add: bytes_of_def)

text \<open>
  The head rune of a string: an ASCII byte is itself; any other first byte gives a rune that is
  not ASCII, and the bytes it consumes beyond the first are not ASCII either.
\<close>

lemma decode_rune_ascii: "ord c < 0x80 \<Longrightarrow> decode_rune (c # cs) = (ord c, 1)"
  by (simp add: decode_rune.simps(2))

lemma decode_rune_nonascii:
  assumes "0x80 \<le> ord c" and "decode_rune (c # cs) = (r, n)"
  shows "0x80 \<le> r" and "\<forall>d\<in>set (take (n - 1) cs). 0x80 \<le> ord d" and "1 \<le> n"
  using assms
  by (auto simp: decode_rune.simps(2) Let_def runeError_def in_range_def low6_def lo2_def hi2_def
      split: if_splits list.splits)


lemma take_drop_ord: "map ord cs = map ord (take k cs) @ map ord (drop k cs)"
  by (metis append_take_drop_id map_append)

text \<open>A loop over runes that only looks for ASCII characters is a loop over bytes.\<close>

lemma filter_runes:
  assumes "\<And>r. 0x80 \<le> r \<Longrightarrow> \<not> P r"
  shows "filter P (runes s) = filter P (map ord s)"
proof (induction s rule: runes.induct)
  case (2 c cs)
  obtain r n where d: "decode_rune (c # cs) = (r, n)" by fastforce
  have IH: "filter P (runes (drop (n - 1) cs)) = filter P (map ord (drop (n - 1) cs))"
    using 2 d by simp
  show ?case
  proof (cases "ord c < 0x80")
    case True
    with d IH show ?thesis by (auto simp: runes.simps(2) decode_rune_ascii)
  next
    case False
    then have n: "0x80 \<le> r" "\<forall>d\<in>set (take (n - 1) cs). 0x80 \<le> ord d"
      using decode_rune_nonascii [OF _ d] by auto
    have h: "\<not> P r" "\<not> P (ord c)" using n(1) False assms by auto
    have e: "filter P (map ord (take (n - 1) cs)) = []"
      unfolding filter_empty_conv using n(2) assms by auto
    have "filter P (map ord cs) = filter P (map ord (drop (n - 1) cs))"
      by (subst take_drop_ord [of cs "n - 1"]) (simp only: filter_append e append_Nil)
    with d IH h show ?thesis by (simp add: runes.simps(2))
  qed
qed simp

lemma list_all_runes:
  assumes "\<And>r. 0x80 \<le> r \<Longrightarrow> \<not> P r"
  shows "list_all P (runes s) \<longleftrightarrow> list_all (\<lambda>c. P (ord c)) s"
proof (induction s rule: runes.induct)
  case (2 c cs)
  obtain r n where d: "decode_rune (c # cs) = (r, n)" by fastforce
  show ?case
  proof (cases "ord c < 0x80")
    case True
    with d 2 show ?thesis by (auto simp: runes.simps(2) decode_rune_ascii)
  next
    case False
    then show ?thesis
      using decode_rune_nonascii(1) [OF _ d] assms d by (simp add: runes.simps(2))
  qed
qed simp

definition is_ascii :: "string \<Rightarrow> bool" where
  "is_ascii s \<longleftrightarrow> list_all (\<lambda>c. ord c < 0x80) s"

lemma runes_ascii: "is_ascii s \<Longrightarrow> runes s = map ord s"
  by (induction s) (auto simp: is_ascii_def runes.simps(2) decode_rune_ascii)

subsection \<open>Encoding and decoding are inverse\<close>

lemma decode_rune_valid: "decode_rune (c # cs) = (r, n) \<Longrightarrow> valid_rune r"
  using ord_range [of c]
  by (auto simp: decode_rune.simps(2) Let_def runeError_def in_range_def low6_def lo2_def hi2_def
      valid_rune_def split: if_splits list.splits)

lemma runes_valid: "r \<in> set (runes s) \<Longrightarrow> valid_rune r"
proof (induction s arbitrary: r rule: runes.induct)
  case (2 c cs)
  obtain q n where d: "decode_rune (c # cs) = (q, n)" by fastforce
  with 2 show ?case by (auto simp: runes.simps(2) dest: decode_rune_valid)
qed simp

lemma decode_rune_3:
  assumes "0xE0 \<le> b0" "b0 \<le> 0xEF" "lo2 b0 \<le> b1" "b1 \<le> hi2 b0" "0x80 \<le> b2" "b2 \<le> 0xBF"
    and "ord c0 = b0" "ord c1 = b1" "ord c2 = b2"
  shows "decode_rune (c0 # c1 # c2 # t)
           = (((b0 - 0xE0) * 64 + (b1 - 0x80)) * 64 + (b2 - 0x80), 3)"
  using assms by (simp add: decode_rune.simps(2) in_range_def low6_def)

lemma decode_rune_4:
  assumes "0xF0 \<le> b0" "b0 \<le> 0xF4" "lo2 b0 \<le> b1" "b1 \<le> hi2 b0" "0x80 \<le> b2" "b2 \<le> 0xBF"
    "0x80 \<le> b3" "b3 \<le> 0xBF"
    and "ord c0 = b0" "ord c1 = b1" "ord c2 = b2" "ord c3 = b3"
  shows "decode_rune (c0 # c1 # c2 # c3 # t)
           = ((((b0 - 0xF0) * 64 + (b1 - 0x80)) * 64 + (b2 - 0x80)) * 64 + (b3 - 0x80), 4)"
  using assms by (simp add: decode_rune.simps(2) in_range_def low6_def)

lemma decode_encode:
  assumes "valid_rune r"
  shows "decode_rune (encode_rune r @ t) = (r, length (encode_rune r))"
proof -
  have r: "0 \<le> r" "r \<le> 0x10FFFF" "\<not> (0xD800 \<le> r \<and> r \<le> 0xDFFF)"
    using assms by (auto simp: valid_rune_def)
  have d2: "r div 4096 = r div 64 div 64" and d3: "r div 262144 = r div 64 div 64 div 64"
    using zdiv_zmult2_eq [of 64 r 64] zdiv_zmult2_eq [of 64 r 4096]
      zdiv_zmult2_eq [of 64 "r div 64" 64] by simp_all
  consider "r < 0x80" | "0x80 \<le> r" "r < 0x800" | "0x800 \<le> r" "r < 0x10000" | "0x10000 \<le> r"
    by linarith
  then show ?thesis
  proof cases
    case 1
    with r assms show ?thesis
      by (simp add: encode_rune_def decode_rune.simps(2) ord_chr)
  next
    case 2
    define q m where "q = r div 64" and "m = r mod 64"
    have "2 \<le> q" "q \<le> 31" "0 \<le> m" "m < 64" "q * 64 + m = r"
      using 2 by (auto simp: q_def m_def)
    moreover have "encode_rune r = [chr (0xC0 + q), chr (0x80 + m)]"
      using 2 assms by (simp add: encode_rune_def q_def m_def)
    ultimately show ?thesis
      by (simp add: decode_rune.simps(2) ord_chr in_range_def low6_def Let_def)
  next
    case 3
    define p q m where "p = r div 4096" and "q = r div 64 mod 64" and "m = r mod 64"
    have v: "0 \<le> p" "p \<le> 15" "0 \<le> m" "m < 64" "(p * 64 + q) * 64 + m = r" "0 \<le> q" "q < 64"
      using 3 d2 by (simp_all add: p_def q_def m_def)
    have l: "lo2 (0xE0 + p) \<le> 0x80 + q" "0x80 + q \<le> hi2 (0xE0 + p)"
      using 3 r v by (auto simp: lo2_def hi2_def)
    have "encode_rune r = [chr (0xE0 + p), chr (0x80 + q), chr (0x80 + m)]"
      using 3 assms by (simp add: encode_rune_def p_def q_def m_def)
    moreover have "ord (chr (0xE0 + p)) = 0xE0 + p" "ord (chr (0x80 + q)) = 0x80 + q"
      "ord (chr (0x80 + m)) = 0x80 + m" using v(1-4) v(6-7) by (simp_all add: ord_chr)
    ultimately show ?thesis
      using decode_rune_3 [of "0xE0 + p" "0x80 + q" "0x80 + m"] v l by simp
  next
    case 4
    define k p q m where "k = r div 262144" and "p = r div 4096 mod 64"
      and "q = r div 64 mod 64" and "m = r mod 64"
    have k: "0 \<le> k" "k \<le> 4" unfolding k_def using 4 r by auto
    have v: "((k * 64 + p) * 64 + q) * 64 + m = r"
      using d2 d3 by (simp add: k_def p_def q_def m_def)
    have b: "0 \<le> m" "m < 64" "0 \<le> q" "q < 64" "0 \<le> p" "p < 64"
      by (simp_all add: p_def q_def m_def)
    have l: "lo2 (0xF0 + k) \<le> 0x80 + p" "0x80 + p \<le> hi2 (0xF0 + k)"
      using 4 r v b k by (auto simp: lo2_def hi2_def)
    have "encode_rune r = [chr (0xF0 + k), chr (0x80 + p), chr (0x80 + q), chr (0x80 + m)]"
      using 4 assms by (simp add: encode_rune_def k_def p_def q_def m_def)
    moreover have "ord (chr (0xF0 + k)) = 0xF0 + k" "ord (chr (0x80 + p)) = 0x80 + p"
      "ord (chr (0x80 + q)) = 0x80 + q" "ord (chr (0x80 + m)) = 0x80 + m"
      using k b by (simp_all add: ord_chr)
    ultimately show ?thesis
      using decode_rune_4 [of "0xF0 + k" "0x80 + p" "0x80 + q" "0x80 + m"] k b l v by simp
  qed
qed

lemma encode_rune_Cons: "\<exists>c cs. encode_rune r = c # cs"
  by (simp add: encode_rune_def Let_def)

lemma runes_encode_append: "valid_rune r \<Longrightarrow> runes (encode_rune r @ t) = r # runes t"
  using encode_rune_Cons [of r] decode_encode [of r t]
  by (auto simp: runes.simps(2))

lemma runes_encode: "list_all valid_rune rs \<Longrightarrow> runes (concat (map encode_rune rs)) = rs"
  by (induction rs) (auto simp: runes_encode_append)

lemma runes_to_valid_utf8: "runes (to_valid_utf8 s) = runes s"
  by (simp add: to_valid_utf8_def runes_encode list_all_iff runes_valid)

lemma to_valid_utf8_idem: "to_valid_utf8 (to_valid_utf8 s) = to_valid_utf8 s"
  by (simp add: to_valid_utf8_def [of "to_valid_utf8 s"] runes_to_valid_utf8)
    (simp add: to_valid_utf8_def)

lemma encode_rune_ascii: "encode_rune (ord c) = [c]" if "ord c < 0x80"
  using that ord_range [of c] by (simp add: encode_rune_def valid_rune_def)

lemma to_valid_utf8_ascii: "is_ascii s \<Longrightarrow> to_valid_utf8 s = s"
  by (induction s) (auto simp: to_valid_utf8_def is_ascii_def runes.simps(2) decode_rune_ascii
      encode_rune_ascii)


subsection \<open>Prefixes, letter case and folding\<close>

text \<open>
  The parts of the standard library that are tables or printers: \<open>u_fold r q\<close> says that \<open>r < q\<close>
  are in one simple-folding orbit and at least one of them is not ASCII; \<open>u_lower\<close> is
  \<open>unicode.ToLower\<close> on non-ASCII runes; \<open>u_quote\<close> is \<open>strconv.Quote\<close>.
\<close>

record unicode =
  u_fold :: "rune \<Rightarrow> rune \<Rightarrow> bool"
  u_lower :: "rune \<Rightarrow> rune"
  u_quote :: "string \<Rightarrow> string"

definition has_prefix :: "string \<Rightarrow> string \<Rightarrow> bool" where
  "has_prefix s p \<longleftrightarrow> length p \<le> length s \<and> take (length p) s = p"

definition trim_prefix :: "string \<Rightarrow> string \<Rightarrow> string" where
  "trim_prefix s p = (if has_prefix s p then drop (length p) s else s)"

definition is_upper :: "rune \<Rightarrow> bool" where
  "is_upper r \<longleftrightarrow> 65 \<le> r \<and> r \<le> 90"

definition lower_rune :: "unicode \<Rightarrow> rune \<Rightarrow> rune" where
  "lower_rune u r = (if r < 0x80 then (if is_upper r then r + 32 else r) else u_lower u r)"

definition to_lower :: "unicode \<Rightarrow> string \<Rightarrow> string" where
  "to_lower u s = concat (map (\<lambda>r. encode_rune (lower_rune u r)) (runes s))"

definition fold_rune :: "unicode \<Rightarrow> rune \<Rightarrow> rune \<Rightarrow> bool" where
  "fold_rune u r q \<longleftrightarrow>
     r = q \<or>
     (let a = min r q; b = max r q in
      if b < 0x80 then is_upper a \<and> b = a + 32 else u_fold u a b)"

definition equal_fold :: "unicode \<Rightarrow> string \<Rightarrow> string \<Rightarrow> bool" where
  "equal_fold u s t \<longleftrightarrow> list_all2 (fold_rune u) (runes s) (runes t)"

lemma has_prefix_append: "has_prefix (p @ s) p" "trim_prefix (p @ s) p = s"
  by (simp_all add: has_prefix_def trim_prefix_def)

lemma has_prefixE: "has_prefix s p \<Longrightarrow> s = p @ trim_prefix s p"
  unfolding has_prefix_def trim_prefix_def by (metis append_take_drop_id)

lemma fold_rune_refl: "fold_rune u r r"
  by (simp add: fold_rune_def)

lemma fold_rune_sym: "fold_rune u r q = fold_rune u q r"
  by (auto simp: fold_rune_def min.commute max.commute)

lemma equal_fold_refl: "equal_fold u s s"
  by (simp add: equal_fold_def list_all2_refl fold_rune_refl)

lemma equal_fold_sym: "equal_fold u s t = equal_fold u t s"
  unfolding equal_fold_def by (metis fold_rune_sym list_all2_lengthD list_all2_conv_all_nth)

text \<open>On ASCII strings without capitals, folding is equality.\<close>

definition ascii_lower :: "string \<Rightarrow> bool" where
  "ascii_lower s \<longleftrightarrow> list_all (\<lambda>c. ord c < 0x80 \<and> \<not> is_upper (ord c)) s"

lemma equal_fold_lower:
  assumes "ascii_lower s" "ascii_lower t"
  shows "equal_fold u s t \<longleftrightarrow> s = t"
proof -
  have "runes s = map ord s" "runes t = map ord t"
    using assms by (auto intro!: runes_ascii simp: is_ascii_def ascii_lower_def list_all_iff)
  moreover have "list_all2 (fold_rune u) (map ord s) (map ord t) \<longleftrightarrow> s = t"
    using assms
  proof (induction s arbitrary: t)
    case (Cons c s)
    have "fold_rune u (ord c) (ord d) \<longleftrightarrow> c = d" if "t = d # t'" for d t'
      using Cons.prems that
      by (auto simp: fold_rune_def ascii_lower_def min_def max_def ord_inj)
    with Cons show ?case by (cases t) (auto simp: ascii_lower_def)
  qed auto
  ultimately show ?thesis by (simp add: equal_fold_def)
qed

subsection \<open>Decimal numbers\<close>

definition is_digit :: "rune \<Rightarrow> bool" where
  "is_digit r \<longleftrightarrow> 48 \<le> r \<and> r \<le> 57"

function dec_nat :: "nat \<Rightarrow> string" where
  "dec_nat n = (if n < 10 then [chr (48 + int n)]
                else dec_nat (n div 10) @ [chr (48 + int (n mod 10))])"
  by pat_completeness auto
termination
  by (relation "measure id") auto

declare dec_nat.simps [simp del]

text \<open>\<open>fmt.Sprintf("%d", v)\<close> on an int64.\<close>

definition show_int :: "int \<Rightarrow> string" where
  "show_int i = (if i < 0 then CHR ''-'' # dec_nat (nat (- i)) else dec_nat (nat i))"

definition show_i64 :: "i64 \<Rightarrow> string" where
  "show_i64 v = show_int (sint v)"

text \<open>
  \<open>strconv.ParseInt(s, 10, 64)\<close>: the digits are scanned as a uint64, which fails as soon as the
  value leaves the uint64 range, and the sign is applied to the result.
\<close>

datatype num_error = ErrSyntax | ErrRange

fun parse_digits :: "nat \<Rightarrow> string \<Rightarrow> num_error + nat" where
  "parse_digits n [] = Inr n"
| "parse_digits n (c # cs) =
     (if is_digit (ord c)
      then let m = 10 * n + nat (ord c - 48) in
           if m < 2 ^ 64 then parse_digits m cs else Inl ErrRange
      else Inl ErrSyntax)"

definition parse_uint :: "string \<Rightarrow> num_error + nat" where
  "parse_uint s = (if s = [] then Inl ErrSyntax else parse_digits 0 s)"

definition parse_int64 :: "string \<Rightarrow> num_error + int" where
  "parse_int64 s =
    (case s of
       [] \<Rightarrow> Inl ErrSyntax
     | c # cs \<Rightarrow>
       (let neg = (c = CHR ''-''); body = (if neg \<or> c = CHR ''+'' then cs else s) in
        case parse_uint body of
          Inl e \<Rightarrow> Inl e
        | Inr n \<Rightarrow>
          if neg then (if n \<le> 2 ^ 63 then Inr (- int n) else Inl ErrRange)
          else (if n < 2 ^ 63 then Inr (int n) else Inl ErrRange)))"

text \<open>The text of the error \<open>strconv.ParseInt\<close> returns.\<close>

definition parse_int_error :: "unicode \<Rightarrow> string \<Rightarrow> num_error \<Rightarrow> error" where
  "parse_int_error u s e =
     ''strconv.ParseInt: parsing '' @ u_quote u s @ '': '' @
     (case e of ErrSyntax \<Rightarrow> ''invalid syntax'' | ErrRange \<Rightarrow> ''value out of range'')"

subsection \<open>Printing and parsing decimals are inverse\<close>

lemma ord_digit: "d < 10 \<Longrightarrow> ord (chr (48 + int d)) = 48 + int d"
  by (simp add: ord_chr)

lemma is_digit_chr: "d < 10 \<Longrightarrow> is_digit (48 + int d)" "d < 10 \<Longrightarrow> is_digit (ord (chr (48 + int d)))"
  by (simp_all add: ord_digit is_digit_def)

lemma dec_nat_digits: "c \<in> set (dec_nat n) \<Longrightarrow> is_digit (ord c)"
proof (induction n arbitrary: c rule: dec_nat.induct)
  case (1 n)
  then show ?case
    by (cases "n < 10") (auto simp: dec_nat.simps [of n] is_digit_chr)
qed

lemma dec_nat_nonempty: "dec_nat n \<noteq> []"
  by (subst dec_nat.simps) simp

lemma parse_digits_append:
  "parse_digits n (xs @ ys) =
     (case parse_digits n xs of Inl e \<Rightarrow> Inl e | Inr m \<Rightarrow> parse_digits m ys)"
  by (induction n xs rule: parse_digits.induct) (auto simp: Let_def)

lemma parse_digits_dec_nat: "n < 2 ^ 64 \<Longrightarrow> parse_digits 0 (dec_nat n) = Inr n"
proof (induction n rule: dec_nat.induct)
  case (1 n)
  show ?case
  proof (cases "n < 10")
    case True
    then show ?thesis by (simp add: dec_nat.simps is_digit_chr ord_digit)
  next
    case False
    with 1 have "parse_digits 0 (dec_nat (n div 10)) = Inr (n div 10)" by simp
    with False 1 show ?thesis
      by (subst dec_nat.simps) (simp add: parse_digits_append is_digit_chr ord_digit)
  qed
qed

lemma foldl_dec_nat:
  "foldl (\<lambda>v c. v * 10 + word_of_int (ord c - 48)) 0 (dec_nat n) = (of_nat n :: 'a::len word)"
proof (induction n rule: dec_nat.induct)
  case (1 n)
  show ?case
  proof (cases "n < 10")
    case True
    then show ?thesis by (simp add: dec_nat.simps ord_digit)
  next
    case False
    have "(of_nat (n div 10) * 10 + of_nat (n mod 10) :: 'a word) = of_nat (n div 10 * 10 + n mod 10)"
      by (simp only: of_nat_add of_nat_mult of_nat_numeral)
    with False 1 show ?thesis
      by (subst dec_nat.simps) (simp add: ord_digit)
  qed
qed

lemma show_int_ascii: "is_ascii (show_int i)"
  using dec_nat_digits
  by (fastforce simp: is_ascii_def list_all_iff show_int_def is_digit_def ord_def)

lemma parse_int64_dec_nat: "n < 2 ^ 63 \<Longrightarrow> parse_int64 (dec_nat n) = Inr (int n)"
proof -
  assume n: "n < 2 ^ 63"
  obtain c cs where e: "dec_nat n = c # cs" using dec_nat_nonempty [of n] by (cases "dec_nat n") auto
  have "is_digit (ord c)" using dec_nat_digits [of c n] e by simp
  then have "c \<noteq> CHR ''-''" "c \<noteq> CHR ''+''" by (auto simp: is_digit_def ord_def)
  then show ?thesis
    using n parse_digits_dec_nat [of n] by (simp add: parse_int64_def parse_uint_def e)
qed

lemma parse_int64_show_int:
  assumes "- (2 ^ 63) \<le> i" "i < 2 ^ 63"
  shows "parse_int64 (show_int i) = Inr i"
proof (cases "i < 0")
  case True
  have "nat (- i) \<le> 2 ^ 63" using assms by (simp add: nat_le_iff)
  then have "parse_digits 0 (dec_nat (nat (- i))) = Inr (nat (- i))" "nat (- i) \<le> 2 ^ 63"
    using parse_digits_dec_nat [of "nat (- i)"] by simp_all
  with True show ?thesis
    by (simp add: show_int_def parse_int64_def parse_uint_def dec_nat_nonempty)
next
  case False
  then show ?thesis
    using assms parse_int64_dec_nat [of "nat i"] by (simp add: show_int_def nat_less_iff)
qed

lemma parse_int64_show_i64: "parse_int64 (show_i64 v) = Inr (sint v)"
  unfolding show_i64_def by (rule parse_int64_show_int [OF sint_i64_range])

lemma show_i64_inj: "show_i64 v = show_i64 w \<longleftrightarrow> v = w"
  by (metis parse_int64_show_i64 sum.inject(2) signed_word_eqI)

lemma show_int_inj:
  assumes "- (2 ^ 63) \<le> i" "i < 2 ^ 63" "- (2 ^ 63) \<le> j" "j < 2 ^ 63"
  shows "show_int i = show_int j \<longleftrightarrow> i = j"
  using assms by (metis parse_int64_show_int sum.inject(2))

end
