(* ===== verification/Go_Json.thy ===== *)
theory Go_Json
  imports Go_Text
begin

section \<open>JSON values and how the program decodes them\<close>

text \<open>
  The decoding half of \<open>encoding/json\<close> as the program uses it. The scanner from text to a value,
  the printer, the texts of errors (of a text that is no JSON, of a value that does not fit its
  target), \<open>fmt\<close>'s \<open>%v\<close> of a decoded value, \<open>strconv.ParseFloat\<close> and the platform's conversion of a
  float64 outside the int64 range are fields of \<open>json_lib\<close>; what \<open>json.Unmarshal\<close> then does with a value for each Go target type
  (\<open>[]string\<close>, \<open>map[string]interface{}\<close>, structs) is defined here. A number keeps its literal
  text, because a float64 target and a uint64 target read it differently.
\<close>

datatype json =
    JNull
  | JBool bool
  | JNum string
  | JStr string
  | JArr "json list"
  | JObj "(string \<times> json) list"

text \<open>A finite float64: \<open>F64 m e\<close> is \<open>m * 2 ^ e\<close>.\<close>

datatype float64 = F64 int int

fun f64_trunc :: "float64 \<Rightarrow> int" where
  "f64_trunc (F64 m e) = (if 0 \<le> e then m * 2 ^ nat e else sgn m * (\<bar>m\<bar> div 2 ^ nat (- e)))"

record json_lib =
  js_parse :: "string \<Rightarrow> json option"
  js_print :: "json \<Rightarrow> string"
  js_float :: "string \<Rightarrow> float64 option"
  js_conv :: "float64 \<Rightarrow> i64"
  js_error :: "string \<Rightarrow> string"
  js_type_error :: "json \<Rightarrow> string"
  js_show :: "json \<Rightarrow> string"

text \<open>\<open>int64(val)\<close>: truncation towards zero; outside the range the platform decides.\<close>

definition f64_to_i64 :: "json_lib \<Rightarrow> float64 \<Rightarrow> i64" where
  "f64_to_i64 J f =
    (let t = f64_trunc f in
     if - (2 ^ 63) \<le> t \<and> t < 2 ^ 63 then word_of_int t else js_conv J f)"

text \<open>\<open>json.Unmarshal\<close> into \<open>[]string\<close>: \<open>None\<close> is a non-nil error.\<close>

fun um_string :: "json \<Rightarrow> string option" where
  "um_string (JStr s) = Some s"
| "um_string JNull = Some []"
| "um_string _ = None"

fun um_strings :: "json \<Rightarrow> string list option" where
  "um_strings JNull = Some []"
| "um_strings (JArr xs) = those (map um_string xs)"
| "um_strings _ = None"

definition unmarshal_strings :: "json_lib \<Rightarrow> string \<Rightarrow> string list option" where
  "unmarshal_strings J raw = Option.bind (js_parse J raw) um_strings"

text \<open>
  \<open>json.Unmarshal\<close> into \<open>map[string]interface{}\<close>: every number, nested ones included, must fit a
  float64; a later duplicate key replaces an earlier one. The map is kept as the pairs, last first.
\<close>

fun floats_ok :: "json_lib \<Rightarrow> json \<Rightarrow> bool" where
  "floats_ok J (JNum l) = (js_float J l \<noteq> None)"
| "floats_ok J (JArr xs) = list_all (floats_ok J) xs"
| "floats_ok J (JObj kvs) = list_all (\<lambda>kv. floats_ok J (snd kv)) kvs"
| "floats_ok J _ = True"

fun um_object :: "json_lib \<Rightarrow> json \<Rightarrow> (string \<times> json) list option" where
  "um_object J JNull = Some []"
| "um_object J (JObj kvs) = (if floats_ok J (JObj kvs) then Some (rev kvs) else None)"
| "um_object J _ = None"

definition unmarshal_object :: "json_lib \<Rightarrow> string \<Rightarrow> (string \<times> json) list option" where
  "unmarshal_object J raw = Option.bind (js_parse J raw) (um_object J)"

text \<open>
  A struct with string fields \<open>start\<close> and \<open>end\<close>: keys match up to case folding, \<open>null\<close> leaves a
  field alone, a value of another type makes the whole call fail.
\<close>

fun um_window :: "unicode \<Rightarrow> (string \<times> json) list \<Rightarrow> string \<times> string \<Rightarrow> (string \<times> string) option" where
  "um_window u [] w = Some w"
| "um_window u ((k, v) # kvs) (a, b) =
    (if equal_fold u k ''start'' then
       (case v of JStr s \<Rightarrow> um_window u kvs (s, b) | JNull \<Rightarrow> um_window u kvs (a, b) | _ \<Rightarrow> None)
     else if equal_fold u k ''end'' then
       (case v of JStr s \<Rightarrow> um_window u kvs (a, s) | JNull \<Rightarrow> um_window u kvs (a, b) | _ \<Rightarrow> None)
     else um_window u kvs (a, b))"

definition unmarshal_window :: "json_lib \<Rightarrow> unicode \<Rightarrow> string \<Rightarrow> (string \<times> string) option" where
  "unmarshal_window J u raw =
    (case js_parse J raw of
       Some JNull \<Rightarrow> Some ([], [])
     | Some (JObj kvs) \<Rightarrow> um_window u kvs ([], [])
     | _ \<Rightarrow> None)"

text \<open>
  Struct fields: an object key finds its field by name, up to case folding; other keys are ignored.
  A field starts from its current value and \<open>null\<close> leaves it.
\<close>

fun find_field :: "unicode \<Rightarrow> string \<Rightarrow> string list \<Rightarrow> string option" where
  "find_field u k [] = None"
| "find_field u k (f # fs) = (if equal_fold u k f then Some f else find_field u k fs)"

fun um_str :: "string \<Rightarrow> json \<Rightarrow> string option" where
  "um_str old JNull = Some old"
| "um_str old (JStr s) = Some s"
| "um_str old _ = None"

fun um_int :: "int \<Rightarrow> json \<Rightarrow> int option" where
  "um_int old JNull = Some old"
| "um_int old (JNum l) = (case parse_int64 l of Inr n \<Rightarrow> Some n | Inl _ \<Rightarrow> None)"
| "um_int old _ = None"

text \<open>
  A struct target with the fields \<open>fs\<close>: \<open>step\<close> says what a field does with a value. The keys are
  taken in the order of the text.
\<close>

fun um_fields ::
  "unicode \<Rightarrow> string list \<Rightarrow> (string \<Rightarrow> json \<Rightarrow> 'r \<Rightarrow> 'r option) \<Rightarrow> (string \<times> json) list \<Rightarrow> 'r \<Rightarrow> 'r option"
where
  "um_fields u fs step [] r = Some r"
| "um_fields u fs step ((k, v) # kvs) r =
    Option.bind (case find_field u k fs of Some f \<Rightarrow> step f v r | None \<Rightarrow> Some r)
      (um_fields u fs step kvs)"

definition um_struct ::
  "unicode \<Rightarrow> string list \<Rightarrow> (string \<Rightarrow> json \<Rightarrow> 'r \<Rightarrow> 'r option) \<Rightarrow> json \<Rightarrow> 'r \<Rightarrow> 'r option"
where
  "um_struct u fs step v r =
    (case v of JNull \<Rightarrow> Some r | JObj kvs \<Rightarrow> um_fields u fs step kvs r | _ \<Rightarrow> None)"

text \<open>\<open>json.Marshal\<close> writes strings as valid UTF-8.\<close>

definition json_str :: "string \<Rightarrow> json" where
  "json_str s = JStr (to_valid_utf8 s)"

subsection \<open>Facts on decoding\<close>

lemma unmarshal_bad_text:
  assumes "js_parse J raw = None"
  shows "unmarshal_strings J raw = None" "unmarshal_object J raw = None"
    "unmarshal_window J u raw = None"
  using assms by (simp_all add: unmarshal_strings_def unmarshal_object_def unmarshal_window_def)

lemma find_field_lower:
  "list_all ascii_lower fs \<Longrightarrow> f \<in> set fs \<Longrightarrow> find_field u f fs = Some f"
  by (induction fs) (auto simp: equal_fold_lower list_all_iff)

lemma those_map_um_string: "those (map um_string (map JStr xs)) = Some xs"
  by (induction xs) auto

lemma f64_trunc_int: "f64_trunc (F64 m 0) = m"
  by simp

lemma f64_to_i64_int: "- (2 ^ 63) \<le> m \<Longrightarrow> m < 2 ^ 63 \<Longrightarrow> f64_to_i64 J (F64 m 0) = word_of_int m"
  by (simp add: f64_to_i64_def)

end
