(* ===== verification/VF_Domain.thy ===== *)
theory VF_Domain
  imports Go_Json
begin

section \<open>The domain model\<close>

text \<open>
  The records of \<open>services/api/core/domain.go\<close>, one HOL record per Go struct with the fields in
  the code's order, the failure reasons of \<open>failure_reasons.go\<close>, the constructors and the intent
  hash. A \<open>*T\<close> field that may be nil is an \<open>option\<close>; \<open>[]byte\<close> is a list of bytes; a
  \<open>json.RawMessage\<close> read from the database is its text and one the code marshals is the JSON value.
  Identifiers are made from clock readings, which are arguments here.
\<close>

record Intent =
  i_ID :: string
  i_TenantID :: string
  i_WalletID :: string
  i_Destination :: string
  i_Token :: string
  i_Amount :: string
  i_Chain :: string
  i_Nonce :: string
  i_Creator :: string
  i_Approvers :: "string list"
  i_RequiredSigs :: int
  i_PolicyVersion :: string
  i_Expiry :: time
  i_Status :: string
  i_FailureReason :: "string option"
  i_TXSignature :: "byte list"
  i_CreatedAt :: time
  i_UpdatedAt :: time
  i_ApprovedAt :: "time option"
  i_ExecutedAt :: "time option"
  i_ConfirmedAt :: "time option"

record PolicyResult =
  pr_Allow :: bool
  pr_Reason :: string

record Tenant =
  t_ID :: string
  t_Name :: string
  t_Domain :: string
  t_CreatedAt :: time
  t_UpdatedAt :: time

record Wallet =
  w_ID :: string
  w_TenantID :: string
  w_Name :: string
  w_DailyLimit :: i64
  w_Status :: string
  w_CreatedAt :: time
  w_UpdatedAt :: time

record Transaction =
  x_ID :: string
  x_IntentID :: string
  x_TenantID :: string
  x_WalletID :: string
  x_TransactionBytes :: "byte list"
  x_Blockhash :: string
  x_PriorityFee :: i64
  x_Status :: string
  x_SubmittedAt :: "time option"
  x_ConfirmedAt :: "time option"
  x_ConfirmSignature :: string
  x_CreatedAt :: time
  x_UpdatedAt :: time

record AuditEvent =
  a_ID :: string
  a_TenantID :: string
  a_Actor :: string
  a_Action :: string
  a_Resource :: string
  a_IntentID :: string
  a_RequestID :: string
  a_Result :: string
  a_Metadata :: "json option"
  a_CreatedAt :: time

record Policy =
  p_ID :: string
  p_TenantID :: string
  p_Name :: string
  p_RuleType :: string
  p_Config :: string
  p_IsActive :: bool
  p_Version :: string
  p_CreatedAt :: time
  p_UpdatedAt :: time

record MPCShareRecord =
  m_ID :: string
  m_ShareID :: u32
  m_TenantID :: string
  m_EncryptedShare :: "byte list"
  m_ShareType :: string
  m_CreatedAt :: time

record SigningResult =
  sr_Signature :: "byte list"
  sr_Participants :: "u32 list"

record ZKProof =
  z_ProofID :: string
  z_PublicInputs :: json
  z_ProofBytes :: string

subsection \<open>Failure reasons\<close>

definition PolicyDenied :: string where "PolicyDenied = ''policy_denied''"
definition Expired :: string where "Expired = ''expired''"
definition SimulationFailed :: string where "SimulationFailed = ''simulation_failed''"
definition SigningFailed :: string where "SigningFailed = ''signing_failed''"
definition Rejected :: string where "Rejected = ''rejected''"
definition SubmissionFailed :: string where "SubmissionFailed = ''submission_failed''"
definition ConfirmationTimeout :: string where "ConfirmationTimeout = ''confirmation_timeout''"
definition BalanceMismatch :: string where "BalanceMismatch = ''balance_mismatch''"
definition PermanentFailure :: string where "PermanentFailure = ''permanent_failure''"

definition FailureReason :: "string \<Rightarrow> string option" where
  "FailureReason reason = Some reason"

lemmas failure_reason_defs = PolicyDenied_def Expired_def SimulationFailed_def SigningFailed_def
  Rejected_def SubmissionFailed_def ConfirmationTimeout_def BalanceMismatch_def
  PermanentFailure_def FailureReason_def

subsection \<open>Identifiers, amounts and new intents\<close>

text \<open>\<open>UnixNano\<close> is an int64; the argument is the reading of \<open>time.Now()\<close>.\<close>

definition UnixNano :: "time \<Rightarrow> i64" where
  "UnixNano t = word_of_int t"

definition GenerateUUID :: "time \<Rightarrow> string" where
  "GenerateUUID t = ''uuid-'' @ show_i64 (UnixNano t)"

definition GenerateRequestID :: "time \<Rightarrow> string" where
  "GenerateRequestID t = ''req-'' @ show_i64 (UnixNano t)"

definition generateNonce :: "time \<Rightarrow> string" where
  "generateNonce t = ''nonce-'' @ show_i64 (UnixNano t)"

definition AmountToString :: "i64 \<Rightarrow> string" where
  "AmountToString amount = show_i64 amount"

text \<open>
  \<open>NewIntent\<close> reads the clock three times: for \<open>now\<close>, for the identifier and for the nonce.
  Fields the composite literal leaves out have Go's zero values.
\<close>

definition NewIntent ::
  "time \<Rightarrow> time \<Rightarrow> time \<Rightarrow> string \<Rightarrow> string \<Rightarrow> string \<Rightarrow> string \<Rightarrow> string \<Rightarrow> string \<Rightarrow> i64 \<Rightarrow> Intent"
where
  "NewIntent now t_id t_nonce tenantID walletID destination token chain creator amount =
    \<lparr> i_ID = GenerateUUID t_id, i_TenantID = tenantID, i_WalletID = walletID,
      i_Destination = destination, i_Token = token, i_Amount = show_i64 amount, i_Chain = chain,
      i_Nonce = generateNonce t_nonce, i_Creator = creator, i_Approvers = [], i_RequiredSigs = 0,
      i_PolicyVersion = [], i_Expiry = now + 3600 * second, i_Status = ''pending'',
      i_FailureReason = None, i_TXSignature = [], i_CreatedAt = now, i_UpdatedAt = now,
      i_ApprovedAt = None, i_ExecutedAt = None, i_ConfirmedAt = None \<rparr>"

subsection \<open>The intent hash\<close>

text \<open>
  SHA-256 is an argument: the code writes byte strings to the hash one after the other and takes
  the digest of their concatenation. \<open>digest32\<close> is what the code relies on.
\<close>

type_synonym hash = "byte list \<Rightarrow> byte list"

definition digest32 :: "hash \<Rightarrow> bool" where
  "digest32 H \<longleftrightarrow> (\<forall>bs. length (H bs) = 32)"

definition intent_preimage :: "Intent \<Rightarrow> string" where
  "intent_preimage intent =
     i_ID intent @ i_TenantID intent @ i_WalletID intent @ i_Destination intent @ i_Token intent @
     i_Amount intent @ i_Chain intent @ i_Nonce intent @ i_Creator intent @ i_Status intent"

definition ComputeIntentHash :: "hash \<Rightarrow> Intent \<Rightarrow> byte list" where
  "ComputeIntentHash H intent = H (bytes_of (intent_preimage intent))"

subsection \<open>Lemmas\<close>

lemma digest32D: "digest32 H \<Longrightarrow> length (H bs) = 32"
  by (simp add: digest32_def)

text \<open>Identifiers made at different int64 clock readings are different.\<close>

lemma GenerateUUID_inj: "GenerateUUID s = GenerateUUID t \<longleftrightarrow> UnixNano s = UnixNano t"
  by (simp add: GenerateUUID_def show_i64_inj)

lemma generateNonce_inj: "generateNonce s = generateNonce t \<longleftrightarrow> UnixNano s = UnixNano t"
  by (simp add: generateNonce_def show_i64_inj)

lemma UnixNano_inj:
  assumes "- (2 ^ 63) \<le> s" "s < 2 ^ 63" "- (2 ^ 63) \<le> t" "t < 2 ^ 63"
  shows "UnixNano s = UnixNano t \<longleftrightarrow> s = t"
  using assms by (metis UnixNano_def sint_word_of_int_i64)

end
