(* ===== verification/VF_Interfaces.thy ===== *)
theory VF_Interfaces
  imports VF_Domain
begin

section \<open>The interfaces between the components\<close>

text \<open>
  \<open>services/api/core/interfaces.go\<close> (and \<open>DBQuerier\<close> of \<open>policy_engine.go\<close>, \<open>SubmitResult\<close> of
  \<open>solana_client.go\<close>): each Go interface is a record of operations in the state monad over the
  type \<open>'x\<close> of whatever stands behind the interfaces (database, chain, clock). An operation that
  returns \<open>(T, error)\<close> returns \<open>error + T\<close>. Operations that take a pointer to an intent may write
  to it (gorm fills in defaults and \<open>UpdatedAt\<close>), so they return the intent as they leave it.
  The twelve methods of \<open>IntentAuditor\<close> are the constructors of \<open>audit_call\<close>.
\<close>

type_synonym ('x, 'a) op = "('x, 'a) State_Monad.state"

record 'x IntentStore =
  is_Create :: "Intent \<Rightarrow> ('x, error option \<times> Intent) op"
  is_GetByID :: "string \<Rightarrow> ('x, error + Intent) op"
  is_Update :: "Intent \<Rightarrow> ('x, error option \<times> Intent) op"
  is_ListByTenant :: "string \<Rightarrow> string \<Rightarrow> ('x, error + Intent list) op"
  is_GetTransactionByNonce :: "string \<Rightarrow> ('x, error + Transaction option) op"
  is_GetWallet :: "string \<Rightarrow> ('x, error + Wallet) op"
  is_ListWallets :: "string \<Rightarrow> ('x, error + Wallet list) op"
  is_ListTransactions :: "string \<Rightarrow> ('x, error + Transaction list) op"
  is_ListAuditEvents :: "string \<Rightarrow> string \<Rightarrow> ('x, error + AuditEvent list) op"

record 'x TransactionStore =
  ts_Create :: "Transaction \<Rightarrow> ('x, error option) op"
  ts_GetByID :: "string \<Rightarrow> ('x, error + Transaction) op"
  ts_GetByIntentID :: "string \<Rightarrow> ('x, error + Transaction) op"
  ts_Update :: "Transaction \<Rightarrow> ('x, error option) op"
  ts_ListByTenant :: "string \<Rightarrow> ('x, error + Transaction list) op"

record PolicyInputs =
  pi_Amount :: string
  pi_DailyLimit :: "i64 option"
  pi_Recipient :: string
  pi_PolicyVersion :: string
  pi_IntentID :: string
  pi_WalletID :: string

record SigningInput =
  si_IntentHash :: "byte list"
  si_TxHash :: string
  si_Chain :: string
  si_Context :: string

record SimulationResult =
  sim_Allowed :: bool
  sim_TransactionHash :: string
  sim_Error :: error

record SubmitResult =
  sub_Signature :: string
  sub_Success :: bool
  sub_Error :: error

record 'x ZKVerifier =
  zk_GenerateProof :: "PolicyInputs \<Rightarrow> ('x, error + ZKProof) op"
  zk_VerifyPolicyProof :: "ZKProof option \<Rightarrow> ('x, error + bool) op"

record 'x MPCSigner =
  mpc_Sign :: "SigningInput \<Rightarrow> ('x, error + SigningResult) op"

record 'x Reconciler =
  rec_Start :: "string \<Rightarrow> ('x, unit) op"

text \<open>Arguments: tenant, actor, intent identifier, request identifier, then the method's own.\<close>

datatype audit_call =
    LogIntentCreated string string string string
  | LogIntentApproved string string string string PolicyResult
  | LogIntentRejected string string string string
  | LogIntentExecuted string string string string
  | LogIntentExpired string string string string
  | LogIntentConfirmed string string string string
  | LogIntentSigned string string string string "u32 list"
  | LogIntentSubmittedOnChain string string string string string
  | LogIntentSimulated string string string string bool
  | LogIntentPolicyDenied string string string string string
  | LogIntentZKDenied string string string string
  | LogIntentFailed string string string string string string

record 'x IntentAuditor =
  au_log :: "audit_call \<Rightarrow> ('x, unit) op"

record 'x SolanaSubmitter =
  sol_SubmitTransaction :: "byte list \<Rightarrow> ('x, error + SubmitResult) op"
  sol_WaitForConfirmation :: "string \<Rightarrow> ('x, error + bool) op"
  sol_GetRecentBlockhash :: "('x, error + string) op"

record 'x StateNotifier =
  wh_NotifyIntentStateChange :: "Intent \<Rightarrow> string \<Rightarrow> ('x, unit) op"
  wh_NotifyTransactionConfirmed :: "Transaction \<Rightarrow> ('x, unit) op"

record 'x DBQuerier =
  db_GetWallet :: "string \<Rightarrow> ('x, error + Wallet) op"
  db_GetTenant :: "string \<Rightarrow> ('x, error + Tenant) op"
  db_ListPolicies :: "string \<Rightarrow> ('x, error + Policy list) op"

text \<open>
  What the program takes from the Go library beyond what is defined in the theories on text and
  JSON: the Unicode tables, the JSON scanner, parsing and printing of RFC 3339 times, SHA-256.
\<close>

record golib =
  gl_unicode :: unicode
  gl_json :: json_lib
  gl_parse3339 :: "string \<Rightarrow> time option"
  gl_format3339 :: "time \<Rightarrow> string"
  gl_sha256 :: hash

text \<open>\<open>strings.Join\<close>\<close>

fun join :: "string \<Rightarrow> string list \<Rightarrow> string" where
  "join sep [] = []"
| "join sep [x] = x"
| "join sep (x # y # ys) = x @ sep @ join sep (y # ys)"

lemma join_Nil_iff: "sep \<noteq> [] \<Longrightarrow> join sep xs = [] \<longleftrightarrow> xs = [] \<or> xs = [[]]"
  by (induction sep xs rule: join.induct) auto

end
