(* ===== verification/VF_Policy.thy ===== *)
theory VF_Policy
  imports VF_Interfaces
begin

section \<open>The policy engine\<close>

text \<open>
  \<open>services/api/core/policy_engine.go\<close>: the rules and \<open>Evaluate\<close>, which looks up wallet, tenant
  and policies and runs every active policy. The database is a \<^typ>\<open>'x DBQuerier\<close> and the clock an
  operation. The lemmas give each rule's decision, the exact result of a whole evaluation, and what
  follows from an ALLOW for any database and clock.
\<close>

subsection \<open>Reading amounts and rule configurations\<close>

definition parseIntentAmount :: "string \<Rightarrow> i64" where
  "parseIntentAmount s =
     foldl (\<lambda>v c. if 48 \<le> c \<and> c \<le> 57 then v * 10 + word_of_int (c - 48) else v) 0 (runes s)"

text \<open>
  The decoder never produces a \<open>json.Number\<close> here, so the second branch of the type switch is
  dead code.
\<close>

definition parseConfigInt64 :: "json_lib \<Rightarrow> string \<Rightarrow> string \<Rightarrow> i64 \<Rightarrow> i64" where
  "parseConfigInt64 J config key fallback =
    (if length config = 0 then fallback
     else case unmarshal_object J config of
       None \<Rightarrow> fallback
     | Some m \<Rightarrow>
       (case map_of m key of
          Some (JNum l) \<Rightarrow>
            (case js_float J l of Some f \<Rightarrow> f64_to_i64 J f | None \<Rightarrow> fallback)
        | _ \<Rightarrow> fallback))"

text \<open>\<open>int\<close> is 64 bits wide, so \<open>parseConfigInt\<close> reads the same values.\<close>

definition parseConfigInt :: "json_lib \<Rightarrow> string \<Rightarrow> string \<Rightarrow> i64 \<Rightarrow> i64" where
  "parseConfigInt J config key fallback =
    (if length config = 0 then fallback
     else case unmarshal_object J config of
       None \<Rightarrow> fallback
     | Some m \<Rightarrow>
       (case map_of m key of
          Some (JNum l) \<Rightarrow>
            (case js_float J l of Some f \<Rightarrow> f64_to_i64 J f | None \<Rightarrow> fallback)
        | _ \<Rightarrow> fallback))"

subsection \<open>The rules\<close>

definition evaluateDailyLimit :: "golib \<Rightarrow> Policy \<Rightarrow> Intent \<Rightarrow> Wallet \<Rightarrow> bool" where
  "evaluateDailyLimit L p intent wallet =
    (let dailyLimit = parseConfigInt64 (gl_json L) (p_Config p) ''limit'' (w_DailyLimit wallet) in
     if sint dailyLimit \<le> 0 then True
     else sint (parseIntentAmount (i_Amount intent)) \<le> sint dailyLimit)"

definition evaluateSingleTxLimit :: "golib \<Rightarrow> Policy \<Rightarrow> Intent \<Rightarrow> bool" where
  "evaluateSingleTxLimit L p intent =
    (let singleLimit = parseConfigInt64 (gl_json L) (p_Config p) ''limit'' 0 in
     if sint singleLimit \<le> 0 then True
     else sint (parseIntentAmount (i_Amount intent)) \<le> sint singleLimit)"

definition evaluateAllowedRecipients :: "golib \<Rightarrow> Policy \<Rightarrow> Intent \<Rightarrow> bool" where
  "evaluateAllowedRecipients L p intent =
    (case unmarshal_strings (gl_json L) (p_Config p) of
       None \<Rightarrow> True
     | Some allowed \<Rightarrow> list_ex (\<lambda>r. equal_fold (gl_unicode L) r (i_Destination intent)) allowed)"

definition evaluateBlockedRecipients :: "golib \<Rightarrow> Policy \<Rightarrow> Intent \<Rightarrow> bool" where
  "evaluateBlockedRecipients L p intent =
    (case unmarshal_strings (gl_json L) (p_Config p) of
       None \<Rightarrow> True
     | Some blocked \<Rightarrow> \<not> list_ex (\<lambda>r. equal_fold (gl_unicode L) r (i_Destination intent)) blocked)"

definition evaluateAllowedTokens :: "golib \<Rightarrow> Policy \<Rightarrow> Intent \<Rightarrow> bool" where
  "evaluateAllowedTokens L p intent =
    (case unmarshal_strings (gl_json L) (p_Config p) of
       None \<Rightarrow> True
     | Some allowed \<Rightarrow> list_ex (\<lambda>t. equal_fold (gl_unicode L) t (i_Token intent)) allowed)"

definition evaluateRequiredSigs :: "golib \<Rightarrow> Policy \<Rightarrow> Intent \<Rightarrow> bool" where
  "evaluateRequiredSigs L p intent =
    (let required = parseConfigInt (gl_json L) (p_Config p) ''required'' 2 in
     int (length (i_Approvers intent)) \<ge> sint required)"

text \<open>The part of the time rule after the clock has been read.\<close>

definition in_window :: "golib \<Rightarrow> string \<times> string \<Rightarrow> time \<Rightarrow> bool" where
  "in_window L w now =
    (case w of (start, stop) \<Rightarrow>
      (if start \<noteq> [] \<and> (case gl_parse3339 L start of Some t \<Rightarrow> now < t | None \<Rightarrow> False) then False
       else if stop \<noteq> [] \<and> (case gl_parse3339 L stop of Some t \<Rightarrow> t < now | None \<Rightarrow> False) then False
       else True))"

definition evaluateTimeRestriction :: "golib \<Rightarrow> ('x, time) op \<Rightarrow> Policy \<Rightarrow> ('x, bool) op" where
  "evaluateTimeRestriction L clock p =
    (case unmarshal_window (gl_json L) (gl_unicode L) (p_Config p) of
       None \<Rightarrow> State_Monad.return True
     | Some (start, stop) \<Rightarrow>
       if start = [] \<and> stop = [] then State_Monad.return True
       else do {
         now \<leftarrow> clock;
         State_Monad.return (in_window L (start, stop) now)
       })"

subsection \<open>Evaluation\<close>

text \<open>
  The \<open>switch\<close> on the rule type: the decision and the text that precedes the policy's name in a
  denial; an unknown rule type has no case and is skipped.
\<close>

definition evaluate_rule ::
  "golib \<Rightarrow> ('x, time) op \<Rightarrow> Policy \<Rightarrow> Intent \<Rightarrow> Wallet \<Rightarrow> ('x, (bool \<times> string) option) op"
where
  "evaluate_rule L clock p intent wallet =
    (if p_RuleType p = ''daily_limit'' then
       State_Monad.return (Some (evaluateDailyLimit L p intent wallet, ''daily limit: ''))
     else if p_RuleType p = ''single_tx_limit'' then
       State_Monad.return (Some (evaluateSingleTxLimit L p intent, ''single tx limit: ''))
     else if p_RuleType p = ''allowed_recipients'' then
       State_Monad.return (Some (evaluateAllowedRecipients L p intent, ''allowed recipients: ''))
     else if p_RuleType p = ''blocked_recipients'' then
       State_Monad.return (Some (evaluateBlockedRecipients L p intent, ''blocked recipients: ''))
     else if p_RuleType p = ''allowed_tokens'' then
       State_Monad.return (Some (evaluateAllowedTokens L p intent, ''allowed tokens: ''))
     else if p_RuleType p = ''required_signatures'' then
       State_Monad.return (Some (evaluateRequiredSigs L p intent, ''required sigs: ''))
     else if p_RuleType p = ''time_restriction'' then do {
       b \<leftarrow> evaluateTimeRestriction L clock p;
       State_Monad.return (Some (b, ''time restriction: ''))
     }
     else State_Monad.return None)"

fun evaluate_loop ::
  "golib \<Rightarrow> ('x, time) op \<Rightarrow> Intent \<Rightarrow> Wallet \<Rightarrow> Policy list \<Rightarrow> bool \<Rightarrow> string list
     \<Rightarrow> ('x, bool \<times> string list) op"
where
  "evaluate_loop L clock intent wallet [] allPassed denied = State_Monad.return (allPassed, denied)"
| "evaluate_loop L clock intent wallet (p # ps) allPassed denied =
    (if \<not> p_IsActive p then evaluate_loop L clock intent wallet ps allPassed denied
     else do {
       r \<leftarrow> evaluate_rule L clock p intent wallet;
       (case r of
          Some (False, label) \<Rightarrow>
            evaluate_loop L clock intent wallet ps False (denied @ [label @ p_Name p])
        | _ \<Rightarrow> evaluate_loop L clock intent wallet ps allPassed denied)
     })"

definition Evaluate ::
  "golib \<Rightarrow> 'x DBQuerier \<Rightarrow> ('x, time) op \<Rightarrow> Intent \<Rightarrow> ('x, error + PolicyResult) op"
where
  "Evaluate L db clock intent = do {
     rw \<leftarrow> db_GetWallet db (i_WalletID intent);
     (case rw of
        Inl err \<Rightarrow> State_Monad.return
          (Inl (''failed to look up wallet '' @ i_WalletID intent @ '': '' @ err))
      | Inr wallet \<Rightarrow> do {
          rt \<leftarrow> db_GetTenant db (w_TenantID wallet);
          (case rt of
             Inl err \<Rightarrow> State_Monad.return
               (Inl (''failed to look up tenant '' @ w_TenantID wallet @ '': '' @ err))
           | Inr tenant \<Rightarrow> do {
               rp \<leftarrow> db_ListPolicies db (t_ID tenant);
               (case rp of
                  Inl err \<Rightarrow> State_Monad.return
                    (Inl (''failed to list policies for tenant '' @ t_ID tenant @ '': '' @ err))
                | Inr policies \<Rightarrow> do {
                    r \<leftarrow> evaluate_loop L clock intent wallet policies True [];
                    State_Monad.return (Inr (if fst r then \<lparr>pr_Allow = True, pr_Reason = []\<rparr>
                      else \<lparr>pr_Allow = False, pr_Reason = join ''; '' (snd r)\<rparr>))
                  })
             })
        })
   }"

subsection \<open>What the rules decide\<close>

text \<open>The decision of the \<open>switch\<close> when the clock reads \<open>now\<close>, as a pure function.\<close>

definition time_rule_passes :: "golib \<Rightarrow> time \<Rightarrow> Policy \<Rightarrow> bool" where
  "time_rule_passes L now p =
    (case unmarshal_window (gl_json L) (gl_unicode L) (p_Config p) of
       None \<Rightarrow> True
     | Some w \<Rightarrow> fst w = [] \<and> snd w = [] \<or> in_window L w now)"

definition rule_verdict :: "golib \<Rightarrow> time \<Rightarrow> Policy \<Rightarrow> Intent \<Rightarrow> Wallet \<Rightarrow> (bool \<times> string) option" where
  "rule_verdict L now p intent wallet =
     map_of
       [(''daily_limit'', (evaluateDailyLimit L p intent wallet, ''daily limit: '')),
        (''single_tx_limit'', (evaluateSingleTxLimit L p intent, ''single tx limit: '')),
        (''allowed_recipients'', (evaluateAllowedRecipients L p intent, ''allowed recipients: '')),
        (''blocked_recipients'', (evaluateBlockedRecipients L p intent, ''blocked recipients: '')),
        (''allowed_tokens'', (evaluateAllowedTokens L p intent, ''allowed tokens: '')),
        (''required_signatures'', (evaluateRequiredSigs L p intent, ''required sigs: '')),
        (''time_restriction'', (time_rule_passes L now p, ''time restriction: ''))]
       (p_RuleType p)"

definition rule_passes :: "golib \<Rightarrow> time \<Rightarrow> Policy \<Rightarrow> Intent \<Rightarrow> Wallet \<Rightarrow> bool" where
  "rule_passes L now p intent wallet =
    (case rule_verdict L now p intent wallet of Some (b, _) \<Rightarrow> b | None \<Rightarrow> True)"

definition denials :: "golib \<Rightarrow> time \<Rightarrow> Intent \<Rightarrow> Wallet \<Rightarrow> Policy list \<Rightarrow> string list" where
  "denials L now intent wallet ps =
     concat (map (\<lambda>p. case rule_verdict L now p intent wallet of
                        Some (False, label) \<Rightarrow> if p_IsActive p then [label @ p_Name p] else []
                      | _ \<Rightarrow> []) ps)"

lemma denials_Nil_iff:
  "denials L now intent wallet ps = [] \<longleftrightarrow>
     (\<forall>p\<in>set ps. p_IsActive p \<longrightarrow> rule_passes L now p intent wallet)"
  by (auto simp: denials_def rule_passes_def split: option.splits bool.splits if_splits)

lemma evaluateTimeRestriction_frozen:
  assumes "\<And>x. run_state clock x = (now, x)"
  shows "run_state (evaluateTimeRestriction L clock p) x = (time_rule_passes L now p, x)"
  using assms by (auto simp: evaluateTimeRestriction_def time_rule_passes_def split: option.splits)

lemma evaluate_rule_frozen:
  assumes "\<And>x. run_state clock x = (now, x)"
  shows "run_state (evaluate_rule L clock p intent wallet) x = (rule_verdict L now p intent wallet, x)"
  using evaluateTimeRestriction_frozen [OF assms]
  by (simp add: evaluate_rule_def rule_verdict_def)

lemma evaluate_loop_frozen:
  assumes "\<And>x. run_state clock x = (now, x)"
  shows "run_state (evaluate_loop L clock intent wallet ps ok ds) x
           = ((ok \<and> denials L now intent wallet ps = [], ds @ denials L now intent wallet ps), x)"
proof (induction ps arbitrary: ok ds)
  case (Cons p ps)
  then show ?case
    by (auto simp: denials_def evaluate_rule_frozen [OF assms] split: option.splits bool.splits)
qed (simp add: denials_def)

lemma Evaluate_frozen:
  assumes "\<And>x. run_state clock x = (now, x)"
    and "run_state (db_GetWallet db (i_WalletID intent)) x = (Inr w, x1)"
    and "run_state (db_GetTenant db (w_TenantID w)) x1 = (Inr t, x2)"
    and "run_state (db_ListPolicies db (t_ID t)) x2 = (Inr ps, x3)"
  shows "run_state (Evaluate L db clock intent) x
    = (Inr \<lparr>pr_Allow = (denials L now intent w ps = []),
            pr_Reason = join ''; '' (denials L now intent w ps)\<rparr>, x3)"
  using assms by (auto simp: Evaluate_def evaluate_loop_frozen)

subsection \<open>What an ALLOW implies, for any database and clock\<close>

definition reads_clock :: "Policy \<Rightarrow> bool" where
  "reads_clock p \<longleftrightarrow> p_RuleType p = ''time_restriction''"

lemma rule_passes_now:
  "\<not> reads_clock p \<Longrightarrow> rule_passes L now p intent wallet = rule_passes L now' p intent wallet"
  by (simp add: rule_passes_def rule_verdict_def reads_clock_def)

lemma evaluate_rule_verdict:
  "\<not> reads_clock p \<Longrightarrow>
     run_state (evaluate_rule L clock p intent wallet) x = (rule_verdict L now p intent wallet, x)"
  by (simp add: evaluate_rule_def rule_verdict_def reads_clock_def)

lemma evaluate_loop_allow:
  "run_state (evaluate_loop L clock intent wallet ps ok ds) x = ((True, ds'), x') \<Longrightarrow>
     ok \<and> (\<forall>p\<in>set ps. p_IsActive p \<and> \<not> reads_clock p \<longrightarrow> rule_passes L now p intent wallet)"
proof (induction ps arbitrary: ok ds x)
  case (Cons p ps)
  show ?case
  proof (cases "p_IsActive p")
    case active: True
    obtain r y where r: "run_state (evaluate_rule L clock p intent wallet) x = (r, y)" by fastforce
    have rest: "ok \<and> (\<forall>p\<in>set ps. p_IsActive p \<and> \<not> reads_clock p \<longrightarrow> rule_passes L now p intent wallet)"
      and "case r of Some (b, _) \<Rightarrow> b | None \<Rightarrow> True"
      using Cons.prems active r Cons.IH
      by (fastforce split: option.splits bool.splits)+
    moreover have "\<not> reads_clock p \<Longrightarrow> r = rule_verdict L now p intent wallet"
      using evaluate_rule_verdict [of p L clock intent wallet x now] r by simp
    ultimately show ?thesis by (auto simp: rule_passes_def)
  qed (use Cons in auto)
qed simp

lemma Evaluate_allow:
  assumes "run_state (Evaluate L db clock intent) x = (Inr r, x')" "pr_Allow r"
  obtains w t ps x1 x2 x3 where
    "run_state (db_GetWallet db (i_WalletID intent)) x = (Inr w, x1)"
    "run_state (db_GetTenant db (w_TenantID w)) x1 = (Inr t, x2)"
    "run_state (db_ListPolicies db (t_ID t)) x2 = (Inr ps, x3)"
    "\<And>p now. p \<in> set ps \<Longrightarrow> p_IsActive p \<Longrightarrow> \<not> reads_clock p \<Longrightarrow> rule_passes L now p intent w"
proof -
  from assms obtain w x1 t x2 ps x3 where
    db: "run_state (db_GetWallet db (i_WalletID intent)) x = (Inr w, x1)"
    "run_state (db_GetTenant db (w_TenantID w)) x1 = (Inr t, x2)"
    "run_state (db_ListPolicies db (t_ID t)) x2 = (Inr ps, x3)"
    by (auto simp: Evaluate_def split: prod.splits sum.splits)
  obtain ok ds y where l: "run_state (evaluate_loop L clock intent w ps True []) x3 = ((ok, ds), y)"
    by (metis prod.exhaust)
  with assms db have ok by (auto simp: Evaluate_def split: if_splits)
  with l have "run_state (evaluate_loop L clock intent w ps True []) x3 = ((True, ds), y)" by simp
  then have "\<And>p now. p \<in> set ps \<Longrightarrow> p_IsActive p \<Longrightarrow> \<not> reads_clock p \<Longrightarrow> rule_passes L now p intent w"
    by (blast dest: evaluate_loop_allow)
  with db show thesis by (rule that)
qed

subsection \<open>Amounts\<close>

lemma parseIntentAmount_digits:
  assumes "list_all (\<lambda>c. is_digit (ord c)) s" "is_ascii s"
  shows "parseIntentAmount s = foldl (\<lambda>v c. v * 10 + word_of_int (ord c - 48)) 0 s"
proof -
  have "foldl (\<lambda>v c. if 48 \<le> c \<and> c \<le> 57 then v * 10 + word_of_int (c - 48) else v) a (map ord s)
      = foldl (\<lambda>v c. v * 10 + word_of_int (ord c - 48)) a s" for a :: i64
    using assms(1) by (induction s arbitrary: a) (auto simp: is_digit_def)
  then show ?thesis by (simp add: parseIntentAmount_def runes_ascii assms(2))
qed

lemma parseIntentAmount_dec_nat: "parseIntentAmount (dec_nat n) = of_nat n"
proof -
  have "list_all (\<lambda>c. is_digit (ord c)) (dec_nat n)"
    using dec_nat_digits by (auto simp: list_all_iff)
  moreover have "is_ascii (dec_nat n)"
    using dec_nat_digits by (fastforce simp: is_ascii_def list_all_iff is_digit_def)
  ultimately show ?thesis by (simp only: parseIntentAmount_digits foldl_dec_nat)
qed

lemma parseIntentAmount_show:
  "0 \<le> sint v \<Longrightarrow> parseIntentAmount (AmountToString v) = v"
  using parseIntentAmount_dec_nat [of "nat (sint v)"]
  by (simp add: AmountToString_def show_i64_def show_int_def i64_of_nat_sint)

subsection \<open>Properties\<close>

text \<open>C20: \<open>Evaluate\<close> fails exactly when one of its three lookups fails, in their order: the wallet of the
  intent, the tenant of that wallet, the policies of that tenant. No rule makes it fail.\<close>

theorem evaluation_fails_only_on_lookups:
  "(\<exists>e x'. run_state (Evaluate L db clock intent) x = (Inl e, x')) \<longleftrightarrow>
     (case run_state (db_GetWallet db (i_WalletID intent)) x of
        (Inl _, _) \<Rightarrow> True
      | (Inr w, x1) \<Rightarrow>
        (case run_state (db_GetTenant db (w_TenantID w)) x1 of
           (Inl _, _) \<Rightarrow> True
         | (Inr t, x2) \<Rightarrow>
           (case run_state (db_ListPolicies db (t_ID t)) x2 of (Inl _, _) \<Rightarrow> True | (Inr _, _) \<Rightarrow> False)))"
  by (auto simp: Evaluate_def split: prod.splits sum.splits)

text \<open>C18: The exact result when the clock stands still during the evaluation: ALLOW if and only if every
  active policy of the tenant passes, and otherwise the reason lists, in the order of the policies,
  the label and name of every active one that does not.\<close>

theorem policy_verdict:
  assumes "\<And>x. run_state clock x = (now, x)"
    and "run_state (db_GetWallet db (i_WalletID intent)) x = (Inr w, x1)"
    and "run_state (db_GetTenant db (w_TenantID w)) x1 = (Inr t, x2)"
    and "run_state (db_ListPolicies db (t_ID t)) x2 = (Inr ps, x3)"
  shows "\<exists>r. run_state (Evaluate L db clock intent) x = (Inr r, x3) \<and>
    (pr_Allow r \<longleftrightarrow> list_all (\<lambda>p. \<not> p_IsActive p \<or> rule_passes L now p intent w) ps) \<and>
    pr_Reason r = join ''; '' (denials L now intent w ps)"
  using denials_Nil_iff [of L now intent w ps] Evaluate_frozen [OF assms]
  by (auto simp: list_all_iff)

text \<open>C19: Soundness of an ALLOW for any database and any clock: every active policy of the tenant that
  owns the intent's wallet passes, whatever the time, unless it is a time restriction.\<close>

theorem allow_means_all_rules_pass:
  assumes "run_state (Evaluate L db clock intent) x = (Inr r, x')" "pr_Allow r"
  shows "\<exists>w t ps x1 x2 x3.
    run_state (db_GetWallet db (i_WalletID intent)) x = (Inr w, x1) \<and>
    run_state (db_GetTenant db (w_TenantID w)) x1 = (Inr t, x2) \<and>
    run_state (db_ListPolicies db (t_ID t)) x2 = (Inr ps, x3) \<and>
    list_all (\<lambda>p. \<not> p_IsActive p \<or> reads_clock p \<or> rule_passes L now p intent w) ps"
  by (rule Evaluate_allow [OF assms]) (fastforce simp: list_all_iff)

text \<open>C21: Rules with an unreadable configuration fail open: a policy whose configuration is no JSON text
  denies nothing, except the number of signatures, which is then two, and the daily limit, which is
  then the wallet's own.\<close>

theorem unreadable_rules_pass:
  assumes "js_parse (gl_json L) (p_Config p) = None"
  shows "rule_passes L now p intent w \<longleftrightarrow>
    (if p_RuleType p = ''required_signatures'' then 2 \<le> length (i_Approvers intent)
     else if p_RuleType p = ''daily_limit'' then
       sint (w_DailyLimit w) \<le> 0 \<or> sint (parseIntentAmount (i_Amount intent)) \<le> sint (w_DailyLimit w)
     else True)"
proof -
  note bad = unmarshal_bad_text [OF assms]
  have config: "parseConfigInt64 (gl_json L) (p_Config p) k f = f"
    "parseConfigInt (gl_json L) (p_Config p) k f = f" for k f
    by (simp_all add: parseConfigInt64_def parseConfigInt_def bad)
  show ?thesis
    by (simp add: rule_passes_def rule_verdict_def evaluateDailyLimit_def evaluateSingleTxLimit_def
        evaluateAllowedRecipients_def evaluateBlockedRecipients_def evaluateAllowedTokens_def
        evaluateRequiredSigs_def time_rule_passes_def config bad Let_def)
qed

end
