(* ===== verification/VF_TxBuilder.thy ===== *)
theory VF_TxBuilder
  imports VF_Interfaces
begin

section \<open>The transaction builder\<close>

text \<open>
  \<open>services/api/core/transaction_builder.go\<close>: the builder's state, its setters, the canonical
  bytes and the simulation. \<open>Build\<close> hashes the fields and the current time to the second, so each
  call reads the clock. The lemmas give the outcome of a simulation and compare the bytes of two
  calls of \<open>Build\<close>.
\<close>

record SolanaTransactionBuilder =
  b_walletID :: string
  b_token :: string
  b_amount :: string
  b_destination :: string
  b_blockhash :: string
  b_priorityFee :: i64

definition NewTransactionBuilder ::
  "string \<Rightarrow> string \<Rightarrow> string \<Rightarrow> string \<Rightarrow> SolanaTransactionBuilder"
where
  "NewTransactionBuilder walletID token amount destination =
    \<lparr> b_walletID = walletID, b_token = token, b_amount = amount, b_destination = destination,
      b_blockhash = [], b_priorityFee = 0 \<rparr>"

definition SetBlockhash :: "string \<Rightarrow> SolanaTransactionBuilder \<Rightarrow> SolanaTransactionBuilder" where
  "SetBlockhash blockhash b = b\<lparr>b_blockhash := blockhash\<rparr>"

definition SetPriorityFee :: "i64 \<Rightarrow> SolanaTransactionBuilder \<Rightarrow> SolanaTransactionBuilder" where
  "SetPriorityFee fee b = b\<lparr>b_priorityFee := fee\<rparr>"

text \<open>Eight bytes, least significant first; \<open>>>\<close> on an int64 is the arithmetic shift.\<close>

definition le_bytes_i64 :: "i64 \<Rightarrow> byte list" where
  "le_bytes_i64 v = map (\<lambda>i. ucast (signed_drop_bit (8 * i) v)) [0..<8]"

definition tx_preimage :: "golib \<Rightarrow> time \<Rightarrow> SolanaTransactionBuilder \<Rightarrow> byte list" where
  "tx_preimage L now b =
     bytes_of ''vaultforge-tx-v1'' @ bytes_of (b_walletID b) @ bytes_of (b_token b) @
     bytes_of (b_amount b) @ bytes_of (b_destination b) @
     (if b_blockhash b \<noteq> [] then bytes_of (b_blockhash b) else []) @
     le_bytes_i64 (b_priorityFee b) @ bytes_of (gl_format3339 L now)"

definition Build :: "golib \<Rightarrow> ('x, time) op \<Rightarrow> SolanaTransactionBuilder \<Rightarrow> ('x, byte list) op" where
  "Build L clock b = do {
     now \<leftarrow> clock;
     State_Monad.return (gl_sha256 L (tx_preimage L now b))
   }"

text \<open>\<open>fmt.Sprintf("%x", bytes)\<close>\<close>

definition hex_digit :: "nat \<Rightarrow> char" where
  "hex_digit d = (if d < 10 then chr (48 + int d) else chr (87 + int d))"

definition hex :: "byte list \<Rightarrow> string" where
  "hex bs = concat (map (\<lambda>b. [hex_digit (unat b div 16), hex_digit (unat b mod 16)]) bs)"

definition computeTxHash :: "golib \<Rightarrow> ('x, time) op \<Rightarrow> SolanaTransactionBuilder \<Rightarrow> ('x, string) op" where
  "computeTxHash L clock b = do {
     txBytes \<leftarrow> Build L clock b;
     State_Monad.return (hex txBytes)
   }"

definition Simulate ::
  "golib \<Rightarrow> ('x, time) op \<Rightarrow> SolanaTransactionBuilder \<Rightarrow> ('x, error + SimulationResult) op"
where
  "Simulate L clock b =
    (case parse_int64 (b_amount b) of
       Inl e \<Rightarrow> State_Monad.return
         (Inl (''invalid amount: '' @ parse_int_error (gl_unicode L) (b_amount b) e))
     | Inr amountVal \<Rightarrow>
       if amountVal \<le> 0 then State_Monad.return
         (Inr \<lparr>sim_Allowed = False, sim_TransactionHash = [], sim_Error = ''amount must be positive''\<rparr>)
       else do {
         txHash \<leftarrow> computeTxHash L clock b;
         State_Monad.return
           (Inr \<lparr>sim_Allowed = True, sim_TransactionHash = txHash, sim_Error = []\<rparr>)
       })"

subsection \<open>Lemmas\<close>

lemma hex_digit_inj: "d < 16 \<Longrightarrow> e < 16 \<Longrightarrow> hex_digit d = hex_digit e \<longleftrightarrow> d = e"
  by (auto simp: hex_digit_def ord_chr simp flip: ord_inj split: if_splits)

lemma hex_Cons: "hex (b # bs) = hex_digit (unat b div 16) # hex_digit (unat b mod 16) # hex bs"
  by (simp add: hex_def)

lemma hex_inj: "hex bs = hex cs \<longleftrightarrow> bs = cs"
proof (induction bs arbitrary: cs)
  case Nil
  then show ?case by (cases cs) (simp_all add: hex_def)
next
  case (Cons b bs)
  show ?case
  proof (cases cs)
    case (Cons c ds)
    have lt: "unat b div 16 < 16" "unat c div 16 < 16"
      using unat_byte [of b] unat_byte [of c] by auto
    have "b = c \<longleftrightarrow> unat b div 16 = unat c div 16 \<and> unat b mod 16 = unat c mod 16"
      by (metis div_mult_mod_eq word_unat_eq_iff)
    with Cons.IH lt show ?thesis by (auto simp: local.Cons hex_Cons hex_digit_inj)
  qed (simp add: hex_def)
qed

lemma length_hex: "length (hex bs) = 2 * length bs"
  by (induction bs) (simp_all add: hex_Cons, simp add: hex_def)

lemma length_le_bytes_i64 [simp]: "length (le_bytes_i64 v) = 8"
  by (simp add: le_bytes_i64_def)

lemma Simulate_allowed:
  "(\<exists>s x'. run_state (Simulate L clock b) x = (Inr s, x') \<and> sim_Allowed s) \<longleftrightarrow>
     (\<exists>n. parse_int64 (b_amount b) = Inr n \<and> 0 < n)"
  by (auto simp: Simulate_def computeTxHash_def Build_def split: sum.splits prod.splits)

lemma Simulate_hash:
  assumes "run_state (Simulate L clock b) x = (Inr s, x')" "sim_Allowed s"
  obtains now where "run_state clock x = (now, x')"
    "sim_TransactionHash s = hex (gl_sha256 L (tx_preimage L now b))"
  using assms
  by (auto simp: Simulate_def computeTxHash_def Build_def split: sum.splits prod.splits if_splits)

subsection \<open>Properties\<close>

text \<open>The transaction bytes do not determine the order: their parts are hashed one after the other
  without a separator, so moving the leading digit of the destination to the end of the amount gives
  the same bytes and the same simulated hash, for every library, clock and blockhash.\<close>

theorem bytes_do_not_fix_the_amount:
  "run_state (Build L clock (SetBlockhash bh (NewTransactionBuilder w t (amount @ d) destination))) x =
   run_state (Build L clock (SetBlockhash bh (NewTransactionBuilder w t amount (d @ destination)))) x"
  by (simp add: Build_def tx_preimage_def SetBlockhash_def NewTransactionBuilder_def bytes_of_append)

end
