(* ===== verification/VF_Validation.thy ===== *)
theory VF_Validation
  imports Go_Text
begin

section \<open>Input validation\<close>

text \<open>
  \<open>services/api/core/validation.go\<close>: address, length, amount and chain checks and the combined
  check of an intent's input, which collects every message in the order of the code. The lemmas
  say exactly which inputs pass and what value an accepted amount string has.
\<close>

subsection \<open>The checks\<close>

definition base58_rune :: "rune \<Rightarrow> bool" where
  "base58_rune r \<longleftrightarrow>
     (ord CHR ''1'' \<le> r \<and> r \<le> ord CHR ''9'') \<or> (ord CHR ''A'' \<le> r \<and> r \<le> ord CHR ''H'') \<or>
     (ord CHR ''J'' \<le> r \<and> r \<le> ord CHR ''N'') \<or> (ord CHR ''P'' \<le> r \<and> r \<le> ord CHR ''Z'') \<or>
     (ord CHR ''a'' \<le> r \<and> r \<le> ord CHR ''k'') \<or> (ord CHR ''m'' \<le> r \<and> r \<le> ord CHR ''z'')"

definition base58Chars :: "string \<Rightarrow> bool" where
  "base58Chars s \<longleftrightarrow> runes s \<noteq> [] \<and> list_all base58_rune (runes s)"

definition ValidateSolanaAddress :: "string \<Rightarrow> bool" where
  "ValidateSolanaAddress addr =
    (if length addr < 32 \<or> length addr > 44 then False else base58Chars addr)"

definition ValidateTokenMint :: "string \<Rightarrow> bool" where
  "ValidateTokenMint mint = ValidateSolanaAddress mint"

definition ValidateStringLen :: "string \<Rightarrow> string \<Rightarrow> nat \<Rightarrow> error option" where
  "ValidateStringLen field value maxLen =
    (if length value > maxLen
     then Some (field @ '' must be at most '' @ show_int (int maxLen) @ '' characters'')
     else None)"

fun amount_loop :: "i64 \<Rightarrow> rune list \<Rightarrow> error + i64" where
  "amount_loop v [] = Inr v"
| "amount_loop v (c # cs) =
    (if c < 48 \<or> c > 57 then Inl ''amount must be a numeric string''
     else let v' = v * 10 + word_of_int (c - 48) in
          if sint v' < 0 then Inl ''amount overflow'' else amount_loop v' cs)"

definition ValidateAmountString :: "string \<Rightarrow> error + i64" where
  "ValidateAmountString amount =
    (if amount = [] then Inl ''amount is required'' else amount_loop 0 (runes amount))"

definition ValidateChain :: "unicode \<Rightarrow> string \<Rightarrow> bool" where
  "ValidateChain u chain =
    (let c = to_lower u chain in c = ''solana'' \<or> c = ''ethereum'' \<or> c = ''polygon'')"

definition maxInt64 :: int where
  "maxInt64 = 9223372036854775807"

definition ValidateIntentInput ::
  "unicode \<Rightarrow> string \<Rightarrow> string \<Rightarrow> string \<Rightarrow> string \<Rightarrow> string \<Rightarrow> i64 \<Rightarrow> error list"
where
  "ValidateIntentInput u walletID destination token chain creator amount =
     (if walletID = [] then [''wallet_id is required''] else []) @
     (case ValidateStringLen ''destination'' destination 64 of Some e \<Rightarrow> [e] | None \<Rightarrow> []) @
     (case ValidateStringLen ''token'' token 64 of Some e \<Rightarrow> [e] | None \<Rightarrow> []) @
     (case ValidateStringLen ''creator'' creator 128 of Some e \<Rightarrow> [e] | None \<Rightarrow> []) @
     (if \<not> ValidateChain u chain
      then [''chain must be one of: solana, ethereum, polygon''] else []) @
     (if sint amount \<le> 0 then [''amount must be greater than zero''] else []) @
     (if sint amount > maxInt64 div 2 then [''amount is too large''] else [])"

subsection \<open>Which inputs pass\<close>

lemma runes_Nil_iff: "runes s = [] \<longleftrightarrow> s = []"
  by (cases s) (auto simp: runes.simps(2) split: prod.splits)

lemma base58_ascii: "0x80 \<le> r \<Longrightarrow> \<not> base58_rune r"
  by (auto simp: base58_rune_def ord_def)

lemma ValidateStringLen_None: "ValidateStringLen f v n = None \<longleftrightarrow> length v \<le> n"
  by (auto simp: ValidateStringLen_def)

text \<open>The decimal value of a string of digits, and of the digits' runes.\<close>

definition digits_value :: "rune list \<Rightarrow> nat" where
  "digits_value rs = foldl (\<lambda>v c. v * 10 + nat (c - 48)) 0 rs"

lemma foldl_value_ge: "v \<le> foldl (\<lambda>v c. v * 10 + nat (c - 48)) v rs"
proof (induction rs arbitrary: v)
  case (Cons c rs)
  show ?case using Cons [of "v * 10 + nat (c - 48)"] by simp
qed simp

text \<open>
  An accepted amount has the decimal value of its digits modulo \<open>2 ^ 64\<close>; below \<open>2 ^ 63\<close> every
  string of digits is accepted with its exact value.
\<close>

lemma amount_loop_value:
  "amount_loop (of_nat n) rs = Inr v \<Longrightarrow>
     list_all is_digit rs \<and> v = of_nat (foldl (\<lambda>v c. v * 10 + nat (c - 48)) n rs)"
proof (induction rs arbitrary: n)
  case (Cons c rs)
  then have c: "48 \<le> c" "c \<le> 57" and
    step: "amount_loop (of_nat n * 10 + word_of_int (c - 48)) rs = Inr v"
    by (auto simp: Let_def split: if_splits)
  have "of_nat n * 10 + word_of_int (c - 48) = (of_nat (n * 10 + nat (c - 48)) :: i64)"
    using c by simp
  with step Cons.IH [of "n * 10 + nat (c - 48)"] c show ?case by (simp add: is_digit_def)
qed simp

lemma amount_loop_accepts:
  "list_all is_digit rs \<Longrightarrow> foldl (\<lambda>v c. v * 10 + nat (c - 48)) n rs < 2 ^ 63 \<Longrightarrow>
     amount_loop (of_nat n) rs = Inr (of_nat (foldl (\<lambda>v c. v * 10 + nat (c - 48)) n rs))"
proof (induction rs arbitrary: n)
  case (Cons c rs)
  let ?m = "n * 10 + nat (c - 48)"
  have c: "48 \<le> c" "c \<le> 57" using Cons.prems by (auto simp: is_digit_def)
  have e: "of_nat n * 10 + word_of_int (c - 48) = (of_nat ?m :: i64)" using c by simp
  have "?m < 2 ^ 63" using foldl_value_ge [of ?m rs] Cons.prems(2) by simp
  then have "\<not> sint (of_nat ?m :: i64) < 0" by (simp only: sint_of_nat_i64)
  then have "amount_loop (of_nat n) (c # rs) = amount_loop (of_nat ?m) rs"
    using c by (simp only: amount_loop.simps Let_def e if_False) simp
  also have "\<dots> = Inr (of_nat (foldl (\<lambda>v c. v * 10 + nat (c - 48)) ?m rs))"
    using Cons.prems by (intro Cons.IH) simp_all
  finally show ?case by simp
qed simp

lemma runes_digits_iff:
  "list_all is_digit (runes s) \<longleftrightarrow> list_all (\<lambda>c. is_digit (ord c)) s"
  by (rule list_all_runes) (simp add: is_digit_def)

lemma ValidateAmountString_accepts:
  assumes "s \<noteq> []" "list_all is_digit (runes s)" "digits_value (runes s) < 2 ^ 63"
  shows "ValidateAmountString s = Inr (of_nat (digits_value (runes s)))"
  using assms amount_loop_accepts [of "runes s" 0]
  by (simp add: ValidateAmountString_def digits_value_def)

lemma ValidateAmountString_value:
  assumes "ValidateAmountString s = Inr v"
  shows "s \<noteq> []" "list_all is_digit (runes s)" "v = of_nat (digits_value (runes s))"
  using assms amount_loop_value [of 0 "runes s" v]
  by (auto simp: ValidateAmountString_def digits_value_def split: if_splits)

lemma ValidateIntentInput_Nil:
  "ValidateIntentInput u walletID destination token chain creator amount = [] \<longleftrightarrow>
     walletID \<noteq> [] \<and> length destination \<le> 64 \<and> length token \<le> 64 \<and> length creator \<le> 128 \<and>
     ValidateChain u chain \<and> 0 < sint amount \<and> sint amount \<le> maxInt64 div 2"
  by (auto simp: ValidateIntentInput_def ValidateStringLen_def)

lemma to_lower_ascii: "is_ascii s \<Longrightarrow> to_lower u s = concat (map (\<lambda>c. encode_rune (lower_rune u (ord c))) s)"
  by (simp add: to_lower_def runes_ascii comp_def)

subsection \<open>Properties\<close>




text \<open>The overflow check of \<open>ValidateAmountString\<close> is incomplete: it looks at the sign of the wrapped
  product, and a product that wraps past the negative numbers passes. The amount \<open>2 ^ 64 + 4\<close> is
  accepted as 4.\<close>

theorem amount_overflow_accepted:
  "ValidateAmountString ''18446744073709551620'' = Inr 4"
proof -
  have "runes ''18446744073709551620'' =
    [49, 56, 52, 52, 54, 55, 52, 52, 48, 55, 51, 55, 48, 57, 53, 53, 49, 54, 50, 48]"
    by (simp add: runes_ascii is_ascii_def ord_def)
  then show ?thesis by (simp add: ValidateAmountString_def)
qed

text \<open>The input check passes exactly the intents with a wallet, a destination and a token of at most
  64 bytes, a creator of at most 128, a known chain, and an amount between one and half the largest
  int64; the first message of the rest is the one the client gets.\<close>

theorem accepted_inputs:
  "ValidateIntentInput u walletID destination token chain creator amount = [] \<longleftrightarrow>
     walletID \<noteq> [] \<and> length destination \<le> 64 \<and> length token \<le> 64 \<and> length creator \<le> 128 \<and>
     to_lower u chain \<in> {''solana'', ''ethereum'', ''polygon''} \<and>
     0 < sint amount \<and> sint amount \<le> 4611686018427387903"
  by (auto simp: ValidateIntentInput_Nil ValidateChain_def Let_def maxInt64_def)

end
