(* ===== verification/VF_Handlers.thy ===== *)
theory VF_Handlers
  imports VF_Trace VF_Policy VF_TxBuilder VF_Validation
begin

section \<open>The intent handlers\<close>

text \<open>
  \<open>services/api/routes/intent_routes.go\<close>: the handlers of the intent, wallet, transaction and audit
  routes. A handler runs in the state monad over \<open>'x sys\<close>: the state \<open>'x\<close> behind the interfaces and
  the trail of interface calls made so far with their results. \<open>c.MustGet("tenant_id")\<close> panics when no tenant was set, which is the response \<open>Panic\<close>.
\<close>

subsection \<open>Requests, responses, calls\<close>

record CreateIntentInput =
  ci_WalletID :: string
  ci_Destination :: string
  ci_Token :: string
  ci_Amount :: i64
  ci_Chain :: string
  ci_Creator :: string

text \<open>
  What the handlers read from gin's context. \<open>q_body\<close> is the result of \<open>ShouldBindJSON\<close> with the
  binding tags, which is gin's; an absent header or query parameter is the empty string.
\<close>

record request =
  q_id :: string
  q_tenant :: "string option"
  q_requestID :: string
  q_actor :: string
  q_idempotencyKey :: string
  q_status :: string
  q_action :: string
  q_body :: "error + CreateIntentInput"

datatype payload =
    ErrorBody error
  | IntentBody Intent
  | ApproveBody Intent PolicyResult
  | ExecuteBody Intent string error
  | IntentsBody "Intent list"
  | WalletBody Wallet
  | WalletsBody "Wallet list"
  | TransactionsBody "Transaction list"
  | EventsBody "AuditEvent list"

datatype response = Panic | Json nat payload

datatype call =
    Now time
  | Created Intent "error option"
  | Loaded string "error + Intent"
  | Updated Intent "error option"
  | Listed "error + Intent list"
  | NonceChecked string "error + Transaction option"
  | Evaluated Intent "error + PolicyResult"
  | Proved PolicyInputs "error + ZKProof"
  | Verified ZKProof "error + bool"
  | GotBlockhash "error + string"
  | Simulated SolanaTransactionBuilder "error + SimulationResult"
  | Signed SigningInput "error + SigningResult"
  | Built SolanaTransactionBuilder "byte list"
  | Submitted "byte list" "error + SubmitResult"
  | TxCreated Transaction "error option"
  | Audited audit_call
  | Notified Intent string
  | Started string
  | Queried
  | Waited int
  | Polled string "error + bool"
  | TxLoaded "error + Transaction"
  | TxSaved Transaction

type_synonym 'x sys = "('x, call) traced"

record 'x IntentHandler =
  h_store :: "'x IntentStore"
  h_policyDB :: "'x DBQuerier"
  h_zkVerifier :: "'x ZKVerifier"
  h_mpcSigner :: "'x MPCSigner"
  h_reconciler :: "'x Reconciler"
  h_audit :: "'x IntentAuditor"
  h_solana :: "'x SolanaSubmitter"
  h_webhooks :: "'x StateNotifier"
  h_txStore :: "'x TransactionStore"
  h_clock :: "('x, time) op"
  h_lib :: golib

subsection \<open>Calls through the interfaces\<close>

definition getNow :: "'x IntentHandler \<Rightarrow> ('x sys, time) op" where
  "getNow h = act (h_clock h) Now"

definition getByID :: "'x IntentHandler \<Rightarrow> string \<Rightarrow> ('x sys, error + Intent) op" where
  "getByID h iid = act (is_GetByID (h_store h) iid) (Loaded iid)"

definition update :: "'x IntentHandler \<Rightarrow> Intent \<Rightarrow> ('x sys, error option \<times> Intent) op" where
  "update h i = act (is_Update (h_store h) i) (\<lambda>r. Updated i (fst r))"

definition audit :: "'x IntentHandler \<Rightarrow> audit_call \<Rightarrow> ('x sys, unit) op" where
  "audit h a = act (au_log (h_audit h) a) (\<lambda>_. Audited a)"

definition notify :: "'x IntentHandler \<Rightarrow> Intent \<Rightarrow> string \<Rightarrow> ('x sys, unit) op" where
  "notify h i e = act (wh_NotifyIntentStateChange (h_webhooks h) i e) (\<lambda>_. Notified i e)"

definition evaluate :: "'x IntentHandler \<Rightarrow> Intent \<Rightarrow> ('x sys, error + PolicyResult) op" where
  "evaluate h i = act (Evaluate (h_lib h) (h_policyDB h) (h_clock h) i) (Evaluated i)"

lemmas call_defs = getNow_def getByID_def update_def audit_def notify_def evaluate_def

abbreviation fail :: "nat \<Rightarrow> error \<Rightarrow> response" where
  "fail code e \<equiv> Json code (ErrorBody e)"

text \<open>The header \<open>X-Request-ID\<close>, or a fresh identifier; \<open>X-Actor\<close>, or \<open>unknown\<close>.\<close>

definition request_id :: "'x IntentHandler \<Rightarrow> request \<Rightarrow> ('x sys, string) op" where
  "request_id h c =
    (if q_requestID c = [] then do {
       t \<leftarrow> getNow h;
       State_Monad.return (GenerateRequestID t)
     }
     else State_Monad.return (q_requestID c))"

definition actor_of :: "request \<Rightarrow> string" where
  "actor_of c = (if q_actor c = [] then ''unknown'' else q_actor c)"

text \<open>
  The block the error paths share: write the new status and reason, ignore the result of the write,
  audit, notify. The intent is returned as the store leaves it.
\<close>

definition settle ::
  "'x IntentHandler \<Rightarrow> Intent \<Rightarrow> audit_call \<Rightarrow> string \<Rightarrow> ('x sys, Intent) op"
where
  "settle h i a e = do {
     r \<leftarrow> update h i;
     audit h a;
     notify h (snd r) e;
     State_Monad.return (snd r)
   }"

subsection \<open>Creating an intent\<close>

definition is_duplicate :: "CreateIntentInput \<Rightarrow> Intent \<Rightarrow> bool" where
  "is_duplicate input e \<longleftrightarrow>
     i_Creator e = ci_Creator input \<and> i_Destination e = ci_Destination input \<and>
     i_Amount e = AmountToString (ci_Amount input) \<and> i_Token e = ci_Token input"

definition CreateIntent :: "'x IntentHandler \<Rightarrow> request \<Rightarrow> ('x sys, response) op" where
  "CreateIntent h c =
    (case q_body c of
       Inl err \<Rightarrow> State_Monad.return (fail 400 err)
     | Inr input \<Rightarrow>
       (case ValidateIntentInput (gl_unicode (h_lib h)) (ci_WalletID input) (ci_Destination input)
               (ci_Token input) (ci_Chain input) (ci_Creator input) (ci_Amount input) of
          e # _ \<Rightarrow> State_Monad.return (fail 400 e)
        | [] \<Rightarrow>
          (case q_tenant c of
             None \<Rightarrow> State_Monad.return Panic
           | Some tenantID \<Rightarrow> do {
               requestID \<leftarrow> request_id h c;
               existing \<leftarrow>
                 (if q_idempotencyKey c \<noteq> [] then do {
                    r \<leftarrow> act (is_ListByTenant (h_store h) tenantID []) Listed;
                    State_Monad.return (case r of Inl _ \<Rightarrow> [] | Inr es \<Rightarrow> es)
                  }
                  else State_Monad.return []);
               (if list_ex (is_duplicate input) existing
                then State_Monad.return (fail 409 ''duplicate intent detected'')
                else do {
                  now \<leftarrow> getNow h;
                  t_id \<leftarrow> getNow h;
                  t_nonce \<leftarrow> getNow h;
                  let intent = NewIntent now t_id t_nonce tenantID (ci_WalletID input)
                        (ci_Destination input) (ci_Token input) (ci_Chain input) (ci_Creator input)
                        (ci_Amount input);
                  r \<leftarrow> act (is_Create (h_store h) intent) (\<lambda>r. Created intent (fst r));
                  (case fst r of
                     Some err \<Rightarrow> State_Monad.return (fail 500 ''failed to create intent'')
                   | None \<Rightarrow> do {
                       audit h (LogIntentCreated tenantID (ci_Creator input) (i_ID (snd r)) requestID);
                       notify h (snd r) ''intent.created'';
                       State_Monad.return (Json 201 (IntentBody (snd r)))
                     })
                })
             })))"

subsection \<open>Approving an intent\<close>

definition ApproveIntent :: "'x IntentHandler \<Rightarrow> request \<Rightarrow> ('x sys, response) op" where
  "ApproveIntent h c = do {
     requestID \<leftarrow> request_id h c;
     r \<leftarrow> getByID h (q_id c);
     (case r of
        Inl err \<Rightarrow> State_Monad.return (fail 404 ''intent not found'')
      | Inr intent \<Rightarrow>
        (case q_tenant c of
           None \<Rightarrow> State_Monad.return Panic
         | Some tenantID \<Rightarrow>
           if i_TenantID intent \<noteq> tenantID then State_Monad.return (fail 403 ''access denied'')
           else if i_Status intent \<noteq> ''pending'' then
             State_Monad.return (fail 400 ''intent is not in pending status'')
           else do {
             pr \<leftarrow> evaluate h intent;
             (case pr of
                Inl err \<Rightarrow> do {
                  audit h (LogIntentFailed tenantID (actor_of c) (q_id c) requestID err ''policy_error'');
                  State_Monad.return (fail 500 ''policy evaluation failed'')
                }
              | Inr policyResult \<Rightarrow>
                if \<not> pr_Allow policyResult then do {
                  intent \<leftarrow> settle h
                    (intent\<lparr>i_FailureReason := FailureReason PolicyDenied, i_Status := ''rejected''\<rparr>)
                    (LogIntentPolicyDenied tenantID (actor_of c) (q_id c) requestID (pr_Reason policyResult))
                    ''intent.policy_denied'';
                  State_Monad.return (Json 200 (ApproveBody intent policyResult))
                }
                else do {
                  let inputs = \<lparr>pi_Amount = i_Amount intent, pi_DailyLimit = Some 100000,
                        pi_Recipient = i_Destination intent, pi_PolicyVersion = i_PolicyVersion intent,
                        pi_IntentID = i_ID intent, pi_WalletID = i_WalletID intent\<rparr>;
                  zp \<leftarrow> act (zk_GenerateProof (h_zkVerifier h) inputs) (Proved inputs);
                  (case zp of
                     Inl err \<Rightarrow> do {
                       audit h (LogIntentFailed tenantID (actor_of c) (q_id c) requestID err ''zk_generation'');
                       State_Monad.return (fail 500 ''ZK proof generation failed'')
                     }
                   | Inr zkProof \<Rightarrow> do {
                       zv \<leftarrow> act (zk_VerifyPolicyProof (h_zkVerifier h) (Some zkProof)) (Verified zkProof);
                       (if zv \<noteq> Inr True then do {
                          intent \<leftarrow> settle h
                            (intent\<lparr>i_FailureReason := FailureReason PolicyDenied, i_Status := ''rejected''\<rparr>)
                            (LogIntentZKDenied tenantID (actor_of c) (q_id c) requestID)
                            ''intent.zk_denied'';
                          State_Monad.return (Json 200 (ApproveBody intent
                            \<lparr>pr_Allow = False, pr_Reason = ''ZK proof verification failed''\<rparr>))
                        }
                        else do {
                          now \<leftarrow> getNow h;
                          u \<leftarrow> update h (intent\<lparr>i_Status := ''approved'', i_ApprovedAt := Some now\<rparr>);
                          (case fst u of
                             Some err \<Rightarrow> State_Monad.return (fail 500 ''failed to update intent'')
                           | None \<Rightarrow> do {
                               audit h (LogIntentApproved tenantID (actor_of c) (q_id c) requestID policyResult);
                               notify h (snd u) ''intent.approved'';
                               State_Monad.return (Json 200 (ApproveBody (snd u) policyResult))
                             })
                        })
                     })
                })
           }))
   }"

subsection \<open>Executing an intent\<close>

text \<open>
  \<open>ExecuteIntent\<close> is one long function; it is cut here at its phases, last phase first, each phase
  calling the next. \<open>fail_execution\<close> is the block its error paths repeat.
\<close>

definition fail_execution ::
  "'x IntentHandler \<Rightarrow> Intent \<Rightarrow> string \<Rightarrow> audit_call \<Rightarrow> string \<Rightarrow> error \<Rightarrow> ('x sys, response) op"
where
  "fail_execution h intent reason a e msg = do {
     intent \<leftarrow> settle h (intent\<lparr>i_Status := ''failed'', i_FailureReason := FailureReason reason\<rparr>) a e;
     State_Monad.return (Json 500 (ExecuteBody intent [] msg))
   }"

text \<open>After the chain has taken the transaction: record it and start reconciliation.\<close>

definition exec_record ::
  "'x IntentHandler \<Rightarrow> string \<Rightarrow> string \<Rightarrow> string \<Rightarrow> Intent \<Rightarrow> string \<Rightarrow> byte list \<Rightarrow> SubmitResult
     \<Rightarrow> ('x sys, response) op"
where
  "exec_record h iid tenantID requestID intent blockhash txBytes submitResult = do {
     now2 \<leftarrow> getNow h;
     u \<leftarrow> update h (intent\<lparr>i_Status := ''submitted'', i_ExecutedAt := Some now2,
            i_TXSignature := bytes_of (sub_Signature submitResult)\<rparr>);
     (case fst u of
        Some err \<Rightarrow> State_Monad.return (fail 500 ''failed to update intent'')
      | None \<Rightarrow> do {
          let intent = snd u;
          t_id \<leftarrow> getNow h;
          let txRecord = \<lparr>x_ID = GenerateUUID t_id, x_IntentID = i_ID intent, x_TenantID = tenantID,
                x_WalletID = i_WalletID intent, x_TransactionBytes = txBytes, x_Blockhash = blockhash,
                x_PriorityFee = 0, x_Status = ''submitted'', x_SubmittedAt = Some now2,
                x_ConfirmedAt = None, x_ConfirmSignature = sub_Signature submitResult,
                x_CreatedAt = now2, x_UpdatedAt = now2\<rparr>;
          act (ts_Create (h_txStore h) txRecord) (TxCreated txRecord);
          audit h (LogIntentSubmittedOnChain tenantID ''system'' iid requestID (sub_Signature submitResult));
          notify h intent ''intent.submitted'';
          act (rec_Start (h_reconciler h) (i_ID intent)) (\<lambda>_. Started (i_ID intent));
          State_Monad.return (Json 202 (ExecuteBody intent (sub_Signature submitResult) []))
        })
   }"

definition exec_submit ::
  "'x IntentHandler \<Rightarrow> string \<Rightarrow> string \<Rightarrow> string \<Rightarrow> Intent \<Rightarrow> SolanaTransactionBuilder \<Rightarrow> string
     \<Rightarrow> ('x sys, response) op"
where
  "exec_submit h iid tenantID requestID intent txBuilder blockhash = do {
     txBytes \<leftarrow> act (Build (h_lib h) (h_clock h) txBuilder) (Built txBuilder);
     r \<leftarrow> act (sol_SubmitTransaction (h_solana h) txBytes) (Submitted txBytes);
     (case r of
        Inl err \<Rightarrow> fail_execution h intent SubmissionFailed
          (LogIntentFailed tenantID ''system'' iid requestID err ''submission'')
          ''intent.submission_failed'' ''Solana submission failed''
      | Inr submitResult \<Rightarrow>
        if \<not> sub_Success submitResult then fail_execution h intent SubmissionFailed
          (LogIntentFailed tenantID ''system'' iid requestID (sub_Error submitResult) ''submission'')
          ''intent.submission_failed'' (''Solana submission rejected: '' @ sub_Error submitResult)
        else exec_record h iid tenantID requestID intent blockhash txBytes submitResult)
   }"

definition exec_sign ::
  "'x IntentHandler \<Rightarrow> string \<Rightarrow> string \<Rightarrow> string \<Rightarrow> Intent \<Rightarrow> SolanaTransactionBuilder \<Rightarrow> string
     \<Rightarrow> SimulationResult \<Rightarrow> ('x sys, response) op"
where
  "exec_sign h iid tenantID requestID intent txBuilder blockhash simResult = do {
     let input = \<lparr>si_IntentHash = ComputeIntentHash (gl_sha256 (h_lib h)) intent,
           si_TxHash = sim_TransactionHash simResult, si_Chain = i_Chain intent,
           si_Context = ''vaultforge-intent-'' @ iid\<rparr>;
     r \<leftarrow> act (mpc_Sign (h_mpcSigner h) input) (Signed input);
     (case r of
        Inl err \<Rightarrow> fail_execution h intent SigningFailed
          (LogIntentFailed tenantID ''system'' iid requestID err ''signing'')
          ''intent.signing_failed'' ''MPC signing failed''
      | Inr signingResult \<Rightarrow> do {
          audit h (LogIntentSigned tenantID ''system'' iid requestID (sr_Participants signingResult));
          exec_submit h iid tenantID requestID intent txBuilder blockhash
        })
   }"

definition exec_recheck ::
  "'x IntentHandler \<Rightarrow> string \<Rightarrow> string \<Rightarrow> string \<Rightarrow> Intent \<Rightarrow> SolanaTransactionBuilder \<Rightarrow> string
     \<Rightarrow> SimulationResult \<Rightarrow> ('x sys, response) op"
where
  "exec_recheck h iid tenantID requestID intent txBuilder blockhash simResult = do {
     pr \<leftarrow> evaluate h intent;
     (case pr of
        Inl err \<Rightarrow> fail_execution h intent PolicyDenied
          (LogIntentPolicyDenied tenantID ''system'' iid requestID err)
          ''intent.policy_denied'' ''policy verification failed before signing''
      | Inr policyResult \<Rightarrow>
        if \<not> pr_Allow policyResult then fail_execution h intent PolicyDenied
          (LogIntentPolicyDenied tenantID ''system'' iid requestID ''policy verification failed'')
          ''intent.policy_denied'' ''policy verification failed before signing''
        else exec_sign h iid tenantID requestID intent txBuilder blockhash simResult)
   }"

definition exec_simulate ::
  "'x IntentHandler \<Rightarrow> string \<Rightarrow> string \<Rightarrow> string \<Rightarrow> Intent \<Rightarrow> ('x sys, response) op"
where
  "exec_simulate h iid tenantID requestID intent = do {
     b \<leftarrow> act (sol_GetRecentBlockhash (h_solana h)) GotBlockhash;
     let blockhash = (case b of Inl err \<Rightarrow> ''placeholder-blockhash'' | Inr bh \<Rightarrow> bh);
     let txBuilder = SetBlockhash blockhash
           (NewTransactionBuilder (i_WalletID intent) (i_Token intent) (i_Amount intent)
              (i_Destination intent));
     r \<leftarrow> act (Simulate (h_lib h) (h_clock h) txBuilder) (Simulated txBuilder);
     (case r of
        Inl err \<Rightarrow> fail_execution h intent SimulationFailed
          (LogIntentFailed tenantID ''system'' iid requestID err ''simulation'')
          ''intent.simulation_failed'' ''transaction simulation failed''
      | Inr simResult \<Rightarrow>
        if \<not> sim_Allowed simResult then fail_execution h intent SimulationFailed
          (LogIntentSimulated tenantID ''system'' iid requestID False)
          ''intent.simulation_denied'' ''transaction simulation denied''
        else do {
          audit h (LogIntentSimulated tenantID ''system'' iid requestID True);
          exec_recheck h iid tenantID requestID intent txBuilder blockhash simResult
        })
   }"

text \<open>
  The two guards after the status check. The error of \<open>GetTransactionByNonce\<close> is dropped, so only a
  transaction that is found stops the execution.
\<close>

definition exec_start ::
  "'x IntentHandler \<Rightarrow> string \<Rightarrow> string \<Rightarrow> string \<Rightarrow> Intent \<Rightarrow> ('x sys, response) op"
where
  "exec_start h iid tenantID requestID intent = do {
     t \<leftarrow> getNow h;
     (if i_Expiry intent < t then do {
        intent \<leftarrow> settle h (intent\<lparr>i_Status := ''expired'', i_FailureReason := FailureReason Expired\<rparr>)
          (LogIntentExpired tenantID ''system'' iid requestID) ''intent.expired'';
        State_Monad.return (Json 200 (ExecuteBody intent [] ''intent expired''))
      }
      else do {
        existingTx \<leftarrow> act (is_GetTransactionByNonce (h_store h) (i_Nonce intent))
          (NonceChecked (i_Nonce intent));
        (case existingTx of
           Inr (Some _) \<Rightarrow>
             State_Monad.return (Json 202 (ExecuteBody intent [] ''duplicate execution detected''))
         | _ \<Rightarrow> do {
             now \<leftarrow> getNow h;
             u \<leftarrow> update h (intent\<lparr>i_Status := ''executing'', i_UpdatedAt := now\<rparr>);
             (case fst u of
                Some err \<Rightarrow> State_Monad.return (fail 500 ''failed to update intent'')
              | None \<Rightarrow> do {
                  audit h (LogIntentExecuted tenantID ''user'' iid requestID);
                  notify h (snd u) ''intent.executing'';
                  exec_simulate h iid tenantID requestID (snd u)
                })
           })
      })
   }"

definition ExecuteIntent :: "'x IntentHandler \<Rightarrow> request \<Rightarrow> ('x sys, response) op" where
  "ExecuteIntent h c = do {
     requestID \<leftarrow> request_id h c;
     r \<leftarrow> getByID h (q_id c);
     (case r of
        Inl err \<Rightarrow> State_Monad.return (fail 404 ''intent not found'')
      | Inr intent \<Rightarrow>
        (case q_tenant c of
           None \<Rightarrow> State_Monad.return Panic
         | Some tenantID \<Rightarrow>
           if i_TenantID intent \<noteq> tenantID then State_Monad.return (fail 403 ''access denied'')
           else if i_Status intent \<noteq> ''approved'' then
             State_Monad.return (fail 400 ''intent is not in approved status'')
           else exec_start h (q_id c) tenantID requestID intent))
   }"

subsection \<open>Rejecting and cancelling\<close>

text \<open>What follows the guards is the same in both; the event name is the argument.\<close>

definition withdraw ::
  "'x IntentHandler \<Rightarrow> request \<Rightarrow> string \<Rightarrow> string \<Rightarrow> Intent \<Rightarrow> string \<Rightarrow> ('x sys, response) op"
where
  "withdraw h c tenantID requestID intent e = do {
     now \<leftarrow> getNow h;
     u \<leftarrow> update h (intent\<lparr>i_Status := ''rejected'', i_FailureReason := FailureReason Rejected,
            i_UpdatedAt := now\<rparr>);
     (case fst u of
        Some err \<Rightarrow> State_Monad.return (fail 500 ''failed to update intent'')
      | None \<Rightarrow> do {
          audit h (LogIntentRejected tenantID (actor_of c) (q_id c) requestID);
          notify h (snd u) e;
          State_Monad.return (Json 200 (IntentBody (snd u)))
        })
   }"

definition RejectIntent :: "'x IntentHandler \<Rightarrow> request \<Rightarrow> ('x sys, response) op" where
  "RejectIntent h c = do {
     requestID \<leftarrow> request_id h c;
     r \<leftarrow> getByID h (q_id c);
     (case r of
        Inl err \<Rightarrow> State_Monad.return (fail 404 ''intent not found'')
      | Inr intent \<Rightarrow>
        (case q_tenant c of
           None \<Rightarrow> State_Monad.return Panic
         | Some tenantID \<Rightarrow>
           if i_TenantID intent \<noteq> tenantID then State_Monad.return (fail 403 ''access denied'')
           else withdraw h c tenantID requestID intent ''intent.rejected''))
   }"

definition CancelIntent :: "'x IntentHandler \<Rightarrow> request \<Rightarrow> ('x sys, response) op" where
  "CancelIntent h c = do {
     requestID \<leftarrow> request_id h c;
     r \<leftarrow> getByID h (q_id c);
     (case r of
        Inl err \<Rightarrow> State_Monad.return (fail 404 ''intent not found'')
      | Inr intent \<Rightarrow>
        (case q_tenant c of
           None \<Rightarrow> State_Monad.return Panic
         | Some tenantID \<Rightarrow>
           if i_TenantID intent \<noteq> tenantID then State_Monad.return (fail 403 ''access denied'')
           else if i_Status intent \<noteq> ''pending'' \<and> i_Status intent \<noteq> ''executing'' then
             State_Monad.return (fail 400 ''intent cannot be cancelled in current status'')
           else withdraw h c tenantID requestID intent ''intent.cancelled''))
   }"

subsection \<open>Reading\<close>

definition GetIntent :: "'x IntentHandler \<Rightarrow> request \<Rightarrow> ('x sys, response) op" where
  "GetIntent h c = do {
     r \<leftarrow> getByID h (q_id c);
     (case r of
        Inl err \<Rightarrow> State_Monad.return (fail 404 ''intent not found'')
      | Inr intent \<Rightarrow>
        (case q_tenant c of
           None \<Rightarrow> State_Monad.return Panic
         | Some tenantID \<Rightarrow>
           if i_TenantID intent \<noteq> tenantID then State_Monad.return (fail 403 ''access denied'')
           else State_Monad.return (Json 200 (IntentBody intent))))
   }"

definition GetWallet :: "'x IntentHandler \<Rightarrow> request \<Rightarrow> ('x sys, response) op" where
  "GetWallet h c = do {
     r \<leftarrow> act (is_GetWallet (h_store h) (q_id c)) (\<lambda>_. Queried);
     (case r of
        Inl err \<Rightarrow> State_Monad.return (fail 404 ''wallet not found'')
      | Inr wallet \<Rightarrow>
        (case q_tenant c of
           None \<Rightarrow> State_Monad.return Panic
         | Some tenantID \<Rightarrow>
           if w_TenantID wallet \<noteq> tenantID then State_Monad.return (fail 403 ''access denied'')
           else State_Monad.return (Json 200 (WalletBody wallet))))
   }"

text \<open>The four lists differ in the store call, the response and the error message.\<close>

definition list_handler ::
  "request \<Rightarrow> (string \<Rightarrow> ('x sys, error + 'a) op) \<Rightarrow> error \<Rightarrow> ('a \<Rightarrow> payload) \<Rightarrow> ('x sys, response) op"
where
  "list_handler c query msg body =
    (case q_tenant c of
       None \<Rightarrow> State_Monad.return Panic
     | Some tenantID \<Rightarrow> do {
         r \<leftarrow> query tenantID;
         (case r of
            Inl err \<Rightarrow> State_Monad.return (fail 500 msg)
          | Inr xs \<Rightarrow> State_Monad.return (Json 200 (body xs)))
       })"

definition ListIntents :: "'x IntentHandler \<Rightarrow> request \<Rightarrow> ('x sys, response) op" where
  "ListIntents h c = list_handler c (\<lambda>t. act (is_ListByTenant (h_store h) t (q_status c)) Listed)
     ''failed to list intents'' IntentsBody"

definition ListWallets :: "'x IntentHandler \<Rightarrow> request \<Rightarrow> ('x sys, response) op" where
  "ListWallets h c = list_handler c (\<lambda>t. act (is_ListWallets (h_store h) t) (\<lambda>_. Queried))
     ''failed to list wallets'' WalletsBody"

definition ListTransactions :: "'x IntentHandler \<Rightarrow> request \<Rightarrow> ('x sys, response) op" where
  "ListTransactions h c = list_handler c (\<lambda>t. act (is_ListTransactions (h_store h) t) (\<lambda>_. Queried))
     ''failed to list transactions'' TransactionsBody"

definition ListAuditEvents :: "'x IntentHandler \<Rightarrow> request \<Rightarrow> ('x sys, response) op" where
  "ListAuditEvents h c = list_handler c
     (\<lambda>t. act (is_ListAuditEvents (h_store h) t (q_action c)) (\<lambda>_. Queried))
     ''failed to list audit events'' EventsBody"

subsection \<open>The routes\<close>

datatype route =
    PostIntent | GetIntents | GetIntentID | PostApprove | PostReject | PostExecute | PostCancel
  | GetWallets | GetWalletID | GetTransactions | GetAuditEvents

fun RegisterRoutes :: "route \<Rightarrow> 'x IntentHandler \<Rightarrow> request \<Rightarrow> ('x sys, response) op" where
  "RegisterRoutes PostIntent h = CreateIntent h"
| "RegisterRoutes GetIntents h = ListIntents h"
| "RegisterRoutes GetIntentID h = GetIntent h"
| "RegisterRoutes PostApprove h = ApproveIntent h"
| "RegisterRoutes PostReject h = RejectIntent h"
| "RegisterRoutes PostExecute h = ExecuteIntent h"
| "RegisterRoutes PostCancel h = CancelIntent h"
| "RegisterRoutes GetWallets h = ListWallets h"
| "RegisterRoutes GetWalletID h = GetWallet h"
| "RegisterRoutes GetTransactions h = ListTransactions h"
| "RegisterRoutes GetAuditEvents h = ListAuditEvents h"

lemmas handler_defs = CreateIntent_def ApproveIntent_def ExecuteIntent_def RejectIntent_def
  CancelIntent_def withdraw_def ListIntents_def GetIntent_def GetWallet_def ListWallets_def
  ListTransactions_def ListAuditEvents_def list_handler_def

lemmas exec_defs = exec_start_def exec_simulate_def exec_recheck_def exec_sign_def exec_submit_def
  exec_record_def fail_execution_def settle_def

end
