(* ===== verification/VF_Mocks.thy ===== *)
theory VF_Mocks
  imports VF_Interfaces "HOL-Library.AList"
begin

section \<open>The in-memory implementations\<close>

text \<open>
  \<open>services/api/core/mocks.go\<close>: the in-memory stores and the no-op services the repository ships
  for its own tests. A Go map is an association list with \<open>AList.update\<close>; \<open>range\<close> visits it in an
  unspecified order, which is the argument \<open>visit\<close>. The mocks hand out pointers into the map: a
  caller that changes the struct changes the map. Every caller under \<open>services/api/routes\<close> writes the
  struct back by the next store call, so the copies of the model give the same maps between calls.
\<close>

record MockIntentStore =
  mk_Intents :: "(string \<times> Intent) list"
  mk_Wallets :: "(string \<times> Wallet) list"
  mk_Transactions :: "(string \<times> Transaction) list"
  mk_AuditEvents :: "(string \<times> AuditEvent) list"
  mk_NonceToTx :: "(string \<times> Transaction) list"

definition NewMockIntentStore :: MockIntentStore where
  "NewMockIntentStore =
    \<lparr>mk_Intents = [], mk_Wallets = [], mk_Transactions = [], mk_AuditEvents = [], mk_NonceToTx = []\<rparr>"

record MockPolicyDB =
  mp_Wallets :: "(string \<times> Wallet) list"
  mp_Tenants :: "(string \<times> Tenant) list"
  mp_Policies :: "(string \<times> Policy list) list"

definition NewMockPolicyDB :: MockPolicyDB where
  "NewMockPolicyDB = \<lparr>mp_Wallets = [], mp_Tenants = [], mp_Policies = []\<rparr>"

text \<open>Everything the mocks keep, and the clock of the machine they run on.\<close>

record mock_world =
  mw_store :: MockIntentStore
  mw_txs :: "(string \<times> Transaction) list"
  mw_policy :: MockPolicyDB
  mw_started :: "string list"
  mw_now :: time

type_synonym 'a mock_op = "(mock_world, 'a) op"

definition lookup_err :: "string \<Rightarrow> string \<Rightarrow> (string \<times> 'r) list \<Rightarrow> error + 'r" where
  "lookup_err what i m =
    (case map_of m i of Some r \<Rightarrow> Inr r | None \<Rightarrow> Inl (what @ i @ '' not found''))"

definition gets :: "(mock_world \<Rightarrow> 'a) \<Rightarrow> 'a mock_op" where
  "gets f = State_Monad.State (\<lambda>m. (f m, m))"

definition modify :: "(mock_world \<Rightarrow> mock_world) \<Rightarrow> unit mock_op" where
  "modify f = State_Monad.State (\<lambda>m. ((), f m))"

subsection \<open>The intent store\<close>

definition mock_put :: "Intent \<Rightarrow> (error option \<times> Intent) mock_op" where
  "mock_put intent = do {
     modify (\<lambda>m. m\<lparr>mw_store := (mw_store m)
       \<lparr>mk_Intents := AList.update (i_ID intent) intent (mk_Intents (mw_store m))\<rparr>\<rparr>);
     State_Monad.return (None, intent)
   }"

text \<open>\<open>visit\<close> is the order in which \<open>range\<close> visits the keys of a map.\<close>

definition ranged :: "(string list \<Rightarrow> string list) \<Rightarrow> (string \<times> 'r) list \<Rightarrow> 'r list" where
  "ranged visit m = List.map_filter (map_of m) (visit (map fst m))"

definition mock_IntentStore :: "(string list \<Rightarrow> string list) \<Rightarrow> mock_world IntentStore" where
  "mock_IntentStore visit =
    \<lparr> is_Create = mock_put,
      is_GetByID = (\<lambda>i. gets (\<lambda>m. lookup_err ''intent '' i (mk_Intents (mw_store m)))),
      is_Update = mock_put,
      is_ListByTenant = (\<lambda>t status. gets (\<lambda>m. Inr
        (filter (\<lambda>i. i_TenantID i = t \<and> (status = [] \<or> i_Status i = status))
           (ranged visit (mk_Intents (mw_store m)))))),
      is_GetTransactionByNonce = (\<lambda>n. gets (\<lambda>m. Inr (map_of (mk_NonceToTx (mw_store m)) n))),
      is_GetWallet = (\<lambda>i. gets (\<lambda>m. lookup_err ''wallet '' i (mk_Wallets (mw_store m)))),
      is_ListWallets = (\<lambda>t. gets (\<lambda>m. Inr
        (filter (\<lambda>w. w_TenantID w = t) (ranged visit (mk_Wallets (mw_store m)))))),
      is_ListTransactions = (\<lambda>t. gets (\<lambda>m. Inr
        (filter (\<lambda>x. x_TenantID x = t) (ranged visit (mk_Transactions (mw_store m)))))),
      is_ListAuditEvents = (\<lambda>t action. gets (\<lambda>m. Inr
        (filter (\<lambda>e. a_TenantID e = t \<and> (action = [] \<or> a_Action e = action))
           (ranged visit (mk_AuditEvents (mw_store m)))))) \<rparr>"

subsection \<open>The transaction store\<close>

definition mock_tx_put :: "Transaction \<Rightarrow> error option mock_op" where
  "mock_tx_put tx = do {
     modify (\<lambda>m. m\<lparr>mw_txs := AList.update (x_ID tx) tx (mw_txs m)\<rparr>);
     State_Monad.return None
   }"

definition mock_TransactionStore :: "(string list \<Rightarrow> string list) \<Rightarrow> mock_world TransactionStore" where
  "mock_TransactionStore visit =
    \<lparr> ts_Create = mock_tx_put,
      ts_GetByID = (\<lambda>i. gets (\<lambda>m. lookup_err ''transaction '' i (mw_txs m))),
      ts_GetByIntentID = (\<lambda>i. gets (\<lambda>m.
        case List.find (\<lambda>tx. x_IntentID tx = i) (ranged visit (mw_txs m)) of
          Some tx \<Rightarrow> Inr tx
        | None \<Rightarrow> Inl (''transaction for intent '' @ i @ '' not found''))),
      ts_Update = mock_tx_put,
      ts_ListByTenant = (\<lambda>t. gets (\<lambda>m. Inr
        (filter (\<lambda>x. x_TenantID x = t) (ranged visit (mw_txs m))))) \<rparr>"

subsection \<open>The services\<close>

text \<open>The function fields of the mocks may be nil, which is \<open>None\<close>.\<close>

definition mock_GenerateProof ::
  "(PolicyInputs \<Rightarrow> error + ZKProof) option \<Rightarrow> PolicyInputs \<Rightarrow> (error + ZKProof) mock_op"
where
  "mock_GenerateProof fn input = State_Monad.return
    (case fn of
       Some f \<Rightarrow> f input
     | None \<Rightarrow> Inr \<lparr>z_ProofID = ''mock-proof-id'', z_PublicInputs = JNull,
                    z_ProofBytes = ''{\"test\":\"proof\"}''\<rparr>)"

definition mock_VerifyPolicyProof ::
  "(ZKProof option \<Rightarrow> error + bool) option \<Rightarrow> ZKProof option \<Rightarrow> (error + bool) mock_op"
where
  "mock_VerifyPolicyProof fn proof =
     State_Monad.return (case fn of Some f \<Rightarrow> f proof | None \<Rightarrow> Inr True)"

definition mock_Sign ::
  "(SigningInput \<Rightarrow> error + SigningResult) option \<Rightarrow> SigningInput \<Rightarrow> (error + SigningResult) mock_op"
where
  "mock_Sign fn input = State_Monad.return
    (case fn of
       Some f \<Rightarrow> f input
     | None \<Rightarrow> Inr \<lparr>sr_Signature = replicate 64 0, sr_Participants = [1, 2]\<rparr>)"

definition mock_Reconciler :: "mock_world Reconciler" where
  "mock_Reconciler = \<lparr>rec_Start = (\<lambda>i. modify (\<lambda>m. m\<lparr>mw_started := mw_started m @ [i]\<rparr>))\<rparr>"

definition mock_PolicyDB :: "mock_world DBQuerier" where
  "mock_PolicyDB =
    \<lparr> db_GetWallet = (\<lambda>i. gets (\<lambda>m. lookup_err ''wallet '' i (mp_Wallets (mw_policy m)))),
      db_GetTenant = (\<lambda>i. gets (\<lambda>m. lookup_err ''tenant '' i (mp_Tenants (mw_policy m)))),
      db_ListPolicies = (\<lambda>t. gets (\<lambda>m. Inr
        (case map_of (mp_Policies (mw_policy m)) t of Some p \<Rightarrow> p | None \<Rightarrow> []))) \<rparr>"

definition mock_AuditLogger :: "mock_world IntentAuditor" where
  "mock_AuditLogger = \<lparr>au_log = (\<lambda>_. State_Monad.return ())\<rparr>"

definition mock_SolanaClient :: "mock_world SolanaSubmitter" where
  "mock_SolanaClient =
    \<lparr> sol_SubmitTransaction = (\<lambda>_. State_Monad.return
        (Inr \<lparr>sub_Signature = ''mock-sig-123'', sub_Success = True, sub_Error = []\<rparr>)),
      sol_WaitForConfirmation = (\<lambda>_. State_Monad.return (Inr True)),
      sol_GetRecentBlockhash = State_Monad.return (Inr ''mock-blockhash'') \<rparr>"

definition mock_WebhookNotifier :: "mock_world StateNotifier" where
  "mock_WebhookNotifier =
    \<lparr> wh_NotifyIntentStateChange = (\<lambda>_ _. State_Monad.return ()),
      wh_NotifyTransactionConfirmed = (\<lambda>_. State_Monad.return ()) \<rparr>"

text \<open>A clock that shows \<open>mw_now\<close> and advances by a nanosecond at every reading.\<close>

definition mock_clock :: "time mock_op" where
  "mock_clock = State_Monad.State (\<lambda>m. (mw_now m, m\<lparr>mw_now := mw_now m + 1\<rparr>))"

lemmas mock_defs = mock_put_def mock_IntentStore_def mock_tx_put_def mock_TransactionStore_def
  mock_GenerateProof_def mock_VerifyPolicyProof_def mock_Sign_def mock_Reconciler_def
  mock_PolicyDB_def mock_AuditLogger_def mock_SolanaClient_def mock_WebhookNotifier_def
  mock_clock_def gets_def modify_def lookup_err_def

end
