(* ===== verification/VF_Protocol.thy ===== *)
theory VF_Protocol
  imports VF_Handlers VF_Mocks
begin

section \<open>The protocol of the handlers\<close>

text \<open>
  What the handlers of \<open>services/api/routes/intent_routes.go\<close> do at their interfaces, for every
  implementation of the interfaces: which calls come before a signature, a submission, an approval
  or a write, and which follow. Each phase has a lemma with the calls it
  appends; the properties follow from them.
\<close>

subsection \<open>Calls and results\<close>

text \<open>Calls that appear in a trail with the result the property wants.\<close>

fun is_signed :: "call \<Rightarrow> bool" where
  "is_signed (Signed _ _) = True" | "is_signed _ = False"

fun is_submitted :: "call \<Rightarrow> bool" where
  "is_submitted (Submitted _ _) = True" | "is_submitted _ = False"

fun is_updated :: "call \<Rightarrow> bool" where
  "is_updated (Updated _ _) = True" | "is_updated _ = False"

fun is_created :: "call \<Rightarrow> bool" where
  "is_created (Created _ _) = True" | "is_created _ = False"

fun is_audited :: "call \<Rightarrow> bool" where
  "is_audited (Audited _) = True" | "is_audited _ = False"

definition chain_calls :: "call list \<Rightarrow> nat" where
  "chain_calls tr = length (filter is_submitted tr)"

lemmas handler_flat = request_id_def call_defs exec_defs State_Monad.bind_assoc bind_if
  State_Monad.bind_left_identity

subsection \<open>The conditions of the properties\<close>

text \<open>
  An intent was loaded for this request and belongs to the tenant that asks; the calls that follow
  the load satisfy \<open>P\<close>.
\<close>

fun owned_then :: "request \<Rightarrow> (Intent \<Rightarrow> call list \<Rightarrow> bool) \<Rightarrow> call list \<Rightarrow> bool" where
  "owned_then c P [] = False"
| "owned_then c P (e # es) =
    ((case e of
        Loaded j (Inr i) \<Rightarrow> j = q_id c \<and> q_tenant c = Some (i_TenantID i) \<and> P i es
      | _ \<Rightarrow> False) \<or> owned_then c P es)"

definition owned :: "request \<Rightarrow> (Intent \<Rightarrow> bool) \<Rightarrow> call list \<Rightarrow> bool" where
  "owned c P past = owned_then c (\<lambda>i _. P i) past"

definition intent_builder :: "string \<Rightarrow> Intent \<Rightarrow> SolanaTransactionBuilder" where
  "intent_builder blockhash i = SetBlockhash blockhash
     (NewTransactionBuilder (i_WalletID i) (i_Token i) (i_Amount i) (i_Destination i))"

text \<open>
  What the handlers rely on in a store's \<open>Update\<close>: the intent behind the pointer it is given is left as
  it is but for its \<open>UpdatedAt\<close>.
\<close>

definition update_keeps :: "'x IntentHandler \<Rightarrow> bool" where
  "update_keeps h \<longleftrightarrow>
     (\<forall>i x. case fst (run_state (is_Update (h_store h) i) x) of (e, j) \<Rightarrow>
        \<exists>t. j = i\<lparr>i_UpdatedAt := t\<rparr>)"

text \<open>The loaded intent as the execution marks it: only the status and \<open>UpdatedAt\<close> differ.\<close>

definition marked :: "Intent \<Rightarrow> Intent \<Rightarrow> bool" where
  "marked l i \<longleftrightarrow> i = l\<lparr>i_Status := ''executing'', i_UpdatedAt := i_UpdatedAt i\<rparr>"

text \<open>The transaction built from the loaded intent and the blockhash the chain gave was simulated.\<close>

definition simulated_for :: "Intent \<Rightarrow> SolanaTransactionBuilder \<Rightarrow> call list \<Rightarrow> bool" where
  "simulated_for l b es \<longleftrightarrow>
     list_ex (\<lambda>e. case e of GotBlockhash r \<Rightarrow>
       b = intent_builder (case r of Inl _ \<Rightarrow> ''placeholder-blockhash'' | Inr bh \<Rightarrow> bh) l | _ \<Rightarrow> False) es"

text \<open>
  A signature may be asked for: the intent was loaded as approved by its tenant and had not expired
  at the clock reading that follows the load; then its marking as executing was accepted by the store,
  the transaction built from the loaded intent was simulated and allowed, the policies allowed the
  marked intent, and the signing input names that transaction and that intent.
\<close>

definition cleared :: "golib \<Rightarrow> request \<Rightarrow> SigningInput \<Rightarrow> Intent \<Rightarrow> call list \<Rightarrow> bool" where
  "cleared L c input l es \<longleftrightarrow>
     i_Status l = ''approved'' \<and> (case es of Now t # _ \<Rightarrow> t \<le> i_Expiry l | _ \<Rightarrow> False) \<and>
     list_ex (\<lambda>e. case e of Updated i None \<Rightarrow> marked l i | _ \<Rightarrow> False) es \<and>
     list_ex (\<lambda>e. case e of Simulated b (Inr r) \<Rightarrow>
       sim_Allowed r \<and> si_TxHash input = sim_TransactionHash r \<and> simulated_for l b es
       | _ \<Rightarrow> False) es \<and>
     list_ex (\<lambda>e. case e of Evaluated i (Inr r) \<Rightarrow> pr_Allow r \<and> marked l i | _ \<Rightarrow> False) es \<and>
     si_IntentHash input = ComputeIntentHash (gl_sha256 L) (l\<lparr>i_Status := ''executing''\<rparr>) \<and>
     si_Chain input = i_Chain l \<and> si_Context input = ''vaultforge-intent-'' @ q_id c"

fun sign_ok :: "golib \<Rightarrow> request \<Rightarrow> call list \<Rightarrow> call \<Rightarrow> bool" where
  "sign_ok L c past (Signed input _) \<longleftrightarrow> owned_then c (cleared L c input) past"
| "sign_ok L c past _ = True"

text \<open>
  A submission may be made: after the intent was loaded a signature for the transaction built from
  it came back and was audited, and the bytes are what \<open>Build\<close> returned for that same transaction.
\<close>

definition signed_for :: "golib \<Rightarrow> request \<Rightarrow> byte list \<Rightarrow> Intent \<Rightarrow> call list \<Rightarrow> bool" where
  "signed_for L c bs l es \<longleftrightarrow>
     list_ex (\<lambda>e. case e of Signed input (Inr sr) \<Rightarrow>
       cleared L c input l es \<and>
       list_ex (\<lambda>e. case e of Audited (LogIntentSigned _ _ iid _ ps) \<Rightarrow>
         iid = q_id c \<and> ps = sr_Participants sr | _ \<Rightarrow> False) es | _ \<Rightarrow> False) es \<and>
     list_ex (\<lambda>e. case e of Built b bs' \<Rightarrow> bs' = bs \<and> simulated_for l b es \<and>
       list_ex (\<lambda>e. case e of Simulated b' (Inr r) \<Rightarrow> b' = b \<and> sim_Allowed r | _ \<Rightarrow> False) es
       | _ \<Rightarrow> False) es"

fun submit_ok :: "golib \<Rightarrow> request \<Rightarrow> call list \<Rightarrow> call \<Rightarrow> bool" where
  "submit_ok L c past (Submitted bs _) \<longleftrightarrow> owned_then c (signed_for L c bs) past"
| "submit_ok L c past _ = True"

text \<open>An intent may become approved: pending, allowed by the policies, and its proof verified.\<close>

fun approve_ok :: "request \<Rightarrow> call list \<Rightarrow> call \<Rightarrow> bool" where
  "approve_ok c past (Updated j _) \<longleftrightarrow>
     (if i_Status j = ''approved'' then
        owned c (\<lambda>i. i_Status i = ''pending'' \<and>
          j = i\<lparr>i_Status := ''approved'', i_ApprovedAt := i_ApprovedAt j\<rparr> \<and>
          list_ex (\<lambda>e. case e of Evaluated i' (Inr r) \<Rightarrow> i' = i \<and> pr_Allow r | _ \<Rightarrow> False) past \<and>
          list_ex (\<lambda>e. case e of Proved inp (Inr p) \<Rightarrow>
            pi_Amount inp = i_Amount i \<and> pi_DailyLimit inp = Some 100000 \<and>
            pi_IntentID inp = i_ID i \<and> pi_WalletID inp = i_WalletID i \<and>
            pi_PolicyVersion inp = i_PolicyVersion i \<and>
            list_ex (\<lambda>e. case e of Verified p' r \<Rightarrow> p' = p \<and> r = Inr True | _ \<Rightarrow> False) past
            | _ \<Rightarrow> False) past) past
      else True)"
| "approve_ok c past _ = True"

text \<open>The calls that change something, and the intents a response shows.\<close>

fun changes :: "call \<Rightarrow> bool" where
  "changes (Updated _ _) = True"
| "changes (Signed _ _) = True"
| "changes (Submitted _ _) = True"
| "changes (TxCreated _ _) = True"
| "changes (Started _) = True"
| "changes _ = False"

definition owner_ok :: "request \<Rightarrow> call list \<Rightarrow> call \<Rightarrow> bool" where
  "owner_ok c past e = owned c (\<lambda>_. True) past"

definition shows_intent :: "response \<Rightarrow> bool" where
  "shows_intent r = (case r of
     Json _ (IntentBody _) \<Rightarrow> True | Json _ (ApproveBody _ _) \<Rightarrow> True
   | Json _ (ExecuteBody _ _ _) \<Rightarrow> True | _ \<Rightarrow> False)"

text \<open>Every successful write of an intent is audited before the next one and before the response.\<close>

fun answered :: "bool \<Rightarrow> call list \<Rightarrow> bool" where
  "answered due [] = (\<not> due)"
| "answered due (Updated _ err # es) = (\<not> due \<and> answered (err = None) es)"
| "answered due (Created _ err # es) = (\<not> due \<and> answered (err = None) es)"
| "answered due (Audited _ # es) = answered False es"
| "answered due (e # es) = answered due es"

text \<open>A write that ends an intent gives its reason.\<close>

fun reasoned :: "call \<Rightarrow> bool" where
  "reasoned (Updated i _) = (if i_Status i \<in> {''failed'', ''expired'', ''rejected''}
     then i_FailureReason i \<in> Some ` {PolicyDenied, Expired, SimulationFailed, SigningFailed,
       SubmissionFailed, Rejected} else True)"
| "reasoned _ = True"

lemmas protocol_defs = owned_def cleared_def signed_for_def simulated_for_def marked_def owner_ok_def
  shows_intent_def intent_builder_def chain_calls_def

subsection \<open>What each handler appends\<close>

lemma appends_update:
  assumes "update_keeps h"
    and "\<And>e t. appends (\<lambda>fs r. P (Updated i e # fs) r) (f (e, i\<lparr>i_UpdatedAt := t\<rparr>))"
  shows "appends P (State_Monad.bind (act (is_Update (h_store h) i) (\<lambda>r. Updated i (fst r))) f)"
proof (rule appends_bind, unfold appends_def, intro allI wpI)
  fix s :: "'a sys" and r t
  assume run: "run_state (act (is_Update (h_store h) i) (\<lambda>r. Updated i (fst r))) s = (r, t)"
  then obtain x where x: "run_state (is_Update (h_store h) i) (ext s) = (r, x)"
    and t: "trail t = trail s @ [Updated i (fst r)]"
    by (auto simp: act_def split: prod.splits)
  from assms(1) x obtain u where "r = (fst r, i\<lparr>i_UpdatedAt := u\<rparr>)"
    by (auto simp: update_keeps_def dest!: spec [of _ i] spec [of _ "ext s"])
  with assms(2) [of "fst r" u] t
  show "\<exists>es. trail t = trail s @ es \<and>
      (\<forall>s. wp (f r) (\<lambda>r t. \<exists>es'. trail t = trail s @ es' \<and> P (es @ es') r) s)"
    by (auto simp: appends_def)
qed

lemma ExecuteIntent_signs:
  assumes "update_keeps h"
  shows "appends (\<lambda>es r. guarded (sign_ok (h_lib h) c) is_signed [] es) (ExecuteIntent h c)"
  unfolding ExecuteIntent_def handler_flat
proof (intro appends_update [OF assms] appends_rules)
qed (simp_all add: protocol_defs SetBlockhash_def
      ComputeIntentHash_def intent_preimage_def)

lemma ExecuteIntent_submits:
  assumes "update_keeps h"
  shows "appends (\<lambda>es r. guarded (submit_ok (h_lib h) c) is_submitted [] es \<and> chain_calls es \<le> 1)
    (ExecuteIntent h c)"
  unfolding ExecuteIntent_def handler_flat
proof (intro appends_update [OF assms] appends_rules)
qed (simp_all add: protocol_defs SetBlockhash_def
      ComputeIntentHash_def intent_preimage_def)

lemma ApproveIntent_approves:
  "appends (\<lambda>es r. guarded (approve_ok c) is_updated [] es) (ApproveIntent h c)"
  unfolding ApproveIntent_def handler_flat
  by (intro appends_rules) (simp_all add: protocol_defs)

lemma routes_answered: "appends (\<lambda>es r. answered False es) (RegisterRoutes rt h c)"
  unfolding handler_defs handler_flat
  by (cases rt; simp only: RegisterRoutes.simps handler_defs handler_flat; (intro appends_rules)?) simp_all

text \<open>A successful execution, in the response and in the calls.\<close>

definition executed :: "response \<Rightarrow> bool" where
  "executed r = (case r of
     Json code (ExecuteBody _ _ msg) \<Rightarrow> code = 202 \<and> msg = [] | _ \<Rightarrow> False)"

fun submitted_write :: "call \<Rightarrow> bool" where
  "submitted_write (Updated i err) \<longleftrightarrow> err = None \<and> i_Status i = ''submitted''"
| "submitted_write _ = False"

fun is_started :: "call \<Rightarrow> bool" where
  "is_started (Started _) = True" | "is_started _ = False"

text \<open>The transaction store is handed a record; the handler drops its answer.\<close>

fun is_handed_over :: "call \<Rightarrow> bool" where
  "is_handed_over (TxCreated _ _) = True" | "is_handed_over _ = False"

text \<open>
  The loaded intent as a success leaves it: submitted, with the signature the chain gave, at a time of
  the clock.
\<close>

definition submitted_as :: "Intent \<Rightarrow> SubmitResult \<Rightarrow> Intent \<Rightarrow> bool" where
  "submitted_as l r i \<longleftrightarrow>
     i = l\<lparr>i_Status := ''submitted'', i_ExecutedAt := i_ExecutedAt i,
       i_TXSignature := bytes_of (sub_Signature r), i_UpdatedAt := i_UpdatedAt i\<rparr> \<and>
     i_ExecutedAt i \<noteq> None"

definition after_acceptance ::
  "request \<Rightarrow> (Intent \<Rightarrow> byte list \<Rightarrow> SubmitResult \<Rightarrow> bool) \<Rightarrow> call list \<Rightarrow> bool" where
  "after_acceptance c P past = owned_then c (\<lambda>l es. list_ex (\<lambda>e. case e of
     Submitted bs (Inr r) \<Rightarrow> sub_Success r \<and> P l bs r | _ \<Rightarrow> False) es) past"

text \<open>
  Each effect of a success comes after a submission the chain accepted for an intent that was loaded
  for the request and is its tenant's, and is made from that intent and that submission.
\<close>

fun effect_ok :: "request \<Rightarrow> call list \<Rightarrow> call \<Rightarrow> bool" where
  "effect_ok c past (Updated i _) \<longleftrightarrow> after_acceptance c (\<lambda>l bs r. submitted_as l r i) past"
| "effect_ok c past (TxCreated tx _) \<longleftrightarrow> after_acceptance c (\<lambda>l bs r.
     x_IntentID tx = i_ID l \<and> x_TenantID tx = i_TenantID l \<and> x_WalletID tx = i_WalletID l \<and>
     x_TransactionBytes tx = bs \<and> x_ConfirmSignature tx = sub_Signature r \<and>
     x_Status tx = ''submitted'' \<and> x_ConfirmedAt tx = None \<and> x_PriorityFee tx = 0) past"
| "effect_ok c past (Started iid) \<longleftrightarrow> after_acceptance c (\<lambda>l bs r. iid = i_ID l) past"
| "effect_ok c past _ = True"

definition success_shows :: "request \<Rightarrow> call list \<Rightarrow> response \<Rightarrow> bool" where
  "success_shows c tr r = (case r of
     Json _ (ExecuteBody j sig _) \<Rightarrow>
       after_acceptance c (\<lambda>l bs sr. submitted_as l sr j \<and> sig = sub_Signature sr) tr
   | _ \<Rightarrow> False)"

definition execution_outcome :: "request \<Rightarrow> call list \<Rightarrow> response \<Rightarrow> bool" where
  "execution_outcome c tr r \<longleftrightarrow>
     executed r = list_ex submitted_write tr \<and>
     executed r = list_ex is_started tr \<and>
     executed r = list_ex is_handed_over tr \<and>
     (executed r \<longrightarrow> success_shows c tr r) \<and>
     guarded (effect_ok c) (\<lambda>e. submitted_write e \<or> is_handed_over e \<or> is_started e) [] tr"

lemmas outcome_defs = execution_outcome_def executed_def success_shows_def after_acceptance_def
  submitted_as_def

lemma ExecuteIntent_outcome:
  assumes "update_keeps h"
  shows "appends (execution_outcome c) (ExecuteIntent h c)"
  unfolding ExecuteIntent_def handler_flat
proof (intro appends_update [OF assms] appends_rules)
qed (simp_all add: outcome_defs)

text \<open>Creation: the input is valid, the intent is pending, carries the input and is no duplicate.\<close>

fun create_ok :: "golib \<Rightarrow> request \<Rightarrow> call list \<Rightarrow> call \<Rightarrow> bool" where
  "create_ok L c past (Created i _) \<longleftrightarrow>
     (case q_body c of Inl _ \<Rightarrow> False | Inr input \<Rightarrow>
        ValidateIntentInput (gl_unicode L) (ci_WalletID input) (ci_Destination input)
          (ci_Token input) (ci_Chain input) (ci_Creator input) (ci_Amount input) = [] \<and>
        i_Status i = ''pending'' \<and> q_tenant c = Some (i_TenantID i) \<and>
        i_WalletID i = ci_WalletID input \<and> i_Destination i = ci_Destination input \<and>
        i_Token i = ci_Token input \<and> i_Chain i = ci_Chain input \<and> i_Creator i = ci_Creator input \<and>
        i_Amount i = AmountToString (ci_Amount input) \<and>
        i_Expiry i = i_CreatedAt i + 3600 * second \<and> i_FailureReason i = None \<and>
        (q_idempotencyKey c = [] \<or>
         list_ex (\<lambda>e. case e of
            Listed (Inr es) \<Rightarrow> \<not> list_ex (is_duplicate input) es | Listed (Inl _) \<Rightarrow> True
          | _ \<Rightarrow> False) past))"
| "create_ok L c past _ = True"

fun created_ok :: "call \<Rightarrow> bool" where
  "created_ok (Created _ err) = (err = None)" | "created_ok _ = False"

definition creation_outcome :: "golib \<Rightarrow> request \<Rightarrow> call list \<Rightarrow> response \<Rightarrow> bool" where
  "creation_outcome L c tr r \<longleftrightarrow>
     guarded (create_ok L c) is_created [] tr \<and> list_all (\<lambda>e. \<not> changes e) tr \<and>
     length (filter is_created tr) \<le> 1 \<and>
     (case r of Json code _ \<Rightarrow> code = 201 | _ \<Rightarrow> False) = list_ex created_ok tr"

lemma CreateIntent_creates: "appends (creation_outcome (h_lib h) c) (CreateIntent h c)"
  unfolding CreateIntent_def handler_flat
  by (intro appends_rules)
    (simp_all add: creation_outcome_def NewIntent_def AmountToString_def split: sum.splits)

definition by_id_route :: "route \<Rightarrow> bool" where
  "by_id_route rt \<longleftrightarrow>
     rt \<in> {GetIntentID, PostApprove, PostReject, PostExecute, PostCancel}"

lemma routes_owner:
  "by_id_route rt \<Longrightarrow> appends (\<lambda>es r. guarded (owner_ok c) changes [] es \<and>
      (shows_intent r \<longrightarrow> owned c (\<lambda>_. True) es)) (RegisterRoutes rt h c)"
  by (cases rt; simp only: RegisterRoutes.simps handler_defs handler_flat by_id_route_def;
      (intro appends_rules)?) (simp_all add: protocol_defs)

lemma routes_submit_nothing:
  "rt \<noteq> PostExecute \<Longrightarrow> appends (\<lambda>es r. \<not> list_ex is_submitted es) (RegisterRoutes rt h c)"
  by (cases rt; simp only: RegisterRoutes.simps handler_defs handler_flat; (intro appends_rules)?)
    simp_all

lemma routes_create_nothing:
  "rt \<noteq> PostIntent \<Longrightarrow> appends (\<lambda>es r. \<not> list_ex is_created es) (RegisterRoutes rt h c)"
  by (cases rt; simp only: RegisterRoutes.simps handler_defs handler_flat; (intro appends_rules)?)
    simp_all

lemma chain_calls_0: "chain_calls tr = 0 \<longleftrightarrow> \<not> list_ex is_submitted tr"
  by (auto simp: chain_calls_def filter_empty_conv list_ex_iff)

lemma routes_reasoned: "appends (\<lambda>es r. list_all reasoned es) (RegisterRoutes rt h c)"
  by (cases rt; simp only: RegisterRoutes.simps handler_defs handler_flat; (intro appends_rules)?)
    (simp_all add: FailureReason_def)

subsection \<open>Sessions\<close>

text \<open>Requests served one after the other, and the log of what each of them did.\<close>

type_synonym entry = "route \<times> request \<times> response \<times> call list"

fun session :: "'x IntentHandler \<Rightarrow> (route \<times> request) list \<Rightarrow> 'x \<Rightarrow> entry list \<times> 'x" where
  "session h [] x = ([], x)"
| "session h ((rt, c) # qs) x =
    (case serve (RegisterRoutes rt h c) x of (r, tr, x1) \<Rightarrow>
       case session h qs x1 of (log, x2) \<Rightarrow> ((rt, c, r, tr) # log, x2))"

text \<open>How often the requests for an intent called the chain to submit.\<close>

definition submissions :: "string \<Rightarrow> entry list \<Rightarrow> nat" where
  "submissions iid log =
     sum_list (map (\<lambda>(rt, c, r, tr). if q_id c = iid then chain_calls tr else 0) log)"

definition creates :: "string \<Rightarrow> entry list \<Rightarrow> bool" where
  "creates iid log \<longleftrightarrow>
     list_ex (\<lambda>(rt, c, r, tr). list_ex (\<lambda>e. case e of Created i _ \<Rightarrow> i_ID i = iid | _ \<Rightarrow> False) tr) log"

lemma submissions_simps [simp]:
  "submissions iid [] = 0"
  "submissions iid ((rt, c, r, tr) # log) =
     (if q_id c = iid then chain_calls tr else 0) + submissions iid log"
  by (simp_all add: submissions_def)

lemma creates_simps [simp]:
  "creates iid [] = False"
  "creates iid ((rt, c, r, tr) # log) \<longleftrightarrow>
     list_ex (\<lambda>e. case e of Created i _ \<Rightarrow> i_ID i = iid | _ \<Rightarrow> False) tr \<or> creates iid log"
  by (simp_all add: creates_def)

end
