(* ===== verification/VF_Gorm.thy ===== *)
theory VF_Gorm
  imports VF_Interfaces
begin

section \<open>The database library as a parameter\<close>

text \<open>
  gorm and PostgreSQL are not part of the repository. The code uses them through four calls on a
  table: \<open>Where(...).First\<close>, \<open>Where(...).Order(...).Find\<close>, \<open>Create\<close> and \<open>Save\<close>. A database is a
  record of tables with these calls as operations on the state \<open>'x\<close>, an argument of every
  definition that reaches the database. \<open>Create\<close> and \<open>Save\<close> take a pointer and may write default
  values and \<open>UpdatedAt\<close> to the struct, so they return it.
\<close>

text \<open>The conditions of the code's \<open>Where\<close> clauses; a list of them is their conjunction.\<close>

datatype cond =
    ColEq string string
  | ColIs string bool
  | OrElse cond cond

text \<open>The only order clause of the code is \<open>created_at DESC\<close>.\<close>

datatype order = Unordered | CreatedAtDesc

record ('x, 'r) dbtable =
  tb_first :: "cond list \<Rightarrow> ('x, error + 'r) op"
  tb_find :: "cond list \<Rightarrow> order \<Rightarrow> ('x, error + 'r list) op"
  tb_create :: "'r \<Rightarrow> ('x, error option \<times> 'r) op"
  tb_save :: "'r \<Rightarrow> ('x, error option \<times> 'r) op"

record WebhookEndpoint =
  e_ID :: string
  e_TenantID :: string
  e_URL :: string
  e_EventType :: string
  e_IsActive :: bool
  e_Secret :: string
  e_CreatedAt :: time

record 'x gorm =
  g_tenants :: "('x, Tenant) dbtable"
  g_wallets :: "('x, Wallet) dbtable"
  g_intents :: "('x, Intent) dbtable"
  g_transactions :: "('x, Transaction) dbtable"
  g_audit :: "('x, AuditEvent) dbtable"
  g_policies :: "('x, Policy) dbtable"
  g_shares :: "('x, MPCShareRecord) dbtable"
  g_endpoints :: "('x, WebhookEndpoint) dbtable"

end
