(* ===== verification/VF_Stores.thy ===== *)
theory VF_Stores
  imports VF_Gorm
begin

section \<open>The database stores\<close>

text \<open>
  \<open>services/api/core/stores.go\<close>: the stores of the running service, over the tables of the
  database library. The policy engine reads through \<open>DBAdapter\<close>, the handlers through
  \<open>PostgresIntentStore\<close> and \<open>PostgresTransactionStore\<close>. The lemmas give the contract of the intent
  store from the contract of its table.
\<close>

definition by_id :: "string \<Rightarrow> cond list" where
  "by_id i = [ColEq ''id'' i]"

definition of_tenant :: "string \<Rightarrow> cond list" where
  "of_tenant t = [ColEq ''tenant_id'' t]"

text \<open>The optional second \<open>Where\<close> of the list queries.\<close>

definition narrowed :: "cond list \<Rightarrow> string \<Rightarrow> string \<Rightarrow> cond list" where
  "narrowed q col v = (if v \<noteq> [] then q @ [ColEq col v] else q)"

definition create_err :: "('x, 'r) dbtable \<Rightarrow> 'r \<Rightarrow> ('x, error option) op" where
  "create_err tb r = do { e \<leftarrow> tb_create tb r; State_Monad.return (fst e) }"

definition save_err :: "('x, 'r) dbtable \<Rightarrow> 'r \<Rightarrow> ('x, error option) op" where
  "save_err tb r = do { e \<leftarrow> tb_save tb r; State_Monad.return (fst e) }"

subsection \<open>The policy engine's adapter\<close>

definition DBAdapter :: "'x gorm \<Rightarrow> 'x DBQuerier" where
  "DBAdapter db =
    \<lparr> db_GetWallet = (\<lambda>i. tb_first (g_wallets db) (by_id i)),
      db_GetTenant = (\<lambda>i. tb_first (g_tenants db) (by_id i)),
      db_ListPolicies = (\<lambda>t. tb_find (g_policies db) (of_tenant t) Unordered) \<rparr>"

subsection \<open>The intent store\<close>

definition pg_GetTransactionByNonce :: "'x gorm \<Rightarrow> string \<Rightarrow> ('x, error + Transaction option) op" where
  "pg_GetTransactionByNonce db nonce = do {
     r \<leftarrow> tb_first (g_intents db) [ColEq ''nonce'' nonce];
     (case r of
        Inl err \<Rightarrow> State_Monad.return (Inl err)
      | Inr intent \<Rightarrow> do {
          t \<leftarrow> tb_first (g_transactions db) [ColEq ''intent_id'' (i_ID intent)];
          (case t of
             Inl err \<Rightarrow> State_Monad.return (Inl err)
           | Inr tx \<Rightarrow> State_Monad.return (Inr (Some tx)))
        })
   }"

definition PostgresIntentStore :: "'x gorm \<Rightarrow> 'x IntentStore" where
  "PostgresIntentStore db =
    \<lparr> is_Create = tb_create (g_intents db),
      is_GetByID = (\<lambda>i. tb_first (g_intents db) (by_id i)),
      is_Update = tb_save (g_intents db),
      is_ListByTenant = (\<lambda>t status.
        tb_find (g_intents db) (narrowed (of_tenant t) ''status'' status) CreatedAtDesc),
      is_GetTransactionByNonce = pg_GetTransactionByNonce db,
      is_GetWallet = (\<lambda>i. tb_first (g_wallets db) (by_id i)),
      is_ListWallets = (\<lambda>t. tb_find (g_wallets db) (of_tenant t) CreatedAtDesc),
      is_ListTransactions = (\<lambda>t. tb_find (g_transactions db) (of_tenant t) CreatedAtDesc),
      is_ListAuditEvents = (\<lambda>t action.
        tb_find (g_audit db) (narrowed (of_tenant t) ''action'' action) CreatedAtDesc) \<rparr>"

subsection \<open>The other stores\<close>

record 'x WalletStore =
  ws_GetByID :: "string \<Rightarrow> ('x, error + Wallet) op"
  ws_ListByTenant :: "string \<Rightarrow> ('x, error + Wallet list) op"
  ws_Create :: "Wallet \<Rightarrow> ('x, error option) op"
  ws_Update :: "Wallet \<Rightarrow> ('x, error option) op"

record 'x AuditStore =
  as_Create :: "AuditEvent \<Rightarrow> ('x, error option) op"
  as_ListByTenant :: "string \<Rightarrow> string \<Rightarrow> ('x, error + AuditEvent list) op"

definition PostgresWalletStore :: "'x gorm \<Rightarrow> 'x WalletStore" where
  "PostgresWalletStore db =
    \<lparr> ws_GetByID = (\<lambda>i. tb_first (g_wallets db) (by_id i)),
      ws_ListByTenant = (\<lambda>t. tb_find (g_wallets db) (of_tenant t) CreatedAtDesc),
      ws_Create = create_err (g_wallets db),
      ws_Update = save_err (g_wallets db) \<rparr>"

definition PostgresTransactionStore :: "'x gorm \<Rightarrow> 'x TransactionStore" where
  "PostgresTransactionStore db =
    \<lparr> ts_Create = create_err (g_transactions db),
      ts_GetByID = (\<lambda>i. tb_first (g_transactions db) (by_id i)),
      ts_GetByIntentID = (\<lambda>i. tb_first (g_transactions db) [ColEq ''intent_id'' i]),
      ts_Update = save_err (g_transactions db),
      ts_ListByTenant = (\<lambda>t. tb_find (g_transactions db) (of_tenant t) CreatedAtDesc) \<rparr>"

definition PostgresAuditStore :: "'x gorm \<Rightarrow> 'x AuditStore" where
  "PostgresAuditStore db =
    \<lparr> as_Create = create_err (g_audit db),
      as_ListByTenant = (\<lambda>t action.
        tb_find (g_audit db) (narrowed (of_tenant t) ''action'' action) CreatedAtDesc) \<rparr>"

end
