(* ===== verification/VF_Lifecycle.thy ===== *)
theory VF_Lifecycle
  imports VF_Protocol VF_Stores
begin

section \<open>The life of an intent\<close>

text \<open>
  The abstract specification of the handlers: an intent moves along \<open>lifecycle_step\<close>, nothing else of
  it changes but its bookkeeping, and no other intent changes. The locale \<open>intent_service\<close> states
  what the handlers rely on: the store reads back what was written, and no other service touches the
  stored intents. Inside it every route is shown to refine the specification; a session, a list of
  requests served one after the other, then submits an intent at most once. The locale is
  interpreted on the in-memory implementations and derived for the database stores from the
  contract of their table.
\<close>

subsection \<open>The specification\<close>

inductive lifecycle_step :: "string \<Rightarrow> string \<Rightarrow> bool" where
  approve: "lifecycle_step ''pending'' ''approved''"
| start: "lifecycle_step ''approved'' ''executing''"
| expire: "lifecycle_step ''approved'' ''expired''"
| submit: "lifecycle_step ''executing'' ''submitted''"
| fail_executing: "lifecycle_step ''executing'' ''failed''"
| reject: "lifecycle_step s ''rejected''"
| confirm: "lifecycle_step ''submitted'' ''confirmed''"
| fail_submitted: "lifecycle_step ''submitted'' ''failed''"

inductive_simps lifecycle_step_pending: "lifecycle_step s ''pending''"
inductive_simps lifecycle_step_approved: "lifecycle_step s ''approved''"
inductive_cases lifecycle_stepE: "lifecycle_step s t"

text \<open>An intent whose execution has begun, or that has ended.\<close>

definition spent :: "string \<Rightarrow> bool" where
  "spent s \<longleftrightarrow> s \<noteq> ''pending'' \<and> s \<noteq> ''approved''"

lemma spent_step: "lifecycle_step s t \<Longrightarrow> spent s \<Longrightarrow> spent t"
  by (auto simp: spent_def elim!: lifecycle_stepE)

lemma spent_steps: "lifecycle_step\<^sup>*\<^sup>* s t \<Longrightarrow> spent s \<Longrightarrow> spent t"
  by (induction rule: rtranclp_induct) (auto intro: spent_step)

text \<open>What of an intent never changes.\<close>

definition same_order :: "Intent \<Rightarrow> Intent \<Rightarrow> bool" where
  "same_order i j \<longleftrightarrow>
     i_ID j = i_ID i \<and> i_TenantID j = i_TenantID i \<and> i_WalletID j = i_WalletID i \<and>
     i_Destination j = i_Destination i \<and> i_Token j = i_Token i \<and> i_Amount j = i_Amount i \<and>
     i_Chain j = i_Chain i \<and> i_Nonce j = i_Nonce i \<and> i_Creator j = i_Creator i \<and>
     i_Expiry j = i_Expiry i \<and> i_CreatedAt j = i_CreatedAt i"

lemma same_order_refl [simp]: "same_order i i"
  by (simp add: same_order_def)

lemma same_order_trans: "same_order i j \<Longrightarrow> same_order j k \<Longrightarrow> same_order i k"
  by (simp add: same_order_def)

type_synonym intents = "string \<Rightarrow> Intent option"

text \<open>Intents are filed under their own identifier, the primary key.\<close>

definition keyed :: "intents \<Rightarrow> bool" where
  "keyed v \<longleftrightarrow> (\<forall>k i. v k = Some i \<longrightarrow> i_ID i = k)"

definition evolves :: "string option \<Rightarrow> string \<Rightarrow> intents \<Rightarrow> intents \<Rightarrow> bool" where
  "evolves tenant iid v v' \<longleftrightarrow>
     (\<forall>k. k \<noteq> iid \<longrightarrow> v' k = v k) \<and>
     (v' iid = v iid \<or>
      (\<exists>i j. v iid = Some i \<and> v' iid = Some j \<and> tenant = Some (i_TenantID i) \<and>
             same_order i j \<and> lifecycle_step\<^sup>*\<^sup>* (i_Status i) (i_Status j)))"

lemma evolves_refl [simp]: "evolves tenant iid v v"
  by (simp add: evolves_def)

lemma evolves_trans:
  assumes "evolves tenant iid u v" "evolves tenant iid v w"
  shows "evolves tenant iid u w"
  using assms unfolding evolves_def
  by (auto intro: same_order_trans rtranclp_trans)

lemma evolves_keyed:
  assumes "evolves tenant iid v v'" "keyed v"
  shows "keyed v'"
  unfolding keyed_def
proof (intro allI impI)
  fix k i
  assume i: "v' k = Some i"
  show "i_ID i = k"
  proof (cases "v' k = v k")
    case True
    with i assms(2) show ?thesis by (simp add: keyed_def)
  next
    case False
    with assms(1) i obtain i' where "v k = Some i'" "same_order i' i"
      by (cases "k = iid") (auto simp: evolves_def)
    with assms(2) show ?thesis by (simp add: keyed_def same_order_def)
  qed
qed

lemma evolves_spent:
  "evolves tenant iid v v' \<Longrightarrow> v iid = Some i \<Longrightarrow> spent (i_Status i) \<Longrightarrow>
     \<exists>j. v' iid = Some j \<and> spent (i_Status j)"
  by (auto simp: evolves_def intro: spent_steps)

lemma evolves_write:
  assumes "v iid = Some i" "tenant = Some (i_TenantID i)" "same_order i j"
    "lifecycle_step (i_Status i) (i_Status j)"
  shows "evolves tenant iid v (v(iid \<mapsto> j))"
  using assms by (auto simp: evolves_def)

subsection \<open>The contract of the services\<close>

text \<open>What a write may fill in: \<open>UpdatedAt\<close>, and the column defaults of a new row.\<close>

definition stored_as :: "Intent \<Rightarrow> Intent \<Rightarrow> bool" where
  "stored_as i j \<longleftrightarrow> j = i\<lparr>i_UpdatedAt := i_UpdatedAt j\<rparr>"

definition created_as :: "Intent \<Rightarrow> Intent \<Rightarrow> bool" where
  "created_as i j \<longleftrightarrow> j = i\<lparr>i_UpdatedAt := i_UpdatedAt j, i_RequiredSigs := i_RequiredSigs j,
     i_PolicyVersion := i_PolicyVersion j\<rparr>"

lemma stored_as_order:
  assumes "stored_as i j"
  shows "same_order i j" "i_Status j = i_Status i"
proof -
  from assms obtain t where "j = i\<lparr>i_UpdatedAt := t\<rparr>" by (auto simp: stored_as_def)
  then show "same_order i j" "i_Status j = i_Status i" by (simp_all add: same_order_def)
qed

lemma created_as_ID:
  assumes "created_as i j"
  shows "i_ID j = i_ID i"
proof -
  from assms obtain t n p where "j = i\<lparr>i_UpdatedAt := t, i_RequiredSigs := n, i_PolicyVersion := p\<rparr>"
    by (auto simp: created_as_def)
  then show ?thesis by simp
qed

lemma stored_asD: "stored_as i j \<Longrightarrow> same_order i j \<and> i_Status j = i_Status i"
  by (simp add: stored_as_order)

definition keeps :: "('x \<Rightarrow> intents) \<Rightarrow> ('x, 'a) op \<Rightarrow> bool" where
  "keeps view m \<longleftrightarrow> (\<forall>x. view (snd (run_state m x)) = view x)"

lemma keeps_return [intro, simp]: "keeps view (State_Monad.return a)"
  by (simp add: keeps_def)

lemma keeps_bind [intro]: "keeps view m \<Longrightarrow> (\<And>a. keeps view (f a)) \<Longrightarrow> keeps view (State_Monad.bind m f)"
  by (simp add: keeps_def split: prod.splits) (metis snd_conv)

lemma keeps_sum [intro]:
  "(\<And>e. keeps view (f e)) \<Longrightarrow> (\<And>a. keeps view (g a)) \<Longrightarrow>
     keeps view (case r of Inl e \<Rightarrow> f e | Inr a \<Rightarrow> g a)"
  by (cases r) auto

lemma keeps_option [intro]:
  "keeps view m \<Longrightarrow> (\<And>a. keeps view (g a)) \<Longrightarrow> keeps view (case r of None \<Rightarrow> m | Some a \<Rightarrow> g a)"
  by (cases r) auto

lemma keeps_if [intro]: "keeps view m \<Longrightarrow> keeps view n \<Longrightarrow> keeps view (if b then m else n)"
  by simp

lemma keeps_let [intro]: "keeps view (f a) \<Longrightarrow> keeps view (let x = a in f x)"
  by simp

lemma keeps_evaluate_loop:
  assumes "keeps view clock"
  shows "keeps view (evaluate_loop L clock intent wallet ps ok ds)"
proof (induction ps arbitrary: ok ds)
  case (Cons p ps)
  have rule: "keeps view (evaluate_rule L clock p intent wallet)"
    unfolding evaluate_rule_def evaluateTimeRestriction_def
    by (auto intro!: keeps_if keeps_bind keeps_option keeps_let assms split: option.splits)
  show ?case
    by (auto intro!: keeps_bind rule Cons split: option.splits bool.splits)
qed simp

lemma keeps_Evaluate:
  assumes "keeps view clock" "\<And>i. keeps view (db_GetWallet db i)" "\<And>i. keeps view (db_GetTenant db i)"
    "\<And>i. keeps view (db_ListPolicies db i)"
  shows "keeps view (Evaluate L db clock intent)"
  unfolding Evaluate_def
  by (intro keeps_bind keeps_sum keeps_return assms keeps_evaluate_loop)

lemma keeps_Build: "keeps view clock \<Longrightarrow> keeps view (Build L clock b)"
  unfolding Build_def by (intro keeps_bind keeps_return)

lemma keeps_Simulate: "keeps view clock \<Longrightarrow> keeps view (Simulate L clock b)"
  unfolding Simulate_def computeTxHash_def
  by (intro keeps_bind keeps_sum keeps_if keeps_return keeps_Build)

definition read_route :: "route \<Rightarrow> bool" where
  "read_route rt \<longleftrightarrow>
     rt \<in> {GetIntents, GetIntentID, GetWallets, GetWalletID, GetTransactions, GetAuditEvents}"

text \<open>
  An execution under way: the intent is stored as it is held, marked \<open>executing\<close>; \<open>v\<close> is the store
  when the request came in, \<open>w\<close> what it is now. And one that has ended or been given up.
\<close>

definition underway :: "intents \<Rightarrow> string \<Rightarrow> string \<Rightarrow> Intent \<Rightarrow> intents \<Rightarrow> bool" where
  "underway v iid tenantID intent w \<longleftrightarrow>
     evolves (Some tenantID) iid v w \<and> w iid = Some intent \<and>
     i_ID intent = iid \<and> i_TenantID intent = tenantID \<and> i_Status intent = ''executing''"

definition ended :: "intents \<Rightarrow> string \<Rightarrow> string \<Rightarrow> intents \<Rightarrow> bool" where
  "ended v iid tenantID w \<longleftrightarrow>
     evolves (Some tenantID) iid v w \<and> (\<exists>j. w iid = Some j \<and> spent (i_Status j))"

lemma underway_ended: "underway v iid tenantID intent w \<Longrightarrow> ended v iid tenantID w"
  by (auto simp: underway_def ended_def spent_def)

lemma underway_start:
  assumes "v iid = Some i" "i_ID i = iid" "i_TenantID i = tenantID" "i_Status i = ''approved''"
    "stored_as i' j" "same_order i i'" "i_Status i' = ''executing''"
  shows "underway v iid tenantID j (v(iid \<mapsto> j))"
proof -
  have j: "same_order i j" "i_Status j = ''executing''"
    using stored_asD [OF assms(5)] assms(6,7) by (auto intro: same_order_trans)
  have "evolves (Some tenantID) iid v (v(iid \<mapsto> j))"
    using assms j by (intro evolves_write) (auto intro: lifecycle_step.start)
  with assms(2,3) j show ?thesis by (simp add: underway_def same_order_def)
qed

lemma underway_writes:
  assumes "underway v iid tenantID intent w" "stored_as i j" "same_order intent i"
    "lifecycle_step ''executing'' (i_Status i)"
    "w' = w(i_ID i \<mapsto> j) \<or> (e \<noteq> None \<and> w' = w)"
  shows "ended v iid tenantID w'"
proof (cases "w' = w")
  case False
  from assms have w: "evolves (Some tenantID) iid v w" "w iid = Some intent" "i_ID intent = iid"
    "i_TenantID intent = tenantID" "i_Status intent = ''executing''"
    by (auto simp: underway_def)
  from assms(3) w(3) have "i_ID i = iid" by (simp add: same_order_def)
  with False assms(5) have w': "w' = w(iid \<mapsto> j)" by simp
  have j: "same_order intent j" "i_Status j = i_Status i"
    using stored_asD [OF assms(2)] assms(3) by (auto intro: same_order_trans)
  have "evolves (Some tenantID) iid w w'"
    using w j assms(4) unfolding w' by (intro evolves_write) auto
  with w(1) have "evolves (Some tenantID) iid v w'" by (rule evolves_trans)
  moreover have "spent (i_Status j)"
    using spent_step [OF assms(4)] j(2) by (simp add: spent_def)
  ultimately show ?thesis using w' by (auto simp: ended_def)
qed (use assms underway_ended in simp)

text \<open>
  A failed write leaves the stored intents as they were or as they should be: the error of a write
  to a database does not say which.
\<close>

locale intent_service =
  fixes h :: "'x IntentHandler" and view :: "'x \<Rightarrow> intents"
  assumes loads: "run_state (is_GetByID (h_store h) iid) x = (r, x') \<Longrightarrow>
      view x' = view x \<and> (\<forall>i. r = Inr i \<longrightarrow> view x iid = Some i)"
    and writes: "run_state (is_Update (h_store h) i) x = ((e, j), x') \<Longrightarrow>
      stored_as i j \<and> (view x' = (view x)(i_ID i \<mapsto> j) \<or> (e \<noteq> None \<and> view x' = view x))"
    and creates: "run_state (is_Create (h_store h) i) x = ((e, j), x') \<Longrightarrow>
      created_as i j \<and> (view x' = (view x)(i_ID i \<mapsto> j) \<or> (e \<noteq> None \<and> view x' = view x))"
    and keeps_store:
      "keeps view (is_ListByTenant (h_store h) t u)"
      "keeps view (is_GetTransactionByNonce (h_store h) n)"
      "keeps view (is_GetWallet (h_store h) n)"
      "keeps view (is_ListWallets (h_store h) t)"
      "keeps view (is_ListTransactions (h_store h) t)"
      "keeps view (is_ListAuditEvents (h_store h) t u)"
      "keeps view (ts_Create (h_txStore h) tx)"
    and keeps_services:
      "keeps view (h_clock h)"
      "keeps view (db_GetWallet (h_policyDB h) n)"
      "keeps view (db_GetTenant (h_policyDB h) n)"
      "keeps view (db_ListPolicies (h_policyDB h) n)"
      "keeps view (zk_GenerateProof (h_zkVerifier h) inp)"
      "keeps view (zk_VerifyPolicyProof (h_zkVerifier h) p)"
      "keeps view (mpc_Sign (h_mpcSigner h) si)"
      "keeps view (rec_Start (h_reconciler h) n)"
      "keeps view (au_log (h_audit h) ac)"
      "keeps view (sol_SubmitTransaction (h_solana h) bs)"
      "keeps view (sol_GetRecentBlockhash (h_solana h))"
      "keeps view (wh_NotifyIntentStateChange (h_webhooks h) i n)"
begin

lemma update_kept: "update_keeps h"
proof -
  have "\<exists>t. j = i\<lparr>i_UpdatedAt := t\<rparr>" if "fst (run_state (is_Update (h_store h) i) x) = (e, j)" for i x e j
    using writes [of i x e j "snd (run_state (is_Update (h_store h) i) x)"] that
    by (metis prod.collapse stored_as_def)
  then show ?thesis by (auto simp: update_keeps_def split: prod.splits)
qed

lemma act_keeps:
  assumes "keeps view m"
    and "\<And>a t. view (ext t) = view (ext s) \<Longrightarrow> trail t = trail s @ [ev a] \<Longrightarrow> Q a t"
  shows "wp (act m ev) Q s"
proof -
  obtain a x where run: "run_state m (ext s) = (a, x)" by (cases "run_state m (ext s)")
  with assms(1) have "view x = view (ext s)" by (metis keeps_def snd_conv)
  then show ?thesis by (simp add: wp_act run assms(2))
qed

lemma getByID_loads:
  "keyed (view (ext s)) \<Longrightarrow> (\<And>r t. view (ext t) = view (ext s) \<Longrightarrow> trail t = trail s @ [Loaded iid r] \<Longrightarrow>
       (\<And>i. r = Inr i \<Longrightarrow> view (ext s) iid = Some i \<and> i_ID i = iid) \<Longrightarrow> Q r t) \<Longrightarrow>
     wp (getByID h iid) Q s"
  unfolding getByID_def wp by (auto split: prod.splits dest!: loads simp: keyed_def)

lemma update_writes:
  "(\<And>e j t. stored_as i j \<Longrightarrow> trail t = trail s @ [Updated i e] \<Longrightarrow>
       view (ext t) = (view (ext s))(i_ID i \<mapsto> j) \<or> (e \<noteq> None \<and> view (ext t) = view (ext s)) \<Longrightarrow>
       Q (e, j) t) \<Longrightarrow>
     wp (update h i) Q s"
  unfolding update_def wp by (fastforce split: prod.splits dest!: writes)

lemmas keeps_calls = keeps_store keeps_services
  keeps_Evaluate [OF keeps_services(1-4)] keeps_Build [OF keeps_services(1)]
  keeps_Simulate [OF keeps_services(1)]

lemmas steps = wp_intros act_keeps keeps_calls getByID_loads update_writes

text \<open>The phases of an execution.\<close>

lemma update_ends:
  assumes "underway v iid tenantID intent (view (ext s))" "same_order intent i"
    "lifecycle_step ''executing'' (i_Status i)"
    and "\<And>e j t. ended v iid tenantID (view (ext t)) \<Longrightarrow> Q (e, j) t"
  shows "wp (update h i) Q s"
  by (rule update_writes, rule assms(4), rule underway_writes [OF assms(1)])
    (use assms(2,3) in auto)

lemma settle_ends:
  assumes "underway v iid tenantID intent (view (ext s))" "same_order intent i"
    "lifecycle_step ''executing'' (i_Status i)"
  shows "wp (settle h i a e) (\<lambda>r t. ended v iid tenantID (view (ext t))) s"
  unfolding settle_def audit_def notify_def
  by (rule wp_bindI, rule update_ends [OF assms]) (intro steps, simp)

lemma fail_execution_ends:
  assumes "underway v iid tenantID intent (view (ext s))"
  shows "wp (fail_execution h intent reason a e msg) (\<lambda>r t. ended v iid tenantID (view (ext t))) s"
  unfolding fail_execution_def
  by (rule wp_bindI, rule wp_mono [OF settle_ends [OF assms]])
    (simp_all add: same_order_def lifecycle_step.fail_executing wp_return)

lemma exec_record_ends:
  assumes "underway v iid tenantID intent (view (ext s))"
  shows "wp (exec_record h iid tenantID requestID intent bh bs sr)
    (\<lambda>r t. ended v iid tenantID (view (ext t))) s"
  unfolding exec_record_def getNow_def audit_def notify_def
  using assms
  by (intro wp_intros act_keeps keeps_calls update_ends [where v = v and intent = intent])
    (simp_all add: same_order_def lifecycle_step.submit)

lemma exec_submit_ends:
  assumes "underway v iid tenantID intent (view (ext s))"
  shows "wp (exec_submit h iid tenantID requestID intent b bh)
    (\<lambda>r t. ended v iid tenantID (view (ext t))) s"
  unfolding exec_submit_def
  using assms
  by (intro wp_intros act_keeps keeps_calls fail_execution_ends exec_record_ends) simp_all

lemma exec_sign_ends:
  assumes "underway v iid tenantID intent (view (ext s))"
  shows "wp (exec_sign h iid tenantID requestID intent b bh sim)
    (\<lambda>r t. ended v iid tenantID (view (ext t))) s"
  unfolding exec_sign_def audit_def
  using assms
  by (intro wp_intros act_keeps keeps_calls fail_execution_ends exec_submit_ends) simp_all

lemma exec_recheck_ends:
  assumes "underway v iid tenantID intent (view (ext s))"
  shows "wp (exec_recheck h iid tenantID requestID intent b bh sim)
    (\<lambda>r t. ended v iid tenantID (view (ext t))) s"
  unfolding exec_recheck_def evaluate_def
  using assms
  by (intro wp_intros act_keeps keeps_calls fail_execution_ends exec_sign_ends) simp_all

lemma exec_simulate_ends:
  assumes "underway v iid tenantID intent (view (ext s))"
  shows "wp (exec_simulate h iid tenantID requestID intent)
    (\<lambda>r t. ended v iid tenantID (view (ext t))) s"
  unfolding exec_simulate_def audit_def
  using assms
  by (intro wp_intros act_keeps keeps_calls fail_execution_ends exec_recheck_ends) simp_all

text \<open>A write outside an execution: the status moves by one step, or nothing moves.\<close>

lemma update_evolves:
  assumes "view (ext s) iid = Some intent" "i_ID intent = iid" "i_TenantID intent = tenantID"
    "same_order intent i" "lifecycle_step (i_Status intent) (i_Status i)"
    and "\<And>e j t. evolves (Some tenantID) iid (view (ext s)) (view (ext t)) \<Longrightarrow>
      trail t = trail s @ [Updated i e] \<Longrightarrow> Q (e, j) t"
  shows "wp (update h i) Q s"
proof (rule update_writes, rule assms(6))
  fix e j t
  assume j: "stored_as i j"
    and w: "view (ext t) = (view (ext s))(i_ID i \<mapsto> j) \<or> e \<noteq> None \<and> view (ext t) = view (ext s)"
  have "i_ID i = iid" using assms(2,4) by (simp add: same_order_def)
  moreover have "evolves (Some tenantID) iid (view (ext s)) ((view (ext s))(iid \<mapsto> j))"
    using stored_asD [OF j] assms(1,3,4,5)
    by (intro evolves_write) (auto intro: same_order_trans)
  ultimately show "evolves (Some tenantID) iid (view (ext s)) (view (ext t))"
    using w by auto
qed

lemma exec_simulate_continues:
  assumes "underway v iid tenantID intent (view (ext s))"
    and "\<And>r t. ended v iid tenantID (view (ext t)) \<Longrightarrow> Q r t"
  shows "wp (exec_simulate h iid tenantID requestID intent) Q s"
  by (rule wp_mono [OF exec_simulate_ends [OF assms(1)] assms(2)])

lemma exec_start_refines:
  assumes "view (ext s) iid = Some intent" "i_ID intent = iid" "i_TenantID intent = tenantID"
    "i_Status intent = ''approved''" "\<not> list_ex is_submitted (trail s)"
  shows "wp (exec_start h iid tenantID requestID intent)
    (\<lambda>r t. evolves (Some tenantID) iid (view (ext s)) (view (ext t)) \<and>
      (list_ex is_submitted (trail t) \<longrightarrow> ended (view (ext s)) iid tenantID (view (ext t)))) s"
proof -
  have run: "wp (update h (intent\<lparr>i_Status := ''executing'', i_UpdatedAt := now\<rparr>)) Q t"
    if t: "view (ext t) = view (ext s)" "\<not> list_ex is_submitted (trail t)"
      and Q: "\<And>e j u. (e = None \<Longrightarrow> underway (view (ext s)) iid tenantID j (view (ext u))) \<Longrightarrow>
        evolves (Some tenantID) iid (view (ext s)) (view (ext u)) \<Longrightarrow>
        \<not> list_ex is_submitted (trail u) \<Longrightarrow> Q (e, j) u"
    for now Q t
  proof (rule update_writes, rule Q)
    fix e j u
    assume *: "stored_as (intent\<lparr>i_Status := ''executing'', i_UpdatedAt := now\<rparr>) j"
      "view (ext u) = (view (ext t))(i_ID (intent\<lparr>i_Status := ''executing'', i_UpdatedAt := now\<rparr>) \<mapsto> j) \<or>
       e \<noteq> None \<and> view (ext u) = view (ext t)"
      "trail u = trail t @ [Updated (intent\<lparr>i_Status := ''executing'', i_UpdatedAt := now\<rparr>) e]"
    have w: "underway (view (ext s)) iid tenantID j ((view (ext s))(iid \<mapsto> j))"
      by (rule underway_start [OF _ _ _ _ *(1)]) (use assms in \<open>auto simp: same_order_def\<close>)
    show "underway (view (ext s)) iid tenantID j (view (ext u))" if "e = None"
      using w that * t(1) assms(2) by auto
    show "evolves (Some tenantID) iid (view (ext s)) (view (ext u))"
      using w * t(1) assms(2) by (auto simp: underway_def)
    show "\<not> list_ex is_submitted (trail u)"
      using * t(2) by simp
  qed
  show ?thesis
    unfolding exec_start_def settle_def getNow_def audit_def notify_def
    using assms
    by (intro wp_intros act_keeps keeps_calls run exec_simulate_continues
        update_evolves [where iid = iid and intent = intent])
      (auto simp: same_order_def ended_def intro: lifecycle_step.expire)
qed

text \<open>The routes.\<close>

lemma ExecuteIntent_refines:
  assumes "keyed (view x)"
  shows "wp (ExecuteIntent h c)
    (\<lambda>r t. evolves (q_tenant c) (q_id c) (view x) (view (ext t)) \<and>
      (list_ex is_submitted (trail t) \<longrightarrow>
        (\<exists>i. view x (q_id c) = Some i \<and> i_Status i = ''approved'') \<and>
        (\<exists>j. view (ext t) (q_id c) = Some j \<and> spent (i_Status j)))) \<lparr>ext = x, trail = []\<rparr>"
proof -
  have start: "wp (exec_start h (q_id c) tenantID requestID intent) (\<lambda>r t.
      evolves (q_tenant c) (q_id c) (view x) (view (ext t)) \<and>
      (list_ex is_submitted (trail t) \<longrightarrow>
        (\<exists>i. view x (q_id c) = Some i \<and> i_Status i = ''approved'') \<and>
        (\<exists>j. view (ext t) (q_id c) = Some j \<and> spent (i_Status j)))) s"
    if "view (ext s) = view x" "view x (q_id c) = Some intent" "i_ID intent = q_id c"
      "q_tenant c = Some tenantID" "i_TenantID intent = tenantID" "i_Status intent = ''approved''"
      "\<not> list_ex is_submitted (trail s)" for tenantID requestID intent s
    using that by (intro wp_mono [OF exec_start_refines]) (auto simp: ended_def)
  show ?thesis
    unfolding ExecuteIntent_def request_id_def getNow_def
    by (intro wp_intros act_keeps keeps_calls getByID_loads start) (use assms in auto)
qed

lemma ApproveIntent_refines:
  assumes "keyed (view x)"
  shows "wp (ApproveIntent h c) (\<lambda>r t. evolves (q_tenant c) (q_id c) (view x) (view (ext t)))
    \<lparr>ext = x, trail = []\<rparr>"
proof -
  have put: "wp (update h i) Q s"
    if "view (ext s) = view x" "view x (q_id c) = Some intent" "i_ID intent = q_id c"
      "q_tenant c = Some (i_TenantID intent)" "i_Status intent = ''pending''" "same_order intent i"
      "i_Status i = ''approved'' \<or> i_Status i = ''rejected''"
      "\<And>e j t. evolves (q_tenant c) (q_id c) (view x) (view (ext t)) \<Longrightarrow> Q (e, j) t"
    for i intent Q s
    using that
    by (intro update_evolves [where iid = "q_id c" and intent = intent])
      (auto intro: lifecycle_step.intros)
  show ?thesis
    unfolding ApproveIntent_def request_id_def getNow_def settle_def audit_def notify_def evaluate_def
    by (intro wp_intros act_keeps keeps_calls getByID_loads put) (use assms in \<open>auto simp: same_order_def\<close>)
qed

lemma withdraw_refines:
  assumes "view (ext s) = v" "v (q_id c) = Some intent" "i_ID intent = q_id c"
    "T = Some (i_TenantID intent)"
  shows "wp (withdraw h c tenantID requestID intent e)
    (\<lambda>r t. evolves T (q_id c) v (view (ext t))) s"
  unfolding withdraw_def getNow_def audit_def notify_def
  using assms
  by (intro wp_intros act_keeps keeps_calls update_evolves [where iid = "q_id c" and intent = intent])
    (auto simp: same_order_def intro: lifecycle_step.reject)

lemma read_routes:
  "read_route rt \<Longrightarrow> keyed (view x) \<Longrightarrow> wp (RegisterRoutes rt h c) (\<lambda>r t. view (ext t) = view x) \<lparr>ext = x, trail = []\<rparr>"
  by (cases rt; (simp add: read_route_def; fail)?; simp only: RegisterRoutes.simps handler_defs;
      intro wp_intros act_keeps keeps_calls getByID_loads; simp)

lemma routes_refine:
  assumes "rt \<noteq> PostIntent" "keyed (view x)"
  shows "wp (RegisterRoutes rt h c) (\<lambda>r t. evolves (q_tenant c) (q_id c) (view x) (view (ext t)))
    \<lparr>ext = x, trail = []\<rparr>"
proof (cases "read_route rt")
  case True
  then show ?thesis by (rule wp_mono [OF read_routes]) (use assms in simp_all)
next
  case False
  have withdrawn: "wp (RejectIntent h c) (\<lambda>r t. evolves (q_tenant c) (q_id c) (view x) (view (ext t)))
      \<lparr>ext = x, trail = []\<rparr>"
    "wp (CancelIntent h c) (\<lambda>r t. evolves (q_tenant c) (q_id c) (view x) (view (ext t)))
      \<lparr>ext = x, trail = []\<rparr>"
    unfolding RejectIntent_def CancelIntent_def request_id_def getNow_def
    by (intro wp_intros act_keeps keeps_calls getByID_loads; use assms(2) in \<open>auto intro!: withdraw_refines\<close>)+
  have "wp (ExecuteIntent h c) (\<lambda>r t. evolves (q_tenant c) (q_id c) (view x) (view (ext t)))
      \<lparr>ext = x, trail = []\<rparr>"
    by (rule wp_mono [OF ExecuteIntent_refines [OF assms(2)]]) simp
  with False assms withdrawn ApproveIntent_refines [OF assms(2)] show ?thesis
    by (cases rt) (simp_all add: read_route_def)
qed

lemma CreateIntent_refines:
  "wp (CreateIntent h c) (\<lambda>r t. view (ext t) = view x \<or>
     (\<exists>i e j. Created i e \<in> set (trail t) \<and> created_as i j \<and> i_Status i = ''pending'' \<and>
        view (ext t) = (view x)(i_ID i \<mapsto> j))) \<lparr>ext = x, trail = []\<rparr>"
proof -
  have create: "wp (act (is_Create (h_store h) i) (\<lambda>r. Created i (fst r))) Q s"
    if "view (ext s) = view x" "i_Status i = ''pending''"
      "\<And>e j t. trail t = trail s @ [Created i e] \<Longrightarrow> view (ext t) = view x \<or>
         (\<exists>j. created_as i j \<and> view (ext t) = (view x)(i_ID i \<mapsto> j)) \<Longrightarrow> Q (e, j) t" for i Q s
  proof -
    obtain e j x' where run: "run_state (is_Create (h_store h) i) (ext s) = ((e, j), x')"
      by (metis prod.exhaust)
    from creates [OF run] that(1) show ?thesis
      by (auto simp: wp_act run intro!: that(3))
  qed
  show ?thesis
    unfolding CreateIntent_def request_id_def getNow_def audit_def notify_def
    by (intro wp_intros create act_keeps keeps_calls) (auto simp: NewIntent_def)
qed

text \<open>Sessions.\<close>

lemma serve_route:
  assumes "serve (RegisterRoutes rt h c) x = (r, tr, x')" "keyed (view x)"
    and "\<not> list_ex (\<lambda>e. case e of Created i _ \<Rightarrow> i_ID i = iid | _ \<Rightarrow> False) tr"
  shows "view x' iid = view x iid \<or> (q_id c = iid \<and> evolves (q_tenant c) iid (view x) (view x'))"
proof (cases "rt = PostIntent")
  case True
  with assms(1) have "serve (CreateIntent h c) x = (r, tr, x')" by simp
  from serve_wp [where Q = "\<lambda>r tr x'. view x' = view x \<or>
     (\<exists>i e j. Created i e \<in> set tr \<and> created_as i j \<and> i_Status i = ''pending'' \<and>
        view x' = (view x)(i_ID i \<mapsto> j))", OF CreateIntent_refines this]
  show ?thesis using assms(3) by (force simp: list_ex_iff)
next
  case False
  from serve_wp [where Q = "\<lambda>r tr x'. evolves (q_tenant c) (q_id c) (view x) (view x')",
    OF routes_refine [OF False assms(2)] assms(1)]
  show ?thesis by (cases "q_id c = iid") (auto simp: evolves_def)
qed

lemma serve_keyed:
  assumes "serve (RegisterRoutes rt h c) x = (r, tr, x')" "keyed (view x)"
  shows "keyed (view x')"
proof (cases "rt = PostIntent")
  case True
  with assms(1) have "serve (CreateIntent h c) x = (r, tr, x')" by simp
  from serve_wp [where Q = "\<lambda>r tr x'. view x' = view x \<or>
     (\<exists>i e j. Created i e \<in> set tr \<and> created_as i j \<and> i_Status i = ''pending'' \<and>
        view x' = (view x)(i_ID i \<mapsto> j))", OF CreateIntent_refines this]
  show ?thesis using assms(2) by (auto simp: keyed_def dest!: created_as_ID split: if_splits)
next
  case False
  from serve_wp [where Q = "\<lambda>r tr x'. evolves (q_tenant c) (q_id c) (view x) (view x')",
    OF routes_refine [OF False assms(2)] assms(1)]
  show ?thesis using assms(2) by (rule evolves_keyed)
qed

lemma serve_submits:
  assumes "serve (RegisterRoutes rt h c) x = (r, tr, x')" "chain_calls tr \<noteq> 0" "keyed (view x)"
  shows "chain_calls tr = 1 \<and> (\<exists>i. view x (q_id c) = Some i \<and> i_Status i = ''approved'') \<and>
    (\<exists>j. view x' (q_id c) = Some j \<and> spent (i_Status j))"
proof -
  have sub: "list_ex is_submitted tr" using assms(2) by (simp add: chain_calls_0)
  have rt: "rt = PostExecute"
    using appends_serve [OF routes_submit_nothing assms(1)] sub by blast
  then have run: "serve (ExecuteIntent h c) x = (r, tr, x')" using assms(1) by simp
  have "chain_calls tr \<le> 1"
    using appends_serve [OF ExecuteIntent_submits [OF update_kept] run] by simp
  with assms(2) have "chain_calls tr = 1" by simp
  with serve_wp [where Q = "\<lambda>r tr x'. evolves (q_tenant c) (q_id c) (view x) (view x') \<and>
      (list_ex is_submitted tr \<longrightarrow> (\<exists>i. view x (q_id c) = Some i \<and> i_Status i = ''approved'') \<and>
        (\<exists>j. view x' (q_id c) = Some j \<and> spent (i_Status j)))", OF ExecuteIntent_refines [OF assms(3)] run] sub
  show ?thesis by simp
qed

lemma session_submissions:
  assumes "session h qs x = (log, x')" "\<not> creates iid log" "keyed (view x)"
  shows "submissions iid log \<le>
    (case view x iid of Some i \<Rightarrow> if spent (i_Status i) then 0 else 1 | None \<Rightarrow> 0)"
  using assms
proof (induction qs arbitrary: x log)
  case (Cons q qs)
  obtain rt c where q: "q = (rt, c)" by fastforce
  obtain r tr x1 where run: "serve (RegisterRoutes rt h c) x = (r, tr, x1)"
    by (metis prod.exhaust)
  obtain log1 where rest: "session h qs x1 = (log1, x')" and log: "log = (rt, c, r, tr) # log1"
    using Cons.prems(1) by (auto simp: q run split: prod.splits)
  from Cons.prems(2) have no: "\<not> list_ex (\<lambda>e. case e of Created i _ \<Rightarrow> i_ID i = iid | _ \<Rightarrow> False) tr"
    "\<not> creates iid log1"
    by (simp_all add: log)
  note IH = Cons.IH [OF rest no(2) serve_keyed [OF run Cons.prems(3)]]
    and step = serve_route [OF run Cons.prems(3) no(1)]
  show ?case
  proof (cases "q_id c = iid \<and> chain_calls tr \<noteq> 0")
    case True
    with serve_submits [OF run _ Cons.prems(3)] IH show ?thesis by (auto simp: log spent_def split: option.splits)
  next
    case False
    with IH step show ?thesis
      by (auto simp: log evolves_def split: option.splits if_splits dest: spent_steps)
  qed
qed simp

lemma session_lifecycle:
  assumes "session h qs x = (log, x')" "\<not> creates iid log" "keyed (view x)"
  shows "view x' iid = view x iid \<or>
    (\<exists>i j. view x iid = Some i \<and> view x' iid = Some j \<and> same_order i j \<and>
       lifecycle_step\<^sup>*\<^sup>* (i_Status i) (i_Status j))"
  using assms
proof (induction qs arbitrary: x log)
  case (Cons q qs)
  obtain rt c where q: "q = (rt, c)" by fastforce
  obtain r tr x1 where run: "serve (RegisterRoutes rt h c) x = (r, tr, x1)"
    by (metis prod.exhaust)
  obtain log1 where rest: "session h qs x1 = (log1, x')" and log: "log = (rt, c, r, tr) # log1"
    using Cons.prems(1) by (auto simp: q run split: prod.splits)
  from Cons.prems(2) have no: "\<not> list_ex (\<lambda>e. case e of Created i _ \<Rightarrow> i_ID i = iid | _ \<Rightarrow> False) tr"
    "\<not> creates iid log1"
    by (simp_all add: log)
  from Cons.IH [OF rest no(2) serve_keyed [OF run Cons.prems(3)]] serve_route [OF run Cons.prems(3) no(1)]
  show ?case
    by (auto simp: evolves_def intro: same_order_trans rtranclp_trans)
qed simp

end

subsection \<open>The in-memory implementations keep the contract\<close>

text \<open>
  The handler the repository's tests build, with its clock; the function fields of the mock verifier
  and signer are arguments.
\<close>

definition setupMockHandler ::
  "golib \<Rightarrow> (string list \<Rightarrow> string list) \<Rightarrow> (PolicyInputs \<Rightarrow> error + ZKProof) option \<Rightarrow>
     (ZKProof option \<Rightarrow> error + bool) option \<Rightarrow> (SigningInput \<Rightarrow> error + SigningResult) option \<Rightarrow>
     mock_world IntentHandler"
where
  "setupMockHandler L visit gen ver sig =
    \<lparr> h_store = mock_IntentStore visit, h_policyDB = mock_PolicyDB,
      h_zkVerifier = \<lparr>zk_GenerateProof = mock_GenerateProof gen,
                      zk_VerifyPolicyProof = mock_VerifyPolicyProof ver\<rparr>,
      h_mpcSigner = \<lparr>mpc_Sign = mock_Sign sig\<rparr>, h_reconciler = mock_Reconciler,
      h_audit = mock_AuditLogger, h_solana = mock_SolanaClient, h_webhooks = mock_WebhookNotifier,
      h_txStore = mock_TransactionStore visit, h_clock = mock_clock, h_lib = L \<rparr>"

definition mock_view :: "mock_world \<Rightarrow> intents" where
  "mock_view m = map_of (mk_Intents (mw_store m))"

lemma stored_as_refl [simp]: "stored_as i i" and created_as_refl [simp]: "created_as i i"
  by (simp_all add: stored_as_def created_as_def)

interpretation mock: intent_service "setupMockHandler L visit gen ver sig" mock_view
  by unfold_locales
    (auto simp: setupMockHandler_def mock_defs mock_view_def keeps_def update_conv'
      split: option.splits)

end
