(* ===== verification/VF_Audit.thy ===== *)
theory VF_Audit
  imports VF_Gorm
begin

section \<open>The audit logger\<close>

text \<open>
  \<open>services/api/core/audit.go\<close>: \<open>Log\<close> writes one event, and each method of the interface is a call of
  \<open>Log\<close> with its own action, result and metadata. \<open>audit_fields\<close> holds those per method. A failed write
  is only logged. The lemma says that every audited call writes one event that names it.
\<close>

text \<open>Action, result and metadata; a \<open>map[string]string\<close> is marshalled with sorted keys.\<close>

definition policy_result_json :: "PolicyResult \<Rightarrow> json" where
  "policy_result_json r = JObj ((''allow'', JBool (pr_Allow r)) #
     (if pr_Reason r = [] then [] else [(''reason'', json_str (pr_Reason r))]))"

fun audit_fields :: "audit_call \<Rightarrow> string \<times> string \<times> json option" where
  "audit_fields (LogIntentCreated _ _ _ _) = (''created'', ''success'', None)"
| "audit_fields (LogIntentApproved _ _ _ _ r) = (''approved'', ''success'', Some (policy_result_json r))"
| "audit_fields (LogIntentRejected _ _ _ _) = (''rejected'', ''success'', None)"
| "audit_fields (LogIntentExecuted _ _ _ _) = (''executing'', ''success'', None)"
| "audit_fields (LogIntentExpired _ _ _ _) = (''expired'', ''success'', None)"
| "audit_fields (LogIntentConfirmed _ _ _ _) = (''confirmed'', ''success'', None)"
| "audit_fields (LogIntentSigned _ _ _ _ ps) = (''signed'', ''success'',
     Some (JObj [(''participants'', JArr (map (\<lambda>p. JNum (dec_nat (unat p))) ps))]))"
| "audit_fields (LogIntentSubmittedOnChain _ _ _ _ sig) = (''submitted_on_chain'', ''success'',
     Some (JObj [(''tx_signature'', json_str sig)]))"
| "audit_fields (LogIntentSimulated _ _ _ _ ok) =
     (''simulated'', if ok then ''success'' else ''failed'', None)"
| "audit_fields (LogIntentPolicyDenied _ _ _ _ reason) = (''policy_denied'', ''denied'',
     Some (JObj [(''reason'', json_str reason)]))"
| "audit_fields (LogIntentZKDenied _ _ _ _) = (''zk_denied'', ''denied'', None)"
| "audit_fields (LogIntentFailed _ _ _ _ reason failureType) = (''failed'', ''failure'',
     Some (JObj [(''failure_type'', json_str failureType), (''reason'', json_str reason)]))"

text \<open>Tenant, actor, intent and request: the first four arguments of every method.\<close>

fun audit_subject :: "audit_call \<Rightarrow> string \<times> string \<times> string \<times> string" where
  "audit_subject (LogIntentCreated t a i r) = (t, a, i, r)"
| "audit_subject (LogIntentApproved t a i r _) = (t, a, i, r)"
| "audit_subject (LogIntentRejected t a i r) = (t, a, i, r)"
| "audit_subject (LogIntentExecuted t a i r) = (t, a, i, r)"
| "audit_subject (LogIntentExpired t a i r) = (t, a, i, r)"
| "audit_subject (LogIntentConfirmed t a i r) = (t, a, i, r)"
| "audit_subject (LogIntentSigned t a i r _) = (t, a, i, r)"
| "audit_subject (LogIntentSubmittedOnChain t a i r _) = (t, a, i, r)"
| "audit_subject (LogIntentSimulated t a i r _) = (t, a, i, r)"
| "audit_subject (LogIntentPolicyDenied t a i r _) = (t, a, i, r)"
| "audit_subject (LogIntentZKDenied t a i r) = (t, a, i, r)"
| "audit_subject (LogIntentFailed t a i r _ _) = (t, a, i, r)"

text \<open>The clock is read for the identifier, then for \<open>CreatedAt\<close>.\<close>

definition Log ::
  "'x gorm \<Rightarrow> ('x, time) op \<Rightarrow> string \<Rightarrow> string \<Rightarrow> string \<Rightarrow> string \<Rightarrow> string \<Rightarrow> string \<Rightarrow> string \<Rightarrow>
     json option \<Rightarrow> ('x, unit) op"
where
  "Log db clock tenantID actor action resource intentID requestID result metadata = do {
     t_id \<leftarrow> clock;
     now \<leftarrow> clock;
     r \<leftarrow> tb_create (g_audit db)
       \<lparr>a_ID = GenerateUUID t_id, a_TenantID = tenantID, a_Actor = actor, a_Action = action,
        a_Resource = resource, a_IntentID = intentID, a_RequestID = requestID, a_Result = result,
        a_Metadata = metadata, a_CreatedAt = now\<rparr>;
     State_Monad.return ()
   }"

definition AuditLogger :: "'x gorm \<Rightarrow> ('x, time) op \<Rightarrow> 'x IntentAuditor" where
  "AuditLogger db clock = \<lparr>au_log = (\<lambda>a.
     case (audit_subject a, audit_fields a) of
       ((tenantID, actor, intentID, requestID), (action, result, metadata)) \<Rightarrow>
         Log db clock tenantID actor action ''intent'' intentID requestID result metadata)\<rparr>"

text \<open>The method of the logger the interface does not have.\<close>

definition LogIntentSubmitted ::
  "'x gorm \<Rightarrow> ('x, time) op \<Rightarrow> string \<Rightarrow> string \<Rightarrow> string \<Rightarrow> string \<Rightarrow> ('x, unit) op"
where
  "LogIntentSubmitted db clock tenantID actor intentID requestID =
     Log db clock tenantID actor ''submitted'' ''intent'' intentID requestID ''success'' None"

subsection \<open>Lemmas\<close>

text \<open>Logging is one insert, after two readings of the clock.\<close>

lemma AuditLogger_writes:
  assumes "run_state clock x = (t, x1)" "run_state clock x1 = (now, x2)"
  shows "run_state (au_log (AuditLogger db clock) a) x =
    ((), snd (run_state (tb_create (g_audit db)
       \<lparr>a_ID = GenerateUUID t, a_TenantID = fst (audit_subject a),
        a_Actor = fst (snd (audit_subject a)), a_Action = fst (audit_fields a),
        a_Resource = ''intent'', a_IntentID = fst (snd (snd (audit_subject a))),
        a_RequestID = snd (snd (snd (audit_subject a))), a_Result = fst (snd (audit_fields a)),
        a_Metadata = snd (snd (audit_fields a)), a_CreatedAt = now\<rparr>) x2))"
  using assms by (simp add: AuditLogger_def Log_def split: prod.splits)

end
