(* ===== verification/VF_Net.thy ===== *)
theory VF_Net
  imports VF_Interfaces VF_Trace
begin

section \<open>The network, sleeping and base64\<close>

text \<open>
  What the clients of other services use: an HTTP transport, \<open>time.Sleep\<close> and goroutines, all
  parameters, and \<open>base64.StdEncoding\<close>, which is defined. The transport takes a URL, headers and a
  body and tells apart where the code's error checks do: the request could not be made, it failed,
  or a response came, whose body may still be unreadable.
\<close>

datatype http_result =
    NoRequest error
  | NoResponse error
  | HttpResponse int "error + string"

record 'x machine =
  mc_clock :: "('x, time) op"
  mc_sleep :: "int \<Rightarrow> ('x, unit) op"
  mc_go :: "('x, unit) op \<Rightarrow> ('x, unit) op"
  mc_post :: "string \<Rightarrow> (string \<times> string) list \<Rightarrow> string \<Rightarrow> ('x, http_result) op"

text \<open>Retry number \<open>attempt\<close> (from 1) waits a second, then doubles, up to a maximum.\<close>

definition backoff :: "nat \<Rightarrow> nat \<Rightarrow> int" where
  "backoff attempt max_seconds = min (2 ^ (attempt - 1) * second) (int max_seconds * second)"

text \<open>
  The machine that notes what it sends and how long it sleeps. \<open>go\<close> launches a program that notes
  its own calls.
\<close>

datatype net_call = Posted string string http_result | Slept int

type_synonym 'x net = "('x, net_call) traced"

definition noting :: "'x machine \<Rightarrow> (('x net, unit) op \<Rightarrow> ('x net, unit) op) \<Rightarrow> ('x net, time) op \<Rightarrow> 'x net machine" where
  "noting mc go clock =
    \<lparr> mc_clock = clock, mc_sleep = (\<lambda>d. act (mc_sleep mc d) (\<lambda>_. Slept d)), mc_go = go,
      mc_post = (\<lambda>url headers body. act (mc_post mc url headers body) (Posted url body)) \<rparr>"

fun replies :: "net_call list \<Rightarrow> http_result list" where
  "replies [] = []"
| "replies (Posted _ _ r # es) = r # replies es"
| "replies (_ # es) = replies es"

fun sleeps :: "net_call list \<Rightarrow> int list" where
  "sleeps [] = []"
| "sleeps (Slept d # es) = d # sleeps es"
| "sleeps (_ # es) = sleeps es"

fun sent :: "net_call list \<Rightarrow> (string \<times> string) list" where
  "sent [] = []"
| "sent (Posted u b _ # es) = (u, b) # sent es"
| "sent (_ # es) = sent es"

lemma replies_append: "replies (es @ fs) = replies es @ replies fs"
  and sleeps_append: "sleeps (es @ fs) = sleeps es @ sleeps fs"
  and sent_append: "sent (es @ fs) = sent es @ sent fs"
  by (induction es rule: replies.induct) auto

lemma noting_sel:
  "mc_sleep (noting mc go clock) d = act (mc_sleep mc d) (\<lambda>_. Slept d)"
  "mc_post (noting mc go clock) u hs b = act (mc_post mc u hs b) (Posted u b)"
  by (simp_all add: noting_def)

subsection \<open>Base64\<close>

definition b64_char :: "nat \<Rightarrow> char" where
  "b64_char n =
    (if n < 26 then chr (65 + int n) else if n < 52 then chr (71 + int n)
     else if n < 62 then chr (int n - 4) else if n = 62 then CHR ''+'' else CHR ''/'')"

fun base64 :: "byte list \<Rightarrow> string" where
  "base64 [] = []"
| "base64 [a] = [b64_char (unat a div 4), b64_char (unat a mod 4 * 16), CHR ''='', CHR ''='']"
| "base64 [a, b] = [b64_char (unat a div 4), b64_char (unat a mod 4 * 16 + unat b div 16),
     b64_char (unat b mod 16 * 4), CHR ''='']"
| "base64 (a # b # c # bs) =
     b64_char (unat a div 4) # b64_char (unat a mod 4 * 16 + unat b div 16) #
     b64_char (unat b mod 16 * 4 + unat c div 64) # b64_char (unat c mod 64) # base64 bs"

subsection \<open>Lemmas\<close>

lemma backoff_range: "0 \<le> backoff n m" "backoff n m \<le> int m * second"
  by (simp_all add: backoff_def)

end
