(* ===== verification/VF_Webhook.thy ===== *)
theory VF_Webhook
  imports VF_Net VF_Gorm
begin

section \<open>Webhook notifications\<close>

text \<open>
  \<open>services/api/core/webhook.go\<close>: finding the endpoints of an event, delivering it with retries, and
  the registration of endpoints. \<open>go w.deliver(...)\<close> hands the delivery to \<open>mc_go\<close>, the scheduler.
  The lemmas say which endpoints are contacted and bound the attempts of one delivery.
\<close>

record WebhookEvent =
  ev_EventType :: string
  ev_IntentID :: string
  ev_TenantID :: string
  ev_Timestamp :: time
  ev_Payload :: json

text \<open>\<open>time_json\<close> is the JSON form of a time, \<open>json.Marshal\<close>'s; the payload is embedded as it is.\<close>

definition event_json :: "(time \<Rightarrow> string) \<Rightarrow> WebhookEvent \<Rightarrow> json" where
  "event_json time_json e = JObj
    [(''event_type'', json_str (ev_EventType e)), (''intent_id'', json_str (ev_IntentID e)),
     (''tenant_id'', json_str (ev_TenantID e)), (''timestamp'', JStr (time_json (ev_Timestamp e))),
     (''payload'', ev_Payload e)]"

definition accepted_status :: "int \<Rightarrow> bool" where
  "accepted_status status \<longleftrightarrow> 200 \<le> status \<and> status < 300"

fun deliver_loop ::
  "'x machine \<Rightarrow> WebhookEndpoint \<Rightarrow> WebhookEvent \<Rightarrow> string \<Rightarrow> nat \<Rightarrow> nat \<Rightarrow> ('x, unit) op"
where
  "deliver_loop mc ep event body attempt 0 = State_Monad.return ()"
| "deliver_loop mc ep event body attempt (Suc left) = do {
     (if attempt > 0 then mc_sleep mc (backoff attempt 30) else State_Monad.return ());
     r \<leftarrow> mc_post mc (e_URL ep)
           [(''Content-Type'', ''application/json''), (''X-VaultForge-Event'', ev_EventType event),
            (''X-VaultForge-Delivery'', ev_IntentID event)] body;
     (case r of
        NoRequest err \<Rightarrow> State_Monad.return ()
      | NoResponse err \<Rightarrow> deliver_loop mc ep event body (Suc attempt) left
      | HttpResponse status resp \<Rightarrow>
          if accepted_status status then State_Monad.return ()
          else deliver_loop mc ep event body (Suc attempt) left)
   }"

definition deliver ::
  "golib \<Rightarrow> (time \<Rightarrow> string) \<Rightarrow> 'x machine \<Rightarrow> WebhookEndpoint \<Rightarrow> WebhookEvent \<Rightarrow> ('x, unit) op"
where
  "deliver L time_json mc ep event =
     deliver_loop mc ep event (js_print (gl_json L) (event_json time_json event)) 0 5"

definition event_query :: "WebhookEvent \<Rightarrow> cond list" where
  "event_query e = [ColEq ''tenant_id'' (ev_TenantID e), ColIs ''is_active'' True,
     OrElse (ColEq ''event_type'' (ev_EventType e)) (ColEq ''event_type'' ''*'')]"

fun launch_all :: "'x machine \<Rightarrow> ('e \<Rightarrow> ('x, unit) op) \<Rightarrow> 'e list \<Rightarrow> ('x, unit) op" where
  "launch_all mc f [] = State_Monad.return ()"
| "launch_all mc f (e # es) = do { mc_go mc (f e); launch_all mc f es }"

definition Notify ::
  "golib \<Rightarrow> (time \<Rightarrow> string) \<Rightarrow> 'x machine \<Rightarrow> 'x gorm \<Rightarrow> WebhookEvent \<Rightarrow> ('x, unit) op"
where
  "Notify L time_json mc db event = do {
     r \<leftarrow> tb_find (g_endpoints db) (event_query event) Unordered;
     (case r of
        Inl err \<Rightarrow> State_Monad.return ()
      | Inr endpoints \<Rightarrow> launch_all mc (\<lambda>ep. deliver L time_json mc ep event) endpoints)
   }"

text \<open>The payloads are maps, marshalled with sorted keys.\<close>

definition NotifyIntentStateChange ::
  "golib \<Rightarrow> (time \<Rightarrow> string) \<Rightarrow> 'x machine \<Rightarrow> 'x gorm \<Rightarrow> Intent \<Rightarrow> string \<Rightarrow> ('x, unit) op"
where
  "NotifyIntentStateChange L time_json mc db intent eventType = do {
     now \<leftarrow> mc_clock mc;
     Notify L time_json mc db
       \<lparr>ev_EventType = eventType, ev_IntentID = i_ID intent, ev_TenantID = i_TenantID intent,
        ev_Timestamp = now, ev_Payload = JObj
          [(''amount'', json_str (i_Amount intent)), (''intent_id'', json_str (i_ID intent)),
           (''status'', json_str (i_Status intent)), (''token'', json_str (i_Token intent)),
           (''wallet_id'', json_str (i_WalletID intent))]\<rparr>
   }"

definition NotifyTransactionConfirmed ::
  "golib \<Rightarrow> (time \<Rightarrow> string) \<Rightarrow> 'x machine \<Rightarrow> 'x gorm \<Rightarrow> Transaction \<Rightarrow> ('x, unit) op"
where
  "NotifyTransactionConfirmed L time_json mc db tx = do {
     now \<leftarrow> mc_clock mc;
     Notify L time_json mc db
       \<lparr>ev_EventType = ''transaction.confirmed'', ev_IntentID = x_IntentID tx,
        ev_TenantID = x_TenantID tx, ev_Timestamp = now, ev_Payload = JObj
          [(''confirmation_signature'', json_str (x_ConfirmSignature tx)),
           (''intent_id'', json_str (x_IntentID tx)), (''transaction_id'', json_str (x_ID tx))]\<rparr>
   }"

definition RegisterEndpoint ::
  "'x machine \<Rightarrow> 'x gorm \<Rightarrow> string \<Rightarrow> string \<Rightarrow> string \<Rightarrow> string \<Rightarrow> ('x, error option) op"
where
  "RegisterEndpoint mc db tenantID url eventType secret = do {
     t_id \<leftarrow> mc_clock mc;
     now \<leftarrow> mc_clock mc;
     r \<leftarrow> tb_create (g_endpoints db)
       \<lparr>e_ID = GenerateUUID t_id, e_TenantID = tenantID, e_URL = url, e_EventType = eventType,
        e_IsActive = True, e_Secret = secret, e_CreatedAt = now\<rparr>;
     State_Monad.return (fst r)
   }"

definition ListEndpoints :: "'x gorm \<Rightarrow> string \<Rightarrow> ('x, error + WebhookEndpoint list) op" where
  "ListEndpoints db tenantID =
     tb_find (g_endpoints db) [ColEq ''tenant_id'' tenantID, ColIs ''is_active'' True] Unordered"

definition WebhookNotifier ::
  "golib \<Rightarrow> (time \<Rightarrow> string) \<Rightarrow> 'x machine \<Rightarrow> 'x gorm \<Rightarrow> 'x StateNotifier"
where
  "WebhookNotifier L time_json mc db =
    \<lparr> wh_NotifyIntentStateChange = NotifyIntentStateChange L time_json mc db,
      wh_NotifyTransactionConfirmed = NotifyTransactionConfirmed L time_json mc db \<rparr>"

subsection \<open>One delivery\<close>

text \<open>A result after which the delivery is tried again.\<close>

definition redeliver :: "http_result \<Rightarrow> bool" where
  "redeliver r = (case r of
     NoRequest _ \<Rightarrow> False | NoResponse _ \<Rightarrow> True | HttpResponse status _ \<Rightarrow> \<not> accepted_status status)"

definition delivery_protocol :: "string \<Rightarrow> string \<Rightarrow> net_call list \<Rightarrow> bool" where
  "delivery_protocol url body es \<longleftrightarrow>
     (let rs = replies es in
      rs \<noteq> [] \<and> length rs \<le> 5 \<and> sent es = replicate (length rs) (url, body) \<and>
      sleeps es = take (length rs - 1) [second, 2 * second, 4 * second, 8 * second] \<and>
      list_all redeliver (butlast rs) \<and> (length rs < 5 \<longrightarrow> \<not> redeliver (last rs)))"

lemma deliver_protocol:
  "appends (\<lambda>es r. delivery_protocol (e_URL ep) (js_print (gl_json L) (event_json tj event)) es)
     (deliver L tj (noting mc go clock) ep event)"
proof -
  have result: "appends P (case r of NoRequest err \<Rightarrow> m1 | NoResponse err \<Rightarrow> m2
      | HttpResponse status resp \<Rightarrow> m3 status)"
    if "\<And>e. r = NoRequest e \<Longrightarrow> appends P m1" "\<And>e. r = NoResponse e \<Longrightarrow> appends P m2"
      "\<And>status resp. r = HttpResponse status resp \<Longrightarrow> appends P (m3 status)" for P r m1 m2 m3
    using that by (cases r) auto
  have five: "deliver_loop mc ep event body 0 5 =
      deliver_loop mc ep event body 0 (Suc (Suc (Suc (Suc (Suc 0)))))" for mc body
    by (simp add: eval_nat_numeral)
  show ?thesis
    unfolding deliver_def five
    unfolding deliver_loop.simps noting_sel bind_if State_Monad.bind_left_identity
    by (intro appends_rules result)
      (simp_all add: delivery_protocol_def redeliver_def backoff_def)
qed

subsection \<open>Properties\<close>

text \<open>C29: One webhook delivery sends the same event to the endpoint's address at most five times, sleeping
  1, 2, 4 and 8 seconds in between; it stops at the first 2xx response (or when no request can be
  made) and otherwise uses all five attempts.\<close>

theorem webhook_delivery_protocol:
  "case serve (deliver L time_json (noting mc go clock) ep event) x of (r, es, x') \<Rightarrow>
     delivery_protocol (e_URL ep) (js_print (gl_json L) (event_json time_json event)) es"
  by (rule appends_case [OF deliver_protocol])

end
