(* ===== verification/VF_Solana.thy ===== *)
theory VF_Solana
  imports VF_Net
begin

section \<open>The Solana client\<close>

text \<open>
  \<open>services/api/core/solana_client.go\<close>: the JSON-RPC client with its retry and polling loops, over the
  transport, the sleep and the JSON scanner as parameters. A loop is recursion on the attempts that
  are left; \<open>attempt\<close> counts from 0 as in the code. An absent \<open>result\<close> is \<open>None\<close>, which does not
  parse. The lemmas bound the number of requests and say when a submission succeeds.
\<close>

record SolanaClient =
  sc_rpcURL :: string
  sc_commitment :: string
  sc_maxRetries :: int
  sc_pollInterval :: int

definition NewSolanaClient :: "string \<Rightarrow> SolanaClient" where
  "NewSolanaClient rpcURL =
    \<lparr> sc_rpcURL = (if rpcURL = [] then ''https://api.devnet.solana.com'' else rpcURL),
      sc_commitment = ''confirmed'', sc_maxRetries = 3, sc_pollInterval = 2 * second \<rparr>"

record rpcError =
  re_Code :: int
  re_Message :: string

record rpcResponse =
  rr_Jsonrpc :: string
  rr_ID :: int
  rr_Result :: "json option"
  rr_Error :: "rpcError option"

record signatureStatus =
  ss_Signature :: string
  ss_ConfirmationStatus :: string
  ss_Err :: "json option"

subsection \<open>Requests and responses\<close>

definition rpc_request :: "string \<Rightarrow> json list \<Rightarrow> json" where
  "rpc_request method params = JObj
    [(''jsonrpc'', JStr ''2.0''), (''id'', JNum ''1''), (''method'', json_str method),
     (''params'', JArr params)]"

fun um_rpc_error :: "unicode \<Rightarrow> rpcError option \<Rightarrow> json \<Rightarrow> rpcError option option" where
  "um_rpc_error u old JNull = Some None"
| "um_rpc_error u old v = map_option Some
    (um_struct u [''code'', ''message'']
      (\<lambda>f v e. if f = ''code'' then map_option (\<lambda>n. e\<lparr>re_Code := n\<rparr>) (um_int (re_Code e) v)
                else map_option (\<lambda>s. e\<lparr>re_Message := s\<rparr>) (um_str (re_Message e) v))
      v (case old of Some e \<Rightarrow> e | None \<Rightarrow> \<lparr>re_Code = 0, re_Message = []\<rparr>))"

definition um_rpc_field :: "unicode \<Rightarrow> string \<Rightarrow> json \<Rightarrow> rpcResponse \<Rightarrow> rpcResponse option" where
  "um_rpc_field u f v r =
    (if f = ''jsonrpc'' then map_option (\<lambda>s. r\<lparr>rr_Jsonrpc := s\<rparr>) (um_str (rr_Jsonrpc r) v)
     else if f = ''id'' then map_option (\<lambda>n. r\<lparr>rr_ID := n\<rparr>) (um_int (rr_ID r) v)
     else if f = ''result'' then Some (r\<lparr>rr_Result := Some v\<rparr>)
     else map_option (\<lambda>e. r\<lparr>rr_Error := e\<rparr>) (um_rpc_error u (rr_Error r) v))"

definition unmarshal_rpc :: "golib \<Rightarrow> string \<Rightarrow> error + rpcResponse" where
  "unmarshal_rpc L body =
    (case js_parse (gl_json L) body of
       None \<Rightarrow> Inl (js_error (gl_json L) body)
     | Some v \<Rightarrow>
       (case um_struct (gl_unicode L) [''jsonrpc'', ''id'', ''result'', ''error'']
               (um_rpc_field (gl_unicode L)) v
               \<lparr>rr_Jsonrpc = [], rr_ID = 0, rr_Result = None, rr_Error = None\<rparr> of
          None \<Rightarrow> Inl (js_type_error (gl_json L) v)
        | Some r \<Rightarrow> Inr r))"

text \<open>\<open>json.Unmarshal(resp.Result, ...)\<close> into a struct with the fields \<open>fs\<close>.\<close>

definition unmarshal_result ::
  "golib \<Rightarrow> json option \<Rightarrow> string list \<Rightarrow> (string \<Rightarrow> json \<Rightarrow> 'r \<Rightarrow> 'r option) \<Rightarrow> 'r \<Rightarrow> error + 'r"
where
  "unmarshal_result L result fs step zero =
    (case result of
       None \<Rightarrow> Inl (js_error (gl_json L) [])
     | Some v \<Rightarrow>
       (case um_struct (gl_unicode L) fs step v zero of
          None \<Rightarrow> Inl (js_type_error (gl_json L) v)
        | Some r \<Rightarrow> Inr r))"

text \<open>What \<open>sendRPC\<close> makes of the transport's result.\<close>

definition rpc_reply :: "golib \<Rightarrow> http_result \<Rightarrow> error + rpcResponse" where
  "rpc_reply L r =
    (case r of
       NoRequest err \<Rightarrow> Inl (''failed to create request: '' @ err)
     | NoResponse err \<Rightarrow> Inl (''HTTP request failed: '' @ err)
     | HttpResponse status (Inl err) \<Rightarrow> Inl (''failed to read response: '' @ err)
     | HttpResponse status (Inr body) \<Rightarrow>
         (case unmarshal_rpc L body of
            Inl err \<Rightarrow> Inl (''failed to parse response: '' @ err)
          | Inr resp \<Rightarrow> Inr resp))"

definition sendRPC ::
  "golib \<Rightarrow> 'x machine \<Rightarrow> SolanaClient \<Rightarrow> json \<Rightarrow> ('x, error + rpcResponse) op"
where
  "sendRPC L mc c req = do {
     r \<leftarrow> mc_post mc (sc_rpcURL c) [(''Content-Type'', ''application/json'')]
           (js_print (gl_json L) req);
     State_Monad.return (rpc_reply L r)
   }"

subsection \<open>Submitting\<close>

definition submit_request :: "SolanaClient \<Rightarrow> byte list \<Rightarrow> json" where
  "submit_request c txBytes = rpc_request ''sendTransaction''
    [JStr (base64 txBytes),
     JObj [(''commitment'', json_str (sc_commitment c)), (''encoding'', JStr ''base64''),
           (''maxRetries'', JStr ''5''), (''preflightCommitment'', json_str (sc_commitment c))]]"

definition unmarshal_signature :: "golib \<Rightarrow> json option \<Rightarrow> error + string" where
  "unmarshal_signature L result =
     unmarshal_result L result [''signature''] (\<lambda>f v s. um_str s v) []"

fun submit_loop ::
  "golib \<Rightarrow> 'x machine \<Rightarrow> SolanaClient \<Rightarrow> json \<Rightarrow> nat \<Rightarrow> nat \<Rightarrow> error \<Rightarrow> ('x, error + SubmitResult) op"
where
  "submit_loop L mc c req attempt 0 lastErr = State_Monad.return
     (Inl (''submit failed after '' @ show_int (sc_maxRetries c) @ '' retries: '' @ lastErr))"
| "submit_loop L mc c req attempt (Suc left) lastErr = do {
     (if attempt > 0 then mc_sleep mc (backoff attempt 10) else State_Monad.return ());
     r \<leftarrow> sendRPC L mc c req;
     (case r of
        Inl err \<Rightarrow> submit_loop L mc c req (Suc attempt) left (''RPC request failed: '' @ err)
      | Inr resp \<Rightarrow>
        (case rr_Error resp of
           Some e \<Rightarrow>
             if int attempt < sc_maxRetries c
             then submit_loop L mc c req (Suc attempt) left (''RPC error: '' @ re_Message e)
             else State_Monad.return
               (Inr \<lparr>sub_Signature = [], sub_Success = False, sub_Error = re_Message e\<rparr>)
         | None \<Rightarrow>
           (case unmarshal_signature L (rr_Result resp) of
              Inl err \<Rightarrow> State_Monad.return (Inl (''failed to parse response: '' @ err))
            | Inr sig \<Rightarrow> State_Monad.return
                (Inr \<lparr>sub_Signature = sig, sub_Success = True, sub_Error = []\<rparr>))))
   }"

definition SubmitTransaction ::
  "golib \<Rightarrow> 'x machine \<Rightarrow> SolanaClient \<Rightarrow> byte list \<Rightarrow> ('x, error + SubmitResult) op"
where
  "SubmitTransaction L mc c txBytes =
     submit_loop L mc c (submit_request c txBytes) 0 (nat (sc_maxRetries c + 1)) ''%!w(<nil>)''"

subsection \<open>Polling\<close>

text \<open>A slice target: an array element starts from the element that was there, else from zero.\<close>

fun um_elems :: "('r \<Rightarrow> json \<Rightarrow> 'r option) \<Rightarrow> 'r \<Rightarrow> 'r list \<Rightarrow> json list \<Rightarrow> 'r list option" where
  "um_elems um zero old [] = Some []"
| "um_elems um zero old (v # vs) =
    (case um (case old of [] \<Rightarrow> zero | o' # _ \<Rightarrow> o') v of
       None \<Rightarrow> None
     | Some r \<Rightarrow> map_option (Cons r) (um_elems um zero (tl old) vs))"

fun um_slice :: "('r \<Rightarrow> json \<Rightarrow> 'r option) \<Rightarrow> 'r \<Rightarrow> 'r list \<Rightarrow> json \<Rightarrow> 'r list option" where
  "um_slice um zero old JNull = Some []"
| "um_slice um zero old (JArr vs) = um_elems um zero old vs"
| "um_slice um zero old _ = None"

definition um_status :: "golib \<Rightarrow> signatureStatus \<Rightarrow> json \<Rightarrow> signatureStatus option" where
  "um_status L old v =
    um_struct (gl_unicode L) [''signature'', ''confirmationStatus'', ''err'']
      (\<lambda>f v s. if f = ''signature'' then map_option (\<lambda>x. s\<lparr>ss_Signature := x\<rparr>) (um_str (ss_Signature s) v)
         else if f = ''confirmationStatus'' then
           map_option (\<lambda>x. s\<lparr>ss_ConfirmationStatus := x\<rparr>) (um_str (ss_ConfirmationStatus s) v)
         else if v = JNull then Some (s\<lparr>ss_Err := None\<rparr>)
         else if floats_ok (gl_json L) v then Some (s\<lparr>ss_Err := Some v\<rparr>) else None)
      v old"

definition zero_status :: signatureStatus where
  "zero_status = \<lparr>ss_Signature = [], ss_ConfirmationStatus = [], ss_Err = None\<rparr>"

definition GetSignatureStatus ::
  "golib \<Rightarrow> 'x machine \<Rightarrow> SolanaClient \<Rightarrow> string \<Rightarrow> ('x, error + signatureStatus option) op"
where
  "GetSignatureStatus L mc c signature = do {
     r \<leftarrow> sendRPC L mc c (rpc_request ''getSignatureStatuses''
            [JArr [json_str signature], JObj [(''searchTransactionHistory'', JBool True)]]);
     State_Monad.return
       (case r of
          Inl err \<Rightarrow> Inl err
        | Inr resp \<Rightarrow>
          (case unmarshal_result L (rr_Result resp) [''value'']
                  (\<lambda>f v old. um_slice (um_status L) zero_status old v) [] of
             Inl err \<Rightarrow> Inl (''failed to parse status: '' @ err)
           | Inr [] \<Rightarrow> Inr None
           | Inr (s # _) \<Rightarrow> Inr (Some s)))
   }"

definition confirmed_status :: "signatureStatus \<Rightarrow> bool" where
  "confirmed_status s \<longleftrightarrow>
     ss_ConfirmationStatus s = ''confirmed'' \<or> ss_ConfirmationStatus s = ''finalized''"

fun wait_loop ::
  "golib \<Rightarrow> 'x machine \<Rightarrow> SolanaClient \<Rightarrow> string \<Rightarrow> nat \<Rightarrow> ('x, error + bool) op"
where
  "wait_loop L mc c signature 0 = State_Monad.return
     (Inl (''confirmation timeout after '' @ show_int (sc_maxRetries c * 10) @ '' attempts''))"
| "wait_loop L mc c signature (Suc left) = do {
     r \<leftarrow> GetSignatureStatus L mc c signature;
     (case r of
        Inl err \<Rightarrow> do { mc_sleep mc (sc_pollInterval c); wait_loop L mc c signature left }
      | Inr None \<Rightarrow> do { mc_sleep mc (sc_pollInterval c); wait_loop L mc c signature left }
      | Inr (Some status) \<Rightarrow>
        (case ss_Err status of
           Some e \<Rightarrow> State_Monad.return
             (Inl (''transaction failed on chain: '' @ js_show (gl_json L) e))
         | None \<Rightarrow>
           if confirmed_status status then State_Monad.return (Inr True)
           else do { mc_sleep mc (sc_pollInterval c); wait_loop L mc c signature left }))
   }"

definition WaitForConfirmation ::
  "golib \<Rightarrow> 'x machine \<Rightarrow> SolanaClient \<Rightarrow> string \<Rightarrow> ('x, error + bool) op"
where
  "WaitForConfirmation L mc c signature =
     wait_loop L mc c signature (nat (sc_maxRetries c * 10))"

definition GetRecentBlockhash ::
  "golib \<Rightarrow> 'x machine \<Rightarrow> SolanaClient \<Rightarrow> ('x, error + string) op"
where
  "GetRecentBlockhash L mc c = do {
     r \<leftarrow> sendRPC L mc c (rpc_request ''getLatestBlockhash''
            [JObj [(''commitment'', json_str (sc_commitment c))]]);
     State_Monad.return
       (case r of
          Inl err \<Rightarrow> Inl (''failed to get recent blockhash: '' @ err)
        | Inr resp \<Rightarrow>
          (case unmarshal_result L (rr_Result resp) [''value'']
                  (\<lambda>f v s. um_struct (gl_unicode L) [''blockhash''] (\<lambda>f v s. um_str s v) v s) [] of
             Inl err \<Rightarrow> Inl (''failed to parse blockhash: '' @ err)
           | Inr bh \<Rightarrow> Inr bh))
   }"

definition solana_submitter :: "golib \<Rightarrow> 'x machine \<Rightarrow> SolanaClient \<Rightarrow> 'x SolanaSubmitter" where
  "solana_submitter L mc c =
    \<lparr> sol_SubmitTransaction = SubmitTransaction L mc c,
      sol_WaitForConfirmation = WaitForConfirmation L mc c,
      sol_GetRecentBlockhash = GetRecentBlockhash L mc c \<rparr>"

subsection \<open>Submission\<close>

text \<open>A reply after which the client tries again, and what it returns for the last reply.\<close>

definition retryable :: "golib \<Rightarrow> http_result \<Rightarrow> bool" where
  "retryable L r = (case rpc_reply L r of Inl _ \<Rightarrow> True | Inr resp \<Rightarrow> rr_Error resp \<noteq> None)"

definition submit_verdict :: "golib \<Rightarrow> http_result \<Rightarrow> error + SubmitResult" where
  "submit_verdict L r =
    (case rpc_reply L r of
       Inl err \<Rightarrow> Inl (''submit failed after 3 retries: RPC request failed: '' @ err)
     | Inr resp \<Rightarrow>
       (case rr_Error resp of
          Some e \<Rightarrow> Inr \<lparr>sub_Signature = [], sub_Success = False, sub_Error = re_Message e\<rparr>
        | None \<Rightarrow>
          (case unmarshal_signature L (rr_Result resp) of
             Inl err \<Rightarrow> Inl (''failed to parse response: '' @ err)
           | Inr sig \<Rightarrow> Inr \<lparr>sub_Signature = sig, sub_Success = True, sub_Error = []\<rparr>)))"

definition submit_protocol ::
  "golib \<Rightarrow> string \<Rightarrow> byte list \<Rightarrow> net_call list \<Rightarrow> error + SubmitResult \<Rightarrow> bool"
where
  "submit_protocol L url txBytes es r \<longleftrightarrow>
     (let rs = replies es; c = NewSolanaClient url in
      rs \<noteq> [] \<and> length rs \<le> 4 \<and>
      sent es = replicate (length rs)
        (sc_rpcURL c, js_print (gl_json L) (submit_request c txBytes)) \<and>
      sleeps es = take (length rs - 1) [second, 2 * second, 4 * second] \<and>
      list_all (retryable L) (butlast rs) \<and>
      (length rs < 4 \<longrightarrow> \<not> retryable L (last rs)) \<and>
      r = submit_verdict L (last rs))"

lemma show_int_3: "show_int 3 = ''3''"
  by code_simp

lemma SubmitTransaction_protocol:
  "appends (submit_protocol L url txBytes) (SubmitTransaction L (noting mc go clock) (NewSolanaClient url) txBytes)"
proof -
  have four: "nat (sc_maxRetries (NewSolanaClient url) + 1) = Suc (Suc (Suc (Suc 0)))"
    by (simp add: NewSolanaClient_def)
  have three: "sc_maxRetries (NewSolanaClient url) = 3"
    by (simp add: NewSolanaClient_def)
  show ?thesis
    unfolding SubmitTransaction_def four
    unfolding submit_loop.simps sendRPC_def noting_sel three
      State_Monad.bind_assoc bind_if State_Monad.bind_left_identity
    by (intro appends_rules)
      (simp_all add: submit_protocol_def retryable_def submit_verdict_def backoff_def show_int_3)
qed

subsection \<open>Waiting for a confirmation\<close>

definition status_reply :: "golib \<Rightarrow> http_result \<Rightarrow> error + signatureStatus option" where
  "status_reply L r =
    (case rpc_reply L r of
       Inl err \<Rightarrow> Inl err
     | Inr resp \<Rightarrow>
       (case unmarshal_result L (rr_Result resp) [''value'']
               (\<lambda>f v old. um_slice (um_status L) zero_status old v) [] of
          Inl err \<Rightarrow> Inl (''failed to parse status: '' @ err)
        | Inr [] \<Rightarrow> Inr None
        | Inr (s # _) \<Rightarrow> Inr (Some s)))"

text \<open>A reply that leaves the outcome open, so that the client sleeps and polls again.\<close>

definition inconclusive :: "golib \<Rightarrow> http_result \<Rightarrow> bool" where
  "inconclusive L r =
    (case status_reply L r of
       Inr (Some s) \<Rightarrow> ss_Err s = None \<and> \<not> confirmed_status s
     | _ \<Rightarrow> True)"

text \<open>
  What \<open>WaitForConfirmation\<close> returns after \<open>n\<close> polls at most: an error that names the chain's error
  for a transaction that failed, true for a confirmed one, and a timeout when every poll was open.
\<close>

definition wait_protocol :: "golib \<Rightarrow> SolanaClient \<Rightarrow> nat \<Rightarrow> net_call list \<Rightarrow> error + bool \<Rightarrow> bool" where
  "wait_protocol L c n es r \<longleftrightarrow>
     (let rs = replies es in
      length rs \<le> n \<and> list_all (\<lambda>d. d = sc_pollInterval c) (sleeps es) \<and>
      (if list_all (inconclusive L) rs then
         length rs = n \<and> length (sleeps es) = n \<and>
         r = Inl (''confirmation timeout after '' @ show_int (sc_maxRetries c * 10) @ '' attempts'')
       else
         list_all (inconclusive L) (butlast rs) \<and> length (sleeps es) = length rs - 1 \<and>
         (case status_reply L (last rs) of
            Inr (Some s) \<Rightarrow>
              r = (case ss_Err s of
                     Some e \<Rightarrow> Inl (''transaction failed on chain: '' @ js_show (gl_json L) e)
                   | None \<Rightarrow> Inr True)
          | _ \<Rightarrow> False)))"

lemma wait_protocol_step:
  assumes "inconclusive L a" "wait_protocol L c n es r"
  shows "wait_protocol L c (Suc n) (Posted u b a # Slept (sc_pollInterval c) # es) r"
  using assms by (auto simp: wait_protocol_def Let_def split: if_splits)

lemma wait_loop_protocol:
  "appends (wait_protocol L c n) (wait_loop L (noting mc go clock) c signature n)"
proof (induction n)
  case 0
  then show ?case by (auto intro!: appends_return simp: wait_protocol_def)
next
  case (Suc n)
  have next_poll: "appends (\<lambda>es. wait_protocol L c (Suc n) (Posted u b a # es))
      (do { act (mc_sleep mc (sc_pollInterval c)) (\<lambda>_. Slept (sc_pollInterval c));
            wait_loop L (noting mc go clock) c signature n })" if "inconclusive L a" for u b a
    by (rule appends_act_bind, rule appends_mono [OF Suc])
      (use wait_protocol_step [OF that] in blast)
  have status: "(case rpc_reply L a of
        Inl err \<Rightarrow> Inl err
      | Inr resp \<Rightarrow>
        (case unmarshal_result L (rr_Result resp) [''value'']
                (\<lambda>f v old. um_slice (um_status L) zero_status old v) [] of
           Inl err \<Rightarrow> Inl (''failed to parse status: '' @ err)
         | Inr [] \<Rightarrow> Inr None
         | Inr (s # _) \<Rightarrow> Inr (Some s))) = status_reply L a" for a
    by (simp add: status_reply_def)
  show ?case
    unfolding wait_loop.simps GetSignatureStatus_def sendRPC_def noting_sel
      State_Monad.bind_assoc State_Monad.bind_left_identity status
    by (intro appends_rules next_poll)
      (auto simp: inconclusive_def wait_protocol_def)
qed

subsection \<open>Properties\<close>

text \<open>C26: A submission sends at most four requests, all with the same transaction, sleeping 1, 2 and 4
  seconds between them; it stops at the first reply that carries no error, and returns what the last
  reply says: the signature, the chain's refusal, or an error.\<close>

theorem submission_protocol:
  "case serve (SubmitTransaction L (noting mc go clock) (NewSolanaClient url) txBytes) x of
     (r, es, x') \<Rightarrow> submit_protocol L url txBytes es r"
  by (rule appends_case [OF SubmitTransaction_protocol])

text \<open>C27: Waiting for a confirmation polls at most thirty times, sleeping the poll interval after every
  poll that leaves the outcome open; it returns true only for a status \<open>confirmed\<close> or \<open>finalized\<close>
  without an error, the chain's error for a transaction that failed, and a timeout otherwise.\<close>

theorem confirmation_protocol:
  "case serve (WaitForConfirmation L (noting mc go clock) (NewSolanaClient url) signature) x of
     (r, es, x') \<Rightarrow> wait_protocol L (NewSolanaClient url) 30 es r"
proof -
  have "nat (sc_maxRetries (NewSolanaClient url) * 10) = 30"
    by (simp add: NewSolanaClient_def)
  then show ?thesis
    unfolding WaitForConfirmation_def by (metis appends_case wait_loop_protocol)
qed

text \<open>C28: The reply Solana documents for \<open>sendTransaction\<close>, whose result is the signature as a JSON
  string, is read as a failure: the client expects an object and gives up without a retry, although
  the chain has accepted the transaction.\<close>

theorem documented_reply_is_failure:
  assumes "js_parse (gl_json L) body =
      Some (JObj [(''jsonrpc'', JStr ''2.0''), (''result'', JStr sig), (''id'', JNum ''1'')])"
    and "\<And>u hs b. run_state (mc_post mc u hs b) x = (HttpResponse status (Inr body), x')"
  shows "run_state (SubmitTransaction L mc (NewSolanaClient url) txBytes) x =
    (Inl (''failed to parse response: '' @ js_type_error (gl_json L) (JStr sig)), x')"
proof -
  have four: "nat (sc_maxRetries (NewSolanaClient url) + 1) = Suc (Suc (Suc (Suc 0)))"
    by (simp add: NewSolanaClient_def)
  have lower: "list_all ascii_lower [''jsonrpc'', ''id'', ''result'', ''error'']"
    by code_simp
  have "show_int 1 = ''1''"
    by code_simp
  then have id1: "parse_int64 ''1'' = Inr 1"
    using parse_int64_show_int [of 1] by simp
  have "rpc_reply L (HttpResponse status (Inr body)) =
      Inr \<lparr>rr_Jsonrpc = ''2.0'', rr_ID = 1, rr_Result = Some (JStr sig), rr_Error = None\<rparr>"
    by (simp add: rpc_reply_def unmarshal_rpc_def assms(1) um_struct_def um_rpc_field_def id1
        find_field_lower [OF lower] del: find_field.simps)
  then show ?thesis
    unfolding SubmitTransaction_def four submit_loop.simps sendRPC_def
    by (simp add: assms(2) unmarshal_signature_def unmarshal_result_def um_struct_def)
qed

lemma documented_reply_is_failure_witness:
  "\<exists>L mc. run_state (SubmitTransaction L mc (NewSolanaClient []) [1]) () =
     (Inl (''failed to parse response: type''), ())"
proof -
  define L where "L = \<lparr>gl_unicode = \<lparr>u_fold = (=), u_lower = id, u_quote = id\<rparr>,
     gl_json = \<lparr>js_parse = (\<lambda>_. Some (JObj [(''jsonrpc'', JStr ''2.0''), (''result'', JStr ''5sig''),
                  (''id'', JNum ''1'')])), js_print = (\<lambda>_. ''null''), js_float = (\<lambda>_. None),
                js_conv = (\<lambda>_. 0), js_error = id, js_type_error = (\<lambda>_. ''type''), js_show = (\<lambda>_. [])\<rparr>,
     gl_parse3339 = (\<lambda>_. None), gl_format3339 = (\<lambda>_. []), gl_sha256 = (\<lambda>_. replicate 32 1)\<rparr>"
  define mc :: "unit machine" where "mc = \<lparr>mc_clock = State_Monad.return 0, mc_sleep = (\<lambda>_. State_Monad.return ()),
     mc_go = id, mc_post = (\<lambda>_ _ _. State_Monad.return (HttpResponse 200 (Inr ''body'')))\<rparr>"
  have "run_state (SubmitTransaction L mc (NewSolanaClient []) [1]) () =
      (Inl (''failed to parse response: '' @ js_type_error (gl_json L) (JStr ''5sig'')), ())"
    by (rule documented_reply_is_failure [where body = "''body''" and status = 200])
      (simp_all add: L_def mc_def)
  then show ?thesis by (auto simp: L_def intro!: exI [of _ L] exI [of _ mc])
qed

end
