(* ===== verification/VF_Reconciler.thy ===== *)
theory VF_Reconciler
  imports VF_Protocol VF_Stores VF_Net
begin

section \<open>The reconciler\<close>

text \<open>
  \<open>services/api/core/reconciler.go\<close>: after a submission it polls the chain until the transaction is
  confirmed or the polls run out, and moves the intent on. It runs in its own goroutine on the
  database, beside the handlers. The Solana client, the notifier and the auditor may be nil. The
  lemmas say which writes it makes and what precedes them.
\<close>

record 'x ReconcilerImpl =
  rc_db :: "'x gorm"
  rc_solanaClient :: "'x SolanaSubmitter option"
  rc_webhooks :: "'x StateNotifier option"
  rc_audit :: "'x IntentAuditor option"
  rc_machine :: "'x machine"

definition NewReconciler :: "'x gorm \<Rightarrow> 'x machine \<Rightarrow> 'x ReconcilerImpl" where
  "NewReconciler db mc = \<lparr>rc_db = db, rc_solanaClient = None, rc_webhooks = None, rc_audit = None,
     rc_machine = mc\<rparr>"

definition SetSolanaClient :: "'x SolanaSubmitter \<Rightarrow> 'x ReconcilerImpl \<Rightarrow> 'x ReconcilerImpl" where
  "SetSolanaClient client r = r\<lparr>rc_solanaClient := Some client\<rparr>"

definition SetWebhookNotifier :: "'x StateNotifier \<Rightarrow> 'x ReconcilerImpl \<Rightarrow> 'x ReconcilerImpl" where
  "SetWebhookNotifier wh r = r\<lparr>rc_webhooks := Some wh\<rparr>"

definition SetAuditLogger :: "'x IntentAuditor \<Rightarrow> 'x ReconcilerImpl \<Rightarrow> 'x ReconcilerImpl" where
  "SetAuditLogger auditor r = r\<lparr>rc_audit := Some auditor\<rparr>"

subsection \<open>Its calls\<close>

definition rc_now :: "'x ReconcilerImpl \<Rightarrow> ('x sys, time) op" where
  "rc_now r = act (mc_clock (rc_machine r)) Now"

definition rc_sleep :: "'x ReconcilerImpl \<Rightarrow> int \<Rightarrow> ('x sys, unit) op" where
  "rc_sleep r d = act (mc_sleep (rc_machine r) d) (\<lambda>_. Waited d)"

definition rc_save :: "'x ReconcilerImpl \<Rightarrow> Intent \<Rightarrow> ('x sys, error option \<times> Intent) op" where
  "rc_save r i = act (tb_save (g_intents (rc_db r)) i) (\<lambda>e. Updated i (fst e))"

text \<open>The auditor and the notifier are called when they are set; the audit reads the clock for a
  request identifier.\<close>

definition rc_audited :: "'x ReconcilerImpl \<Rightarrow> (string \<Rightarrow> audit_call) \<Rightarrow> ('x sys, unit) op" where
  "rc_audited r a =
    (case rc_audit r of
       None \<Rightarrow> State_Monad.return ()
     | Some auditor \<Rightarrow> do {
         t \<leftarrow> rc_now r;
         act (au_log auditor (a (GenerateRequestID t))) (\<lambda>_. Audited (a (GenerateRequestID t)))
       })"

definition rc_notify :: "'x ReconcilerImpl \<Rightarrow> Intent \<Rightarrow> string \<Rightarrow> ('x sys, unit) op" where
  "rc_notify r i e =
    (case rc_webhooks r of
       None \<Rightarrow> State_Monad.return ()
     | Some wh \<Rightarrow> act (wh_NotifyIntentStateChange wh i e) (\<lambda>_. Notified i e))"

subsection \<open>Its operations\<close>

definition confirmIntent :: "'x ReconcilerImpl \<Rightarrow> Intent \<Rightarrow> ('x sys, unit) op" where
  "confirmIntent r intent = do {
     now \<leftarrow> rc_now r;
     u \<leftarrow> rc_save r (intent\<lparr>i_Status := ''confirmed'', i_ConfirmedAt := Some now\<rparr>);
     (case fst u of
        Some err \<Rightarrow> State_Monad.return ()
      | None \<Rightarrow> do {
          let intent = snd u;
          t \<leftarrow> act (tb_first (g_transactions (rc_db r)) [ColEq ''intent_id'' (i_ID intent)]) TxLoaded;
          (case t of
             Inl err \<Rightarrow> State_Monad.return ()
           | Inr tx \<Rightarrow> do {
               let tx = tx\<lparr>x_Status := ''confirmed'', x_ConfirmedAt := Some now\<rparr>;
               act (tb_save (g_transactions (rc_db r)) tx) (\<lambda>_. TxSaved tx);
               State_Monad.return ()
             });
          rc_audited r (LogIntentConfirmed (i_TenantID intent) ''system'' (i_ID intent));
          rc_notify r intent ''intent.confirmed''
        })
   }"

definition failIntent :: "'x ReconcilerImpl \<Rightarrow> Intent \<Rightarrow> string \<Rightarrow> string \<Rightarrow> ('x sys, unit) op" where
  "failIntent r intent reason failureType = do {
     now \<leftarrow> rc_now r;
     u \<leftarrow> rc_save r (intent\<lparr>i_Status := ''failed'', i_FailureReason := FailureReason failureType,
            i_UpdatedAt := now\<rparr>);
     (case fst u of
        Some err \<Rightarrow> State_Monad.return ()
      | None \<Rightarrow> do {
          let intent = snd u;
          rc_audited r (\<lambda>rid. LogIntentFailed (i_TenantID intent) ''system'' (i_ID intent) rid reason
            failureType);
          rc_notify r intent ''intent.reconciliation_failed''
        })
   }"

text \<open>\<open>left\<close> counts the attempts that remain of the sixty.\<close>

fun poll_loop :: "'x ReconcilerImpl \<Rightarrow> 'x SolanaSubmitter \<Rightarrow> Intent \<Rightarrow> nat \<Rightarrow> ('x sys, unit) op" where
  "poll_loop r client intent 0 =
     failIntent r intent ''confirmation timeout after polling'' ''confirmation_timeout''"
| "poll_loop r client intent (Suc left) = do {
     rc_sleep r (2 * second);
     c \<leftarrow> act (sol_WaitForConfirmation client (string_of (i_TXSignature intent)))
           (Polled (string_of (i_TXSignature intent)));
     (if c = Inr True then confirmIntent r intent else poll_loop r client intent left)
   }"

definition Start :: "'x ReconcilerImpl \<Rightarrow> string \<Rightarrow> ('x sys, unit) op" where
  "Start r intentID = do {
     l \<leftarrow> act (tb_first (g_intents (rc_db r)) (by_id intentID)) (Loaded intentID);
     (case l of
        Inl err \<Rightarrow> State_Monad.return ()
      | Inr intent \<Rightarrow>
        if i_Status intent \<noteq> ''submitted'' then State_Monad.return ()
        else if length (i_TXSignature intent) = 0 then
          failIntent r intent ''no transaction signature'' ''reconciliation''
        else
          (case rc_solanaClient r of
             None \<Rightarrow> do { rc_sleep r (5 * second); confirmIntent r intent }
           | Some client \<Rightarrow> poll_loop r client intent 60))
   }"

text \<open>The interface of the handlers: the goroutine, without the trail.\<close>

definition untraced :: "('x sys, unit) op \<Rightarrow> ('x, unit) op" where
  "untraced m = State_Monad.State (\<lambda>x. ((), snd (snd (serve m x))))"

definition reconciler_service :: "'x ReconcilerImpl \<Rightarrow> 'x Reconciler" where
  "reconciler_service r =
    \<lparr>rec_Start = (\<lambda>intentID. mc_go (rc_machine r) (untraced (Start r intentID)))\<rparr>"

lemmas rc_defs = rc_now_def rc_sleep_def rc_save_def rc_audited_def rc_notify_def

subsection \<open>What a run does\<close>

fun polls :: "call list \<Rightarrow> (error + bool) list" where
  "polls [] = []"
| "polls (Polled _ r # es) = r # polls es"
| "polls (_ # es) = polls es"

fun written :: "call list \<Rightarrow> Intent list" where
  "written [] = []"
| "written (Updated i _ # es) = i # written es"
| "written (_ # es) = written es"

text \<open>What the run found: nothing to do, or the submitted intent.\<close>

fun found :: "call list \<Rightarrow> Intent option" where
  "found (Loaded _ (Inr i) # _) = (if i_Status i = ''submitted'' then Some i else None)"
| "found _ = None"

definition confirms :: "Intent \<Rightarrow> Intent \<Rightarrow> bool" where
  "confirms i j \<longleftrightarrow> j = i\<lparr>i_Status := ''confirmed'', i_ConfirmedAt := i_ConfirmedAt j\<rparr>"

definition fails_with :: "string \<Rightarrow> Intent \<Rightarrow> Intent \<Rightarrow> bool" where
  "fails_with reason i j \<longleftrightarrow>
     j = i\<lparr>i_Status := ''failed'', i_FailureReason := Some reason, i_UpdatedAt := i_UpdatedAt j\<rparr>"

text \<open>
  A run polls at most sixty times and stops at the first confirmation. It writes the intent once:
  confirmed when a poll confirmed it (or there is no client to ask), failed when there is no
  signature or all sixty polls were negative or in error. It does nothing for other intents.
\<close>

definition reconciliation :: "'x ReconcilerImpl \<Rightarrow> call list \<Rightarrow> bool" where
  "reconciliation r es \<longleftrightarrow>
    (case found es of
       None \<Rightarrow> written es = [] \<and> polls es = [] \<and> length es \<le> 1
     | Some i \<Rightarrow>
       if i_TXSignature i = [] then
         polls es = [] \<and> list_all (fails_with ''reconciliation'' i) (written es) \<and> length (written es) = 1
       else if rc_solanaClient r = None then
         polls es = [] \<and> list_all (confirms i) (written es) \<and> length (written es) = 1
       else
         length (polls es) \<le> 60 \<and> length (written es) = 1 \<and>
         list_all (\<lambda>p. p \<noteq> Inr True) (butlast (polls es)) \<and>
         (if Inr True \<in> set (polls es) then list_all (confirms i) (written es)
          else length (polls es) = 60 \<and> list_all (fails_with ''confirmation_timeout'' i) (written es)))"

definition quiet_tail :: "Intent \<Rightarrow> (Intent \<Rightarrow> Intent \<Rightarrow> bool) \<Rightarrow> call list \<Rightarrow> bool" where
  "quiet_tail i P es \<longleftrightarrow> polls es = [] \<and> length (written es) = 1 \<and> list_all (P i) (written es)"

lemma rc_tail:
  assumes "\<And>fs. polls fs = [] \<Longrightarrow> written fs = [] \<Longrightarrow> P fs ()"
  shows "appends P (do { rc_audited r a; rc_notify r i e })"
  unfolding rc_defs
  by (cases "rc_audit r"; cases "rc_webhooks r"; simp; intro appends_rules assms; simp add: assms)

lemma confirmIntent_writes: "appends (\<lambda>es _. quiet_tail i confirms es) (confirmIntent r i)"
  unfolding confirmIntent_def rc_now_def rc_save_def
  unfolding Let_def bind_sum State_Monad.bind_assoc State_Monad.bind_left_identity
  by (intro appends_return appends_act_bind appends_option appends_sum rc_tail)
    (auto simp: quiet_tail_def confirms_def)

lemma failIntent_writes:
  "appends (\<lambda>es _. quiet_tail i (fails_with ft) es) (failIntent r i reason ft)"
  unfolding failIntent_def rc_now_def rc_save_def
  by (intro appends_return appends_act_bind appends_option appends_let rc_tail)
    (auto simp: quiet_tail_def fails_with_def FailureReason_def)

lemma poll_loop_polls:
  "appends (\<lambda>es _. length (polls es) \<le> n \<and> length (written es) = 1 \<and>
       list_all (\<lambda>p. p \<noteq> Inr True) (butlast (polls es)) \<and>
       (if Inr True \<in> set (polls es) then list_all (confirms i) (written es)
        else length (polls es) = n \<and> list_all (fails_with ''confirmation_timeout'' i) (written es)))
     (poll_loop r client i n)"
proof (induction n)
  case 0
  show ?case
    unfolding poll_loop.simps
    by (rule appends_mono [OF failIntent_writes]) (auto simp: quiet_tail_def)
next
  case (Suc n)
  have ok: "appends (\<lambda>es _. P es) (confirmIntent r i)"
    if "\<And>es. quiet_tail i confirms es \<Longrightarrow> P es" for P
    by (rule appends_mono [OF confirmIntent_writes]) (rule that)
  show ?case
    unfolding poll_loop.simps rc_sleep_def
    by (intro appends_act_bind appends_if ok appends_mono [OF Suc]) (auto simp: quiet_tail_def)
qed

lemma Start_reconciles: "appends (\<lambda>es _. reconciliation r es) (Start r intentID)"
  unfolding Start_def rc_sleep_def
  by (intro appends_act_bind appends_return appends_sum appends_if appends_option
      appends_mono [OF failIntent_writes] appends_mono [OF confirmIntent_writes]
      appends_mono [OF poll_loop_polls])
    (auto simp: reconciliation_def quiet_tail_def)

text \<open>What a run writes is confirmed, or failed with one of two reasons.\<close>

fun run_reasoned :: "call \<Rightarrow> bool" where
  "run_reasoned (Updated i _) \<longleftrightarrow> i_Status i = ''confirmed'' \<or>
     i_Status i = ''failed'' \<and> i_FailureReason i \<in> Some ` {ConfirmationTimeout, ''reconciliation''}"
| "run_reasoned _ = True"

lemma run_reasoned_written:
  "list_all (\<lambda>i. run_reasoned (Updated i None)) (written es) \<Longrightarrow> list_all run_reasoned es"
  by (induction es rule: written.induct) auto

lemma run_reasonedI:
  "confirms i j \<Longrightarrow> run_reasoned (Updated j e)"
  "fails_with reason i j \<Longrightarrow> reason \<in> {ConfirmationTimeout, ''reconciliation''} \<Longrightarrow>
     run_reasoned (Updated j e)"
  unfolding confirms_def fails_with_def by (drule arg_cong [of _ _ i_Status], simp)
    (frule arg_cong [of _ _ i_Status], drule arg_cong [of _ _ i_FailureReason], auto)

lemma Start_reasoned: "appends (\<lambda>es _. list_all run_reasoned es) (Start r intentID)"
  by (rule appends_mono [OF Start_reconciles], rule run_reasoned_written)
    (auto simp: reconciliation_def list_all_iff ConfirmationTimeout_def
      intro: run_reasonedI run_reasonedI(2) [unfolded ConfirmationTimeout_def]
      simp del: run_reasoned.simps split: option.splits if_splits)

subsection \<open>Properties\<close>


end
