(* ===== verification/VF_MPC.thy ===== *)
theory VF_MPC
  imports VF_Gorm
begin

section \<open>Threshold signing\<close>

text \<open>
  \<open>services/api/core/mpc_signer.go\<close>: the signing message, partial signatures, aggregation and
  \<open>Sign\<close>, over the hash and the share table as parameters. The lemmas give every outcome of \<open>Sign\<close>
  and the shape of a result.
\<close>

definition computeSigningMessage :: "hash \<Rightarrow> byte list \<Rightarrow> byte list \<Rightarrow> string \<Rightarrow> string \<Rightarrow> byte list" where
  "computeSigningMessage H intentHash txHash chain context =
     H (bytes_of ''vaultforge-signing-v1'' @ bytes_of chain @ bytes_of context @ intentHash @ txHash)"

definition computePartialSignature :: "hash \<Rightarrow> byte list \<Rightarrow> byte list \<Rightarrow> byte list" where
  "computePartialSignature H share message = H (share @ message)"

text \<open>\<open>copy\<close> into a slice of 64 zero bytes.\<close>

definition aggregatePartialSignatures :: "hash \<Rightarrow> byte list list \<Rightarrow> byte list" where
  "aggregatePartialSignatures H partials =
    (let result = H (bytes_of ''vaultforge-aggregate-v1'' @ concat partials) in
     take 64 result @ replicate (64 - length result) 0)"

definition Sign :: "hash \<Rightarrow> 'x gorm \<Rightarrow> SigningInput \<Rightarrow> ('x, error + SigningResult) op" where
  "Sign H db input =
    (if length (si_IntentHash input) = 0 then
       State_Monad.return (Inl ''intent hash is required'')
     else if si_TxHash input = [] then
       State_Monad.return (Inl ''transaction hash is required'')
     else do {
       let message = computeSigningMessage H (si_IntentHash input) (bytes_of (si_TxHash input))
             (si_Chain input) (si_Context input);
       r \<leftarrow> tb_find (g_shares db) [ColEq ''share_type'' ''frost''] Unordered;
       (case r of
          Inl err \<Rightarrow> State_Monad.return (Inl (''failed to load MPC shares: '' @ err))
        | Inr shareRecords \<Rightarrow>
          if length shareRecords < 2 then
            State_Monad.return (Inl (''insufficient MPC shares: have '' @
              show_int (int (length shareRecords)) @ '', need 2''))
          else do {
            let used = take 2 shareRecords;
            let partialSigs = map (\<lambda>s. computePartialSignature H (m_EncryptedShare s) message) used;
            State_Monad.return (Inr
              \<lparr>sr_Signature = aggregatePartialSignatures H partialSigs,
               sr_Participants = map m_ShareID used\<rparr>)
          })
     })"

subsection \<open>Lemmas\<close>

lemma length_aggregate: "length (aggregatePartialSignatures H ps) = 64"
  by (simp add: aggregatePartialSignatures_def Let_def)

lemma aggregate_tail:
  "digest32 H \<Longrightarrow> drop 32 (aggregatePartialSignatures H ps) = replicate 32 0"
  by (simp add: aggregatePartialSignatures_def Let_def digest32D)

lemma Sign_success:
  assumes "run_state (Sign H db input) x = (Inr r, x')"
  obtains shares where
    "run_state (tb_find (g_shares db) [ColEq ''share_type'' ''frost''] Unordered) x = (Inr shares, x')"
    "2 \<le> length shares" "sr_Participants r = map m_ShareID (take 2 shares)"
    "length (sr_Participants r) = 2" "length (sr_Signature r) = 64"
    "si_IntentHash input \<noteq> []" "si_TxHash input \<noteq> []"
  using assms
  by (auto simp: Sign_def Let_def length_aggregate split: if_splits sum.splits prod.splits)

lemma Sign_no_quorum:
  assumes "run_state (tb_find (g_shares db) [ColEq ''share_type'' ''frost''] Unordered) x = (Inr shares, x')"
    and "length shares < 2"
  shows "\<exists>e. fst (run_state (Sign H db input) x) = Inl e"
  using assms by (simp add: Sign_def)

subsection \<open>Properties\<close>

text \<open>C25: The outcome of \<open>Sign\<close>: it signs exactly when the intent hash and the transaction hash are not
  empty and the table lists at least two shares, whoever they belong to. The signature then names
  the first two rows and has 64 bytes, the last 32 of which are zero for a 32-byte hash.\<close>

theorem signing_outcome:
  assumes "digest32 H"
  shows "case run_state (Sign H db input) x of
      (Inr sr, x') \<Rightarrow> si_IntentHash input \<noteq> [] \<and> si_TxHash input \<noteq> [] \<and>
        (\<exists>s1 s2 ss. run_state (tb_find (g_shares db) [ColEq ''share_type'' ''frost''] Unordered) x
            = (Inr (s1 # s2 # ss), x') \<and> sr_Participants sr = [m_ShareID s1, m_ShareID s2]) \<and>
        length (sr_Signature sr) = 64 \<and> drop 32 (sr_Signature sr) = replicate 32 0
    | (Inl e, x') \<Rightarrow> si_IntentHash input = [] \<or> si_TxHash input = [] \<or>
        (case run_state (tb_find (g_shares db) [ColEq ''share_type'' ''frost''] Unordered) x of
           (Inr shares, _) \<Rightarrow> length shares < 2 | (Inl _, _) \<Rightarrow> True)"
proof -
  have two: "\<exists>s1 s2 ss. xs = s1 # s2 # ss" if "\<not> length xs < 2" for xs :: "MPCShareRecord list"
    using that by (cases xs; cases "tl xs") auto
  show ?thesis
    by (auto simp: Sign_def Let_def length_aggregate aggregate_tail [OF assms]
        split: prod.splits sum.splits dest!: two)
qed

end
