(* ===== verification/VF_ZK.thy ===== *)
theory VF_ZK
  imports VF_Interfaces
begin

section \<open>The policy proofs\<close>

text \<open>
  \<open>services/api/core/zk_verifier.go\<close>: commitments, challenge and response checks over a hash \<open>H\<close>,
  \<open>GenerateProof\<close> with its range check, the JSON form of a proof, and \<open>VerifyPolicyProof\<close>. The
  32-byte arrays are byte lists. The lemmas show that a generated proof verifies, when generation
  succeeds, and exactly what the verifier checks.
\<close>

record ZKProofInternal =
  zi_CommitmentDaily :: "byte list"
  zi_CommitmentAmount :: "byte list"
  zi_CommitmentDiff :: "byte list"
  zi_Challenge :: "byte list"
  zi_ResponseDaily :: "byte list"
  zi_ResponseAmount :: "byte list"
  zi_ResponseDiff :: "byte list"
  zi_Amount :: u64
  zi_PolicyVersion :: string
  zi_IntentID :: string
  zi_WalletID :: string

subsection \<open>Cryptographic helpers\<close>

definition computeDomain :: "hash \<Rightarrow> string \<Rightarrow> string \<Rightarrow> string \<Rightarrow> byte list" where
  "computeDomain H policyVersion intentID walletID =
     H (bytes_of ''vaultforge-zk-domain-v1'' @ bytes_of policyVersion @ bytes_of intentID @
        bytes_of walletID)"

definition le_bytes_u64 :: "u64 \<Rightarrow> byte list" where
  "le_bytes_u64 v = map (\<lambda>i. ucast (drop_bit (8 * i) v)) [0..<8]"

text \<open>\<open>copy(out[:], h.Sum(nil))\<close> into a 32-byte array.\<close>

definition to32 :: "byte list \<Rightarrow> byte list" where
  "to32 bs = take 32 bs @ replicate (32 - length bs) 0"

definition computeCommitment :: "hash \<Rightarrow> u64 \<Rightarrow> byte list \<Rightarrow> byte list \<Rightarrow> byte list" where
  "computeCommitment H value blinding domain =
     to32 (H (bytes_of ''vaultforge-zk-commit-v1'' @ domain @ le_bytes_u64 value @ blinding))"

definition computeChallenge ::
  "hash \<Rightarrow> byte list \<Rightarrow> byte list \<Rightarrow> byte list \<Rightarrow> u64 \<Rightarrow> string \<Rightarrow> string \<Rightarrow> string \<Rightarrow> byte list"
where
  "computeChallenge H cd ca diff amount policyVersion intentID walletID =
     to32 (H (bytes_of ''vaultforge-zk-challenge-v1'' @ cd @ ca @ diff @ le_bytes_u64 amount @
       bytes_of policyVersion @ bytes_of intentID @ bytes_of walletID))"

definition computeResponseCheck :: "hash \<Rightarrow> byte list \<Rightarrow> byte list \<Rightarrow> byte list \<Rightarrow> byte list" where
  "computeResponseCheck H commitment challenge domain =
     to32 (H (bytes_of ''vaultforge-zk-response-check-v1'' @ domain @ challenge @ commitment))"

text \<open>The loops of \<open>bytesEqual\<close> and \<open>isAllZero\<close>.\<close>

fun bytes_loop :: "byte list \<Rightarrow> byte list \<Rightarrow> bool" where
  "bytes_loop (a # as) (b # bs) = (if a \<noteq> b then False else bytes_loop as bs)"
| "bytes_loop _ _ = True"

definition bytesEqual :: "byte list \<Rightarrow> byte list \<Rightarrow> bool" where
  "bytesEqual a b = (if length a \<noteq> length b then False else bytes_loop a b)"

fun isAllZero :: "byte list \<Rightarrow> bool" where
  "isAllZero [] = True"
| "isAllZero (v # vs) = (if v \<noteq> 0 then False else isAllZero vs)"

subsection \<open>The JSON form of a proof\<close>

text \<open>\<open>json.Marshal\<close>: arrays of bytes become arrays of numbers.\<close>

definition json_bytes :: "byte list \<Rightarrow> json" where
  "json_bytes bs = JArr (map (\<lambda>b. JNum (dec_nat (unat b))) bs)"

definition proof_json :: "ZKProofInternal \<Rightarrow> json" where
  "proof_json p = JObj
    [(''commitment_daily'', json_bytes (zi_CommitmentDaily p)),
     (''commitment_amount'', json_bytes (zi_CommitmentAmount p)),
     (''commitment_diff'', json_bytes (zi_CommitmentDiff p)),
     (''challenge'', json_bytes (zi_Challenge p)),
     (''response_daily'', json_bytes (zi_ResponseDaily p)),
     (''response_amount'', json_bytes (zi_ResponseAmount p)),
     (''response_diff'', json_bytes (zi_ResponseDiff p)),
     (''public_inputs'', JObj
       [(''amount'', JNum (dec_nat (unat (zi_Amount p)))),
        (''policy_version'', json_str (zi_PolicyVersion p)),
        (''intent_id'', json_str (zi_IntentID p)),
        (''wallet_id'', json_str (zi_WalletID p))])]"

text \<open>
  \<open>json.Unmarshal\<close> back: each field starts from its current value, \<open>null\<close> leaves it, an array
  fills from the front (surplus elements are dropped, missing ones become zero).
\<close>

fun um_u8 :: "byte \<Rightarrow> json \<Rightarrow> byte option" where
  "um_u8 old JNull = Some old"
| "um_u8 old (JNum l) =
    (case parse_uint l of Inr n \<Rightarrow> if n < 256 then Some (of_nat n) else None | Inl _ \<Rightarrow> None)"
| "um_u8 old _ = None"

fun um_bytes32 :: "byte list \<Rightarrow> json \<Rightarrow> byte list option" where
  "um_bytes32 old JNull = Some old"
| "um_bytes32 old (JArr xs) =
    map_option to32 (those (map2 um_u8 old (take 32 xs)))"
| "um_bytes32 old _ = None"

fun um_u64 :: "u64 \<Rightarrow> json \<Rightarrow> u64 option" where
  "um_u64 old JNull = Some old"
| "um_u64 old (JNum l) = (case parse_uint l of Inr n \<Rightarrow> Some (of_nat n) | Inl _ \<Rightarrow> None)"
| "um_u64 old _ = None"

definition public_fields :: "string list" where
  "public_fields = [''amount'', ''policy_version'', ''intent_id'', ''wallet_id'']"

definition um_public_field :: "string option \<Rightarrow> json \<Rightarrow> ZKProofInternal \<Rightarrow> ZKProofInternal option" where
  "um_public_field f v p =
    (if f = Some ''amount'' then map_option (\<lambda>x. p\<lparr>zi_Amount := x\<rparr>) (um_u64 (zi_Amount p) v)
     else if f = Some ''policy_version'' then
       map_option (\<lambda>x. p\<lparr>zi_PolicyVersion := x\<rparr>) (um_str (zi_PolicyVersion p) v)
     else if f = Some ''intent_id'' then
       map_option (\<lambda>x. p\<lparr>zi_IntentID := x\<rparr>) (um_str (zi_IntentID p) v)
     else if f = Some ''wallet_id'' then
       map_option (\<lambda>x. p\<lparr>zi_WalletID := x\<rparr>) (um_str (zi_WalletID p) v)
     else Some p)"

fun um_public :: "unicode \<Rightarrow> (string \<times> json) list \<Rightarrow> ZKProofInternal \<Rightarrow> ZKProofInternal option" where
  "um_public u [] p = Some p"
| "um_public u ((k, v) # kvs) p =
    Option.bind (um_public_field (find_field u k public_fields) v p) (um_public u kvs)"

definition proof_fields :: "string list" where
  "proof_fields =
    [''commitment_daily'', ''commitment_amount'', ''commitment_diff'', ''challenge'',
     ''response_daily'', ''response_amount'', ''response_diff'', ''public_inputs'']"

definition um_proof_field ::
  "unicode \<Rightarrow> string option \<Rightarrow> json \<Rightarrow> ZKProofInternal \<Rightarrow> ZKProofInternal option"
where
  "um_proof_field u f v p =
    (if f = Some ''commitment_daily'' then
       map_option (\<lambda>x. p\<lparr>zi_CommitmentDaily := x\<rparr>) (um_bytes32 (zi_CommitmentDaily p) v)
     else if f = Some ''commitment_amount'' then
       map_option (\<lambda>x. p\<lparr>zi_CommitmentAmount := x\<rparr>) (um_bytes32 (zi_CommitmentAmount p) v)
     else if f = Some ''commitment_diff'' then
       map_option (\<lambda>x. p\<lparr>zi_CommitmentDiff := x\<rparr>) (um_bytes32 (zi_CommitmentDiff p) v)
     else if f = Some ''challenge'' then
       map_option (\<lambda>x. p\<lparr>zi_Challenge := x\<rparr>) (um_bytes32 (zi_Challenge p) v)
     else if f = Some ''response_daily'' then
       map_option (\<lambda>x. p\<lparr>zi_ResponseDaily := x\<rparr>) (um_bytes32 (zi_ResponseDaily p) v)
     else if f = Some ''response_amount'' then
       map_option (\<lambda>x. p\<lparr>zi_ResponseAmount := x\<rparr>) (um_bytes32 (zi_ResponseAmount p) v)
     else if f = Some ''response_diff'' then
       map_option (\<lambda>x. p\<lparr>zi_ResponseDiff := x\<rparr>) (um_bytes32 (zi_ResponseDiff p) v)
     else if f = Some ''public_inputs'' then
       (case v of JNull \<Rightarrow> Some p | JObj kvs \<Rightarrow> um_public u kvs p | _ \<Rightarrow> None)
     else Some p)"

fun um_proof :: "unicode \<Rightarrow> (string \<times> json) list \<Rightarrow> ZKProofInternal \<Rightarrow> ZKProofInternal option" where
  "um_proof u [] p = Some p"
| "um_proof u ((k, v) # kvs) p =
    Option.bind (um_proof_field u (find_field u k proof_fields) v p) (um_proof u kvs)"

definition zero_proof :: ZKProofInternal where
  "zero_proof =
    \<lparr> zi_CommitmentDaily = replicate 32 0, zi_CommitmentAmount = replicate 32 0,
      zi_CommitmentDiff = replicate 32 0, zi_Challenge = replicate 32 0,
      zi_ResponseDaily = replicate 32 0, zi_ResponseAmount = replicate 32 0,
      zi_ResponseDiff = replicate 32 0, zi_Amount = 0, zi_PolicyVersion = [], zi_IntentID = [],
      zi_WalletID = [] \<rparr>"

definition unmarshal_proof :: "golib \<Rightarrow> string \<Rightarrow> ZKProofInternal option" where
  "unmarshal_proof L raw =
    (case js_parse (gl_json L) raw of
       Some JNull \<Rightarrow> Some zero_proof
     | Some (JObj kvs) \<Rightarrow> um_proof (gl_unicode L) kvs zero_proof
     | _ \<Rightarrow> None)"

subsection \<open>Generating and verifying\<close>

text \<open>\<open>big.Int.SetString(s, 10)\<close>: an optional sign and at least one digit, of any length.\<close>

definition parse_big :: "string \<Rightarrow> int option" where
  "parse_big s =
    (let neg = (s \<noteq> [] \<and> hd s = CHR ''-'');
         body = (if s \<noteq> [] \<and> (hd s = CHR ''-'' \<or> hd s = CHR ''+'') then tl s else s) in
     if body \<noteq> [] \<and> list_all (\<lambda>c. is_digit (ord c)) body
     then Some ((if neg then -1 else 1) * foldl (\<lambda>v c. v * 10 + (ord c - 48)) 0 body)
     else None)"

definition defaultDailyLimit :: i64 where
  "defaultDailyLimit = 100000"

text \<open>
  \<open>rand\<close> is one call of \<open>randomBytes32\<close>. \<open>amount.Uint64()\<close> is the low 64 bits of the number;
  \<open>uint64(dailyLimit)\<close> keeps the bits.
\<close>

definition GenerateProof ::
  "golib \<Rightarrow> ('x, byte list) op \<Rightarrow> ('x, time) op \<Rightarrow> PolicyInputs \<Rightarrow> ('x, error + ZKProof) op"
where
  "GenerateProof L rand clock input =
    (case parse_big (pi_Amount input) of
       None \<Rightarrow> State_Monad.return (Inl (''invalid amount: '' @ pi_Amount input))
     | Some amount \<Rightarrow>
       if amount \<le> 0 then State_Monad.return (Inl (''invalid amount: '' @ pi_Amount input))
       else do {
         let dailyLimit = (case pi_DailyLimit input of Some l \<Rightarrow> l | None \<Rightarrow> defaultDailyLimit);
         let amountU = (word_of_int amount :: u64);
         let dailyLimitU = dailyLimit;
         (if amountU > dailyLimitU then State_Monad.return
            (Inl (''amount '' @ show_i64 amountU @ '' exceeds daily limit '' @ show_i64 dailyLimit))
          else do {
            let diff = dailyLimitU - amountU;
            blindingDaily \<leftarrow> rand;
            blindingAmount \<leftarrow> rand;
            blindingDiff \<leftarrow> rand;
            let H = gl_sha256 L;
            let domain = computeDomain H (pi_PolicyVersion input) (pi_IntentID input) (pi_WalletID input);
            let commitDaily = computeCommitment H dailyLimitU blindingDaily domain;
            let commitAmount = computeCommitment H amountU blindingAmount domain;
            let commitDiff = computeCommitment H diff blindingDiff domain;
            let challenge = computeChallenge H commitDaily commitAmount commitDiff amountU
                  (pi_PolicyVersion input) (pi_IntentID input) (pi_WalletID input);
            let proofInternal =
                  \<lparr> zi_CommitmentDaily = commitDaily, zi_CommitmentAmount = commitAmount,
                    zi_CommitmentDiff = commitDiff, zi_Challenge = challenge,
                    zi_ResponseDaily = computeResponseCheck H commitDaily challenge domain,
                    zi_ResponseAmount = computeResponseCheck H commitAmount challenge domain,
                    zi_ResponseDiff = computeResponseCheck H commitDiff challenge domain,
                    zi_Amount = amountU, zi_PolicyVersion = pi_PolicyVersion input,
                    zi_IntentID = pi_IntentID input, zi_WalletID = pi_WalletID input \<rparr>;
            now \<leftarrow> clock;
            State_Monad.return (Inr
              \<lparr> z_ProofID = GenerateUUID now,
                z_PublicInputs = JObj
                  [(''amount'', JNum (dec_nat (unat amountU))),
                   (''intent_id'', json_str (pi_IntentID input)),
                   (''policy_version'', json_str (pi_PolicyVersion input)),
                   (''wallet_id'', json_str (pi_WalletID input))],
                z_ProofBytes = js_print (gl_json L) (proof_json proofInternal) \<rparr>)
          })
       })"

text \<open>The checks of \<open>VerifyPolicyProof\<close> after decoding, in the order of the code.\<close>

definition verify_internal :: "hash \<Rightarrow> ZKProofInternal \<Rightarrow> error + bool" where
  "verify_internal H p =
    (if zi_Amount p = 0 then Inl ''amount cannot be zero''
     else if zi_IntentID p = [] then Inl ''intent_id cannot be empty''
     else
       let domain = computeDomain H (zi_PolicyVersion p) (zi_IntentID p) (zi_WalletID p);
           expectedChallenge = computeChallenge H (zi_CommitmentDaily p) (zi_CommitmentAmount p)
             (zi_CommitmentDiff p) (zi_Amount p) (zi_PolicyVersion p) (zi_IntentID p) (zi_WalletID p)
       in
       if \<not> bytesEqual (zi_Challenge p) expectedChallenge then Inr False
       else if isAllZero (zi_CommitmentDaily p) \<or> isAllZero (zi_CommitmentAmount p) \<or>
               isAllZero (zi_CommitmentDiff p) then Inr False
       else if isAllZero (zi_ResponseDaily p) \<or> isAllZero (zi_ResponseAmount p) \<or>
               isAllZero (zi_ResponseDiff p) then Inr False
       else if \<not> bytesEqual (zi_ResponseDaily p)
                   (computeResponseCheck H (zi_CommitmentDaily p) (zi_Challenge p) domain) then Inr False
       else if \<not> bytesEqual (zi_ResponseAmount p)
                   (computeResponseCheck H (zi_CommitmentAmount p) (zi_Challenge p) domain) then Inr False
       else if \<not> bytesEqual (zi_ResponseDiff p)
                   (computeResponseCheck H (zi_CommitmentDiff p) (zi_Challenge p) domain) then Inr False
       else Inr True)"

definition VerifyPolicyProof :: "golib \<Rightarrow> ZKProof option \<Rightarrow> error + bool" where
  "VerifyPolicyProof L proof =
    (case proof of
       None \<Rightarrow> Inl ''empty proof''
     | Some q \<Rightarrow>
       if length (z_ProofBytes q) = 0 then Inl ''empty proof''
       else (case unmarshal_proof L (z_ProofBytes q) of
               None \<Rightarrow> Inl (''invalid proof format: '' @ js_error (gl_json L) (z_ProofBytes q))
             | Some p \<Rightarrow> verify_internal (gl_sha256 L) p))"

subsection \<open>Facts on the helpers\<close>

lemma bytes_loop_iff: "length a = length b \<Longrightarrow> bytes_loop a b \<longleftrightarrow> a = b"
  by (induction a b rule: bytes_loop.induct) auto

lemma bytesEqual_iff: "bytesEqual a b \<longleftrightarrow> a = b"
  by (auto simp: bytesEqual_def bytes_loop_iff)

lemma isAllZero_iff: "isAllZero bs \<longleftrightarrow> (\<forall>b\<in>set bs. b = 0)"
  by (induction bs) auto

lemma length_to32 [simp]: "length (to32 bs) = 32"
  by (simp add: to32_def)

lemma to32_id: "length bs = 32 \<Longrightarrow> to32 bs = bs"
  by (simp add: to32_def)

lemma length_helpers [simp]:
  "length (computeCommitment H v b d) = 32"
  "length (computeChallenge H cd ca df a pv iid wid) = 32"
  "length (computeResponseCheck H c ch d) = 32"
  by (simp_all add: computeCommitment_def computeChallenge_def computeResponseCheck_def)

text \<open>What the verifier accepts, in one line: challenge and responses are the recomputed ones.\<close>

definition well_answered :: "hash \<Rightarrow> ZKProofInternal \<Rightarrow> bool" where
  "well_answered H p \<longleftrightarrow>
     (let domain = computeDomain H (zi_PolicyVersion p) (zi_IntentID p) (zi_WalletID p) in
      zi_Challenge p = computeChallenge H (zi_CommitmentDaily p) (zi_CommitmentAmount p)
        (zi_CommitmentDiff p) (zi_Amount p) (zi_PolicyVersion p) (zi_IntentID p) (zi_WalletID p) \<and>
      zi_ResponseDaily p = computeResponseCheck H (zi_CommitmentDaily p) (zi_Challenge p) domain \<and>
      zi_ResponseAmount p = computeResponseCheck H (zi_CommitmentAmount p) (zi_Challenge p) domain \<and>
      zi_ResponseDiff p = computeResponseCheck H (zi_CommitmentDiff p) (zi_Challenge p) domain)"

definition non_trivial :: "ZKProofInternal \<Rightarrow> bool" where
  "non_trivial p \<longleftrightarrow>
     list_all (\<lambda>bs. \<not> isAllZero bs)
       [zi_CommitmentDaily p, zi_CommitmentAmount p, zi_CommitmentDiff p,
        zi_ResponseDaily p, zi_ResponseAmount p, zi_ResponseDiff p]"

lemma verify_internal_True:
  "verify_internal H p = Inr True \<longleftrightarrow>
     zi_Amount p \<noteq> 0 \<and> zi_IntentID p \<noteq> [] \<and> well_answered H p \<and> non_trivial p"
  by (auto simp: verify_internal_def Let_def bytesEqual_iff well_answered_def non_trivial_def)

lemma verify_internal_answered:
  "zi_Amount p \<noteq> 0 \<Longrightarrow> zi_IntentID p \<noteq> [] \<Longrightarrow> well_answered H p \<Longrightarrow>
     verify_internal H p = Inr (non_trivial p)"
  by (auto simp: verify_internal_def Let_def bytesEqual_iff well_answered_def non_trivial_def)

subsection \<open>The JSON round trip\<close>

lemma parse_uint_dec_nat: "n < 2 ^ 64 \<Longrightarrow> parse_uint (dec_nat n) = Inr n"
  by (simp add: parse_uint_def dec_nat_nonempty parse_digits_dec_nat)

lemma um_u8_roundtrip: "um_u8 old (JNum (dec_nat (unat b))) = Some b"
proof -
  have "unat b < 256" by (rule unat_byte)
  then show ?thesis by (simp add: parse_uint_dec_nat)
qed

lemma um_u8_list:
  "length old = length bs \<Longrightarrow>
     those (map2 um_u8 old (map (\<lambda>b. JNum (dec_nat (unat b))) bs)) = Some bs"
  by (induction old bs rule: list_induct2) (simp_all add: um_u8_roundtrip del: um_u8.simps)

lemma um_bytes32_roundtrip:
  "length old = 32 \<Longrightarrow> length bs = 32 \<Longrightarrow> um_bytes32 old (json_bytes bs) = Some bs"
  by (simp add: json_bytes_def um_u8_list to32_id)

lemma um_u64_roundtrip: "um_u64 old (JNum (dec_nat (unat w))) = Some w"
  using parse_uint_dec_nat [OF unat_u64 [of w]] by simp

lemma fields_lower: "list_all ascii_lower public_fields" "list_all ascii_lower proof_fields"
  by code_simp+

definition arrays32 :: "ZKProofInternal \<Rightarrow> bool" where
  "arrays32 p \<longleftrightarrow>
     list_all (\<lambda>bs. length bs = 32)
       [zi_CommitmentDaily p, zi_CommitmentAmount p, zi_CommitmentDiff p, zi_Challenge p,
        zi_ResponseDaily p, zi_ResponseAmount p, zi_ResponseDiff p]"

text \<open>Strings come back as valid UTF-8; everything else comes back as it was.\<close>

definition utf8_proof :: "ZKProofInternal \<Rightarrow> ZKProofInternal" where
  "utf8_proof p = p\<lparr>zi_PolicyVersion := to_valid_utf8 (zi_PolicyVersion p),
     zi_IntentID := to_valid_utf8 (zi_IntentID p), zi_WalletID := to_valid_utf8 (zi_WalletID p)\<rparr>"

lemma find_fields:
  "find_field u ''amount'' public_fields = Some ''amount''"
  "find_field u ''policy_version'' public_fields = Some ''policy_version''"
  "find_field u ''intent_id'' public_fields = Some ''intent_id''"
  "find_field u ''wallet_id'' public_fields = Some ''wallet_id''"
  "find_field u ''commitment_daily'' proof_fields = Some ''commitment_daily''"
  "find_field u ''commitment_amount'' proof_fields = Some ''commitment_amount''"
  "find_field u ''commitment_diff'' proof_fields = Some ''commitment_diff''"
  "find_field u ''challenge'' proof_fields = Some ''challenge''"
  "find_field u ''response_daily'' proof_fields = Some ''response_daily''"
  "find_field u ''response_amount'' proof_fields = Some ''response_amount''"
  "find_field u ''response_diff'' proof_fields = Some ''response_diff''"
  "find_field u ''public_inputs'' proof_fields = Some ''public_inputs''"
  by (rule find_field_lower, rule fields_lower, simp add: public_fields_def proof_fields_def)+

lemma um_proof_roundtrip:
  assumes "arrays32 p"
  shows "(case proof_json p of JObj kvs \<Rightarrow> um_proof u kvs zero_proof | _ \<Rightarrow> None) = Some (utf8_proof p)"
  using assms
  by (simp add: proof_json_def find_fields um_proof_field_def um_public_field_def arrays32_def
      um_bytes32_roundtrip um_u64_roundtrip json_str_def zero_proof_def utf8_proof_def
      del: um_bytes32.simps um_u64.simps)

text \<open>
  What the code relies on in \<open>encoding/json\<close>: the text of a value is not empty and parses back to the
  value.
\<close>

definition json_roundtrip_at :: "json_lib \<Rightarrow> json \<Rightarrow> bool" where
  "json_roundtrip_at J j \<longleftrightarrow> js_print J j \<noteq> [] \<and> js_parse J (js_print J j) = Some j"

lemma unmarshal_proof_print:
  assumes "json_roundtrip_at (gl_json L) (proof_json p)" "arrays32 p"
  shows "unmarshal_proof L (js_print (gl_json L) (proof_json p)) = Some (utf8_proof p)"
  using assms(1) um_proof_roundtrip [OF assms(2), of "gl_unicode L"]
  by (simp add: unmarshal_proof_def json_roundtrip_at_def) (simp add: proof_json_def)

subsection \<open>What \<open>GenerateProof\<close> returns\<close>

text \<open>The proof it marshals, as a function of the amount and the three blinding factors.\<close>

definition honest_proof ::
  "hash \<Rightarrow> PolicyInputs \<Rightarrow> i64 \<Rightarrow> u64 \<Rightarrow> byte list \<Rightarrow> byte list \<Rightarrow> byte list \<Rightarrow> ZKProofInternal"
where
  "honest_proof H input limit amountU bd ba bf =
    (let domain = computeDomain H (pi_PolicyVersion input) (pi_IntentID input) (pi_WalletID input);
         cd = computeCommitment H limit bd domain;
         ca = computeCommitment H amountU ba domain;
         cf = computeCommitment H (limit - amountU) bf domain;
         ch = computeChallenge H cd ca cf amountU (pi_PolicyVersion input) (pi_IntentID input)
                (pi_WalletID input)
     in \<lparr> zi_CommitmentDaily = cd, zi_CommitmentAmount = ca, zi_CommitmentDiff = cf,
          zi_Challenge = ch, zi_ResponseDaily = computeResponseCheck H cd ch domain,
          zi_ResponseAmount = computeResponseCheck H ca ch domain,
          zi_ResponseDiff = computeResponseCheck H cf ch domain, zi_Amount = amountU,
          zi_PolicyVersion = pi_PolicyVersion input, zi_IntentID = pi_IntentID input,
          zi_WalletID = pi_WalletID input \<rparr>)"

definition limit_of :: "PolicyInputs \<Rightarrow> i64" where
  "limit_of input = (case pi_DailyLimit input of Some l \<Rightarrow> l | None \<Rightarrow> defaultDailyLimit)"

lemma honest_proof_answers: "well_answered H (honest_proof H input limit a bd ba bf)"
  by (simp add: well_answered_def honest_proof_def Let_def)

lemma honest_proof_arrays: "arrays32 (honest_proof H input limit a bd ba bf)"
  by (simp add: arrays32_def honest_proof_def Let_def)

lemma GenerateProof_cases:
  obtains (bad) "fst (run_state (GenerateProof L rand clock input) x) = Inl (''invalid amount: '' @ pi_Amount input)"
      "\<And>n. parse_big (pi_Amount input) = Some n \<Longrightarrow> n \<le> 0"
  | (over) e n where "fst (run_state (GenerateProof L rand clock input) x) = Inl e"
      "parse_big (pi_Amount input) = Some n" "0 < n" "limit_of input < word_of_int n"
  | (ok) n bd ba bf where
      "map_sum id z_ProofBytes (fst (run_state (GenerateProof L rand clock input) x))
         = Inr (js_print (gl_json L)
             (proof_json (honest_proof (gl_sha256 L) input (limit_of input) (word_of_int n) bd ba bf)))"
      "parse_big (pi_Amount input) = Some n" "0 < n" "word_of_int n \<le> limit_of input"
proof (cases "parse_big (pi_Amount input)")
  case None
  then show thesis by (intro bad) (simp_all add: GenerateProof_def)
next
  case (Some n)
  obtain bd x1 where bd: "run_state rand x = (bd, x1)" by fastforce
  obtain ba x2 where ba: "run_state rand x1 = (ba, x2)" by fastforce
  obtain bf x3 where bf: "run_state rand x2 = (bf, x3)" by fastforce
  obtain now x4 where now: "run_state clock x3 = (now, x4)" by fastforce
  consider "n \<le> 0" | "0 < n" "limit_of input < word_of_int n"
    | "0 < n" "word_of_int n \<le> limit_of input" by fastforce
  then show thesis
  proof cases
    case 1
    with Some show thesis by (intro bad) (simp_all add: GenerateProof_def)
  next
    case 2
    with Some show thesis by (intro over) (simp_all add: GenerateProof_def limit_of_def Let_def)
  next
    case 3
    with Some bd ba bf now show thesis
      by (intro ok [of n bd ba bf]) (auto simp: GenerateProof_def limit_of_def honest_proof_def Let_def)
  qed
qed

lemma word_of_int_pos: "0 < n \<Longrightarrow> n < 2 ^ 64 \<Longrightarrow> (word_of_int n :: u64) \<noteq> 0"
proof -
  assume "0 < n" "n < 2 ^ 64"
  then have "uint (word_of_int n :: u64) = n" by (simp add: uint_word_of_int)
  with \<open>0 < n\<close> show ?thesis by auto
qed

text \<open>A marshalled proof is decoded to itself, and verified up to the test for all-zero digests.\<close>

lemma marshalled_verifies:
  assumes "json_roundtrip_at (gl_json L) (proof_json p)" "arrays32 p"
    and "utf8_proof p = p" "well_answered (gl_sha256 L) p" "zi_Amount p \<noteq> 0" "zi_IntentID p \<noteq> []"
    and "z_ProofBytes proof = js_print (gl_json L) (proof_json p)"
  shows "unmarshal_proof L (z_ProofBytes proof) = Some p \<and> VerifyPolicyProof L (Some proof) = Inr (non_trivial p)"
  using unmarshal_proof_print [OF assms(1,2)] assms(1,3,7) verify_internal_answered [OF assms(5,6,4)]
  by (simp add: VerifyPolicyProof_def json_roundtrip_at_def)

lemma generated_bytes:
  assumes "run_state (GenerateProof L rand clock input) x = (Inr proof, x')"
    and "run_state rand x = (bd, x1)" "run_state rand x1 = (ba, x2)" "run_state rand x2 = (bf, x3)"
    and "parse_big (pi_Amount input) = Some n"
  shows "0 < n \<and> z_ProofBytes proof = js_print (gl_json L)
    (proof_json (honest_proof (gl_sha256 L) input (limit_of input) (word_of_int n) bd ba bf))"
  using assms
  by (cases "run_state clock x3")
    (auto simp: GenerateProof_def limit_of_def honest_proof_def Let_def split: if_splits)

text \<open>
  The verifier never looks at a limit: commitments chosen at will can be answered for any amount.
\<close>

definition forge ::
  "hash \<Rightarrow> byte list \<Rightarrow> byte list \<Rightarrow> byte list \<Rightarrow> u64 \<Rightarrow> string \<Rightarrow> string \<Rightarrow> string \<Rightarrow> ZKProofInternal"
where
  "forge H cd ca cf amount pv iid wid =
    (let domain = computeDomain H pv iid wid;
         ch = computeChallenge H cd ca cf amount pv iid wid
     in \<lparr> zi_CommitmentDaily = cd, zi_CommitmentAmount = ca, zi_CommitmentDiff = cf,
          zi_Challenge = ch, zi_ResponseDaily = computeResponseCheck H cd ch domain,
          zi_ResponseAmount = computeResponseCheck H ca ch domain,
          zi_ResponseDiff = computeResponseCheck H cf ch domain, zi_Amount = amount,
          zi_PolicyVersion = pv, zi_IntentID = iid, zi_WalletID = wid \<rparr>)"

lemma forge_answers:
  "well_answered H (forge H cd ca cf amount pv iid wid)"
  "length cd = 32 \<Longrightarrow> length ca = 32 \<Longrightarrow> length cf = 32 \<Longrightarrow> arrays32 (forge H cd ca cf amount pv iid wid)"
  by (simp_all add: well_answered_def arrays32_def forge_def Let_def)

subsection \<open>Properties\<close>

text \<open>C22: Completeness. The text of a proof that \<open>GenerateProof\<close> returns decodes to the proof made from
  the amount, the limit and the three blinding factors it drew, and \<open>VerifyPolicyProof\<close> answers without
  an error and accepts it unless one of its three commitments or three responses, which are SHA-256
  digests, is all zero. This is for amounts below \<open>2 ^ 64\<close>, identifiers that are valid UTF-8, and a JSON library that
  reads back the text it wrote.\<close>

theorem generated_proofs_verify:
  assumes "run_state (GenerateProof L rand clock input) x = (Inr proof, x')"
    and "run_state rand x = (bd, x1)" "run_state rand x1 = (ba, x2)" "run_state rand x2 = (bf, x3)"
    and "parse_big (pi_Amount input) = Some n" "n < 2 ^ 64"
    and "pi_IntentID input \<noteq> []" "to_valid_utf8 (pi_IntentID input) = pi_IntentID input"
      "to_valid_utf8 (pi_PolicyVersion input) = pi_PolicyVersion input"
      "to_valid_utf8 (pi_WalletID input) = pi_WalletID input"
    and "p = honest_proof (gl_sha256 L) input (limit_of input) (word_of_int n) bd ba bf"
    and "json_roundtrip_at (gl_json L) (proof_json p)"
  shows "unmarshal_proof L (z_ProofBytes proof) = Some p \<and>
    VerifyPolicyProof L (Some proof) = Inr (non_trivial p)"
proof -
  note made = generated_bytes [OF assms(1-5), folded assms(11)]
  have "utf8_proof p = p" "zi_Amount p \<noteq> 0" "zi_IntentID p \<noteq> []"
    using assms(6-10) made word_of_int_pos [of n]
    by (simp_all add: utf8_proof_def assms(11) honest_proof_def Let_def)
  with made show ?thesis
    by (intro marshalled_verifies [OF assms(12)])
      (simp_all add: assms(11) honest_proof_answers honest_proof_arrays)
qed

text \<open>C23: \<open>GenerateProof\<close> succeeds exactly when the amount is a positive decimal number whose low 64 bits
  are at most the limit, both read as unsigned; a missing limit is 100000.\<close>

theorem proof_generation:
  "(\<exists>proof x'. run_state (GenerateProof L rand clock input) x = (Inr proof, x')) \<longleftrightarrow>
     (case parse_big (pi_Amount input) of
        Some n \<Rightarrow> 0 < n \<and> n mod 2 ^ 64 \<le> uint (limit_of input)
      | None \<Rightarrow> False)"
proof -
  have le: "(word_of_int n :: u64) \<le> l \<longleftrightarrow> n mod 2 ^ 64 \<le> uint l" for n and l :: u64
    by (simp add: word_le_def uint_word_of_int)
  have split: "(\<exists>proof x'. run_state m x = (Inr proof, x')) \<longleftrightarrow> \<not> isl (fst (run_state m x))"
    for m :: "('a, error + ZKProof) op"
    by (cases "run_state m x"; cases "fst (run_state m x)") auto
  have "\<not> isl (fst (run_state (GenerateProof L rand clock input) x)) \<longleftrightarrow>
     (case parse_big (pi_Amount input) of
        Some n \<Rightarrow> 0 < n \<and> n mod 2 ^ 64 \<le> uint (limit_of input) | None \<Rightarrow> False)" (is ?goal)
  proof (cases rule: GenerateProof_cases [of L rand clock input x])
    case bad
    then show ?goal by (auto split: option.split simp: not_le [symmetric])
  next
    case (over e n)
    then show ?goal using le [of n "limit_of input"] by (simp flip: not_le)
  next
    case (ok n bd ba bf)
    from arg_cong [where f = isl, OF ok(1)] ok(2-4) show ?goal
      using le [of n "limit_of input"] by (simp add: isl_map_sum)
  qed
  then show ?thesis by (simp only: split)
qed

text \<open>The verifier accepts exactly the texts that decode to a proof with a non-zero amount, an intent,
  the recomputed challenge and responses, and no all-zero commitment or response.\<close>

theorem verifier_accepts:
  "VerifyPolicyProof L proof = Inr True \<longleftrightarrow>
     (case proof of
        None \<Rightarrow> False
      | Some q \<Rightarrow> z_ProofBytes q \<noteq> [] \<and>
          (case unmarshal_proof L (z_ProofBytes q) of
             None \<Rightarrow> False
           | Some p \<Rightarrow> zi_Amount p \<noteq> 0 \<and> zi_IntentID p \<noteq> [] \<and>
               well_answered (gl_sha256 L) p \<and> non_trivial p))"
  by (simp add: VerifyPolicyProof_def verify_internal_True split: option.split)

text \<open>C24: A proof can be made without any secret for an amount over the limit. Where \<open>GenerateProof\<close> refuses
  an amount below \<open>2 ^ 64\<close> because it is over the limit, commitments chosen at will and the responses that
  anyone can compute for them make a text that \<open>VerifyPolicyProof\<close> accepts for that amount and those
  identifiers, none of its commitments and responses being all zero: the limit is not part of what is verified.\<close>

theorem any_amount_can_be_proved:
  assumes "parse_big (pi_Amount input) = Some n" "uint (limit_of input) < n" "n < 2 ^ 64"
    and "length cd = 32" "length ca = 32" "length cf = 32"
    and "pi_IntentID input \<noteq> []" "to_valid_utf8 (pi_IntentID input) = pi_IntentID input"
      "to_valid_utf8 (pi_PolicyVersion input) = pi_PolicyVersion input"
      "to_valid_utf8 (pi_WalletID input) = pi_WalletID input"
    and "p = forge (gl_sha256 L) cd ca cf (word_of_int n) (pi_PolicyVersion input)
      (pi_IntentID input) (pi_WalletID input)" "non_trivial p"
    and "z_ProofBytes q = js_print (gl_json L) (proof_json p)"
      "json_roundtrip_at (gl_json L) (proof_json p)"
  shows "isl (fst (run_state (GenerateProof L rand clock input) x)) \<and>
    VerifyPolicyProof L (Some q) = Inr True"
proof
  have "0 < n" using assms(2) uint_ge_0 [of "limit_of input"] by linarith
  then have n: "uint (word_of_int n :: u64) = n" using assms(3) by (simp add: uint_word_of_int)
  with assms(1,2) \<open>0 < n\<close> show "isl (fst (run_state (GenerateProof L rand clock input) x))"
    by (simp add: GenerateProof_def limit_of_def Let_def word_less_def)
  have "utf8_proof p = p" "zi_Amount p \<noteq> 0" "zi_IntentID p \<noteq> []"
    using assms(7-10) \<open>0 < n\<close> n by (auto simp: utf8_proof_def assms(11) forge_def Let_def)
  then show "VerifyPolicyProof L (Some q) = Inr True"
    using marshalled_verifies [OF assms(14) _ _ _ _ _ assms(13)] forge_answers assms(4-6,12)
    by (simp add: assms(11))
qed

end
