(* ===== verification/VF_Main.thy ===== *)
theory VF_Main
  imports VF_Lifecycle VF_Audit VF_Webhook VF_Solana VF_Reconciler VF_MPC VF_ZK
begin

section \<open>The wired service\<close>

text \<open>
  The wiring of \<open>services/api/main.go\<close>: the handlers over the database stores, the policy engine over
  the database, the proof system, the signer, the Solana client, the webhooks and the reconciler. The
  locale \<open>wired_service\<close> states what this program relies on of PostgreSQL and of the machine it runs
  on; it gives the contract \<open>intent_service\<close>. A history is a list of requests and reconciler runs,
  one after the other.
\<close>

definition main_zk :: "golib \<Rightarrow> ('x, byte list) op \<Rightarrow> ('x, time) op \<Rightarrow> 'x ZKVerifier" where
  "main_zk L rand clock =
    \<lparr> zk_GenerateProof = GenerateProof L rand clock,
      zk_VerifyPolicyProof = (\<lambda>p. State_Monad.return (VerifyPolicyProof L p)) \<rparr>"

definition main_reconciler ::
  "golib \<Rightarrow> (time \<Rightarrow> string) \<Rightarrow> string \<Rightarrow> 'x machine \<Rightarrow> 'x gorm \<Rightarrow> 'x ReconcilerImpl"
where
  "main_reconciler L time_json rpcURL mc db =
     SetAuditLogger (AuditLogger db (mc_clock mc))
       (SetWebhookNotifier (WebhookNotifier L time_json mc db)
         (SetSolanaClient (solana_submitter L mc (NewSolanaClient rpcURL)) (NewReconciler db mc)))"

definition main_handler ::
  "golib \<Rightarrow> (time \<Rightarrow> string) \<Rightarrow> string \<Rightarrow> 'x machine \<Rightarrow> ('x, byte list) op \<Rightarrow> 'x gorm \<Rightarrow> 'x IntentHandler"
where
  "main_handler L time_json rpcURL mc rand db =
    \<lparr> h_store = PostgresIntentStore db, h_policyDB = DBAdapter db,
      h_zkVerifier = main_zk L rand (mc_clock mc),
      h_mpcSigner = \<lparr>mpc_Sign = Sign (gl_sha256 L) db\<rparr>,
      h_reconciler = reconciler_service (main_reconciler L time_json rpcURL mc db),
      h_audit = AuditLogger db (mc_clock mc),
      h_solana = solana_submitter L mc (NewSolanaClient rpcURL),
      h_webhooks = WebhookNotifier L time_json mc db,
      h_txStore = PostgresTransactionStore db, h_clock = mc_clock mc, h_lib = L \<rparr>"

subsection \<open>What the program relies on\<close>

text \<open>
  The table of intents: a row found by its identifier is the stored one, a write that succeeds stores
  the row, queries change nothing. The other tables and the machine leave the intents alone. A
  goroutine does not run inside the call that starts it: its run is a turn of its own.
\<close>

locale wired_service =
  fixes L :: golib and time_json :: "time \<Rightarrow> string" and rpcURL :: string
    and mc :: "'x machine" and rand :: "('x, byte list) op" and db :: "'x gorm"
    and view :: "'x \<Rightarrow> intents"
  assumes row: "run_state (tb_first (g_intents db) (by_id iid)) x = (Inr i, x') \<Longrightarrow> view x iid = Some i"
    and save: "run_state (tb_save (g_intents db) i) x = ((e, j), x') \<Longrightarrow>
      stored_as i j \<and> (view x' = (view x)(i_ID i \<mapsto> j) \<or> (e \<noteq> None \<and> view x' = view x))"
    and insert: "run_state (tb_create (g_intents db) i) x = ((e, j), x') \<Longrightarrow>
      created_as i j \<and> (view x' = (view x)(i_ID i \<mapsto> j) \<or> (e \<noteq> None \<and> view x' = view x))"
    and queries:
      "keeps view (tb_first (g_intents db) q)" "keeps view (tb_find (g_intents db) q o1)"
      "keeps view (tb_first (g_wallets db) q)" "keeps view (tb_find (g_wallets db) q o1)"
      "keeps view (tb_first (g_tenants db) q)"
      "keeps view (tb_first (g_transactions db) q)" "keeps view (tb_find (g_transactions db) q o1)"
      "keeps view (tb_find (g_audit db) q o1)" "keeps view (tb_find (g_policies db) q o1)"
      "keeps view (tb_find (g_shares db) q o1)" "keeps view (tb_find (g_endpoints db) q o1)"
    and other_tables:
      "keeps view (tb_create (g_transactions db) tx)" "keeps view (tb_save (g_transactions db) tx)"
      "keeps view (tb_create (g_audit db) ev)"
    and machine:
      "keeps view (mc_clock mc)" "keeps view (mc_sleep mc d)" "keeps view rand"
      "keeps view (mc_post mc url hs body)" "keeps view (mc_go mc m)"
begin

lemma keeps_sendRPC: "keeps view (sendRPC L mc c req)"
  unfolding sendRPC_def by (intro keeps_bind keeps_return machine)

lemma keeps_submit_loop: "keeps view (submit_loop L mc c req attempt n lastErr)"
  by (induction n arbitrary: attempt lastErr)
    (auto intro!: keeps_bind keeps_sendRPC machine split: sum.splits option.splits)

lemma keeps_GetRecentBlockhash: "keeps view (GetRecentBlockhash L mc c)"
  unfolding GetRecentBlockhash_def by (intro keeps_bind keeps_return keeps_sendRPC)

lemma keeps_wait_loop: "keeps view (wait_loop L mc c signature n)"
proof (induction n)
  case (Suc n)
  have "keeps view (GetSignatureStatus L mc c signature)"
    unfolding GetSignatureStatus_def by (intro keeps_bind keeps_return keeps_sendRPC)
  with Suc show ?case
    by (auto intro!: keeps_bind machine split: sum.splits option.splits)
qed simp

lemma keeps_solana:
  "keeps view (sol_SubmitTransaction (solana_submitter L mc c) bs)"
  "keeps view (sol_WaitForConfirmation (solana_submitter L mc c) sig)"
  "keeps view (sol_GetRecentBlockhash (solana_submitter L mc c))"
  by (simp_all add: solana_submitter_def SubmitTransaction_def WaitForConfirmation_def
      keeps_submit_loop keeps_wait_loop keeps_GetRecentBlockhash)

lemma keeps_launch_all: "keeps view (launch_all mc f es)"
  by (induction es) (auto intro: keeps_bind machine)

lemma keeps_webhooks: "keeps view (wh_NotifyIntentStateChange (WebhookNotifier L time_json mc db) i e)"
  unfolding WebhookNotifier_def NotifyIntentStateChange_def Notify_def
  by (auto intro!: keeps_bind keeps_launch_all machine queries split: sum.splits)

lemma keeps_audit: "keeps view (au_log (AuditLogger db (mc_clock mc)) a)"
  unfolding AuditLogger_def Log_def
  by (auto intro!: keeps_bind machine other_tables split: prod.splits)

lemma keeps_Sign: "keeps view (Sign H db input)"
  unfolding Sign_def Let_def
  by (auto intro!: keeps_bind queries split: sum.splits)

lemma keeps_GenerateProof: "keeps view (GenerateProof L rand (mc_clock mc) input)"
  unfolding GenerateProof_def Let_def
  by (auto intro!: keeps_bind machine split: option.splits)

lemma keeps_nonce: "keeps view (pg_GetTransactionByNonce db n)"
  unfolding pg_GetTransactionByNonce_def by (intro keeps_bind keeps_sum keeps_return queries)

lemma keeps_create_err: "keeps view (create_err (g_transactions db) tx)"
  unfolding create_err_def by (intro keeps_bind keeps_return other_tables)

end

sublocale wired_service \<subseteq> intent_service "main_handler L time_json rpcURL mc rand db" view
proof
  fix iid x r x'
  assume "run_state (is_GetByID (h_store (main_handler L time_json rpcURL mc rand db)) iid) x = (r, x')"
  then have run: "run_state (tb_first (g_intents db) (by_id iid)) x = (r, x')"
    by (simp add: main_handler_def PostgresIntentStore_def)
  then have "view x' = view x" using queries(1) by (metis keeps_def snd_conv)
  with run row show "view x' = view x \<and> (\<forall>i. r = Inr i \<longrightarrow> view x iid = Some i)" by blast
qed (auto simp: main_handler_def PostgresIntentStore_def PostgresTransactionStore_def DBAdapter_def
    main_zk_def reconciler_service_def main_reconciler_def SetAuditLogger_def SetWebhookNotifier_def
    SetSolanaClient_def NewReconciler_def
    intro: save insert queries machine keeps_solana keeps_webhooks keeps_audit keeps_Sign
      keeps_GenerateProof keeps_nonce keeps_create_err dest: save insert)

subsection \<open>Histories\<close>

datatype turn = Request route request | Reconcile string

type_synonym turn_log = "(turn \<times> call list) list"

fun take_turn :: "'x IntentHandler \<Rightarrow> 'x ReconcilerImpl \<Rightarrow> turn \<Rightarrow> 'x \<Rightarrow> call list \<times> 'x" where
  "take_turn h r (Request rt c) x = snd (serve (RegisterRoutes rt h c) x)"
| "take_turn h r (Reconcile iid) x = snd (serve (Start r iid) x)"

fun history :: "'x IntentHandler \<Rightarrow> 'x ReconcilerImpl \<Rightarrow> turn list \<Rightarrow> 'x \<Rightarrow> turn_log \<times> 'x" where
  "history h r [] x = ([], x)"
| "history h r (t # ts) x =
    (case take_turn h r t x of (tr, x1) \<Rightarrow>
       case history h r ts x1 of (log, x2) \<Rightarrow> ((t, tr) # log, x2))"

fun turn_intent :: "turn \<Rightarrow> string" where
  "turn_intent (Request rt c) = q_id c"
| "turn_intent (Reconcile iid) = iid"

definition submitted_times :: "string \<Rightarrow> turn_log \<Rightarrow> nat" where
  "submitted_times iid log =
     sum_list (map (\<lambda>(t, tr). if turn_intent t = iid then chain_calls tr else 0) log)"

definition recreates :: "string \<Rightarrow> turn_log \<Rightarrow> bool" where
  "recreates iid log \<longleftrightarrow>
     list_ex (\<lambda>(t, tr). list_ex (\<lambda>e. case e of Created i _ \<Rightarrow> i_ID i = iid | _ \<Rightarrow> False) tr) log"

lemma turn_log_simps [simp]:
  "submitted_times iid [] = 0"
  "submitted_times iid ((t, tr) # log) =
     (if turn_intent t = iid then chain_calls tr else 0) + submitted_times iid log"
  "recreates iid [] = False"
  "recreates iid ((t, tr) # log) \<longleftrightarrow>
     list_ex (\<lambda>e. case e of Created i _ \<Rightarrow> i_ID i = iid | _ \<Rightarrow> False) tr \<or> recreates iid log"
  by (simp_all add: submitted_times_def recreates_def)

text \<open>
  The same with anything between the turns that leaves the intents alone, as a relation: \<open>runs\<close> relates
  a state to a log and a state it may end in.
\<close>

inductive runs ::
  "'x IntentHandler \<Rightarrow> 'x ReconcilerImpl \<Rightarrow> ('x \<Rightarrow> intents) \<Rightarrow> 'x \<Rightarrow> turn_log \<Rightarrow> 'x \<Rightarrow> bool"
  for h r view
where
  rest: "view z = view x \<Longrightarrow> runs h r view x [] z"
| turn: "view y = view x \<Longrightarrow> take_turn h r t y = (tr, y') \<Longrightarrow> runs h r view y' log z \<Longrightarrow>
    runs h r view x ((t, tr) # log) z"

lemma runs_before: "runs h r view y log z \<Longrightarrow> view y = view x \<Longrightarrow> runs h r view x log z"
  by (cases rule: runs.cases) (auto intro: runs.intros)

lemma history_runs: "history h r ts x = (log, x') \<Longrightarrow> runs h r view x log x'"
proof (induction ts arbitrary: x log)
  case (Cons t ts)
  then show ?case by (auto split: prod.splits intro!: runs.turn)
qed (auto intro: runs.rest)

text \<open>The reconciler submits nothing and creates nothing.\<close>

lemma Start_passive:
  "appends (\<lambda>es _. \<not> list_ex is_submitted es \<and> \<not> list_ex is_created es) (Start r iid)"
proof -
  have tail: "appends P (do { rc_audited r a; rc_notify r i e })"
    if "\<And>fs. \<not> list_ex is_submitted fs \<Longrightarrow> \<not> list_ex is_created fs \<Longrightarrow> P fs ()" for P a i e
    unfolding rc_defs
    by (cases "rc_audit r"; cases "rc_webhooks r"; simp; intro appends_rules that; simp add: that)
  have confirm: "appends (\<lambda>es _. \<not> list_ex is_submitted es \<and> \<not> list_ex is_created es) (confirmIntent r i)" for i
    unfolding confirmIntent_def rc_now_def rc_save_def
    unfolding Let_def bind_sum State_Monad.bind_assoc State_Monad.bind_left_identity
    by (intro appends_return appends_act_bind appends_option appends_sum tail) auto
  have fails: "appends (\<lambda>es _. \<not> list_ex is_submitted es \<and> \<not> list_ex is_created es) (failIntent r i a b)" for i a b
    unfolding failIntent_def rc_now_def rc_save_def
    by (intro appends_return appends_act_bind appends_option appends_let tail) auto
  have polls: "appends (\<lambda>es _. \<not> list_ex is_submitted es \<and> \<not> list_ex is_created es) (poll_loop r client i n)" for client i n
  proof (induction n)
    case (Suc n)
    then show ?case
      unfolding poll_loop.simps rc_sleep_def
      by (intro appends_act_bind appends_if appends_mono [OF confirm] appends_mono [OF Suc]) auto
  qed (simp add: fails)
  show ?thesis
    unfolding Start_def rc_sleep_def
    by (intro appends_act_bind appends_return appends_sum appends_if appends_option
        appends_mono [OF fails] appends_mono [OF confirm] appends_mono [OF polls]) auto
qed

text \<open>Turns that are no requests to create an intent create none.\<close>

fun creating :: "turn \<Rightarrow> bool" where
  "creating (Request rt c) = (rt = PostIntent)"
| "creating (Reconcile iid) = False"

lemma turn_creates_nothing:
  assumes "\<not> creating t"
  shows "\<not> list_ex is_created (fst (take_turn h r t x))"
proof (cases t)
  case (Request rt c)
  obtain u tr x' where run: "serve (RegisterRoutes rt h c) x = (u, tr, x')"
    by (metis prod.exhaust)
  from appends_serve [OF routes_create_nothing run] assms show ?thesis
    by (simp add: Request run)
next
  case (Reconcile iid)
  obtain u tr x' where run: "serve (Start r iid) x = (u, tr, x')"
    by (metis prod.exhaust)
  from appends_serve [OF Start_passive run] show ?thesis by (simp add: Reconcile run)
qed

lemma history_recreates:
  "list_all (\<lambda>t. \<not> creating t) ts \<Longrightarrow> \<not> recreates iid (fst (history h r ts x))"
proof (induction ts arbitrary: x)
  case (Cons t ts)
  obtain tr x1 where run: "take_turn h r t x = (tr, x1)" by fastforce
  have "\<not> list_ex is_created tr"
    using turn_creates_nothing [of t h r x] Cons.prems run by simp
  then have "\<not> list_ex (\<lambda>e. case e of Created i _ \<Rightarrow> i_ID i = iid | _ \<Rightarrow> False) tr"
    by (auto simp: list_ex_iff split: call.splits)
  with Cons.prems run Cons.IH [of x1] show ?case
    by (cases "history h r ts x1") simp
qed simp

context wired_service begin

abbreviation "the_handler \<equiv> main_handler L time_json rpcURL mc rand db"
abbreviation "the_reconciler \<equiv> main_reconciler L time_json rpcURL mc db"

lemma rc_sel:
  "rc_db the_reconciler = db" "rc_machine the_reconciler = mc"
  "rc_solanaClient the_reconciler = Some (solana_submitter L mc (NewSolanaClient rpcURL))"
  "rc_audit the_reconciler = Some (AuditLogger db (mc_clock mc))"
  "rc_webhooks the_reconciler = Some (WebhookNotifier L time_json mc db)"
  by (simp_all add: main_reconciler_def SetAuditLogger_def SetWebhookNotifier_def
      SetSolanaClient_def NewReconciler_def)

lemma rc_save_evolves:
  assumes "view (ext s) = v" "v iid = Some intent" "i_ID intent = iid"
    "same_order intent i" "lifecycle_step (i_Status intent) (i_Status i)"
    and "\<And>e j t. evolves (Some (i_TenantID intent)) iid v (view (ext t)) \<Longrightarrow> Q (e, j) t"
  shows "wp (rc_save the_reconciler i) Q s"
proof -
  obtain e j x' where run: "run_state (tb_save (g_intents db) i) (ext s) = ((e, j), x')"
    by (metis prod.exhaust)
  from save [OF run] have j: "stored_as i j"
    and w: "view x' = (view (ext s))(i_ID i \<mapsto> j) \<or> e \<noteq> None \<and> view x' = view (ext s)" by auto
  have "i_ID i = iid" using assms(3,4) by (simp add: same_order_def)
  moreover have "evolves (Some (i_TenantID intent)) iid v (v(iid \<mapsto> j))"
    using stored_asD [OF j] assms(2,4,5)
    by (intro evolves_write) (auto intro: same_order_trans)
  ultimately have "evolves (Some (i_TenantID intent)) iid v (view x')"
    using w assms(1) by auto
  then show ?thesis
    by (auto simp: rc_save_def rc_sel wp_act run intro!: assms(6))
qed

lemma confirmIntent_evolves:
  assumes "view (ext s) = v" "v iid = Some intent" "i_ID intent = iid" "i_Status intent = ''submitted''"
  shows "wp (confirmIntent the_reconciler intent)
    (\<lambda>_ t. evolves (Some (i_TenantID intent)) iid v (view (ext t))) s"
  unfolding confirmIntent_def rc_now_def rc_audited_def rc_notify_def rc_sel option.case
  using assms
  by (intro wp_intros rc_save_evolves [where v = v and intent = intent] act_keeps machine queries
      other_tables keeps_audit keeps_webhooks)
    (auto simp: same_order_def intro: lifecycle_step.intros)

lemma failIntent_evolves:
  assumes "view (ext s) = v" "v iid = Some intent" "i_ID intent = iid" "i_Status intent = ''submitted''"
  shows "wp (failIntent the_reconciler intent reason ft)
    (\<lambda>_ t. evolves (Some (i_TenantID intent)) iid v (view (ext t))) s"
  unfolding failIntent_def rc_now_def rc_audited_def rc_notify_def rc_sel option.case
  using assms
  by (intro wp_intros rc_save_evolves [where v = v and intent = intent] act_keeps machine queries
      other_tables keeps_audit keeps_webhooks)
    (auto simp: same_order_def intro: lifecycle_step.intros)

lemma poll_loop_evolves:
  assumes "view (ext s) = v" "v iid = Some intent" "i_ID intent = iid" "i_Status intent = ''submitted''"
  shows "wp (poll_loop the_reconciler (solana_submitter L mc (NewSolanaClient rpcURL)) intent n)
    (\<lambda>_ t. evolves (Some (i_TenantID intent)) iid v (view (ext t))) s"
  using assms(1)
proof (induction n arbitrary: s)
  case 0
  with assms show ?case by (simp add: failIntent_evolves)
next
  case (Suc n)
  show ?case
    unfolding poll_loop.simps rc_sleep_def rc_sel
    by (intro wp_intros act_keeps machine keeps_solana confirmIntent_evolves Suc.IH)
      (use Suc.prems assms in auto)
qed

lemma Start_evolves:
  assumes "keyed (view x)"
  shows "wp (Start the_reconciler iid)
    (\<lambda>_ t. evolves (map_option i_TenantID (view x iid)) iid (view x) (view (ext t))) \<lparr>ext = x, trail = []\<rparr>"
proof -
  obtain r x' where run: "run_state (tb_first (g_intents db) (by_id iid)) x = (r, x')"
    by (metis prod.exhaust)
  then have view: "view x' = view x" using queries(1) by (metis keeps_def snd_conv)
  have row: "view x iid = Some i" "i_ID i = iid" if "r = Inr i" for i
    using row [of iid x i x'] run that assms by (auto simp: keyed_def)
  have loop: "wp (poll_loop the_reconciler (solana_submitter L mc (NewSolanaClient rpcURL)) i n)
      (\<lambda>_ t. evolves (Some (i_TenantID i)) iid (view x) (view (ext t))) s"
    if "r = Inr i" "i_Status i = ''submitted''" "view (ext s) = view x" for i n s
    using poll_loop_evolves [OF that(3) row [OF that(1)] that(2)] .
  have fails: "wp (failIntent the_reconciler i a b)
      (\<lambda>_ t. evolves (Some (i_TenantID i)) iid (view x) (view (ext t))) s"
    if "r = Inr i" "i_Status i = ''submitted''" "view (ext s) = view x" for i a b s
    using failIntent_evolves [OF that(3) row [OF that(1)] that(2)] .
  show ?thesis
    unfolding Start_def rc_sel option.case
    by (rule wp_bindI) (auto simp: wp_act run row view wp split: sum.splits intro!: loop fails)
qed

lemma turn_evolves:
  assumes "take_turn the_handler the_reconciler t x = (tr, x1)" "keyed (view x)"
    and "\<not> list_ex (\<lambda>e. case e of Created i _ \<Rightarrow> i_ID i = iid | _ \<Rightarrow> False) tr"
  shows "keyed (view x1)"
    "view x1 iid = view x iid \<or> (turn_intent t = iid \<and> (\<exists>T. evolves T iid (view x) (view x1)))"
proof -
  have "keyed (view x1) \<and>
    (view x1 iid = view x iid \<or> (turn_intent t = iid \<and> (\<exists>T. evolves T iid (view x) (view x1))))"
  proof (cases t)
    case (Request rt c)
    then obtain r where run: "serve (RegisterRoutes rt the_handler c) x = (r, tr, x1)"
      using assms(1) by (cases "serve (RegisterRoutes rt the_handler c) x") auto
    from serve_keyed [OF run assms(2)] serve_route [OF run assms(2,3)] show ?thesis
      by (auto simp: Request)
  next
    case (Reconcile i)
    then obtain r where run: "serve (Start the_reconciler i) x = (r, tr, x1)"
      using assms(1) by (cases "serve (Start the_reconciler i) x") auto
    from serve_wp [where Q = "\<lambda>r tr x1. evolves (map_option i_TenantID (view x i)) i (view x) (view x1)",
      OF Start_evolves [OF assms(2)] run]
    have ev: "evolves (map_option i_TenantID (view x i)) i (view x) (view x1)" .
    from evolves_keyed [OF ev assms(2)] ev show ?thesis
      by (cases "i = iid") (auto simp: Reconcile evolves_def)
  qed
  then show "keyed (view x1)"
    "view x1 iid = view x iid \<or> (turn_intent t = iid \<and> (\<exists>T. evolves T iid (view x) (view x1)))"
    by simp_all
qed

lemma turn_submits:
  assumes "take_turn the_handler the_reconciler t x = (tr, x1)" "keyed (view x)" "chain_calls tr \<noteq> 0"
  shows "chain_calls tr = 1 \<and> (\<exists>i. view x (turn_intent t) = Some i \<and> i_Status i = ''approved'') \<and>
    (\<exists>j. view x1 (turn_intent t) = Some j \<and> spent (i_Status j))"
proof (cases t)
  case (Request rt c)
  then obtain r where run: "serve (RegisterRoutes rt the_handler c) x = (r, tr, x1)"
    using assms(1) by (cases "serve (RegisterRoutes rt the_handler c) x") auto
  from serve_submits [OF run assms(3,2)] show ?thesis by (simp add: Request)
next
  case (Reconcile i)
  then obtain r where run: "serve (Start the_reconciler i) x = (r, tr, x1)"
    using assms(1) by (cases "serve (Start the_reconciler i) x") auto
  from appends_serve [OF Start_passive run] assms(3) show ?thesis by (simp add: chain_calls_0)
qed

lemma runs_submissions:
  assumes "runs the_handler the_reconciler view x log x'" "\<not> recreates iid log" "keyed (view x)"
  shows "submitted_times iid log \<le>
    (case view x iid of Some i \<Rightarrow> if spent (i_Status i) then 0 else 1 | None \<Rightarrow> 0)"
  using assms
proof (induction x log x' rule: runs.induct)
  case (turn y x t tr y' log z)
  from turn.prems(1) have no: "\<not> list_ex (\<lambda>e. case e of Created i _ \<Rightarrow> i_ID i = iid | _ \<Rightarrow> False) tr"
    "\<not> recreates iid log"
    by simp_all
  have keyed: "keyed (view y)" using turn.hyps(1) turn.prems(2) by simp
  note step = turn_evolves [OF turn.hyps(2) keyed no(1)]
  note IH = turn.IH [OF no(2) step(1)]
  show ?case
  proof (cases "turn_intent t = iid \<and> chain_calls tr \<noteq> 0")
    case True
    with turn_submits [OF turn.hyps(2) keyed] IH turn.hyps(1) show ?thesis
      by (auto simp: spent_def split: option.splits)
  next
    case False
    with IH step(2) turn.hyps(1) show ?thesis
      by (auto simp: evolves_def split: option.splits if_splits dest: spent_steps)
  qed
qed simp

lemma runs_lifecycle:
  assumes "runs the_handler the_reconciler view x log x'" "\<not> recreates iid log" "keyed (view x)"
  shows "view x' iid = view x iid \<or>
    (\<exists>i j. view x iid = Some i \<and> view x' iid = Some j \<and> same_order i j \<and>
       lifecycle_step\<^sup>*\<^sup>* (i_Status i) (i_Status j))"
  using assms
proof (induction x log x' rule: runs.induct)
  case (turn y x t tr y' log z)
  from turn.prems(1) have no: "\<not> list_ex (\<lambda>e. case e of Created i _ \<Rightarrow> i_ID i = iid | _ \<Rightarrow> False) tr"
    "\<not> recreates iid log"
    by simp_all
  have keyed: "keyed (view y)" using turn.hyps(1) turn.prems(2) by simp
  note step = turn_evolves [OF turn.hyps(2) keyed no(1)]
  from turn.IH [OF no(2) step(1)] step(2) turn.hyps(1) show ?case
    by (auto simp: evolves_def intro: same_order_trans rtranclp_trans)
qed simp

lemmas history_submissions = runs_submissions [OF history_runs]
lemmas history_lifecycle = runs_lifecycle [OF history_runs]

end

end
