(* ===== verification/VF_Auth.thy ===== *)
theory VF_Auth
  imports Go_Text
begin

section \<open>API keys and tenant identifiers\<close>

text \<open>
  \<open>services/api/core/auth.go\<close>: the bearer token check, the tenant sanitizer and the constant-time
  comparison (of which only the result is modelled). The lemmas give the exact set of accepted
  headers and the image of the sanitizer.
\<close>

record AuthResult =
  ar_Valid :: bool
  ar_TenantID :: string
  ar_Actor :: string
  ar_Error :: error

definition auth_error :: "error \<Rightarrow> AuthResult" where
  "auth_error e = \<lparr>ar_Valid = False, ar_TenantID = [], ar_Actor = [], ar_Error = e\<rparr>"

definition alnum_rune :: "rune \<Rightarrow> bool" where
  "alnum_rune c \<longleftrightarrow>
     (ord CHR ''a'' \<le> c \<and> c \<le> ord CHR ''z'') \<or> (ord CHR ''A'' \<le> c \<and> c \<le> ord CHR ''Z'') \<or>
     (ord CHR ''0'' \<le> c \<and> c \<le> ord CHR ''9'')"

definition isValidTokenChar :: "rune \<Rightarrow> bool" where
  "isValidTokenChar c \<longleftrightarrow>
     alnum_rune c \<or> c = ord CHR ''-'' \<or> c = ord CHR ''_'' \<or> c = ord CHR ''.'' \<or> c = ord CHR '':''"

definition ValidateAPIKey :: "string \<Rightarrow> string \<Rightarrow> AuthResult" where
  "ValidateAPIKey authorization tenantID =
    (if authorization = [] then auth_error ''missing Authorization header''
     else if \<not> has_prefix authorization ''Bearer '' then
       auth_error ''Authorization header must use Bearer scheme''
     else
       let token = trim_prefix authorization ''Bearer '' in
       if token = [] then auth_error ''empty bearer token''
       else if length token < 16 then
         auth_error ''bearer token too short (minimum 16 characters)''
       else if \<not> list_all isValidTokenChar (runes token) then
         auth_error ''bearer token contains invalid characters''
       else if tenantID = [] then auth_error ''tenant ID required''
       else \<lparr>ar_Valid = True, ar_TenantID = tenantID, ar_Actor = [], ar_Error = []\<rparr>)"

text \<open>\<open>ValidateJWT\<close> is a placeholder that always fails; a map result is never returned.\<close>

definition ValidateJWT :: "string \<Rightarrow> string \<Rightarrow> error + (string \<rightharpoonup> string)" where
  "ValidateJWT token secret =
    (if secret = [] then Inl ''JWT secret not configured''
     else Inl (''JWT validation not implemented '' @ encode_rune 0x2014 @ '' use API key authentication''))"

definition SecureCompare :: "string \<Rightarrow> string \<Rightarrow> bool" where
  "SecureCompare a b =
    (if length a = 0 \<and> length b = 0 then True else bytes_of a = bytes_of b)"

definition tenant_rune :: "rune \<Rightarrow> bool" where
  "tenant_rune c \<longleftrightarrow> alnum_rune c \<or> c = ord CHR ''-'' \<or> c = ord CHR ''_'' \<or> c = ord CHR ''.''"

definition SanitizeTenantID :: "string \<Rightarrow> string" where
  "SanitizeTenantID tid = concat (map encode_rune (filter tenant_rune (runes tid)))"

subsection \<open>Lemmas\<close>

lemma alnum_rune_ascii: "alnum_rune c \<Longrightarrow> 48 \<le> c \<and> c < 0x80"
  by (auto simp: alnum_rune_def ord_def)

lemma tenant_rune_ascii: "tenant_rune c \<Longrightarrow> 0 \<le> c \<and> c < 0x80"
  by (auto simp: tenant_rune_def ord_def dest: alnum_rune_ascii)

lemma isValidTokenChar_ascii: "isValidTokenChar c \<Longrightarrow> 0 \<le> c \<and> c < 0x80"
  by (auto simp: isValidTokenChar_def ord_def dest: alnum_rune_ascii)

lemma token_chars_bytes:
  "list_all isValidTokenChar (runes s) \<longleftrightarrow> list_all (\<lambda>c. isValidTokenChar (ord c)) s"
  by (rule list_all_runes) (use isValidTokenChar_ascii in force)

text \<open>The sanitizer keeps exactly the bytes that are letters, digits, hyphens, underscores, dots.\<close>

lemma concat_encode_ascii:
  "(\<And>c. c \<in> set cs \<Longrightarrow> ord c < 0x80) \<Longrightarrow> concat (map (\<lambda>c. encode_rune (ord c)) cs) = cs"
  by (induction cs) (auto simp: encode_rune_ascii)

lemma SanitizeTenantID_bytes: "SanitizeTenantID tid = filter (\<lambda>c. tenant_rune (ord c)) tid"
proof -
  have "filter tenant_rune (runes tid) = map ord (filter (\<lambda>c. tenant_rune (ord c)) tid)"
    by (subst filter_runes) (use tenant_rune_ascii in \<open>force simp: filter_map comp_def\<close>)+
  moreover have "concat (map (\<lambda>c. encode_rune (ord c)) (filter (\<lambda>c. tenant_rune (ord c)) tid))
      = filter (\<lambda>c. tenant_rune (ord c)) tid"
    by (rule concat_encode_ascii) (use tenant_rune_ascii in auto)
  ultimately show ?thesis by (simp add: SanitizeTenantID_def comp_def)
qed

lemma ValidateAPIKey_Valid:
  "ar_Valid (ValidateAPIKey a t) \<longleftrightarrow>
     t \<noteq> [] \<and> (\<exists>token. a = ''Bearer '' @ token \<and> 16 \<le> length token \<and>
                    list_all (\<lambda>c. isValidTokenChar (ord c)) token)"
proof
  assume v: "ar_Valid (ValidateAPIKey a t)"
  then have p: "has_prefix a ''Bearer ''"
    by (auto simp: ValidateAPIKey_def auth_error_def split: if_splits)
  with v have "16 \<le> length (trim_prefix a ''Bearer '')" "t \<noteq> []"
      "list_all (\<lambda>c. isValidTokenChar (ord c)) (trim_prefix a ''Bearer '')"
    by (auto simp: ValidateAPIKey_def auth_error_def Let_def token_chars_bytes split: if_splits)
  with has_prefixE [OF p] show "t \<noteq> [] \<and> (\<exists>token. a = ''Bearer '' @ token \<and> 16 \<le> length token \<and>
                    list_all (\<lambda>c. isValidTokenChar (ord c)) token)" by blast
next
  assume "t \<noteq> [] \<and> (\<exists>token. a = ''Bearer '' @ token \<and> 16 \<le> length token \<and>
                    list_all (\<lambda>c. isValidTokenChar (ord c)) token)"
  then obtain token where a: "a = ''Bearer '' @ token" "t \<noteq> []" "16 \<le> length token"
    "list_all (\<lambda>c. isValidTokenChar (ord c)) token" by blast
  have "has_prefix a ''Bearer ''" "trim_prefix a ''Bearer '' = token" "a \<noteq> []" "token \<noteq> []"
    using a(3) unfolding a(1) by (auto simp only: has_prefix_append) auto
  with a show "ar_Valid (ValidateAPIKey a t)"
    by (simp add: ValidateAPIKey_def Let_def token_chars_bytes)
qed

lemma ValidateAPIKey_result:
  "ar_TenantID (ValidateAPIKey a t) = (if ar_Valid (ValidateAPIKey a t) then t else [])"
  "ar_Valid (ValidateAPIKey a t) \<longleftrightarrow> ar_Error (ValidateAPIKey a t) = []"
  by (auto simp: ValidateAPIKey_def auth_error_def Let_def)

lemma SecureCompare_iff: "SecureCompare a b \<longleftrightarrow> a = b"
  by (auto simp: SecureCompare_def bytes_of_inj)

subsection \<open>Properties\<close>

text \<open>C37: The bearer check accepts exactly the headers \<open>Bearer\<close> followed by one space and at least sixteen
  letters, digits, hyphens, underscores, dots and colons, for a non-empty tenant, which it returns;
  it compares the token with nothing.\<close>

theorem accepted_api_keys:
  "ar_Valid (ValidateAPIKey a t) \<longleftrightarrow>
     t \<noteq> [] \<and> (\<exists>token. a = ''Bearer '' @ token \<and> 16 \<le> length token \<and>
                    list_all (\<lambda>c. isValidTokenChar (ord c)) token)"
  by (rule ValidateAPIKey_Valid)

text \<open>The sanitizer, which decodes and encodes runes, is the filter of the bytes that are letters,
  digits, hyphens, underscores and dots; so it leaves a sanitized identifier alone, and different
  headers can name one tenant.\<close>

theorem sanitizer_filters_bytes:
  "SanitizeTenantID tid = filter (\<lambda>c. tenant_rune (ord c)) tid \<and>
   SanitizeTenantID (SanitizeTenantID tid) = SanitizeTenantID tid \<and>
   SanitizeTenantID (tid @ '' '') = SanitizeTenantID tid"
  by (simp add: SanitizeTenantID_bytes tenant_rune_def alnum_rune_def ord_def)

end
