(* ===== verification/Go_Float.thy ===== *)
theory Go_Float
  imports VF_Prelude Complex_Main "HOL-Library.Log_Nat"
begin

section \<open>float64 arithmetic\<close>

text \<open>
  Go's float64 is IEEE 754 binary64 with rounding to the nearest value, ties to the even one. A
  float64 is the rational number it stands for, and an operation is the exact one followed by
  \<open>f64\<close>. The program's values are zero or between \<open>1e-9\<close> and \<open>1e30\<close> in size, so overflow and
  subnormal numbers are left out. The lemmas say that integers up to \<open>2 ^ 53\<close> are exact, that rounding
  does not cross an integer, and bound the error.
\<close>

text \<open>The exponent of \<open>x > 0\<close>: \<open>2 powi e \<le> x < 2 powi (e + 1)\<close>.\<close>

definition exponent :: "rat \<Rightarrow> int" where
  "exponent x =
    (case quotient_of x of (p, q) \<Rightarrow>
       let k = bitlen p - bitlen q in if 2 powi k \<le> x then k else k - 1)"

definition round_even :: "rat \<Rightarrow> int" where
  "round_even y =
    (let n = \<lfloor>y\<rfloor>; d = y - of_int n in
     if d < 1 / 2 then n else if d > 1 / 2 then n + 1 else if even n then n else n + 1)"

definition f64_pos :: "rat \<Rightarrow> rat" where
  "f64_pos x = (let e = exponent x - 52 in of_int (round_even (x / 2 powi e)) * 2 powi e)"

definition f64 :: "rat \<Rightarrow> rat" where
  "f64 x = (if x = 0 then 0 else if x < 0 then - f64_pos (- x) else f64_pos x)"

text \<open>The relative error of one operation.\<close>

definition f64_eps :: rat where
  "f64_eps = 1 / 2 ^ 53"

subsection \<open>The exponent\<close>

lemma power_nat_powi: "0 \<le> e \<Longrightarrow> (of_int (2 ^ nat e) :: rat) = 2 powi e"
  by (simp add: power_int_nonneg_exp)

lemma bitlen_powi:
  assumes "0 < p"
  shows "(2 :: rat) powi (bitlen p - 1) \<le> of_int p" "(of_int p :: rat) < 2 powi bitlen p"
proof -
  have "1 \<le> bitlen p"
    using assms by (metis bitlen_eq_zero_iff bitlen_nonneg linorder_not_le order_le_less zless_imp_add1_zle add_0)
  then have "(2 :: rat) powi (bitlen p - 1) = of_int (2 ^ nat (bitlen p - 1))"
    "(2 :: rat) powi bitlen p = of_int (2 ^ nat (bitlen p))"
    by (simp_all add: power_int_nonneg_exp)
  with bitlen_bounds [OF assms] show "(2 :: rat) powi (bitlen p - 1) \<le> of_int p"
    "(of_int p :: rat) < 2 powi bitlen p"
    by (simp_all only: of_int_le_iff of_int_less_iff)
qed

lemma exponent_bounds:
  assumes "0 < x"
  shows "2 powi exponent x \<le> x" "x < 2 powi (exponent x + 1)"
proof -
  obtain p q where pq: "quotient_of x = (p, q)" by fastforce
  have x: "x = of_int p / of_int q" and q: "0 < q"
    using quotient_of_div [OF pq] quotient_of_denom_pos [OF pq] by auto
  have p: "0 < p" using assms q by (simp add: x zero_less_divide_iff)
  let ?k = "bitlen p - bitlen q"
  have "(2 :: rat) powi (?k - 1) = 2 powi (bitlen p - 1) / 2 powi bitlen q"
    by (simp add: power_int_diff)
  also have "\<dots> \<le> x"
    unfolding x using bitlen_powi [OF p] bitlen_powi [OF q] p q by (intro frac_le) auto
  finally have lo: "(2 :: rat) powi (?k - 1) \<le> x" .
  have "x \<le> of_int p / 2 powi (bitlen q - 1)"
    unfolding x using bitlen_powi [OF q] p q by (intro divide_left_mono) auto
  also have "\<dots> < 2 powi bitlen p / 2 powi (bitlen q - 1)"
    using bitlen_powi [OF p] by (intro divide_strict_right_mono) auto
  also have "\<dots> = 2 powi (?k + 1)" by (simp add: power_int_diff power_int_add)
  finally have hi: "x < 2 powi (?k + 1)" .
  from lo hi show "2 powi exponent x \<le> x" "x < 2 powi (exponent x + 1)"
    by (auto simp: exponent_def pq Let_def)
qed

subsection \<open>Rounding to an integer\<close>

lemma round_even_error: "\<bar>of_int (round_even y) - y\<bar> \<le> 1 / 2"
proof -
  have "of_int \<lfloor>y\<rfloor> \<le> y" "y < of_int \<lfloor>y\<rfloor> + 1" by linarith+
  then show ?thesis by (auto simp: round_even_def Let_def)
qed

lemma round_even_ge: "of_int n \<le> y \<Longrightarrow> n \<le> round_even y"
  unfolding le_floor_iff [symmetric] by (auto simp: round_even_def Let_def)

lemma round_even_le: "y \<le> of_int n \<Longrightarrow> round_even y \<le> n"
proof -
  assume y: "y \<le> of_int n"
  show ?thesis
  proof (cases "y = of_int n")
    case False
    with y have "\<lfloor>y\<rfloor> < n" by (simp add: floor_less_iff)
    then show ?thesis by (auto simp: round_even_def Let_def)
  qed (simp add: round_even_def)
qed

subsection \<open>Rounding to a float64\<close>

lemma f64_pos_error:
  assumes "0 < x"
  shows "\<bar>f64_pos x - x\<bar> \<le> f64_eps * x"
proof -
  define e where "e = exponent x - 52"
  have "f64_pos x - x = (of_int (round_even (x / 2 powi e)) - x / 2 powi e) * 2 powi e"
    by (simp add: f64_pos_def e_def [symmetric] Let_def left_diff_distrib)
  then have "\<bar>f64_pos x - x\<bar> = \<bar>of_int (round_even (x / 2 powi e)) - x / 2 powi e\<bar> * 2 powi e"
    by (simp add: abs_mult)
  also have "\<dots> \<le> 1 / 2 * 2 powi e"
    by (intro mult_right_mono round_even_error) simp
  also have "\<dots> = f64_eps * 2 powi exponent x"
    by (simp add: e_def power_int_diff f64_eps_def)
  also have "\<dots> \<le> f64_eps * x"
    using exponent_bounds [OF assms] by (intro mult_left_mono) (simp_all add: f64_eps_def)
  finally show ?thesis .
qed

text \<open>An integer below \<open>2 ^ 53\<close> is a multiple of the unit in the last place of numbers as small.\<close>

lemma powi_multiple: "e \<le> 0 \<Longrightarrow> \<exists>m. of_int n = (of_int m :: rat) * 2 powi e"
proof -
  assume e: "e \<le> 0"
  have "(2 :: rat) powi (- e) * 2 powi e = 1" by (simp add: power_int_minus)
  moreover have "(2 :: rat) powi (- e) = 2 ^ nat (- e)" using e by (simp add: power_int_nonneg_exp)
  ultimately have "of_int n = (of_int (n * 2 ^ nat (- e)) :: rat) * 2 powi e"
    by (simp add: mult.assoc)
  then show ?thesis by blast
qed

lemma powi_53: "(2 :: rat) powi 53 = of_int (2 ^ 53)"
  by simp

lemma f64_pos_ge:
  assumes "0 < x" "of_int n \<le> x" "n < 2 ^ 53"
  shows "of_int n \<le> f64_pos x"
proof -
  define e where "e = exponent x - 52"
  have pos: "(0 :: rat) < 2 powi e" by simp
  show ?thesis
  proof (cases "e \<le> 0")
    case True
    then obtain m where m: "of_int n = (of_int m :: rat) * 2 powi e"
      using powi_multiple by blast
    with assms(2) pos have "of_int m \<le> x / 2 powi e" by (simp add: pos_le_divide_eq)
    then have "of_int m * 2 powi e \<le> of_int (round_even (x / 2 powi e)) * (2 powi e :: rat)"
      using round_even_ge pos by (intro mult_right_mono) auto
    with m show ?thesis by (simp add: f64_pos_def e_def [symmetric] Let_def)
  next
    case False
    have "(2 :: rat) powi 52 * 2 powi e = 2 powi exponent x"
      by (simp add: e_def power_int_diff)
    with exponent_bounds(1) [OF assms(1)] pos have "of_int (2 ^ 52) \<le> x / 2 powi e"
      by (simp add: pos_le_divide_eq)
    then have "(2 ^ 52 :: int) \<le> round_even (x / 2 powi e)" by (rule round_even_ge)
    moreover have "(2 :: rat) powi 1 \<le> 2 powi e"
      using False by (intro power_int_increasing) auto
    ultimately have "of_int (2 ^ 52) * 2 \<le> of_int (round_even (x / 2 powi e)) * (2 powi e :: rat)"
      by (intro mult_mono) (simp_all only: of_int_le_iff power_int_1_right, simp_all)
    moreover have "(of_int n :: rat) \<le> of_int (2 ^ 53)"
      using assms(3) unfolding of_int_le_iff by simp
    ultimately show ?thesis by (simp add: f64_pos_def e_def [symmetric] Let_def)
  qed
qed

lemma f64_pos_le:
  assumes "0 < x" "x \<le> of_int n" "n < 2 ^ 53"
  shows "f64_pos x \<le> of_int n"
proof -
  define e where "e = exponent x - 52"
  have pos: "(0 :: rat) < 2 powi e" by simp
  have "x < of_int (2 ^ 53)" using assms(2,3) by (metis of_int_less_iff order_le_less_trans)
  then have "(2 :: rat) powi exponent x < 2 powi 53"
    using exponent_bounds(1) [OF assms(1)] by (simp only: powi_53)
  then have "\<not> 53 \<le> exponent x"
    using power_int_increasing [of 53 "exponent x" "2 :: rat"] by linarith
  then have "e \<le> 0" by (simp add: e_def)
  then obtain m where m: "of_int n = (of_int m :: rat) * 2 powi e"
    using powi_multiple by blast
  with assms(2) pos have "x / 2 powi e \<le> of_int m" by (simp add: pos_divide_le_eq)
  then have "of_int (round_even (x / 2 powi e)) * (2 powi e :: rat) \<le> of_int m * 2 powi e"
    using round_even_le pos by (intro mult_right_mono) auto
  with m show ?thesis by (simp add: f64_pos_def e_def [symmetric] Let_def)
qed

lemma f64_ge: "0 \<le> n \<Longrightarrow> n < 2 ^ 53 \<Longrightarrow> of_int n \<le> x \<Longrightarrow> of_int n \<le> f64 x"
  using f64_pos_ge [of x n] by (cases "x = 0"; cases "x < 0") (auto simp: f64_def)

lemma f64_le: "n < 2 ^ 53 \<Longrightarrow> 0 \<le> x \<Longrightarrow> x \<le> of_int n \<Longrightarrow> f64 x \<le> of_int n"
  using f64_pos_le [of x n] by (cases "x = 0") (auto simp: f64_def)

lemma f64_of_int: "0 \<le> n \<Longrightarrow> n < 2 ^ 53 \<Longrightarrow> f64 (of_int n) = of_int n"
  by (intro antisym f64_ge f64_le) auto

lemma f64_nonneg: "0 \<le> x \<Longrightarrow> 0 \<le> f64 x"
  using f64_ge [of 0 x] by simp

lemma f64_upper: "0 \<le> x \<Longrightarrow> f64 x \<le> (1 + f64_eps) * x"
  using f64_pos_error [of x] by (cases "x = 0") (auto simp: f64_def algebra_simps abs_le_iff)

end
