(* ===== verification/VF_RateLimit.thy ===== *)
theory VF_RateLimit
  imports Go_Float
begin

section \<open>Rate limiting\<close>

text \<open>
  \<open>services/api/core/ratelimit.go\<close>: a token bucket per tenant, with float64 tokens that are refilled
  by the time since the last request. \<open>Allow\<close> takes the clock readings as arguments: \<open>t0\<close> is the one
  \<open>getBucket\<close> makes for a new bucket, \<open>t1\<close> the one under the bucket's lock. Products are rounded
  before they are added (no fused multiply-add). The lemmas keep the tokens between 0 and the burst,
  count the requests a burst allows, bound the requests of any window, and compare \<open>Cleanup\<close> with
  keeping the buckets.
\<close>

record tokenBucket =
  bk_tokens :: rat
  bk_lastTime :: time

record RateLimiter =
  rl_buckets :: "string \<rightharpoonup> tokenBucket"
  rl_rate :: int
  rl_burst :: int

definition NewRateLimiter :: "int \<Rightarrow> int \<Rightarrow> RateLimiter" where
  "NewRateLimiter ratePerSecond burst =
     \<lparr>rl_buckets = Map.empty, rl_rate = ratePerSecond, rl_burst = burst\<rparr>"

text \<open>\<open>Time.Sub\<close> saturates at the int64 range; \<open>Duration.Seconds\<close> adds whole seconds and the rest.\<close>

definition time_sub :: "time \<Rightarrow> time \<Rightarrow> int" where
  "time_sub t u = max (- (2 ^ 63)) (min (2 ^ 63 - 1) (t - u))"

definition seconds :: "int \<Rightarrow> rat" where
  "seconds d =
    (let sec = sgn d * (\<bar>d\<bar> div second); nsec = d - sec * second in
     f64 (f64 (of_int sec) + f64 (f64 (of_int nsec) / of_int second)))"

definition getBucket :: "RateLimiter \<Rightarrow> string \<Rightarrow> time \<Rightarrow> tokenBucket" where
  "getBucket rl tenantID t0 =
    (case rl_buckets rl tenantID of
       Some b \<Rightarrow> b
     | None \<Rightarrow> \<lparr>bk_tokens = f64 (of_int (rl_burst rl)), bk_lastTime = t0\<rparr>)"

definition refilled :: "RateLimiter \<Rightarrow> tokenBucket \<Rightarrow> time \<Rightarrow> rat" where
  "refilled rl b now =
    (let elapsed = seconds (time_sub now (bk_lastTime b));
         tokens = f64 (bk_tokens b + f64 (elapsed * f64 (of_int (rl_rate rl)))) in
     if tokens > f64 (of_int (rl_burst rl)) then f64 (of_int (rl_burst rl)) else tokens)"

definition Allow :: "RateLimiter \<Rightarrow> string \<Rightarrow> time \<Rightarrow> time \<Rightarrow> bool \<times> RateLimiter" where
  "Allow rl tenantID t0 t1 =
    (let b = getBucket rl tenantID t0;
         tokens = refilled rl b t1;
         put = (\<lambda>x. rl\<lparr>rl_buckets := (rl_buckets rl)(tenantID \<mapsto> \<lparr>bk_tokens = x, bk_lastTime = t1\<rparr>)\<rparr>) in
     if tokens < 1 then (False, put tokens) else (True, put (f64 (tokens - 1))))"

definition Cleanup :: "RateLimiter \<Rightarrow> time \<Rightarrow> int \<Rightarrow> RateLimiter" where
  "Cleanup rl now maxAge = rl\<lparr>rl_buckets := (\<lambda>k.
     case rl_buckets rl k of
       Some b \<Rightarrow> if bk_lastTime b < now - maxAge then None else Some b
     | None \<Rightarrow> None)\<rparr>"

subsection \<open>Well-formed limiters\<close>

definition limiter_ok :: "RateLimiter \<Rightarrow> bool" where
  "limiter_ok rl \<longleftrightarrow> 0 \<le> rl_rate rl \<and> rl_rate rl < 2 ^ 53 \<and> 0 \<le> rl_burst rl \<and> rl_burst rl < 2 ^ 53 \<and>
     (\<forall>k b. rl_buckets rl k = Some b \<longrightarrow> 0 \<le> bk_tokens b \<and> bk_tokens b \<le> of_int (rl_burst rl))"

definition clock_ok :: "RateLimiter \<Rightarrow> time \<Rightarrow> bool" where
  "clock_ok rl t \<longleftrightarrow> (\<forall>k b. rl_buckets rl k = Some b \<longrightarrow> bk_lastTime b \<le> t)"

lemma time_sub_mono: "u \<le> t \<Longrightarrow> 0 \<le> time_sub t u \<and> time_sub t u \<le> t - u \<and> time_sub t u < 2 ^ 63"
  by (auto simp: time_sub_def)

lemma f64_rate: "limiter_ok rl \<Longrightarrow> f64 (of_int (rl_rate rl)) = of_int (rl_rate rl)"
  and f64_burst: "limiter_ok rl \<Longrightarrow> f64 (of_int (rl_burst rl)) = of_int (rl_burst rl)"
  by (auto simp: limiter_ok_def intro: f64_of_int)

lemma seconds_nonneg_eq:
  "0 \<le> d \<Longrightarrow> d < 2 ^ 63 \<Longrightarrow>
     seconds d = f64 (of_int (d div second) + f64 (of_int (d mod second) / of_int second))"
proof -
  assume d: "0 \<le> d" "d < 2 ^ 63"
  have "sgn d * (\<bar>d\<bar> div second) = d div second" using d by (cases "d = 0") (simp_all add: sgn_if)
  moreover have "f64 (of_int (d div second)) = of_int (d div second)"
    using d by (intro f64_of_int) auto
  moreover have "f64 (of_int (d mod second)) = of_int (d mod second)"
    by (intro f64_of_int) (auto intro: order_less_trans [OF pos_mod_bound])
  ultimately show ?thesis by (simp only: seconds_def Let_def minus_div_mult_eq_mod)
qed

lemma seconds_bounds:
  assumes "0 \<le> d" "d < 2 ^ 63"
  shows "of_int (d div second) \<le> seconds d" "seconds d \<le> (1 + f64_eps) ^ 2 * (of_int d / of_int second)"
proof -
  define s n where "s = d div second" and "n = d mod second"
  have s: "0 \<le> s" "s < 2 ^ 53" and n: "0 \<le> n" and d: "d = s * second + n"
    using assms by (auto simp: s_def n_def)
  have frac: "0 \<le> (of_int n / of_int second :: rat)" using n by simp
  have eq: "seconds d = f64 (of_int s + f64 (of_int n / of_int second))"
    using seconds_nonneg_eq [OF assms] by (simp add: s_def n_def)
  show "of_int (d div second) \<le> seconds d"
    unfolding eq s_def [symmetric] using s f64_nonneg [OF frac] by (intro f64_ge) auto
  have eps: "0 \<le> f64_eps" by (simp add: f64_eps_def)
  have "seconds d \<le> (1 + f64_eps) * (of_int s + f64 (of_int n / of_int second))"
    unfolding eq using s f64_nonneg [OF frac] by (intro f64_upper) simp
  also have "\<dots> \<le> (1 + f64_eps) * ((1 + f64_eps) * of_int s + (1 + f64_eps) * (of_int n / of_int second))"
    using s eps f64_upper [OF frac] by (intro mult_left_mono add_mono) (simp_all add: distrib_right)
  also have "\<dots> = (1 + f64_eps) ^ 2 * (of_int d / of_int second)"
    by (simp add: d power2_eq_square add_divide_distrib algebra_simps)
  finally show "seconds d \<le> (1 + f64_eps) ^ 2 * (of_int d / of_int second)" .
qed

subsection \<open>One request\<close>

lemma refilled_range:
  assumes "limiter_ok rl" "0 \<le> bk_tokens b" "bk_lastTime b \<le> now"
  shows "0 \<le> refilled rl b now" "refilled rl b now \<le> of_int (rl_burst rl)"
proof -
  note d = time_sub_mono [OF assms(3)]
  have "0 \<le> seconds (time_sub now (bk_lastTime b))"
    using seconds_bounds(1) [of "time_sub now (bk_lastTime b)"] d
    by (meson order_trans of_int_0_le_iff pos_imp_zdiv_nonneg_iff zero_less_numeral)
  then have "0 \<le> seconds (time_sub now (bk_lastTime b)) * of_int (rl_rate rl)"
    using assms(1) by (simp add: limiter_ok_def)
  then show "0 \<le> refilled rl b now" "refilled rl b now \<le> of_int (rl_burst rl)"
    using assms by (auto simp: refilled_def Let_def f64_rate f64_burst limiter_ok_def
        intro!: f64_nonneg add_nonneg_nonneg)
qed

lemma getBucket_ok:
  assumes "limiter_ok rl" "clock_ok rl t0"
  shows "0 \<le> bk_tokens (getBucket rl k t0)" "bk_tokens (getBucket rl k t0) \<le> of_int (rl_burst rl)"
    "bk_lastTime (getBucket rl k t0) \<le> t0"
  using assms f64_burst [OF assms(1)]
  by (auto simp: getBucket_def limiter_ok_def clock_ok_def split: option.splits)

lemma Allow_limit:
  "rl_rate (snd (Allow rl k t0 t1)) = rl_rate rl" "rl_burst (snd (Allow rl k t0 t1)) = rl_burst rl"
  "j \<noteq> k \<Longrightarrow> rl_buckets (snd (Allow rl k t0 t1)) j = rl_buckets rl j"
  by (auto simp: Allow_def Let_def)

text \<open>The tokens a request leaves: one fewer when it is allowed, at most the burst.\<close>

lemma Allow_ok:
  assumes "limiter_ok rl" "clock_ok rl t0" "t0 \<le> t1"
  shows "limiter_ok (snd (Allow rl k t0 t1))" "clock_ok (snd (Allow rl k t0 t1)) t1"
proof -
  let ?b = "getBucket rl k t0"
  note r = refilled_range [OF assms(1) getBucket_ok(1) [OF assms(1,2)]
      order_trans [OF getBucket_ok(3) [OF assms(1,2)] assms(3)]]
  have "f64 (refilled rl ?b t1 - 1) \<le> of_int (rl_burst rl)" if "1 \<le> refilled rl ?b t1"
    using that r(2) [of k] assms(1) by (intro f64_le) (auto simp: limiter_ok_def)
  with r [of k] assms show "limiter_ok (snd (Allow rl k t0 t1))"
    by (auto simp: Allow_def Let_def limiter_ok_def not_less intro!: f64_nonneg split: if_splits)
  show "clock_ok (snd (Allow rl k t0 t1)) t1"
    using assms(2,3) by (force simp: Allow_def Let_def clock_ok_def)
qed

lemma Cleanup_ok: "limiter_ok rl \<Longrightarrow> limiter_ok (Cleanup rl now maxAge)"
  "clock_ok rl t \<Longrightarrow> clock_ok (Cleanup rl now maxAge) t"
  by (auto simp: limiter_ok_def clock_ok_def Cleanup_def split: option.splits if_splits)

subsection \<open>Sequences of requests\<close>

text \<open>A request: the tenant and the clock readings of its call of \<open>Allow\<close>.\<close>

type_synonym hit = "string \<times> time \<times> time"

fun allow_all :: "RateLimiter \<Rightarrow> hit list \<Rightarrow> bool list \<times> RateLimiter" where
  "allow_all rl [] = ([], rl)"
| "allow_all rl ((k, t0, t1) # hs) =
    (case Allow rl k t0 t1 of (b, rl1) \<Rightarrow> case allow_all rl1 hs of (bs, rl2) \<Rightarrow> (b # bs, rl2))"

text \<open>The readings of the monotonic clock, from \<open>t\<close> on and not after \<open>u\<close>.\<close>

fun chronological :: "time \<Rightarrow> hit list \<Rightarrow> time \<Rightarrow> bool" where
  "chronological t [] u = (t \<le> u)"
| "chronological t ((k, t0, t1) # hs) u = (t \<le> t0 \<and> t0 \<le> t1 \<and> chronological t1 hs u)"

text \<open>How many requests of a tenant there are, and how many of them are allowed.\<close>

fun asked :: "string \<Rightarrow> hit list \<Rightarrow> nat" where
  "asked k [] = 0"
| "asked k ((j, _, _) # hs) = (if j = k then 1 else 0) + asked k hs"

fun granted :: "string \<Rightarrow> hit list \<Rightarrow> bool list \<Rightarrow> nat" where
  "granted k ((j, _, _) # hs) (b # bs) = (if j = k \<and> b then 1 else 0) + granted k hs bs"
| "granted k _ _ = 0"

lemma chronological_le: "chronological t hs u \<Longrightarrow> t \<le> u"
  by (induction t hs u rule: chronological.induct) auto

lemma clock_ok_mono: "clock_ok rl t \<Longrightarrow> t \<le> u \<Longrightarrow> clock_ok rl u"
  by (force simp: clock_ok_def)

lemma allow_all_ok:
  "limiter_ok rl \<Longrightarrow> clock_ok rl t \<Longrightarrow> chronological t hs u \<Longrightarrow>
     limiter_ok (snd (allow_all rl hs)) \<and> clock_ok (snd (allow_all rl hs)) u"
proof (induction rl hs arbitrary: t rule: allow_all.induct)
  case (1 rl)
  then show ?case by (auto intro: clock_ok_mono)
next
  case (2 rl k t0 t1 hs)
  obtain b rl1 where step: "Allow rl k t0 t1 = (b, rl1)" by fastforce
  have t0: "clock_ok rl t0" "t0 \<le> t1" using 2(3,4) by (auto intro: clock_ok_mono)
  with Allow_ok [OF 2(2), of t0 t1 k] have "limiter_ok rl1" "clock_ok rl1 t1" by (simp_all add: step)
  with 2(1) [OF step [symmetric]] 2(4) have "limiter_ok (snd (allow_all rl1 hs)) \<and> clock_ok (snd (allow_all rl1 hs)) u"
    by simp
  then show ?case by (simp add: step split: prod.splits) (metis snd_conv)
qed

subsection \<open>The requests of a window\<close>

text \<open>
  What a bucket can still give at time \<open>t\<close>, in exact arithmetic: its tokens and the refill since, at
  most the burst. One request pays from it what it is granted, up to the rounding error \<open>slack\<close>.
\<close>

definition accrued :: "RateLimiter \<Rightarrow> int \<Rightarrow> rat" where
  "accrued rl d = of_int (rl_rate rl) * of_int d / of_int second"

definition potential :: "RateLimiter \<Rightarrow> string \<Rightarrow> time \<Rightarrow> rat" where
  "potential rl k t =
    (case rl_buckets rl k of
       None \<Rightarrow> of_int (rl_burst rl)
     | Some b \<Rightarrow> min (of_int (rl_burst rl)) (bk_tokens b + accrued rl (t - bk_lastTime b)))"

definition slack :: "RateLimiter \<Rightarrow> rat" where
  "slack rl = 7 * f64_eps * of_int (rl_burst rl)"

lemma accrued_add: "accrued rl (d + e) = accrued rl d + accrued rl e"
  by (simp add: accrued_def distrib_left add_divide_distrib)

lemma accrued_nonneg: "limiter_ok rl \<Longrightarrow> 0 \<le> d \<Longrightarrow> 0 \<le> accrued rl d"
  by (simp add: accrued_def limiter_ok_def)

lemma accrued_mono: "limiter_ok rl \<Longrightarrow> d \<le> e \<Longrightarrow> accrued rl d \<le> accrued rl e"
  using accrued_add [of rl d "e - d"] accrued_nonneg [of rl "e - d"] by simp

lemma potential_le: "potential rl k t \<le> of_int (rl_burst rl)"
  by (simp add: potential_def split: option.splits)

lemma potential_later:
  assumes "limiter_ok rl" "t \<le> t'"
  shows "potential rl k t' \<le> potential rl k t + accrued rl (t' - t)"
proof -
  have c: "0 \<le> accrued rl (t' - t)" using assms by (intro accrued_nonneg) auto
  show ?thesis
  proof (cases "rl_buckets rl k")
    case (Some b)
    have "accrued rl (t' - bk_lastTime b) = accrued rl (t - bk_lastTime b) + accrued rl (t' - t)"
      by (simp flip: accrued_add)
    with c show ?thesis by (simp add: potential_def Some min_def)
  qed (use c in \<open>simp add: potential_def\<close>)
qed

lemma eps_power: "(1 + f64_eps) ^ 4 \<le> 1 + 5 * f64_eps"
  by (simp add: f64_eps_def power4_eq_xxxx)

lemma f64_sum_bound:
  assumes "0 \<le> x" "x \<le> B" "0 \<le> s" "0 \<le> r" "s \<le> (1 + f64_eps) ^ 2 * a" "a * r \<le> B"
  shows "f64 (x + f64 (s * r)) \<le> x + a * r + 6 * f64_eps * B"
proof -
  have eps: "0 \<le> f64_eps" by (simp add: f64_eps_def)
  have "0 \<le> (1 + f64_eps) ^ 2 * a" using assms(3,5) by linarith
  then have a: "0 \<le> a" using eps by (simp add: zero_le_mult_iff)
  have sr: "0 \<le> s * r" using assms by simp
  have "f64 (s * r) \<le> (1 + f64_eps) * (s * r)" using sr by (rule f64_upper)
  also have "\<dots> \<le> (1 + f64_eps) * ((1 + f64_eps) ^ 2 * a * r)"
    using assms eps by (intro mult_left_mono mult_right_mono) auto
  finally have "f64 (s * r) \<le> (1 + f64_eps) ^ 3 * (a * r)"
    by (simp add: power3_eq_cube power2_eq_square mult_ac)
  then have "(1 + f64_eps) * (x + f64 (s * r)) \<le> (1 + f64_eps) * (x + (1 + f64_eps) ^ 3 * (a * r))"
    using eps by (intro mult_left_mono) auto
  moreover have "f64 (x + f64 (s * r)) \<le> (1 + f64_eps) * (x + f64 (s * r))"
    using assms(1) f64_nonneg [OF sr] by (intro f64_upper) simp
  moreover have "(1 + f64_eps) * (x + (1 + f64_eps) ^ 3 * (a * r)) = x + f64_eps * x + (1 + f64_eps) ^ 4 * (a * r)"
    by (simp add: algebra_simps power3_eq_cube power4_eq_xxxx)
  moreover have "(1 + f64_eps) ^ 4 * (a * r) \<le> (1 + 5 * f64_eps) * (a * r)"
    using a assms(4) by (intro mult_right_mono eps_power) simp
  moreover have "(1 + 5 * f64_eps) * (a * r) = a * r + 5 * (f64_eps * (a * r))"
    by (simp add: algebra_simps)
  moreover have "f64_eps * x \<le> f64_eps * B" "f64_eps * (a * r) \<le> f64_eps * B"
    using assms eps by (auto intro: mult_left_mono)
  ultimately show ?thesis by linarith
qed

lemma refilled_bound:
  assumes "limiter_ok rl" "0 \<le> bk_tokens b" "bk_tokens b \<le> of_int (rl_burst rl)" "bk_lastTime b \<le> now"
  shows "refilled rl b now \<le> min (of_int (rl_burst rl)) (bk_tokens b + accrued rl (now - bk_lastTime b))
    + 6 * f64_eps * of_int (rl_burst rl)"
proof -
  let ?B = "of_int (rl_burst rl) :: rat"
  let ?a = "accrued rl (now - bk_lastTime b)"
  let ?d = "time_sub now (bk_lastTime b)"
  note d = time_sub_mono [OF assms(4)]
  have B: "0 \<le> ?B" "0 \<le> 6 * f64_eps * ?B" using assms(1) by (auto simp: limiter_ok_def f64_eps_def)
  have top: "refilled rl b now \<le> ?B" by (rule refilled_range [OF assms(1,2,4)])
  show ?thesis
  proof (cases "?a < ?B")
    case True
    have s: "0 \<le> seconds ?d" "seconds ?d \<le> (1 + f64_eps) ^ 2 * (of_int ?d / of_int second)"
      using seconds_bounds [of ?d] d
      by (meson order_trans of_int_0_le_iff pos_imp_zdiv_nonneg_iff zero_less_numeral, blast)
    have le: "of_int ?d / of_int second * of_int (rl_rate rl) \<le> ?a"
      using accrued_mono [OF assms(1), of ?d "now - bk_lastTime b"] d by (simp add: accrued_def mult.commute)
    have "f64 (bk_tokens b + f64 (seconds ?d * of_int (rl_rate rl)))
        \<le> bk_tokens b + of_int ?d / of_int second * of_int (rl_rate rl) + 6 * f64_eps * ?B"
      using assms s le True by (intro f64_sum_bound) (auto simp: limiter_ok_def)
    then have "refilled rl b now \<le> bk_tokens b + ?a + 6 * f64_eps * ?B"
      using le by (auto simp: refilled_def Let_def f64_rate f64_burst assms(1) split: if_splits)
    with top B show ?thesis by (auto simp: min_def)
  qed (use top B assms(2) in \<open>auto simp: min_def\<close>)
qed

lemma Allow_pays:
  assumes "limiter_ok rl" "clock_ok rl t0" "t0 \<le> t1"
  shows "potential (snd (Allow rl k t0 t1)) k t1 + (if fst (Allow rl k t0 t1) then 1 else 0)
    \<le> potential rl k t1 + slack rl"
proof -
  let ?b = "getBucket rl k t0"
  let ?r = "refilled rl ?b t1"
  let ?B = "of_int (rl_burst rl) :: rat"
  note b = getBucket_ok [OF assms(1,2), of k]
  have t: "bk_lastTime ?b \<le> t1" using b(3) assms(3) by linarith
  note r = refilled_range [OF assms(1) b(1) t]
  have B: "0 \<le> f64_eps * ?B" "0 \<le> f64_eps" using assms(1) by (auto simp: limiter_ok_def f64_eps_def)
  have r_le: "?r \<le> potential rl k t1 + 6 * f64_eps * ?B"
  proof (cases "rl_buckets rl k")
    case None
    with r(2) B show ?thesis by (simp add: potential_def)
  next
    case (Some b')
    with refilled_bound [OF assms(1) b(1,2) t] show ?thesis
      by (simp add: potential_def getBucket_def)
  qed
  have dec: "f64 (?r - 1) + 1 \<le> ?r + f64_eps * ?B" if "1 \<le> ?r"
  proof -
    have "f64 (?r - 1) \<le> (1 + f64_eps) * (?r - 1)" using that by (intro f64_upper) simp
    moreover have "f64_eps * (?r - 1) \<le> f64_eps * ?B" using r(2) B by (intro mult_left_mono) auto
    ultimately show ?thesis by (simp add: algebra_simps)
  qed
  have "potential (snd (Allow rl k t0 t1)) k t1 \<le> (if ?r < 1 then ?r else f64 (?r - 1))"
    by (simp add: Allow_def Let_def potential_def accrued_def)
  with r_le dec B show ?thesis by (auto simp: Allow_def Let_def slack_def split: if_splits)
qed

lemma granted_bound:
  "limiter_ok rl \<Longrightarrow> clock_ok rl t \<Longrightarrow> chronological t hs u \<Longrightarrow>
     of_nat (granted k hs (fst (allow_all rl hs)))
       \<le> potential rl k t + accrued rl (u - t) + of_nat (asked k hs) * slack rl"
proof (induction rl hs arbitrary: t rule: allow_all.induct)
  case (1 rl)
  then have "0 \<le> potential rl k t"
    by (auto simp: potential_def limiter_ok_def clock_ok_def accrued_def split: option.splits)
  with 1 accrued_nonneg [of rl "u - t"] show ?case by simp
next
  case (2 rl j t0 t1 hs)
  obtain b rl1 where step: "Allow rl j t0 t1 = (b, rl1)" by fastforce
  have t: "clock_ok rl t0" "t \<le> t0" "t0 \<le> t1" "chronological t1 hs u"
    using 2(3,4) by (auto intro: clock_ok_mono)
  from Allow_ok [OF 2(2) t(1,3), of j] have ok1: "limiter_ok rl1" "clock_ok rl1 t1"
    by (simp_all add: step)
  have same: "slack rl1 = slack rl" "accrued rl1 d = accrued rl d" for d
    using Allow_limit(1,2) [of rl j t0 t1] by (simp_all add: step slack_def accrued_def)
  have IH: "of_nat (granted k hs (fst (allow_all rl1 hs)))
      \<le> potential rl1 k t1 + accrued rl (u - t1) + of_nat (asked k hs) * slack rl"
    using 2(1) [OF step [symmetric] ok1 t(4)] by (simp add: same)
  have pay: "potential rl1 k t1 + (if j = k \<and> b then 1 else 0)
      \<le> potential rl k t1 + (if j = k then slack rl else 0)"
  proof (cases "j = k")
    case True
    with Allow_pays [OF 2(2) t(1,3), of j, unfolded step fst_conv snd_conv] show ?thesis by simp
  next
    case False
    with Allow_limit(1,2) [of rl j t0 t1] Allow_limit(3) [of k j rl t0 t1] show ?thesis
      by (simp add: step potential_def accrued_def split: option.splits)
  qed
  have "potential rl k t1 \<le> potential rl k t + accrued rl (t1 - t)"
    using t by (intro potential_later 2(2)) simp
  moreover have "accrued rl (u - t) = accrued rl (t1 - t) + accrued rl (u - t1)"
    by (simp flip: accrued_add)
  ultimately show ?case
    using IH pay by (cases "allow_all rl1 hs") (auto simp: step distrib_right split: if_splits)
qed

subsection \<open>A burst at one instant\<close>

text \<open>With whole tokens and no time in between the arithmetic is exact.\<close>

lemma Allow_instant:
  assumes "limiter_ok rl" "getBucket rl k t = \<lparr>bk_tokens = of_nat n, bk_lastTime = t\<rparr>"
    "int n \<le> rl_burst rl"
  shows "Allow rl k t t = (0 < n, rl\<lparr>rl_buckets := (rl_buckets rl)(k \<mapsto>
    \<lparr>bk_tokens = of_nat (n - 1), bk_lastTime = t\<rparr>)\<rparr>)"
proof -
  have n: "f64 (of_nat n) = of_nat n" "f64 (of_nat (n - 1)) = of_nat (n - 1)"
    using assms(1,3) f64_of_int [of "int n"] f64_of_int [of "int (n - 1)"]
    by (auto simp: limiter_ok_def)
  have zero: "f64 0 = 0" by (simp add: f64_def)
  have le: "(of_nat n :: rat) \<le> of_int (rl_burst rl)"
    using assms(3) by (metis of_int_le_iff of_int_of_nat_eq)
  have "refilled rl (getBucket rl k t) t = of_nat n"
    using le by (simp add: refilled_def assms(2) time_sub_def seconds_def zero n f64_burst assms(1))
  moreover have "f64 ((of_nat n :: rat) - 1) = of_nat n - 1" if "0 < n"
    using that n(2) by (simp add: of_nat_diff)
  ultimately show ?thesis
    by (cases "n = 0") (auto simp: Allow_def Let_def)
qed

lemma allow_all_instant:
  assumes "limiter_ok rl" "getBucket rl k t = \<lparr>bk_tokens = of_nat n, bk_lastTime = t\<rparr>"
    "int n \<le> rl_burst rl"
  shows "fst (allow_all rl (replicate m (k, t, t))) = replicate (min m n) True @ replicate (m - n) False"
  using assms
proof (induction m arbitrary: rl n)
  case (Suc m)
  define rl1 where "rl1 = rl\<lparr>rl_buckets := (rl_buckets rl)(k \<mapsto>
    \<lparr>bk_tokens = of_nat (n - 1), bk_lastTime = t\<rparr>)\<rparr>"
  have step: "Allow rl k t t = (0 < n, rl1)"
    using Allow_instant [OF Suc.prems] by (simp add: rl1_def)
  have "limiter_ok rl1"
    using Suc.prems(1,3) by (auto simp: limiter_ok_def rl1_def)
  then have "fst (allow_all rl1 (replicate m (k, t, t)))
      = replicate (min m (n - 1)) True @ replicate (m - (n - 1)) False"
    using Suc.prems(3) by (intro Suc.IH) (auto simp: rl1_def getBucket_def)
  then show ?case
    by (cases n) (auto simp: step split: prod.splits)
qed simp

subsection \<open>Removing idle buckets\<close>

text \<open>A bucket that has been idle long enough is full again at its next request.\<close>

definition idle_full :: "RateLimiter \<Rightarrow> int \<Rightarrow> bool" where
  "idle_full rl maxAge \<longleftrightarrow> 0 \<le> maxAge \<and> maxAge < 2 ^ 63 \<and>
     rl_burst rl \<le> rl_rate rl * (maxAge div second)"

lemma refilled_full:
  assumes "limiter_ok rl" "idle_full rl maxAge" "0 \<le> bk_tokens b" "bk_lastTime b + maxAge \<le> now"
  shows "refilled rl b now = of_int (rl_burst rl)"
proof -
  let ?d = "time_sub now (bk_lastTime b)"
  have le: "bk_lastTime b \<le> now" using assms(2,4) by (simp add: idle_full_def)
  have "maxAge \<le> ?d" using assms(2,4) by (auto simp: time_sub_def idle_full_def)
  then have "maxAge div second \<le> ?d div second" by (simp add: zdiv_mono1)
  then have "rl_burst rl \<le> rl_rate rl * (?d div second)"
    using assms(1,2) by (auto simp: limiter_ok_def idle_full_def intro: order_trans mult_left_mono)
  then have "(of_int (rl_burst rl) :: rat) \<le> of_int (rl_rate rl * (?d div second))"
    by (simp only: of_int_le_iff)
  also have "\<dots> = of_int (?d div second) * of_int (rl_rate rl)" by simp
  also have "\<dots> \<le> seconds ?d * of_int (rl_rate rl)"
    using seconds_bounds(1) [of ?d] time_sub_mono [OF le] assms(1)
    by (intro mult_right_mono) (auto simp: limiter_ok_def)
  finally have "of_int (rl_burst rl) \<le> f64 (seconds ?d * of_int (rl_rate rl))"
    using assms(1) by (intro f64_ge) (auto simp: limiter_ok_def)
  then have "of_int (rl_burst rl) \<le> f64 (bk_tokens b + f64 (seconds ?d * of_int (rl_rate rl)))"
    using assms(1,3) by (intro f64_ge) (auto simp: limiter_ok_def)
  then show ?thesis
    by (auto simp: refilled_def Let_def f64_rate f64_burst assms(1))
qed

text \<open>Two limiters that differ in buckets that are idle at time \<open>t\<close>.\<close>

definition cleaned :: "RateLimiter \<Rightarrow> int \<Rightarrow> time \<Rightarrow> RateLimiter \<Rightarrow> bool" where
  "cleaned rl maxAge t rl' \<longleftrightarrow>
     rl_rate rl' = rl_rate rl \<and> rl_burst rl' = rl_burst rl \<and>
     (\<forall>k. rl_buckets rl' k = rl_buckets rl k \<or>
       (rl_buckets rl' k = None \<and> (\<exists>b. rl_buckets rl k = Some b \<and> bk_lastTime b + maxAge \<le> t)))"

lemma cleaned_Cleanup: "cleaned rl maxAge now (Cleanup rl now maxAge)"
  by (auto simp: cleaned_def Cleanup_def split: option.splits)

lemma fresh_refilled:
  assumes "limiter_ok rl" "rl_buckets rl k = None" "t0 \<le> t1"
  shows "refilled rl (getBucket rl k t0) t1 = of_int (rl_burst rl)"
proof -
  have bucket: "getBucket rl k t0 = \<lparr>bk_tokens = of_int (rl_burst rl), bk_lastTime = t0\<rparr>"
    using f64_burst [OF assms(1)] by (simp add: getBucket_def assms(2))
  have "0 \<le> seconds (time_sub t1 t0)"
    using seconds_bounds(1) [of "time_sub t1 t0"] time_sub_mono [OF assms(3)]
    by (meson order_trans of_int_0_le_iff pos_imp_zdiv_nonneg_iff zero_less_numeral)
  then have "of_int (rl_burst rl) \<le>
      f64 (of_int (rl_burst rl) + f64 (seconds (time_sub t1 t0) * f64 (of_int (rl_rate rl))))"
    using assms(1) by (intro f64_ge) (auto simp: limiter_ok_def intro!: f64_nonneg mult_nonneg_nonneg)
  then show ?thesis
    unfolding refilled_def bucket f64_burst [OF assms(1)] Let_def by simp
qed

lemma fresh_bucket_allows:
  "limiter_ok rl \<Longrightarrow> 1 \<le> rl_burst rl \<Longrightarrow> rl_buckets rl k = None \<Longrightarrow> t0 \<le> t1 \<Longrightarrow> fst (Allow rl k t0 t1)"
  by (simp add: Allow_def Let_def fresh_refilled)

lemma cleaned_refilled:
  assumes "limiter_ok rl" "limiter_ok rl'" "idle_full rl maxAge" "cleaned rl maxAge t rl'" "t \<le> t0" "t0 \<le> t1"
  shows "refilled rl' (getBucket rl' k t0) t1 = refilled rl (getBucket rl k t0) t1"
proof (cases "rl_buckets rl' k = rl_buckets rl k")
  case True
  moreover have "rl_rate rl' = rl_rate rl" "rl_burst rl' = rl_burst rl"
    using assms(4) by (simp_all add: cleaned_def)
  ultimately show ?thesis by (simp only: refilled_def getBucket_def)
next
  case False
  with assms(4) obtain b where b: "rl_buckets rl k = Some b" "bk_lastTime b + maxAge \<le> t"
    and none: "rl_buckets rl' k = None" and burst: "rl_burst rl' = rl_burst rl"
    by (auto simp: cleaned_def)
  have "0 \<le> bk_tokens b" using assms(1) b by (auto simp: limiter_ok_def)
  with b assms(5,6) have "refilled rl (getBucket rl k t0) t1 = of_int (rl_burst rl)"
    by (simp add: getBucket_def refilled_full [OF assms(1,3)])
  moreover have "refilled rl' (getBucket rl' k t0) t1 = of_int (rl_burst rl)"
    using fresh_refilled [OF assms(2) none assms(6)] by (simp add: burst)
  ultimately show ?thesis by simp
qed

lemma cleaned_Allow:
  assumes "limiter_ok rl" "limiter_ok rl'" "idle_full rl maxAge" "cleaned rl maxAge t rl'" "t \<le> t0" "t0 \<le> t1"
  shows "fst (Allow rl' k t0 t1) = fst (Allow rl k t0 t1)"
    "cleaned (snd (Allow rl k t0 t1)) maxAge t1 (snd (Allow rl' k t0 t1))"
  using assms(4-6) cleaned_refilled [OF assms, of k]
  by (force simp: Allow_def Let_def cleaned_def)+

lemma cleaned_allow_all:
  "limiter_ok rl \<Longrightarrow> limiter_ok rl' \<Longrightarrow> clock_ok rl t \<Longrightarrow> clock_ok rl' t \<Longrightarrow> idle_full rl maxAge \<Longrightarrow>
     cleaned rl maxAge t rl' \<Longrightarrow> chronological t hs u \<Longrightarrow>
     fst (allow_all rl' hs) = fst (allow_all rl hs)"
proof (induction rl hs arbitrary: rl' t rule: allow_all.induct)
  case (2 rl k t0 t1 hs)
  have t: "t \<le> t0" "t0 \<le> t1" "chronological t1 hs u" using 2(8) by auto
  have c: "clock_ok rl t0" "clock_ok rl' t0" using 2(4,5) t(1) by (auto intro: clock_ok_mono)
  obtain b rl1 where step: "Allow rl k t0 t1 = (b, rl1)" by fastforce
  note same = cleaned_Allow [OF 2(2,3,6,7) t(1,2), of k]
  then obtain rl1' where step': "Allow rl' k t0 t1 = (b, rl1')" and cl: "cleaned rl1 maxAge t1 rl1'"
    by (cases "Allow rl' k t0 t1") (simp add: step)
  have "idle_full rl1 maxAge"
    using 2(6) Allow_limit(1,2) [of rl k t0 t1] by (simp add: idle_full_def step)
  moreover have "limiter_ok rl1" "clock_ok rl1 t1" "limiter_ok rl1'" "clock_ok rl1' t1"
    using Allow_ok [OF 2(2) c(1) t(2), of k] Allow_ok [OF 2(3) c(2) t(2), of k]
    by (simp_all add: step step')
  ultimately have "fst (allow_all rl1' hs) = fst (allow_all rl1 hs)"
    using 2(1) [OF step [symmetric] _ _ _ _ _ cl t(3)] by simp
  then show ?case by (simp add: step step' case_prod_beta)
qed simp

subsection \<open>Properties\<close>

text \<open>C32: The limiter's state stays well formed. Over any chronological sequence of requests of any
  tenants, with a cleanup before it, every bucket holds between 0 tokens and the burst, in float64
  arithmetic, and no bucket's time is in the future.\<close>

theorem limiter_invariant:
  assumes "limiter_ok rl" "clock_ok rl t" "chronological t hs u"
  shows "limiter_ok (snd (allow_all (Cleanup rl t maxAge) hs)) \<and>
    clock_ok (snd (allow_all (Cleanup rl t maxAge) hs)) u"
  by (rule allow_all_ok [OF Cleanup_ok(1) [OF assms(1)] Cleanup_ok(2) [OF assms(2)] assms(3)])

lemma limiter_invariant_witness:
  "clock_ok (snd (allow_all (Cleanup (NewRateLimiter 100 200) 0 second)
     [(''a'', 0, 5), (''b'', 5, 9), (''a'', 10, 12)])) 12"
  using limiter_invariant [of "NewRateLimiter 100 200" 0
      "[(''a'', 0, 5), (''b'', 5, 9), (''a'', 10, 12)]" 12 second]
  by (simp add: limiter_ok_def clock_ok_def NewRateLimiter_def)

text \<open>C33: A new tenant's burst is exact: of \<open>m\<close> requests at one instant the first \<open>burst\<close> are allowed
  and the others refused.\<close>

theorem burst_is_exact:
  assumes "0 \<le> ratePerSecond" "ratePerSecond < 2 ^ 53" "int burst < 2 ^ 53"
  shows "fst (allow_all (NewRateLimiter ratePerSecond (int burst)) (replicate m (k, t, t)))
    = replicate (min m burst) True @ replicate (m - burst) False"
proof (rule allow_all_instant)
  show "limiter_ok (NewRateLimiter ratePerSecond (int burst))"
    using assms by (simp add: limiter_ok_def NewRateLimiter_def)
  from f64_burst [OF this]
  show "getBucket (NewRateLimiter ratePerSecond (int burst)) k t = \<lparr>bk_tokens = of_nat burst, bk_lastTime = t\<rparr>"
    by (simp add: getBucket_def NewRateLimiter_def)
qed (simp add: NewRateLimiter_def)

lemma burst_is_exact_witness:
  "fst (allow_all (NewRateLimiter 100 2) (replicate 3 (''a'', 7, 7))) = [True, True, False]"
  using burst_is_exact [of 100 2 3 "''a''" 7] by (simp add: numeral_eq_Suc)

text \<open>C31: The limit holds in every window. From any well-formed state, among the requests that one
  tenant makes between \<open>t\<close> and \<open>u\<close>, whatever the other tenants do, fewer than
  \<open>burst + rate * (u - t) + 1\<close> are allowed; the rounding of float64 does not add up to one request
  as long as \<open>7 * burst\<close> times the number of requests stays below \<open>2 ^ 53\<close>.\<close>

theorem window_is_bounded:
  assumes "limiter_ok rl" "clock_ok rl t" "chronological t hs u"
    and "7 * int (asked k hs) * rl_burst rl < 2 ^ 53"
  shows "of_nat (granted k hs (fst (allow_all rl hs)))
    < of_int (rl_burst rl) + of_int (rl_rate rl) * of_int (u - t) / of_int second + (1 :: rat)"
proof -
  have "of_nat (asked k hs) * slack rl = of_int (7 * int (asked k hs) * rl_burst rl) / 2 ^ 53"
    by (simp add: slack_def f64_eps_def)
  also have "\<dots> < 1"
    using assms(4) by (metis divide_less_eq_1_pos of_int_less_iff of_int_numeral of_int_power
        zero_less_numeral zero_less_power)
  finally show ?thesis
    using granted_bound [OF assms(1-3), of k] potential_le [of rl k t]
    by (simp add: accrued_def)
qed

lemma window_is_bounded_witness:
  "of_nat (granted ''a'' (replicate 9 (''a'', 0, 0)) (fst (allow_all (NewRateLimiter 100 5)
     (replicate 9 (''a'', 0, 0))))) < (6 :: rat)"
proof -
  have "chronological 0 (replicate n (''a'', 0, 0)) 0" for n by (induction n) auto
  moreover have "asked ''a'' (replicate n (''a'', 0, 0)) = n" for n by (induction n) auto
  ultimately show ?thesis
    using window_is_bounded [of "NewRateLimiter 100 5" 0 "replicate 9 (''a'', 0, 0)" 0 "''a''"]
    by (simp add: limiter_ok_def clock_ok_def NewRateLimiter_def)
qed

text \<open>C34: \<open>Cleanup\<close> is safe. When the age it removes buckets at is long enough to fill one up, every
  later sequence of requests is answered as if nothing had been removed.\<close>

theorem cleanup_changes_no_answer:
  assumes "limiter_ok rl" "clock_ok rl now" "chronological now hs u" "idle_full rl maxAge"
  shows "fst (allow_all (Cleanup rl now maxAge) hs) = fst (allow_all rl hs)"
  by (rule cleaned_allow_all [OF assms(1) Cleanup_ok(1) [OF assms(1)] assms(2)
        Cleanup_ok(2) [OF assms(2)] assms(4) cleaned_Cleanup assms(3)])

lemma cleanup_changes_no_answer_witness:
  "fst (allow_all (Cleanup (snd (allow_all (NewRateLimiter 100 200) [(''a'', 0, 0)])) (9 * second) (3 * second))
      [(''a'', 9 * second, 9 * second)])
   = fst (allow_all (snd (allow_all (NewRateLimiter 100 200) [(''a'', 0, 0)])) [(''a'', 9 * second, 9 * second)])"
proof (rule cleanup_changes_no_answer)
  have "limiter_ok (NewRateLimiter 100 200)" "clock_ok (NewRateLimiter 100 200) 0"
    by (simp_all add: limiter_ok_def clock_ok_def NewRateLimiter_def)
  from allow_all_ok [OF this, of "[(''a'', 0, 0)]" 0]
  show "limiter_ok (snd (allow_all (NewRateLimiter 100 200) [(''a'', 0, 0)]))"
    "clock_ok (snd (allow_all (NewRateLimiter 100 200) [(''a'', 0, 0)])) (9 * second)"
    by (auto intro: clock_ok_mono)
  show "chronological (9 * second) [(''a'', 9 * second, 9 * second)] (9 * second)" by simp
  show "idle_full (snd (allow_all (NewRateLimiter 100 200) [(''a'', 0, 0)])) (3 * second)"
    using Allow_limit(1,2) [of "NewRateLimiter 100 200" "''a''" 0 0]
    by (cases "Allow (NewRateLimiter 100 200) ''a'' 0 0") (simp add: idle_full_def NewRateLimiter_def)
qed

end
