(* ===== verification/VF_Health.thy ===== *)
theory VF_Health
  imports VF_Interfaces VF_Trace
begin

section \<open>Health checks\<close>

text \<open>
  \<open>services/api/core/health.go\<close>: liveness, readiness and the pool statistics. The connection pool of
  \<open>database/sql\<close> is a record of operations; \<open>*gorm.DB\<close>'s \<open>DB()\<close> may fail. The lemmas give the answer
  of the readiness probe and the calls it makes on the pool.
\<close>

record DBStats =
  dbs_OpenConnections :: int
  dbs_InUse :: int
  dbs_Idle :: int
  dbs_WaitCount :: int
  dbs_WaitDuration :: int
  dbs_MaxIdleClosed :: int
  dbs_MaxIdleTimeClosed :: int
  dbs_MaxLifetimeClosed :: int

record 'x sqlDB =
  sq_DB :: "('x, error option) op"
  sq_SetMaxOpenConns :: "int \<Rightarrow> ('x, unit) op"
  sq_SetMaxIdleConns :: "int \<Rightarrow> ('x, unit) op"
  sq_SetConnMaxLifetime :: "int \<Rightarrow> ('x, unit) op"
  sq_Ping :: "('x, error option) op"
  sq_Stats :: "('x, DBStats) op"

record 'x HealthChecker =
  hc_db :: "'x sqlDB"
  hc_solanaClient :: "'x SolanaSubmitter option"

definition NewHealthChecker :: "'x sqlDB \<Rightarrow> 'x SolanaSubmitter option \<Rightarrow> 'x HealthChecker" where
  "NewHealthChecker db solanaClient = \<lparr>hc_db = db, hc_solanaClient = solanaClient\<rparr>"

record HealthStatus =
  hs_Status :: string
  hs_Checks :: "(string \<times> string) list"

text \<open>A handler's answer is the HTTP status and the value written as JSON.\<close>

definition liveness :: "nat \<times> HealthStatus" where
  "liveness = (200, \<lparr>hs_Status = ''ok'', hs_Checks = []\<rparr>)"

definition checkDB :: "'x HealthChecker \<Rightarrow> ('x, error option) op" where
  "checkDB h = do {
     r \<leftarrow> sq_DB (hc_db h);
     (case r of
        Some err \<Rightarrow> State_Monad.return (Some err)
      | None \<Rightarrow> do {
          sq_SetMaxOpenConns (hc_db h) 1;
          sq_SetMaxIdleConns (hc_db h) 1;
          sq_SetConnMaxLifetime (hc_db h) (5 * second);
          sq_Ping (hc_db h)
        })
   }"

definition checkSolana :: "'x HealthChecker \<Rightarrow> ('x, error option) op" where
  "checkSolana h =
    (case hc_solanaClient h of
       None \<Rightarrow> State_Monad.return None
     | Some client \<Rightarrow> do {
         r \<leftarrow> sol_GetRecentBlockhash client;
         State_Monad.return (case r of Inl err \<Rightarrow> Some err | Inr _ \<Rightarrow> None)
       })"

definition check_text :: "error option \<Rightarrow> string" where
  "check_text r = (case r of Some err \<Rightarrow> ''error: '' @ err | None \<Rightarrow> ''ok'')"

definition readiness :: "'x HealthChecker \<Rightarrow> ('x, nat \<times> HealthStatus) op" where
  "readiness h = do {
     r_db \<leftarrow> checkDB h;
     r_sol \<leftarrow> checkSolana h;
     let healthy = (r_db = None \<and> r_sol = None);
     State_Monad.return
       (if healthy then 200 else 503,
        \<lparr>hs_Status = (if healthy then ''ok'' else ''degraded''),
         hs_Checks = [(''database'', check_text r_db), (''solana_rpc'', check_text r_sol)]\<rparr>)
   }"

text \<open>The JSON copy of the pool's statistics; \<open>show_duration\<close> is \<open>Duration.String\<close>.\<close>

record DBPoolStats =
  ps_OpenConnections :: int
  ps_InUse :: int
  ps_Idle :: int
  ps_WaitCount :: int
  ps_WaitDuration :: string
  ps_MaxIdleClosed :: int
  ps_MaxIdleTimeClosed :: int
  ps_MaxLifetimeClosed :: int

definition GetDBPoolStats :: "(int \<Rightarrow> string) \<Rightarrow> 'x sqlDB \<Rightarrow> ('x, DBPoolStats option) op" where
  "GetDBPoolStats show_duration db = do {
     r \<leftarrow> sq_DB db;
     (case r of
        Some err \<Rightarrow> State_Monad.return None
      | None \<Rightarrow> do {
          stats \<leftarrow> sq_Stats db;
          State_Monad.return (Some
            \<lparr>ps_OpenConnections = dbs_OpenConnections stats, ps_InUse = dbs_InUse stats,
             ps_Idle = dbs_Idle stats, ps_WaitCount = dbs_WaitCount stats,
             ps_WaitDuration = show_duration (dbs_WaitDuration stats),
             ps_MaxIdleClosed = dbs_MaxIdleClosed stats,
             ps_MaxIdleTimeClosed = dbs_MaxIdleTimeClosed stats,
             ps_MaxLifetimeClosed = dbs_MaxLifetimeClosed stats\<rparr>)
        })
   }"

subsection \<open>The calls of a probe\<close>

text \<open>A pool and a client that note the calls of a probe.\<close>

datatype probe_call =
    GotDB "error option"
  | MaxOpen int
  | MaxIdle int
  | MaxLifetime int
  | Pinged "error option"
  | Blockhash "error + string"

type_synonym 'x probed = "('x, probe_call) traced"

definition noting_pool :: "'x sqlDB \<Rightarrow> ('x probed, DBStats) op \<Rightarrow> 'x probed sqlDB" where
  "noting_pool db stats =
    \<lparr> sq_DB = act (sq_DB db) GotDB,
      sq_SetMaxOpenConns = (\<lambda>n. act (sq_SetMaxOpenConns db n) (\<lambda>_. MaxOpen n)),
      sq_SetMaxIdleConns = (\<lambda>n. act (sq_SetMaxIdleConns db n) (\<lambda>_. MaxIdle n)),
      sq_SetConnMaxLifetime = (\<lambda>d. act (sq_SetConnMaxLifetime db d) (\<lambda>_. MaxLifetime d)),
      sq_Ping = act (sq_Ping db) Pinged, sq_Stats = stats \<rparr>"

definition noting_client ::
  "'x SolanaSubmitter \<Rightarrow> 'x probed SolanaSubmitter \<Rightarrow> 'x probed SolanaSubmitter"
where
  "noting_client client rest = rest\<lparr>sol_GetRecentBlockhash := act (sol_GetRecentBlockhash client) Blockhash\<rparr>"

text \<open>The answer for the errors of the two checks.\<close>

definition probe_answer :: "error option \<Rightarrow> error option \<Rightarrow> nat \<times> HealthStatus" where
  "probe_answer e_db e_sol =
    (if e_db = None \<and> e_sol = None
     then (200, \<lparr>hs_Status = ''ok'', hs_Checks = [(''database'', ''ok''), (''solana_rpc'', ''ok'')]\<rparr>)
     else (503, \<lparr>hs_Status = ''degraded'',
       hs_Checks = [(''database'', check_text e_db), (''solana_rpc'', check_text e_sol)]\<rparr>))"

definition error_of :: "error + string \<Rightarrow> error option" where
  "error_of r = (case r of Inl err \<Rightarrow> Some err | Inr _ \<Rightarrow> None)"

definition probe_outcome :: "probe_call list \<Rightarrow> nat \<times> HealthStatus \<Rightarrow> bool" where
  "probe_outcome es r \<longleftrightarrow>
     (\<exists>b e. (es = [GotDB (Some e), Blockhash b] \<and> r = probe_answer (Some e) (error_of b))) \<or>
     (\<exists>b e. es = [GotDB None, MaxOpen 1, MaxIdle 1, MaxLifetime (5 * second), Pinged e, Blockhash b] \<and>
       r = probe_answer e (error_of b))"

lemma noting_client_sel: "sol_GetRecentBlockhash (noting_client c rest) = act (sol_GetRecentBlockhash c) Blockhash"
  by (simp add: noting_client_def)

lemma readiness_probes:
  "appends probe_outcome (readiness (NewHealthChecker (noting_pool db stats) (Some (noting_client client rest))))"
  unfolding readiness_def checkDB_def checkSolana_def NewHealthChecker_def noting_pool_def
  unfolding HealthChecker.simps sqlDB.simps noting_client_sel option.case bind_option State_Monad.bind_assoc
    State_Monad.bind_left_identity
  by (intro appends_rules)
    (auto simp: probe_outcome_def probe_answer_def error_of_def check_text_def split: sum.splits)

subsection \<open>Properties\<close>

text \<open>C39: A readiness probe asks the database and the chain once each and answers 200 exactly when both
  are reachable, otherwise 503 with the error of each; on the way it sets the connection pool of the
  running service to a single connection with a lifetime of five seconds.\<close>

theorem readiness_answers:
  "case serve (readiness (NewHealthChecker (noting_pool db stats) (Some (noting_client client rest)))) x of
     (r, es, x') \<Rightarrow> probe_outcome es r"
  by (rule appends_case [OF readiness_probes])

end
