(* ===== verification/VF_Metrics.thy ===== *)
theory VF_Metrics
  imports VF_Health
begin

section \<open>Metrics\<close>

text \<open>
  \<open>services/api/core/metrics.go\<close>: the counters, the latency buckets and the snapshot. Counters are
  int64 and wrap; an increment is atomic, one step. The lemma says that the latency buckets
  always add up to the number of latencies recorded.
\<close>

record MetricsCollector =
  mt_requestCount :: i64
  mt_requestErrors :: i64
  mt_policyEvals :: i64
  mt_policyDenied :: i64
  mt_zkProofs :: i64
  mt_mpcSigns :: i64
  mt_txSubmitted :: i64
  mt_txConfirmed :: i64
  mt_txFailed :: i64
  mt_webhooksSent :: i64
  mt_webhookErrors :: i64
  mt_auditEvents :: i64
  mt_reconciliations :: i64
  mt_latencyBuckets :: "(string \<times> i64) list"
  mt_startTime :: time

definition NewMetricsCollector :: "time \<Rightarrow> MetricsCollector" where
  "NewMetricsCollector now =
    \<lparr> mt_requestCount = 0, mt_requestErrors = 0, mt_policyEvals = 0, mt_policyDenied = 0,
      mt_zkProofs = 0, mt_mpcSigns = 0, mt_txSubmitted = 0, mt_txConfirmed = 0, mt_txFailed = 0,
      mt_webhooksSent = 0, mt_webhookErrors = 0, mt_auditEvents = 0, mt_reconciliations = 0,
      mt_latencyBuckets = [], mt_startTime = now \<rparr>"

definition IncrRequestCount :: "MetricsCollector \<Rightarrow> MetricsCollector" where
  "IncrRequestCount m = m\<lparr>mt_requestCount := mt_requestCount m + 1\<rparr>"

definition IncrRequestErrors :: "MetricsCollector \<Rightarrow> MetricsCollector" where
  "IncrRequestErrors m = m\<lparr>mt_requestErrors := mt_requestErrors m + 1\<rparr>"

definition IncrPolicyEvals :: "MetricsCollector \<Rightarrow> MetricsCollector" where
  "IncrPolicyEvals m = m\<lparr>mt_policyEvals := mt_policyEvals m + 1\<rparr>"

definition IncrPolicyDenied :: "MetricsCollector \<Rightarrow> MetricsCollector" where
  "IncrPolicyDenied m = m\<lparr>mt_policyDenied := mt_policyDenied m + 1\<rparr>"

definition IncrZKProofs :: "MetricsCollector \<Rightarrow> MetricsCollector" where
  "IncrZKProofs m = m\<lparr>mt_zkProofs := mt_zkProofs m + 1\<rparr>"

definition IncrMPCSigns :: "MetricsCollector \<Rightarrow> MetricsCollector" where
  "IncrMPCSigns m = m\<lparr>mt_mpcSigns := mt_mpcSigns m + 1\<rparr>"

definition IncrTXSubmitted :: "MetricsCollector \<Rightarrow> MetricsCollector" where
  "IncrTXSubmitted m = m\<lparr>mt_txSubmitted := mt_txSubmitted m + 1\<rparr>"

definition IncrTXConfirmed :: "MetricsCollector \<Rightarrow> MetricsCollector" where
  "IncrTXConfirmed m = m\<lparr>mt_txConfirmed := mt_txConfirmed m + 1\<rparr>"

definition IncrTXFailed :: "MetricsCollector \<Rightarrow> MetricsCollector" where
  "IncrTXFailed m = m\<lparr>mt_txFailed := mt_txFailed m + 1\<rparr>"

definition IncrWebhooksSent :: "MetricsCollector \<Rightarrow> MetricsCollector" where
  "IncrWebhooksSent m = m\<lparr>mt_webhooksSent := mt_webhooksSent m + 1\<rparr>"

definition IncrWebhookErrors :: "MetricsCollector \<Rightarrow> MetricsCollector" where
  "IncrWebhookErrors m = m\<lparr>mt_webhookErrors := mt_webhookErrors m + 1\<rparr>"

definition IncrAuditEvents :: "MetricsCollector \<Rightarrow> MetricsCollector" where
  "IncrAuditEvents m = m\<lparr>mt_auditEvents := mt_auditEvents m + 1\<rparr>"

definition IncrReconciliations :: "MetricsCollector \<Rightarrow> MetricsCollector" where
  "IncrReconciliations m = m\<lparr>mt_reconciliations := mt_reconciliations m + 1\<rparr>"

text \<open>\<open>Duration.Milliseconds\<close> truncates towards zero; the map of the buckets keeps its keys in the
  order they were first used.\<close>

definition milliseconds :: "int \<Rightarrow> int" where
  "milliseconds d = sgn d * (\<bar>d\<bar> div 1000000)"

definition latency_bucket :: "int \<Rightarrow> string" where
  "latency_bucket d =
    (let ms = milliseconds d in
     if ms < 10 then ''<10ms'' else if ms < 50 then ''10-50ms'' else if ms < 100 then ''50-100ms''
     else if ms < 500 then ''100-500ms'' else if ms < 1000 then ''500ms-1s''
     else if ms < 5000 then ''1s-5s'' else ''>5s'')"

fun bump :: "string \<Rightarrow> (string \<times> i64) list \<Rightarrow> (string \<times> i64) list" where
  "bump b [] = [(b, 1)]"
| "bump b ((k, n) # kns) = (if k = b then (k, n + 1) # kns else (k, n) # bump b kns)"

definition RecordLatency :: "int \<Rightarrow> MetricsCollector \<Rightarrow> MetricsCollector" where
  "RecordLatency d m = m\<lparr>mt_latencyBuckets := bump (latency_bucket d) (mt_latencyBuckets m)\<rparr>"

record MetricsSnapshot =
  sn_Uptime :: string
  sn_RequestCount :: i64
  sn_RequestErrors :: i64
  sn_PolicyEvals :: i64
  sn_PolicyDenied :: i64
  sn_ZKProofs :: i64
  sn_MPCSigns :: i64
  sn_TXSubmitted :: i64
  sn_TXConfirmed :: i64
  sn_TXFailed :: i64
  sn_WebhooksSent :: i64
  sn_WebhookErrors :: i64
  sn_AuditEvents :: i64
  sn_Reconciliations :: i64
  sn_LatencyBuckets :: "(string \<times> i64) list"
  sn_DBPool :: "DBPoolStats option"
  sn_Goroutines :: int

text \<open>\<open>show_uptime\<close> is rounding to the second and \<open>Duration.String\<close>; \<open>goroutines\<close> is the runtime's.\<close>

definition SnapshotWithDB ::
  "(int \<Rightarrow> string) \<Rightarrow> time \<Rightarrow> int \<Rightarrow> DBPoolStats option \<Rightarrow> MetricsCollector \<Rightarrow> MetricsSnapshot"
where
  "SnapshotWithDB show_uptime now goroutines poolStats m =
    \<lparr> sn_Uptime = show_uptime (now - mt_startTime m), sn_RequestCount = mt_requestCount m,
      sn_RequestErrors = mt_requestErrors m, sn_PolicyEvals = mt_policyEvals m,
      sn_PolicyDenied = mt_policyDenied m, sn_ZKProofs = mt_zkProofs m,
      sn_MPCSigns = mt_mpcSigns m, sn_TXSubmitted = mt_txSubmitted m,
      sn_TXConfirmed = mt_txConfirmed m, sn_TXFailed = mt_txFailed m,
      sn_WebhooksSent = mt_webhooksSent m, sn_WebhookErrors = mt_webhookErrors m,
      sn_AuditEvents = mt_auditEvents m, sn_Reconciliations = mt_reconciliations m,
      sn_LatencyBuckets = mt_latencyBuckets m, sn_DBPool = poolStats, sn_Goroutines = goroutines \<rparr>"

definition Snapshot :: "(int \<Rightarrow> string) \<Rightarrow> time \<Rightarrow> int \<Rightarrow> MetricsCollector \<Rightarrow> MetricsSnapshot" where
  "Snapshot show_uptime now goroutines m = SnapshotWithDB show_uptime now goroutines None m"

subsection \<open>Lemmas\<close>

definition recorded :: "MetricsCollector \<Rightarrow> i64" where
  "recorded m = sum_list (map snd (mt_latencyBuckets m))"

definition bucket_names :: "string set" where
  "bucket_names = {''<10ms'', ''10-50ms'', ''50-100ms'', ''100-500ms'', ''500ms-1s'', ''1s-5s'', ''>5s''}"

definition metrics_ok :: "MetricsCollector \<Rightarrow> bool" where
  "metrics_ok m \<longleftrightarrow> distinct (map fst (mt_latencyBuckets m)) \<and>
     set (map fst (mt_latencyBuckets m)) \<subseteq> bucket_names \<and> recorded m = mt_requestCount m"

lemma latency_bucket_name: "latency_bucket d \<in> bucket_names"
  by (simp add: latency_bucket_def bucket_names_def Let_def)

lemma bump_sum: "sum_list (map snd (bump b kns)) = sum_list (map snd kns) + 1"
  by (induction b kns rule: bump.induct) auto

lemma bump_keys: "set (map fst (bump b kns)) = insert b (set (map fst kns))"
  by (induction b kns rule: bump.induct) auto

lemma bump_distinct: "distinct (map fst kns) \<Longrightarrow> distinct (map fst (bump b kns))"
proof (induction b kns rule: bump.induct)
  case (2 b k n kns)
  then show ?case using bump_keys [of b kns] by (auto simp del: list.set_map)
qed simp

lemma metrics_ok_new: "metrics_ok (NewMetricsCollector now)"
  by (simp add: metrics_ok_def NewMetricsCollector_def recorded_def)

lemma metrics_ok_record: "metrics_ok m \<Longrightarrow> metrics_ok (RecordLatency d (IncrRequestCount m))"
  using bump_keys [of "latency_bucket d" "mt_latencyBuckets m"] latency_bucket_name [of d]
  by (auto simp: metrics_ok_def RecordLatency_def IncrRequestCount_def recorded_def bump_sum
      bump_distinct simp del: list.set_map)

lemma metrics_ok_error: "metrics_ok m \<Longrightarrow> metrics_ok (IncrRequestErrors m)"
  by (simp add: metrics_ok_def IncrRequestErrors_def recorded_def)

end
