(* ===== verification/VF_Logger.thy ===== *)
theory VF_Logger
  imports VF_Prelude
begin

section \<open>Structured logging\<close>

text \<open>
  \<open>services/api/core/logger.go\<close>: the level of the logger and the two lines of a request. The output
  of \<open>log/slog\<close> is a list of entries; an entry below the logger's level is dropped. The time stamp
  of an entry is the clock reading.
\<close>

datatype level = Debug | Info | Warn | Error

fun level_rank :: "level \<Rightarrow> int" where
  "level_rank Debug = - 4" | "level_rank Info = 0" | "level_rank Warn = 4" | "level_rank Error = 8"

lemma level_rank_inj: "level_rank l = level_rank m \<longleftrightarrow> l = m"
  by (cases l; cases m) simp_all

text \<open>The levels are ordered by the numbers \<open>log/slog\<close> gives them.\<close>

instantiation level :: linorder
begin

definition less_eq_level :: "level \<Rightarrow> level \<Rightarrow> bool" where
  "less_eq_level l m \<longleftrightarrow> level_rank l \<le> level_rank m"

definition less_level :: "level \<Rightarrow> level \<Rightarrow> bool" where
  "less_level l m \<longleftrightarrow> level_rank l < level_rank m"

instance
  by standard (auto simp: less_eq_level_def less_level_def simp flip: level_rank_inj)

end

datatype attr = AStr string string | AInt string int | ATime string time

record entry =
  en_level :: level
  en_message :: string
  en_attrs :: "attr list"

record Logger =
  lg_level :: level
  lg_source :: bool
  lg_with :: "attr list"

definition NewLogger :: "string \<Rightarrow> string \<Rightarrow> Logger" where
  "NewLogger env level =
    \<lparr> lg_level = (if level = ''debug'' then Debug else if level = ''warn'' then Warn
                  else if level = ''error'' then Error else Info),
      lg_source = (env = ''development''),
      lg_with = [AStr ''service'' ''vaultforge-api'', AStr ''environment'' env] \<rparr>"

definition log_at :: "level \<Rightarrow> Logger \<Rightarrow> string \<Rightarrow> attr list \<Rightarrow> entry list" where
  "log_at l lg msg attrs =
    (if lg_level lg \<le> l
     then [\<lparr>en_level = l, en_message = msg, en_attrs = lg_with lg @ attrs\<rparr>] else [])"

definition Request_logger :: "Logger \<Rightarrow> string \<Rightarrow> string \<Rightarrow> string \<Rightarrow> string \<Rightarrow> Logger" where
  "Request_logger lg requestID method path clientIP = lg\<lparr>lg_with := lg_with lg @
     [AStr ''request_id'' requestID, AStr ''method'' method, AStr ''path'' path,
      AStr ''client_ip'' clientIP]\<rparr>"

definition Intent_logger :: "Logger \<Rightarrow> string \<Rightarrow> string \<Rightarrow> string \<Rightarrow> string \<Rightarrow> Logger" where
  "Intent_logger lg requestID intentID tenantID actor = lg\<lparr>lg_with := lg_with lg @
     [AStr ''request_id'' requestID, AStr ''intent_id'' intentID, AStr ''tenant_id'' tenantID,
      AStr ''actor'' actor]\<rparr>"

definition LogRequestStart :: "Logger \<Rightarrow> time \<Rightarrow> string \<Rightarrow> string \<Rightarrow> string \<Rightarrow> entry list" where
  "LogRequestStart lg now requestID method path = log_at Info lg ''request started''
     [AStr ''request_id'' requestID, AStr ''method'' method, AStr ''path'' path,
      ATime ''timestamp'' now]"

definition LogRequestComplete ::
  "Logger \<Rightarrow> time \<Rightarrow> string \<Rightarrow> string \<Rightarrow> string \<Rightarrow> int \<Rightarrow> int \<Rightarrow> entry list"
where
  "LogRequestComplete lg now requestID method path status duration =
     log_at Info lg ''request completed''
       [AStr ''request_id'' requestID, AStr ''method'' method, AStr ''path'' path,
        AInt ''status'' status, AInt ''duration_ms'' (sgn duration * (\<bar>duration\<bar> div 1000000)),
        ATime ''timestamp'' now]"

end
