(* ===== verification/VF_Config.thy ===== *)
theory VF_Config
  imports Go_Text
begin

section \<open>Configuration\<close>

text \<open>
  \<open>services/api/core/config.go\<close>: reading the environment with defaults and the checks before the
  service starts. The environment is a function from names to values, the empty string for a
  variable that is not set; \<open>time.ParseDuration\<close> is a parameter. The lemmas give the exact set of
  accepted configurations.
\<close>

subsection \<open>Text helpers of the Go library\<close>

text \<open>\<open>strings.Split\<close> with a separator of one byte.\<close>

fun split_on :: "char \<Rightarrow> string \<Rightarrow> string list" where
  "split_on sep [] = [[]]"
| "split_on sep (c # cs) =
    (if c = sep then [] # split_on sep cs
     else (case split_on sep cs of w # ws \<Rightarrow> (c # w) # ws | [] \<Rightarrow> [[c]]))"

text \<open>\<open>strings.TrimSpace\<close>: the runes with the Unicode property White-Space.\<close>

definition space_runes :: "rune list" where
  "space_runes = [9, 10, 11, 12, 13, 32, 0x85, 0xA0, 0x1680, 0x2000, 0x2001, 0x2002, 0x2003, 0x2004,
     0x2005, 0x2006, 0x2007, 0x2008, 0x2009, 0x200A, 0x2028, 0x2029, 0x202F, 0x205F, 0x3000]"

definition leading_space :: "string \<Rightarrow> nat" where
  "leading_space s =
    (case find (\<lambda>w. take (length w) s = w) (map encode_rune space_runes) of
       Some w \<Rightarrow> length w | None \<Rightarrow> 0)"

function trim_left :: "string \<Rightarrow> string" where
  "trim_left s =
    (if s = [] \<or> leading_space s = 0 then s else trim_left (drop (leading_space s) s))"
  by pat_completeness auto
termination by (relation "measure length") auto

definition trailing_space :: "string \<Rightarrow> nat" where
  "trailing_space s =
    (case find (\<lambda>w. length w \<le> length s \<and> drop (length s - length w) s = w)
        (map encode_rune space_runes) of
       Some w \<Rightarrow> length w | None \<Rightarrow> 0)"

function trim_right :: "string \<Rightarrow> string" where
  "trim_right s =
    (if s = [] \<or> trailing_space s = 0 then s
     else trim_right (take (length s - trailing_space s) s))"
  by pat_completeness auto
termination by (relation "measure length") auto

declare trim_left.simps [simp del] trim_right.simps [simp del]

definition TrimSpace :: "string \<Rightarrow> string" where
  "TrimSpace s = trim_right (trim_left s)"

subsection \<open>Loading\<close>

record Config =
  cf_Port :: string
  cf_DatabaseURL :: string
  cf_SolanaRPCURL :: string
  cf_Environment :: string
  cf_LogLevel :: string
  cf_ReadTimeout :: int
  cf_WriteTimeout :: int
  cf_IdleTimeout :: int
  cf_MaxBodyBytes :: int
  cf_ShutdownTimeout :: int
  cf_JWTSecret :: string
  cf_CORSOrigins :: string

type_synonym environment = "string \<Rightarrow> string"

definition getEnv :: "environment \<Rightarrow> string \<Rightarrow> string \<Rightarrow> string" where
  "getEnv env key fallback = (if env key \<noteq> [] then env key else fallback)"

definition getDurationEnv :: "(string \<Rightarrow> int option) \<Rightarrow> environment \<Rightarrow> string \<Rightarrow> int \<Rightarrow> int" where
  "getDurationEnv parseDuration env key fallback =
    (if env key \<noteq> [] then (case parseDuration (env key) of Some d \<Rightarrow> d | None \<Rightarrow> fallback)
     else fallback)"

definition getInt64Env :: "environment \<Rightarrow> string \<Rightarrow> int \<Rightarrow> int" where
  "getInt64Env env key fallback =
    (if env key \<noteq> [] then (case parse_int64 (env key) of Inr n \<Rightarrow> n | Inl _ \<Rightarrow> fallback)
     else fallback)"

definition LoadConfig :: "(string \<Rightarrow> int option) \<Rightarrow> environment \<Rightarrow> Config" where
  "LoadConfig parseDuration env =
    \<lparr> cf_Port = getEnv env ''PORT'' ''8080'',
      cf_DatabaseURL = getEnv env ''DATABASE_URL''
        ''host=localhost user=vaultforge password=vaultforge dbname=vaultforge port=5432 sslmode=disable'',
      cf_SolanaRPCURL = getEnv env ''SOLANA_RPC_URL'' ''https://api.devnet.solana.com'',
      cf_Environment = getEnv env ''VAULTFORGE_ENV'' ''development'',
      cf_LogLevel = getEnv env ''LOG_LEVEL'' ''info'',
      cf_ReadTimeout = getDurationEnv parseDuration env ''READ_TIMEOUT'' (15 * second),
      cf_WriteTimeout = getDurationEnv parseDuration env ''WRITE_TIMEOUT'' (30 * second),
      cf_IdleTimeout = getDurationEnv parseDuration env ''IDLE_TIMEOUT'' (60 * second),
      cf_MaxBodyBytes = getInt64Env env ''MAX_BODY_BYTES'' (10 * 2 ^ 20),
      cf_ShutdownTimeout = getDurationEnv parseDuration env ''SHUTDOWN_TIMEOUT'' (10 * second),
      cf_JWTSecret = getEnv env ''JWT_SECRET'' [],
      cf_CORSOrigins = getEnv env ''CORS_ORIGINS'' ''*'' \<rparr>"

subsection \<open>Checking\<close>

text \<open>The loop over the origins: the first bad one is the error.\<close>

fun check_origins :: "string list \<Rightarrow> error option" where
  "check_origins [] = None"
| "check_origins (o1 # os) =
    (let origin = TrimSpace o1 in
     if origin = [] then check_origins os
     else if \<not> has_prefix origin ''http://'' \<and> \<not> has_prefix origin ''https://'' then
       Some (''CORS_ORIGINS must be '*' or comma-separated HTTP/HTTPS origins, got: '' @ origin)
     else check_origins os)"

definition Validate :: "Config \<Rightarrow> error option" where
  "Validate c =
    (if cf_DatabaseURL c = [] then Some ''DATABASE_URL is required''
     else if cf_Port c = [] then Some ''PORT is required''
     else if cf_SolanaRPCURL c = [] then Some ''SOLANA_RPC_URL is required''
     else if \<not> (cf_Environment c = ''development'' \<or> cf_Environment c = ''staging'' \<or>
                 cf_Environment c = ''production'') then
       Some ''VAULTFORGE_ENV must be one of: development, staging, production''
     else if cf_Environment c = ''production'' \<and> cf_JWTSecret c = [] then
       Some ''JWT_SECRET is required in production''
     else if cf_JWTSecret c \<noteq> [] \<and> length (cf_JWTSecret c) < 32 then
       Some ''JWT_SECRET must be at least 32 characters''
     else
       (case (if cf_CORSOrigins c \<noteq> ''*'' \<and> cf_CORSOrigins c \<noteq> []
              then check_origins (split_on CHR '','' (cf_CORSOrigins c)) else None) of
          Some e \<Rightarrow> Some e
        | None \<Rightarrow>
          if \<not> (cf_LogLevel c = ''debug'' \<or> cf_LogLevel c = ''info'' \<or> cf_LogLevel c = ''warn'' \<or>
                 cf_LogLevel c = ''error'') then
            Some ''LOG_LEVEL must be one of: debug, info, warn, error''
          else None))"

definition IsProduction :: "Config \<Rightarrow> bool" where
  "IsProduction c \<longleftrightarrow> cf_Environment c = ''production''"

subsection \<open>Which configurations are accepted\<close>

definition origin_ok :: "string \<Rightarrow> bool" where
  "origin_ok w \<longleftrightarrow> TrimSpace w = [] \<or> has_prefix (TrimSpace w) ''http://'' \<or>
     has_prefix (TrimSpace w) ''https://''"

lemma check_origins_None: "check_origins ws = None \<longleftrightarrow> list_all origin_ok ws"
  by (induction ws) (auto simp: origin_ok_def Let_def)

lemma split_on_join: "concat (map (\<lambda>w. w @ [sep]) (split_on sep s)) = s @ [sep]"
  by (induction s) (auto split: list.splits)

lemma split_on_no_sep: "w \<in> set (split_on sep s) \<Longrightarrow> sep \<notin> set w"
  by (induction s arbitrary: w) (auto split: list.splits if_splits)

lemma Validate_None:
  "Validate c = None \<longleftrightarrow>
     cf_DatabaseURL c \<noteq> [] \<and> cf_Port c \<noteq> [] \<and> cf_SolanaRPCURL c \<noteq> [] \<and>
     cf_Environment c \<in> {''development'', ''staging'', ''production''} \<and>
     cf_LogLevel c \<in> {''debug'', ''info'', ''warn'', ''error''} \<and>
     (if cf_JWTSecret c = [] then \<not> IsProduction c else 32 \<le> length (cf_JWTSecret c)) \<and>
     (cf_CORSOrigins c = ''*'' \<or> cf_CORSOrigins c = [] \<or>
      list_all origin_ok (split_on CHR '','' (cf_CORSOrigins c)))"
  by (auto simp: Validate_def IsProduction_def check_origins_None [symmetric] split: option.splits if_splits)

text \<open>C38: \<open>Validate\<close> accepts exactly the configurations with a database, a port, a chain address, a
  known environment and log level, a secret that is absent outside production or at least 32 bytes
  long, and origins that are \<open>*\<close>, empty, or a comma-separated list of HTTP addresses.\<close>

theorem accepted_configurations:
  "Validate c = None \<longleftrightarrow>
     cf_DatabaseURL c \<noteq> [] \<and> cf_Port c \<noteq> [] \<and> cf_SolanaRPCURL c \<noteq> [] \<and>
     cf_Environment c \<in> {''development'', ''staging'', ''production''} \<and>
     cf_LogLevel c \<in> {''debug'', ''info'', ''warn'', ''error''} \<and>
     (if cf_JWTSecret c = [] then \<not> IsProduction c else 32 \<le> length (cf_JWTSecret c)) \<and>
     (cf_CORSOrigins c = ''*'' \<or> cf_CORSOrigins c = [] \<or>
      list_all origin_ok (split_on CHR '','' (cf_CORSOrigins c)))"
  by (rule Validate_None)

text \<open>The service starts without any configuration: the defaults pass the checks, whatever
  \<open>ParseDuration\<close> does, and so does every environment that sets only a port, an address of the
  database or of the chain, or durations and sizes, even malformed ones.\<close>

theorem defaults_are_accepted:
  assumes "\<And>key. key \<in> {''VAULTFORGE_ENV'', ''LOG_LEVEL'', ''JWT_SECRET'', ''CORS_ORIGINS''} \<Longrightarrow> env key = []"
  shows "Validate (LoadConfig parseDuration env) = None"
  using assms by (simp add: Validate_None LoadConfig_def getEnv_def IsProduction_def)

lemma defaults_are_accepted_witness:
  "Validate (LoadConfig (\<lambda>_. None) (\<lambda>key. if key = ''READ_TIMEOUT'' then ''soon'' else [])) = None"
  by (rule defaults_are_accepted) auto

end
