(* ===== verification/VF_Middleware.thy ===== *)
theory VF_Middleware
  imports VF_Protocol VF_Auth VF_RateLimit VF_Metrics VF_Logger VF_Config
begin

section \<open>The middleware\<close>

text \<open>
  \<open>services/api/routes/middleware.go\<close> and the router of \<open>services/api/main.go\<close>. A middleware takes the
  rest of the chain as \<open>next\<close>: \<open>c.Next()\<close> runs it, and returning after \<open>c.Abort()\<close> leaves it out. The
  context is passed along and returned; what it wrote is the list of its writes, the first of which
  sets the status on the wire. A panic unwinds to \<open>gin.Recovery\<close> and skips the code after \<open>c.Next()\<close>.
  gin's routing and binding are fields of the request.
\<close>

subsection \<open>Requests, answers, the server\<close>

datatype endpoint = Health | Ready | Version | MetricsPage | Api route | NoRoute

text \<open>\<open>hq_bind\<close> is what \<open>ShouldBindJSON\<close> returns for the body under a limit on its size.\<close>

record http_request =
  hq_method :: string
  hq_path :: string
  hq_header :: "string \<Rightarrow> string"
  hq_endpoint :: endpoint
  hq_param :: string
  hq_query :: "string \<Rightarrow> string"
  hq_bind :: "int option \<Rightarrow> error + CreateIntentInput"

record ApiError =
  ae_Error :: string
  ae_Code :: string
  ae_RequestID :: string

datatype answer =
    NoBody
  | ApiAnswer ApiError
  | HandlerAnswer payload
  | HealthAnswer HealthStatus
  | VersionAnswer string string
  | MetricsAnswer MetricsSnapshot
  | RawBody string

record ginContext =
  c_requestID :: "string option"
  c_tenant :: "string option"
  c_limit :: "int option"
  c_headers :: "(string \<times> string) list"
  c_writes :: "(nat \<times> answer) list"
  c_default :: nat

definition status_of :: "ginContext \<Rightarrow> nat" where
  "status_of c = (case c_writes c of [] \<Rightarrow> c_default c | (s, _) # _ \<Rightarrow> s)"

datatype outcome = Finished ginContext | Panicked ginContext

text \<open>
  The state of the running server: what is behind the interfaces, the limiter, the metrics, the log,
  and the calls the handlers have made.
\<close>

record 'x server =
  sv_ext :: 'x
  sv_limiter :: RateLimiter
  sv_metrics :: MetricsCollector
  sv_log :: "entry list"
  sv_calls :: "call list"

type_synonym 'x chain = "ginContext \<Rightarrow> ('x server, outcome) op"

definition lift :: "('x, 'a) op \<Rightarrow> ('x server, 'a) op" where
  "lift m = State_Monad.State (\<lambda>s. case run_state m (sv_ext s) of (a, x) \<Rightarrow> (a, s\<lparr>sv_ext := x\<rparr>))"

definition change :: "('x server \<Rightarrow> 'x server) \<Rightarrow> ('x server, unit) op" where
  "change f = State_Monad.State (\<lambda>s. ((), f s))"

definition set_header :: "string \<Rightarrow> string \<Rightarrow> ginContext \<Rightarrow> ginContext" where
  "set_header k v c = c\<lparr>c_headers := c_headers c @ [(k, v)]\<rparr>"

definition answer_with :: "nat \<Rightarrow> answer \<Rightarrow> ginContext \<Rightarrow> ginContext" where
  "answer_with status a c = c\<lparr>c_writes := c_writes c @ [(status, a)]\<rparr>"

subsection \<open>Error codes\<close>

definition CodeBadRequest :: string where "CodeBadRequest = ''BAD_REQUEST''"
definition CodeUnauthorized :: string where "CodeUnauthorized = ''UNAUTHORIZED''"
definition CodeForbidden :: string where "CodeForbidden = ''FORBIDDEN''"
definition CodeNotFound :: string where "CodeNotFound = ''NOT_FOUND''"
definition CodeConflict :: string where "CodeConflict = ''CONFLICT''"
definition CodeInternalError :: string where "CodeInternalError = ''INTERNAL_ERROR''"
definition CodePolicyDenied :: string where "CodePolicyDenied = ''POLICY_DENIED''"
definition CodeZKFailed :: string where "CodeZKFailed = ''ZK_VERIFICATION_FAILED''"
definition CodeSigningFailed :: string where "CodeSigningFailed = ''SIGNING_FAILED''"
definition CodeSubmissionFailed :: string where "CodeSubmissionFailed = ''SUBMISSION_FAILED''"
definition CodeExpired :: string where "CodeExpired = ''INTENT_EXPIRED''"
definition CodeRateLimited :: string where "CodeRateLimited = ''RATE_LIMITED''"
definition CodeTimeout :: string where "CodeTimeout = ''REQUEST_TIMEOUT''"

definition quoted :: "string \<Rightarrow> string" where
  "quoted s = [chr 34] @ s @ [chr 34]"

definition respondError :: "nat \<Rightarrow> string \<Rightarrow> string \<Rightarrow> ginContext \<Rightarrow> ginContext" where
  "respondError status code message c = answer_with status (ApiAnswer
     \<lparr>ae_Error = message, ae_Code = code,
      ae_RequestID = (case c_requestID c of Some r \<Rightarrow> r | None \<Rightarrow> [])\<rparr>) c"

definition ErrorResponse :: "nat \<Rightarrow> string \<Rightarrow> ginContext \<Rightarrow> ginContext" where
  "ErrorResponse status message = respondError status CodeInternalError message"

definition SuccessResponse :: "answer \<Rightarrow> ginContext \<Rightarrow> ginContext" where
  "SuccessResponse data = answer_with 200 data"

subsection \<open>The middlewares\<close>

definition AuthMiddleware :: "http_request \<Rightarrow> 'x chain \<Rightarrow> 'x chain" where
  "AuthMiddleware q next c =
    (let auth = hq_header q ''Authorization''; tenantID = hq_header q ''X-Tenant-ID'' in
     if auth = [] \<and> tenantID = [] then
       State_Monad.return (Finished (respondError 401 CodeUnauthorized
         ''Authorization header or X-Tenant-ID required'' c))
     else if tenantID = [] then
       State_Monad.return (Finished (respondError 401 CodeUnauthorized ''X-Tenant-ID header required'' c))
     else
       let sanitized = SanitizeTenantID tenantID in
       if sanitized = [] then
         State_Monad.return (Finished (respondError 400 CodeBadRequest ''invalid tenant ID format'' c))
       else if auth \<noteq> [] \<and> \<not> ar_Valid (ValidateAPIKey auth sanitized) then
         State_Monad.return (Finished (respondError 401 CodeUnauthorized
           (ar_Error (ValidateAPIKey auth sanitized)) c))
       else next (c\<lparr>c_tenant := Some sanitized\<rparr>))"

definition CORSMiddleware :: "http_request \<Rightarrow> 'x chain \<Rightarrow> 'x chain" where
  "CORSMiddleware q next c =
    (let c = set_header ''Access-Control-Max-Age'' ''86400''
           (set_header ''Access-Control-Expose-Headers'' ''X-Request-ID, X-RateLimit-Remaining''
           (set_header ''Access-Control-Allow-Headers''
              ''Content-Type, Authorization, X-Tenant-ID, X-Request-ID, X-Actor''
           (set_header ''Access-Control-Allow-Methods'' ''GET, POST, PUT, DELETE, OPTIONS''
           (set_header ''Access-Control-Allow-Origin'' ''*'' c)))) in
     if hq_method q = ''OPTIONS'' then State_Monad.return (Finished (answer_with 204 NoBody c))
     else next c)"

text \<open>\<open>limiter.Allow\<close>: the first reading of the clock happens for a new bucket only.\<close>

definition limiter_Allow :: "('x, time) op \<Rightarrow> string \<Rightarrow> ('x server, bool) op" where
  "limiter_Allow clock tenantID = do {
     s \<leftarrow> State_Monad.get;
     t0 \<leftarrow> (case rl_buckets (sv_limiter s) tenantID of
              None \<Rightarrow> lift clock | Some _ \<Rightarrow> State_Monad.return 0);
     t1 \<leftarrow> lift clock;
     change (\<lambda>s. s\<lparr>sv_limiter := snd (Allow (sv_limiter s) tenantID t0 t1)\<rparr>);
     State_Monad.return (fst (Allow (sv_limiter s) tenantID t0 t1))
   }"

definition RateLimitMiddleware :: "('x, time) op \<Rightarrow> http_request \<Rightarrow> 'x chain \<Rightarrow> 'x chain" where
  "RateLimitMiddleware clock q next c = do {
     let tenantID = (if hq_header q ''X-Tenant-ID'' = [] then ''__anonymous__''
           else hq_header q ''X-Tenant-ID'');
     ok \<leftarrow> limiter_Allow clock tenantID;
     (if \<not> ok then State_Monad.return (Finished (respondError 429 CodeRateLimited ''rate limit exceeded'' c))
      else next c)
   }"

definition BodyLimitMiddleware :: "int \<Rightarrow> 'x chain \<Rightarrow> 'x chain" where
  "BodyLimitMiddleware maxBytes next c = next (c\<lparr>c_limit := Some maxBytes\<rparr>)"

definition RequestIDMiddleware :: "('x, time) op \<Rightarrow> http_request \<Rightarrow> 'x chain \<Rightarrow> 'x chain" where
  "RequestIDMiddleware clock q next c = do {
     requestID \<leftarrow>
       (if hq_header q ''X-Request-ID'' = [] then do {
          t \<leftarrow> lift clock;
          State_Monad.return (''req-'' @ show_i64 (UnixNano t))
        }
        else State_Monad.return (hq_header q ''X-Request-ID''));
     next (set_header ''X-Request-ID'' requestID (c\<lparr>c_requestID := Some requestID\<rparr>))
   }"

text \<open>Code after \<open>c.Next()\<close>: it runs when the rest of the chain has finished.\<close>

definition after :: "('x server, outcome) op \<Rightarrow> (ginContext \<Rightarrow> ('x server, ginContext) op) \<Rightarrow> ('x server, outcome) op" where
  "after m f = do {
     r \<leftarrow> m;
     (case r of
        Finished c \<Rightarrow> do { c \<leftarrow> f c; State_Monad.return (Finished c) }
      | Panicked c \<Rightarrow> State_Monad.return (Panicked c))
   }"

definition TimeoutMiddleware :: "('x, time) op \<Rightarrow> int \<Rightarrow> 'x chain \<Rightarrow> 'x chain" where
  "TimeoutMiddleware clock timeout next c = do {
     start \<leftarrow> lift clock;
     after (next c) (\<lambda>c. do {
       now \<leftarrow> lift clock;
       State_Monad.return
         (if timeout \<le> now - start then respondError 504 CodeTimeout ''request timed out'' c else c)
     })
   }"

definition MetricsMiddleware :: "('x, time) op \<Rightarrow> 'x chain \<Rightarrow> 'x chain" where
  "MetricsMiddleware clock next c = do {
     start \<leftarrow> lift clock;
     after (next c) (\<lambda>c. do {
       now \<leftarrow> lift clock;
       change (\<lambda>s. s\<lparr>sv_metrics := RecordLatency (time_sub now start) (IncrRequestCount (sv_metrics s))\<rparr>);
       (if 400 \<le> status_of c
        then change (\<lambda>s. s\<lparr>sv_metrics := IncrRequestErrors (sv_metrics s)\<rparr>)
        else State_Monad.return ());
       State_Monad.return c
     })
   }"

definition LoggingMiddleware :: "Logger \<Rightarrow> ('x, time) op \<Rightarrow> http_request \<Rightarrow> 'x chain \<Rightarrow> 'x chain" where
  "LoggingMiddleware logger clock q next c = do {
     start \<leftarrow> lift clock;
     let reqIDStr = (case c_requestID c of Some r \<Rightarrow> r | None \<Rightarrow> []);
     t \<leftarrow> lift clock;
     change (\<lambda>s. s\<lparr>sv_log := sv_log s @ LogRequestStart logger t reqIDStr (hq_method q) (hq_path q)\<rparr>);
     after (next c) (\<lambda>c. do {
       now \<leftarrow> lift clock;
       t \<leftarrow> lift clock;
       change (\<lambda>s. s\<lparr>sv_log := sv_log s @ LogRequestComplete logger t reqIDStr (hq_method q) (hq_path q)
         (int (status_of c)) (time_sub now start)\<rparr>);
       State_Monad.return c
     })
   }"

definition securityHeadersMiddleware :: "Config \<Rightarrow> 'x chain \<Rightarrow> 'x chain" where
  "securityHeadersMiddleware cfg next c =
    (let c = set_header ''Content-Security-Policy'' (''default-src '' @ [chr 39] @ ''self'' @ [chr 39])
           (set_header ''Referrer-Policy'' ''strict-origin-when-cross-origin''
           (set_header ''X-XSS-Protection'' ''1; mode=block''
           (set_header ''X-Frame-Options'' ''DENY''
           (set_header ''X-Content-Type-Options'' ''nosniff'' c))));
         c = (if IsProduction cfg then set_header ''Strict-Transport-Security''
                ''max-age=63072000; includeSubDomains; preload'' c else c)
     in next (set_header ''Server'' ''VaultForge'' c))"

text \<open>
  The variants for \<open>net/http\<close> in \<open>core/cors.go\<close>, \<open>core/bodylimit.go\<close>, \<open>core/ratelimit.go\<close> and
  \<open>core/metrics.go\<close>, which \<open>main\<close> does not use: \<open>next.ServeHTTP(w, r)\<close> runs the rest.
\<close>

definition core_CORSMiddleware :: "http_request \<Rightarrow> 'x chain \<Rightarrow> 'x chain" where
  "core_CORSMiddleware q next c =
    (let c = c\<lparr>c_headers := c_headers c @
           [(''Access-Control-Allow-Origin'', ''*''),
            (''Access-Control-Allow-Methods'', ''GET, POST, PUT, DELETE, OPTIONS''),
            (''Access-Control-Allow-Headers'',
             ''Content-Type, Authorization, X-Tenant-ID, X-Request-ID, X-Actor''),
            (''Access-Control-Expose-Headers'', ''X-Request-ID, X-RateLimit-Remaining''),
            (''Access-Control-Max-Age'', ''86400'')]\<rparr> in
     if hq_method q = ''OPTIONS'' then State_Monad.return (Finished (answer_with 204 NoBody c))
     else next c)"

definition MaxBodyBytesMiddleware :: "int \<Rightarrow> 'x chain \<Rightarrow> 'x chain" where
  "MaxBodyBytesMiddleware maxBytes next c = next (c\<lparr>c_limit := Some maxBytes\<rparr>)"

definition core_RateLimitMiddleware :: "('x, time) op \<Rightarrow> http_request \<Rightarrow> 'x chain \<Rightarrow> 'x chain" where
  "core_RateLimitMiddleware clock q next c = do {
     let tenantID = (if hq_header q ''X-Tenant-ID'' = [] then ''__anonymous__''
           else hq_header q ''X-Tenant-ID'');
     ok \<leftarrow> limiter_Allow clock tenantID;
     (if \<not> ok then State_Monad.return (Finished
        (answer_with 429 (RawBody (''{'' @ quoted ''error'' @ '':'' @ quoted ''rate limit exceeded'' @ '','' @
            quoted ''code'' @ '':'' @ quoted ''RATE_LIMITED'' @ ''}''))
          (set_header ''Content-Type'' ''application/json'' (set_header ''Retry-After'' ''1'' c))))
      else next c)
   }"

definition core_MetricsMiddleware :: "('x, time) op \<Rightarrow> 'x chain \<Rightarrow> 'x chain" where
  "core_MetricsMiddleware clock next c = do {
     start \<leftarrow> lift clock;
     after (next c) (\<lambda>c. do {
       now \<leftarrow> lift clock;
       change (\<lambda>s. s\<lparr>sv_metrics := RecordLatency (time_sub now start) (IncrRequestCount (sv_metrics s))\<rparr>);
       State_Monad.return c
     })
   }"

text \<open>\<open>gin.Recovery\<close>: a panic becomes a 500 without a body.\<close>

definition Recovery :: "'x chain \<Rightarrow> ginContext \<Rightarrow> ('x server, ginContext) op" where
  "Recovery next c = do {
     r \<leftarrow> next c;
     State_Monad.return (case r of Finished c \<Rightarrow> c | Panicked c \<Rightarrow> answer_with 500 NoBody c)
   }"

subsection \<open>The endpoints\<close>

record 'x site =
  st_config :: Config
  st_logger :: Logger
  st_clock :: "('x, time) op"
  st_handler :: "'x IntentHandler"
  st_health :: "'x HealthChecker"
  st_version :: string
  st_show_duration :: "int \<Rightarrow> string"
  st_show_uptime :: "int \<Rightarrow> string"
  st_goroutines :: int

text \<open>What a handler of the API reads from gin's context.\<close>

definition api_request :: "http_request \<Rightarrow> ginContext \<Rightarrow> request" where
  "api_request q c =
    \<lparr> q_id = hq_param q, q_tenant = c_tenant c, q_requestID = hq_header q ''X-Request-ID'',
      q_actor = hq_header q ''X-Actor'', q_idempotencyKey = hq_header q ''X-Idempotency-Key'',
      q_status = hq_query q ''status'', q_action = hq_query q ''action'',
      q_body = hq_bind q (c_limit c) \<rparr>"

definition api_handler :: "'x IntentHandler \<Rightarrow> route \<Rightarrow> http_request \<Rightarrow> 'x chain" where
  "api_handler h rt q c = State_Monad.State (\<lambda>s.
     case serve (RegisterRoutes rt h (api_request q c)) (sv_ext s) of
       (r, tr, x) \<Rightarrow>
         (case r of Panic \<Rightarrow> Panicked c | Json code p \<Rightarrow> Finished (answer_with code (HandlerAnswer p) c),
          s\<lparr>sv_ext := x, sv_calls := sv_calls s @ tr\<rparr>))"

definition dispatch :: "'x site \<Rightarrow> http_request \<Rightarrow> 'x chain" where
  "dispatch st q c =
    (case hq_endpoint q of
       Health \<Rightarrow> State_Monad.return (Finished (answer_with (fst liveness) (HealthAnswer (snd liveness)) c))
     | Ready \<Rightarrow> do {
         r \<leftarrow> lift (readiness (st_health st));
         State_Monad.return (Finished (answer_with (fst r) (HealthAnswer (snd r)) c))
       }
     | Version \<Rightarrow> State_Monad.return (Finished (answer_with 200
         (VersionAnswer (st_version st) (cf_Environment (st_config st))) c))
     | MetricsPage \<Rightarrow> do {
         pool \<leftarrow> lift (GetDBPoolStats (st_show_duration st) (hc_db (st_health st)));
         now \<leftarrow> lift (st_clock st);
         s \<leftarrow> State_Monad.get;
         State_Monad.return (Finished (answer_with 200 (MetricsAnswer
           (SnapshotWithDB (st_show_uptime st) now (st_goroutines st) pool (sv_metrics s))) c))
       }
     | Api rt \<Rightarrow> AuthMiddleware q (api_handler (st_handler st) rt q) c
     | NoRoute \<Rightarrow> State_Monad.return (Finished c))"

text \<open>The stack in the order of \<open>main\<close>, and the context of a new request.\<close>

definition middleware :: "'x site \<Rightarrow> http_request \<Rightarrow> 'x chain" where
  "middleware st q =
     securityHeadersMiddleware (st_config st)
      (CORSMiddleware q
       (RequestIDMiddleware (st_clock st) q
        (TimeoutMiddleware (st_clock st) (30 * second)
         (BodyLimitMiddleware (cf_MaxBodyBytes (st_config st))
          (RateLimitMiddleware (st_clock st) q
           (MetricsMiddleware (st_clock st)
            (LoggingMiddleware (st_logger st) (st_clock st) q
             (dispatch st q))))))))"

definition newContext :: "http_request \<Rightarrow> ginContext" where
  "newContext q = \<lparr>c_requestID = None, c_tenant = None, c_limit = None, c_headers = [],
     c_writes = [], c_default = (if hq_endpoint q = NoRoute then 404 else 200)\<rparr>"

definition ServeHTTP :: "'x site \<Rightarrow> http_request \<Rightarrow> ('x server, ginContext) op" where
  "ServeHTTP st q = Recovery (middleware st q) (newContext q)"

subsection \<open>Stepping through the stack\<close>

lemma wp_lift [wp]: "wp (lift m) Q s = (case run_state m (sv_ext s) of (a, x) \<Rightarrow> Q a (s\<lparr>sv_ext := x\<rparr>))"
  by (simp add: lift_def wp_State split: prod.splits)

lemma wp_change [wp]: "wp (change f) Q s = Q () (f s)"
  by (simp add: change_def wp_State)

lemma wp_get [wp]: "wp State_Monad.get Q s = Q s s"
  by (simp add: wp_def)

lemma wp_outcome [wp]:
  "wp (case r of Finished c \<Rightarrow> f c | Panicked c \<Rightarrow> g c) Q s
     = (case r of Finished c \<Rightarrow> wp (f c) Q s | Panicked c \<Rightarrow> wp (g c) Q s)"
  by (cases r) simp_all

lemma wp_liftI: "(\<And>a x. run_state m (sv_ext s) = (a, x) \<Longrightarrow> Q a (s\<lparr>sv_ext := x\<rparr>)) \<Longrightarrow> wp (lift m) Q s"
  by (auto simp: wp split: prod.splits)

text \<open>A request that may reach a handler of the API, and the tenant it acts for.\<close>

definition admitted :: "http_request \<Rightarrow> string option" where
  "admitted q =
    (let t = SanitizeTenantID (hq_header q ''X-Tenant-ID''); auth = hq_header q ''Authorization'' in
     if hq_method q = ''OPTIONS'' \<or> t = [] \<or> (auth \<noteq> [] \<and> \<not> ar_Valid (ValidateAPIKey auth t))
     then None else Some t)"

definition tenant_request :: "'x site \<Rightarrow> http_request \<Rightarrow> string \<Rightarrow> request" where
  "tenant_request st q t =
    \<lparr> q_id = hq_param q, q_tenant = Some t, q_requestID = hq_header q ''X-Request-ID'',
      q_actor = hq_header q ''X-Actor'', q_idempotencyKey = hq_header q ''X-Idempotency-Key'',
      q_status = hq_query q ''status'', q_action = hq_query q ''action'',
      q_body = hq_bind q (Some (cf_MaxBodyBytes (st_config st))) \<rparr>"

lemma routes_no_panic:
  "q_tenant c = Some t \<Longrightarrow> appends (\<lambda>es r. r \<noteq> Panic) (RegisterRoutes rt h c)"
  by (cases rt; simp only: RegisterRoutes.simps handler_defs handler_flat; (intro appends_rules)?)
    simp_all

text \<open>
  A request to the API that no handler serves is told so by the first thing written: it is over its
  rate, it is a preflight, or it is not admitted.
\<close>

definition refused :: "http_request \<Rightarrow> ginContext \<Rightarrow> bool" where
  "refused q c \<longleftrightarrow> (case c_writes c of
     (code, ApiAnswer _) # _ \<Rightarrow> code = 429 \<or> (code \<in> {400, 401} \<and> admitted q = None)
   | (code, NoBody) # _ \<Rightarrow> code = 204 \<and> hq_method q = ''OPTIONS''
   | _ \<Rightarrow> False)"

definition api_refused :: "http_request \<Rightarrow> ginContext \<Rightarrow> bool" where
  "api_refused q c \<longleftrightarrow> (case hq_endpoint q of Api _ \<Rightarrow> refused q c | _ \<Rightarrow> True)"

lemma refused_append: "refused q c \<Longrightarrow> c_writes c' = c_writes c @ ws \<Longrightarrow> refused q c'"
  by (auto simp: refused_def split: list.splits answer.splits)

lemma api_refused_append: "api_refused q c \<Longrightarrow> c_writes c' = c_writes c @ ws \<Longrightarrow> api_refused q c'"
  by (auto simp: api_refused_def intro: refused_append split: endpoint.splits)

lemma refused_api: "refused q c \<Longrightarrow> api_refused q c"
  by (simp add: api_refused_def split: endpoint.splits)

text \<open>
  What a chain does: nothing at the interfaces, refusing a request to the API, or one run of the
  handler for the admitted tenant, whose answer is the first thing written.
  \<open>K\<close> relates a state behind the interfaces to the states that reading the clock and probing the
  pool can turn it into.
\<close>

definition handled ::
  "('x \<Rightarrow> 'x \<Rightarrow> bool) \<Rightarrow> 'x site \<Rightarrow> http_request \<Rightarrow> 'x server \<Rightarrow> ginContext \<Rightarrow> 'x server \<Rightarrow> bool"
where
  "handled K st q s c s' \<longleftrightarrow>
     (sv_calls s' = sv_calls s \<and> K (sv_ext s) (sv_ext s') \<and> api_refused q c) \<or>
     (\<exists>rt t x. hq_endpoint q = Api rt \<and> admitted q = Some t \<and> K (sv_ext s) x \<and>
       (case serve (RegisterRoutes rt (st_handler st) (tenant_request st q t)) x of
          (r, tr, x') \<Rightarrow> sv_calls s' = sv_calls s @ tr \<and> K x' (sv_ext s') \<and>
            (\<exists>code p. r = Json code p \<and> c_writes c \<noteq> [] \<and> hd (c_writes c) = (code, HandlerAnswer p))))"

definition handles ::
  "('x \<Rightarrow> 'x \<Rightarrow> bool) \<Rightarrow> (ginContext \<Rightarrow> bool) \<Rightarrow> 'x site \<Rightarrow> http_request \<Rightarrow> 'x chain \<Rightarrow> bool"
where
  "handles K pre st q m \<longleftrightarrow> (\<forall>c s. c_writes c = [] \<longrightarrow> pre c \<longrightarrow>
     wp (m c) (\<lambda>r s'. \<exists>c'. r = Finished c' \<and> handled K st q s c' s') s)"

definition limited :: "'x site \<Rightarrow> http_request \<Rightarrow> ginContext \<Rightarrow> bool" where
  "limited st q c \<longleftrightarrow>
     c_limit c = Some (cf_MaxBodyBytes (st_config st)) \<and> hq_method q \<noteq> ''OPTIONS''"

definition stays_in :: "('x \<Rightarrow> 'x \<Rightarrow> bool) \<Rightarrow> ('x, 'a) op \<Rightarrow> bool" where
  "stays_in K m \<longleftrightarrow> (\<forall>x a x'. run_state m x = (a, x') \<longrightarrow> K x x')"

lemma wp_return_fun: "wp (State_Monad.return a) Q = Q a"
  by (simp add: fun_eq_iff wp)

lemma wp_after:
  "wp (after m f) Q s = wp m (\<lambda>r t. case r of
     Finished c \<Rightarrow> wp (f c) (\<lambda>c t. Q (Finished c) t) t | Panicked c \<Rightarrow> Q (Panicked c) t) s"
  unfolding after_def wp_bind
  by (rule arg_cong [where f = "\<lambda>Q. wp m Q s"], intro ext) (simp add: wp wp_return_fun split: outcome.splits)

lemma handles_limit:
  "handles K (limited st q) st q m \<Longrightarrow>
     handles K (\<lambda>_. hq_method q \<noteq> ''OPTIONS'') st q (BodyLimitMiddleware (cf_MaxBodyBytes (st_config st)) m)"
  by (simp add: handles_def BodyLimitMiddleware_def limited_def)

subsection \<open>The stack over an infrastructure\<close>

text \<open>
  The contract of the infrastructure: reading the clock, probing the pool and asking for its
  statistics stay within \<open>K\<close>. The lemmas take \<open>handles\<close> through every middleware.
\<close>

locale infrastructure =
  fixes K :: "'x \<Rightarrow> 'x \<Rightarrow> bool" and st :: "'x site"
  assumes K_refl: "K x x" and K_trans: "K x y \<Longrightarrow> K y z \<Longrightarrow> K x z"
    and clock: "stays_in K (st_clock st)"
    and ready: "stays_in K (readiness (st_health st))"
    and pool: "stays_in K (GetDBPoolStats (st_show_duration st) (hc_db (st_health st)))"
begin

lemma clock_step: "run_state (st_clock st) x = (a, x') \<Longrightarrow> K x x'"
  and ready_step: "run_state (readiness (st_health st)) x = (r, x') \<Longrightarrow> K x x'"
  and pool_step: "run_state (GetDBPoolStats (st_show_duration st) (hc_db (st_health st))) x = (p, x') \<Longrightarrow> K x x'"
  using clock ready pool unfolding stays_in_def by blast+

lemma then_clock: "run_state (st_clock st) y = (a, z) \<Longrightarrow> K x y \<Longrightarrow> K x z"
  by (blast intro: K_trans clock_step)

lemma two_clocks: "run_state (st_clock st) y = (a, z) \<Longrightarrow> run_state (st_clock st) x = (b, y) \<Longrightarrow> K x z"
  by (blast intro: K_trans clock_step)

lemma handled_same:
  "sv_calls s' = sv_calls s \<Longrightarrow> K (sv_ext s) (sv_ext s') \<Longrightarrow> api_refused q c \<Longrightarrow> handled K st q s c s'"
  by (simp add: handled_def)

lemma handled_writes:
  assumes "handled K st q s c s'" "sv_calls s0 = sv_calls s" "K (sv_ext s0) (sv_ext s)"
    "sv_calls s1 = sv_calls s'" "K (sv_ext s') (sv_ext s1)" "c_writes c1 = c_writes c @ ws"
  shows "handled K st q s0 c1 s1"
  using assms(1) unfolding handled_def assms(2,4,6)
  by (fastforce intro: K_trans [OF assms(3)] K_trans [OF _ assms(5)]
      api_refused_append [OF _ assms(6)] split: prod.splits)

lemma wp_clock:
  "(\<And>a x. K (sv_ext s) x \<Longrightarrow> Q a (s\<lparr>sv_ext := x\<rparr>)) \<Longrightarrow> wp (lift (st_clock st)) Q s"
  by (auto simp: wp split: prod.splits intro: clock_step)

lemma wp_api_handler:
  assumes "c_writes c = []" "limited st q c" "hq_endpoint q = Api rt"
  shows "wp (AuthMiddleware q (api_handler (st_handler st) rt q) c)
    (\<lambda>r s'. \<exists>c'. r = Finished c' \<and> handled K st q s c' s') s"
proof -
  have empty: "SanitizeTenantID [] = []" by (simp add: SanitizeTenantID_bytes)
  have run: "wp (api_handler (st_handler st) rt q (c\<lparr>c_tenant := Some t\<rparr>))
      (\<lambda>r s'. \<exists>c'. r = Finished c' \<and> handled K st q s c' s') s" if "admitted q = Some t" for t
  proof -
    have req: "api_request q (c\<lparr>c_tenant := Some t\<rparr>) = tenant_request st q t"
      using assms(2) by (simp add: api_request_def tenant_request_def limited_def)
    obtain r tr x' where run: "serve (RegisterRoutes rt (st_handler st) (tenant_request st q t)) (sv_ext s) = (r, tr, x')"
      by (metis prod.exhaust)
    from appends_serve [OF routes_no_panic run] obtain code p where "r = Json code p"
      by (cases r) (auto simp: tenant_request_def)
    with run that assms show ?thesis
      by (auto simp: api_handler_def wp_State req handled_def answer_with_def split: prod.splits
          intro!: exI [of _ "sv_ext s"] K_refl)
  qed
  show ?thesis
    unfolding AuthMiddleware_def Let_def
    using assms run by (auto simp: wp empty handled_same K_refl admitted_def limited_def Let_def
        api_refused_def refused_def respondError_def answer_with_def)
qed

text \<open>Code before and after the rest of the chain that makes no calls.\<close>

lemma handles_next:
  assumes "handles K pre st q m" "c_writes c = []" "pre c" "sv_calls s = sv_calls s0"
    "K (sv_ext s0) (sv_ext s)"
  shows "wp (m c) (\<lambda>r s'. \<exists>c'. r = Finished c' \<and> handled K st q s0 c' s') s"
proof -
  have m: "wp (m c) (\<lambda>r s'. \<exists>c'. r = Finished c' \<and> handled K st q s c' s') s"
    using assms(1-3) by (simp add: handles_def)
  show ?thesis
    by (rule wp_mono [OF m]) (auto intro: handled_writes [OF _ assms(4) [symmetric] assms(5)] K_refl)
qed

lemma handled_after:
  assumes "handles K pre st q m" "c_writes c = []" "pre c" "sv_calls s = sv_calls s0"
    "K (sv_ext s0) (sv_ext s)"
    and "\<And>c' t. wp (f c') (\<lambda>c1 t1. sv_calls t1 = sv_calls t \<and> K (sv_ext t) (sv_ext t1) \<and>
      (\<exists>ws. c_writes c1 = c_writes c' @ ws)) t"
  shows "wp (after (m c) f) (\<lambda>r s'. \<exists>c'. r = Finished c' \<and> handled K st q s0 c' s') s"
proof -
  have m: "wp (m c) (\<lambda>r s'. \<exists>c'. r = Finished c' \<and> handled K st q s c' s') s"
    using assms(1-3) by (simp add: handles_def)
  show ?thesis
    unfolding wp_after
    by (rule wp_mono [OF m])
      (auto intro!: wp_mono [OF assms(6)] intro: handled_writes [OF _ assms(4) [symmetric] assms(5)])
qed

lemma handles_dispatch: "handles K (limited st q) st q (dispatch st q)"
  unfolding handles_def
proof (intro allI impI)
  fix c s
  assume c: "c_writes c = []" "limited st q c"
  show "wp (dispatch st q c) (\<lambda>r s'. \<exists>c'. r = Finished c' \<and> handled K st q s c' s') s"
  proof (cases "hq_endpoint q")
    case (Api rt)
    with c wp_api_handler [of c q rt s] show ?thesis by (simp add: dispatch_def limited_def)
  qed (auto simp: dispatch_def wp api_refused_def split: prod.splits
      intro!: handled_same intro: K_refl then_clock two_clocks clock_step ready_step pool_step)
qed

lemma handles_logging: "handles K pre st q m \<Longrightarrow> handles K pre st q (LoggingMiddleware lg (st_clock st) q m)"
  unfolding handles_def [of _ _ _ _ "LoggingMiddleware lg (st_clock st) q m"] LoggingMiddleware_def Let_def
  by (auto simp: wp split: prod.splits intro!: handled_after intro: K_refl then_clock two_clocks clock_step)

lemma handles_metrics: "handles K pre st q m \<Longrightarrow> handles K pre st q (MetricsMiddleware (st_clock st) m)"
  unfolding handles_def [of _ _ _ _ "MetricsMiddleware (st_clock st) m"] MetricsMiddleware_def
  by (auto simp: wp split: prod.splits intro!: handled_after intro: K_refl then_clock two_clocks clock_step)

lemma handles_rate: "handles K pre st q m \<Longrightarrow> handles K pre st q (RateLimitMiddleware (st_clock st) q m)"
  unfolding handles_def [of _ _ _ _ "RateLimitMiddleware (st_clock st) q m"] RateLimitMiddleware_def
    limiter_Allow_def Let_def
  by (auto simp: wp api_refused_def refused_def respondError_def answer_with_def
      split: prod.splits option.splits endpoint.splits intro!: handles_next handled_same
      intro: K_refl then_clock two_clocks clock_step)

lemma handles_timeout: "handles K pre st q m \<Longrightarrow> handles K pre st q (TimeoutMiddleware (st_clock st) d m)"
  unfolding handles_def [of _ _ _ _ "TimeoutMiddleware (st_clock st) d m"] TimeoutMiddleware_def
  by (auto simp: wp respondError_def answer_with_def split: prod.splits intro!: handled_after
      intro: K_refl then_clock two_clocks clock_step)

lemma handles_requestID:
  "handles K (\<lambda>_. b) st q m \<Longrightarrow> handles K (\<lambda>_. b) st q (RequestIDMiddleware (st_clock st) q m)"
  unfolding handles_def [of _ _ _ _ "RequestIDMiddleware (st_clock st) q m"] RequestIDMiddleware_def
  by (auto simp: wp set_header_def split: prod.splits intro!: handles_next intro: K_refl clock_step)

lemma handles_cors:
  "handles K (\<lambda>_. hq_method q \<noteq> ''OPTIONS'') st q m \<Longrightarrow> handles K (\<lambda>_. True) st q (CORSMiddleware q m)"
  unfolding handles_def [of _ _ _ _ "CORSMiddleware q m"] CORSMiddleware_def Let_def
  by (auto simp: wp set_header_def api_refused_def refused_def answer_with_def
      split: endpoint.splits intro!: handled_same handles_next K_refl)

lemma handles_security:
  "handles K (\<lambda>_. True) st q m \<Longrightarrow> handles K (\<lambda>_. True) st q (securityHeadersMiddleware cfg m)"
  unfolding handles_def [of _ _ _ _ "securityHeadersMiddleware cfg m"] securityHeadersMiddleware_def Let_def
  by (auto simp: set_header_def intro!: handles_next K_refl)

lemma handles_middleware: "handles K (\<lambda>_. True) st q (middleware st q)"
  unfolding middleware_def
  by (intro handles_security handles_cors handles_requestID handles_timeout handles_limit handles_rate
      handles_metrics handles_logging handles_dispatch)

lemma middleware_finishes:
  "wp (middleware st q (newContext q)) (\<lambda>r s'. \<exists>c'. r = Finished c' \<and> handled K st q s c' s') s"
  by (rule handles_next [OF handles_middleware]) (simp_all add: newContext_def K_refl)

lemma ServeHTTP_handled: "wp (ServeHTTP st q) (\<lambda>c s'. handled K st q s c s') s"
  unfolding ServeHTTP_def Recovery_def wp by (rule wp_mono [OF middleware_finishes]) auto

end

text \<open>Every site has the infrastructure that may turn any state into any other.\<close>

interpretation any_site: infrastructure "\<lambda>_ _. True" st for st
  by unfold_locales (simp_all add: stays_in_def)

end
