(* ===== verification/VF_Gateway.thy ===== *)
theory VF_Gateway
  imports VF_Middleware
begin

section \<open>What the middleware stack guarantees\<close>

text \<open>
  The properties of the router of \<open>services/api/main.go\<close> with the middleware of
  \<open>services/api/routes/middleware.go\<close> around the handlers: who reaches a handler, what reaches the
  intents of a tenant through HTTP, and what the metrics count over a sequence of requests.
\<close>

subsection \<open>What the metrics count\<close>

text \<open>
  The requests the metrics middleware sees: a preflight is answered before it, and so is a request
  over its rate.
\<close>

definition measured :: "http_request \<Rightarrow> ginContext \<Rightarrow> bool" where
  "measured q c \<longleftrightarrow> hq_method q \<noteq> ''OPTIONS'' \<and>
     (case c_writes c of (code, ApiAnswer _) # _ \<Rightarrow> code \<noteq> 429 | _ \<Rightarrow> True)"

definition erroneous :: "http_request \<Rightarrow> ginContext \<Rightarrow> bool" where
  "erroneous q c \<longleftrightarrow> measured q c \<and> 400 \<le> status_of c"

text \<open>One request adds one to the count and to one bucket, and one to the errors if its status says so.\<close>

definition counts :: "http_request \<Rightarrow> ginContext \<Rightarrow> MetricsCollector \<Rightarrow> MetricsCollector \<Rightarrow> bool" where
  "counts q c m m' \<longleftrightarrow>
     (if measured q c
      then \<exists>d. m' = (if erroneous q c then IncrRequestErrors else id) (RecordLatency d (IncrRequestCount m))
      else m' = m)"

text \<open>
  A context that has no answer yet, and one whose status a later write cannot turn into a success. A
  chain inside the metrics leaves them alone, a chain around them counts.
\<close>

definition fresh :: "http_request \<Rightarrow> ginContext \<Rightarrow> bool" where
  "fresh q c \<longleftrightarrow> c_writes c = [] \<and> (hq_endpoint q = NoRoute \<longrightarrow> 400 \<le> c_default c)"

definition finished :: "ginContext \<Rightarrow> bool" where
  "finished c \<longleftrightarrow> (c_writes c = [] \<longrightarrow> 400 \<le> c_default c)"

definition uncounted :: "http_request \<Rightarrow> 'x chain \<Rightarrow> bool" where
  "uncounted q n \<longleftrightarrow> (\<forall>c s. fresh q c \<longrightarrow>
     wp (n c) (\<lambda>r s'. \<exists>c'. r = Finished c' \<and> finished c' \<and> sv_metrics s' = sv_metrics s \<and>
       (hq_method q \<noteq> ''OPTIONS'' \<longrightarrow> measured q c')) s)"

definition counting :: "bool \<Rightarrow> http_request \<Rightarrow> 'x chain \<Rightarrow> bool" where
  "counting b q n \<longleftrightarrow> (b \<longrightarrow> (\<forall>c s. fresh q c \<longrightarrow>
     wp (n c) (\<lambda>r s'. \<exists>c'. r = Finished c' \<and> finished c' \<and> counts q c' (sv_metrics s) (sv_metrics s')) s))"

lemma counting_next:
  assumes "counting b q n" "b" "fresh q c" "sv_metrics s = m"
  shows "wp (n c) (\<lambda>r s'. \<exists>c'. r = Finished c' \<and> finished c' \<and> counts q c' m (sv_metrics s')) s"
  using assms(1-3) unfolding assms(4) [symmetric] counting_def by blast

lemma counting_after:
  assumes "counting b q n" "b" "fresh q c" "sv_metrics s = m"
    and "\<And>c' t. finished c' \<Longrightarrow> counts q c' m (sv_metrics t) \<Longrightarrow>
      wp (f c') (\<lambda>c1 t1. finished c1 \<and> counts q c1 m (sv_metrics t1)) t"
  shows "wp (after (n c) f) (\<lambda>r s'. \<exists>c'. r = Finished c' \<and> finished c' \<and> counts q c' m (sv_metrics s')) s"
  unfolding wp_after
  by (rule wp_mono [OF counting_next [OF assms(1-4)]]) (auto intro: wp_mono [OF assms(5)])

lemma counts_timeout:
  "finished c \<Longrightarrow> counts q c m m' \<Longrightarrow> counts q (respondError 504 code msg c) m m'"
  by (auto simp: counts_def measured_def erroneous_def finished_def status_of_def respondError_def
      answer_with_def split: list.splits answer.splits if_splits)

lemma finished_answer: "finished (answer_with code a c)" "finished (respondError code k msg c)"
  by (simp_all add: finished_def respondError_def answer_with_def)

lemma measured_answer:
  assumes "c_writes c = []" "hq_method q \<noteq> ''OPTIONS''"
  shows "(\<And>e. a = ApiAnswer e \<Longrightarrow> code \<noteq> 429) \<Longrightarrow> measured q (answer_with code a c)"
    "code \<noteq> 429 \<Longrightarrow> measured q (respondError code k msg c)"
  using assms by (simp_all add: measured_def respondError_def answer_with_def split: answer.splits)

lemma uncounted_dispatch: "uncounted q (dispatch st q)"
proof -
  have api: "wp (api_handler (st_handler st) rt q (c\<lparr>c_tenant := Some t\<rparr>)) (\<lambda>r s'. \<exists>c'. r = Finished c' \<and> finished c' \<and>
      sv_metrics s' = sv_metrics s \<and> (hq_method q \<noteq> ''OPTIONS'' \<longrightarrow> measured q c')) s"
    if "c_writes c = []" for rt c s t
  proof -
    let ?c = "c\<lparr>c_tenant := Some t\<rparr>"
    obtain r tr x' where run: "serve (RegisterRoutes rt (st_handler st) (api_request q ?c)) (sv_ext s) = (r, tr, x')"
      by (metis prod.exhaust)
    have "q_tenant (api_request q ?c) = Some t" by (simp add: api_request_def)
    from appends_serve [OF routes_no_panic [OF this] run] obtain code p where "r = Json code p"
      by (cases r) auto
    with run that show ?thesis
      by (auto simp: api_handler_def wp_State finished_answer intro: measured_answer)
  qed
  show ?thesis
    unfolding uncounted_def
  proof (intro allI impI)
    fix c s
    assume "fresh q c"
    then have c: "c_writes c = []" "hq_endpoint q = NoRoute \<Longrightarrow> finished c"
      "hq_method q \<noteq> ''OPTIONS'' \<Longrightarrow> measured q c"
      by (simp_all add: fresh_def finished_def measured_def)
    show "wp (dispatch st q c) (\<lambda>r s'. \<exists>c'. r = Finished c' \<and> finished c' \<and>
      sv_metrics s' = sv_metrics s \<and> (hq_method q \<noteq> ''OPTIONS'' \<longrightarrow> measured q c')) s"
      using c unfolding dispatch_def AuthMiddleware_def Let_def
      by (auto simp: wp finished_answer split: endpoint.splits prod.splits intro!: api measured_answer)
  qed
qed

lemma uncounted_after:
  assumes "uncounted q n" "fresh q c" "sv_metrics s = m"
    and "\<And>c' t. wp (f c') (\<lambda>c1 t1. c1 = c' \<and> P (sv_metrics t) (sv_metrics t1) c') t"
    and "\<And>c' m'. finished c' \<Longrightarrow> (hq_method q \<noteq> ''OPTIONS'' \<Longrightarrow> measured q c') \<Longrightarrow> P m m' c' \<Longrightarrow> Q c' m'"
  shows "wp (after (n c) f) (\<lambda>r s'. \<exists>c'. r = Finished c' \<and> Q c' (sv_metrics s')) s"
proof -
  have n: "wp (n c) (\<lambda>r s'. \<exists>c'. r = Finished c' \<and> finished c' \<and> sv_metrics s' = m \<and>
       (hq_method q \<noteq> ''OPTIONS'' \<longrightarrow> measured q c')) s"
    using assms(1,2) unfolding assms(3) [symmetric] uncounted_def by blast
  show ?thesis
    unfolding wp_after by (rule wp_mono [OF n]) (auto intro!: wp_mono [OF assms(4)] assms(5))
qed

text \<open>What the metrics middleware does after the rest of the chain.\<close>

definition recording :: "ginContext \<Rightarrow> MetricsCollector \<Rightarrow> MetricsCollector \<Rightarrow> bool" where
  "recording c m m' \<longleftrightarrow>
     (\<exists>d. m' = (if 400 \<le> status_of c then IncrRequestErrors else id) (RecordLatency d (IncrRequestCount m)))"

lemma counts_recording:
  "measured q c \<Longrightarrow> recording c m m' \<Longrightarrow> counts q c m m'"
  by (simp add: counts_def erroneous_def recording_def)

lemma uncounted_logging: "uncounted q n \<Longrightarrow> uncounted q (LoggingMiddleware lg clock q n)"
  unfolding uncounted_def [of q "LoggingMiddleware lg clock q n"] LoggingMiddleware_def Let_def
  by (auto simp: wp split: prod.splits
      intro!: uncounted_after [where P = "\<lambda>m m' c. m' = m" and Q = "\<lambda>c' m'. finished c' \<and> m' = sv_metrics s \<and>
        (hq_method q \<noteq> ''OPTIONS'' \<longrightarrow> measured q c')" for s])

lemma counting_metrics:
  assumes n: "uncounted q n"
  shows "counting (hq_method q \<noteq> ''OPTIONS'') q (MetricsMiddleware clock n)"
  unfolding counting_def MetricsMiddleware_def wp_bind
proof (intro impI allI wp_liftI)
  fix c s start x
  assume q: "hq_method q \<noteq> ''OPTIONS''" and c: "fresh q c"
  show "wp (after (n c) (\<lambda>c. do {
       now \<leftarrow> lift clock;
       change (\<lambda>s. s\<lparr>sv_metrics := RecordLatency (time_sub now start) (IncrRequestCount (sv_metrics s))\<rparr>);
       (if 400 \<le> status_of c
        then change (\<lambda>s. s\<lparr>sv_metrics := IncrRequestErrors (sv_metrics s)\<rparr>)
        else State_Monad.return ());
       State_Monad.return c
     })) (\<lambda>r s'. \<exists>c'. r = Finished c' \<and> finished c' \<and> counts q c' (sv_metrics s) (sv_metrics s')) (s\<lparr>sv_ext := x\<rparr>)"
    by (rule uncounted_after [OF n c, where m = "sv_metrics s" and P = "\<lambda>m m' c. recording c m m'" and
          Q = "\<lambda>c' m'. finished c' \<and> counts q c' (sv_metrics s) m'"])
      (use q in \<open>auto simp: wp recording_def split: prod.splits intro: counts_recording [unfolded recording_def]\<close>)
qed

lemma counting_rate: "counting b q n \<Longrightarrow> counting b q (RateLimitMiddleware clock q n)"
proof -
  assume n: "counting b q n"
  have limited: "finished c1 \<and> counts q c1 m m"
    if "fresh q c" "c1 = respondError 429 code msg c" for c c1 m code msg
    using that by (simp add: fresh_def finished_def counts_def measured_def respondError_def answer_with_def)
  show ?thesis
    unfolding counting_def [of b q "RateLimitMiddleware clock q n"] RateLimitMiddleware_def
      limiter_Allow_def Let_def
    by (auto simp: wp split: prod.splits option.splits intro!: counting_next [OF n] limited)
qed

lemma counting_limit: "counting b q n \<Longrightarrow> counting b q (BodyLimitMiddleware k n)"
  by (simp add: counting_def BodyLimitMiddleware_def fresh_def)

lemma counting_timeout: "counting b q n \<Longrightarrow> counting b q (TimeoutMiddleware clock d n)"
  unfolding counting_def [of b q "TimeoutMiddleware clock d n"] TimeoutMiddleware_def
  by (auto simp: wp split: prod.splits intro!: counting_after counts_timeout)
    (auto simp: finished_def respondError_def answer_with_def)

lemma counting_requestID: "counting b q n \<Longrightarrow> counting b q (RequestIDMiddleware clock q n)"
proof -
  assume n: "counting b q n"
  have "fresh q (set_header k v (c\<lparr>c_requestID := r\<rparr>))" if "fresh q c" for k v c r
    using that by (simp add: set_header_def fresh_def)
  then show ?thesis
    unfolding counting_def [of b q "RequestIDMiddleware clock q n"] RequestIDMiddleware_def
    by (auto simp: wp split: prod.splits intro!: counting_next [OF n])
qed

lemma counting_cors: "counting (hq_method q \<noteq> ''OPTIONS'') q n \<Longrightarrow> counting True q (CORSMiddleware q n)"
proof -
  assume n: "counting (hq_method q \<noteq> ''OPTIONS'') q n"
  have headers: "fresh q (set_header k v c)" if "fresh q c" for k v c
    using that by (simp add: set_header_def fresh_def)
  have preflight: "finished (answer_with 204 NoBody c) \<and> counts q (answer_with 204 NoBody c) m m"
    if "hq_method q = ''OPTIONS''" for c m
    using that by (simp add: finished_def counts_def measured_def answer_with_def)
  show ?thesis
    unfolding counting_def [of True q "CORSMiddleware q n"] CORSMiddleware_def Let_def
    by (auto simp: wp preflight intro!: headers counting_next [OF n])
qed

lemma counting_security: "counting True q n \<Longrightarrow> counting True q (securityHeadersMiddleware cfg n)"
  unfolding counting_def [of True q "securityHeadersMiddleware cfg n"] securityHeadersMiddleware_def Let_def
  by (auto simp: set_header_def fresh_def intro!: counting_next)

lemma counting_middleware: "counting True q (middleware st q)"
  unfolding middleware_def
  by (intro counting_security counting_cors counting_requestID counting_timeout counting_limit
      counting_rate counting_metrics uncounted_logging uncounted_dispatch)

lemma ServeHTTP_counts: "wp (ServeHTTP st q) (\<lambda>c s'. counts q c (sv_metrics s) (sv_metrics s')) s"
proof -
  have "wp (middleware st q (newContext q)) (\<lambda>r s'. \<exists>c'. r = Finished c' \<and> finished c' \<and>
      counts q c' (sv_metrics s) (sv_metrics s')) s"
    by (rule counting_next [OF counting_middleware]) (simp_all add: fresh_def newContext_def)
  then show ?thesis
    unfolding ServeHTTP_def Recovery_def wp by (rule wp_mono) auto
qed

text \<open>A sequence of requests, with the context each of them ends with.\<close>

fun serve_each :: "'x site \<Rightarrow> http_request list \<Rightarrow> 'x server \<Rightarrow> (http_request \<times> ginContext) list \<times> 'x server" where
  "serve_each st [] s = ([], s)"
| "serve_each st (q # qs) s =
    (case run_state (ServeHTTP st q) s of (c, s1) \<Rightarrow>
       case serve_each st qs s1 of (lg, s2) \<Rightarrow> ((q, c) # lg, s2))"

definition how_many :: "(http_request \<Rightarrow> ginContext \<Rightarrow> bool) \<Rightarrow> (http_request \<times> ginContext) list \<Rightarrow> i64" where
  "how_many P lg = of_nat (length (filter (\<lambda>(q, c). P q c) lg))"

lemma how_many_simps [simp]:
  "how_many P [] = 0"
  "how_many P ((q, c) # lg) = (if P q c then 1 else 0) + how_many P lg"
  by (simp_all add: how_many_def)

lemma counts_effect:
  assumes "counts q c m m'"
  shows "mt_requestCount m' = mt_requestCount m + (if measured q c then 1 else 0)"
    "mt_requestErrors m' = mt_requestErrors m + (if erroneous q c then 1 else 0)"
    "metrics_ok m \<Longrightarrow> metrics_ok m'"
  using assms
  by (auto simp: counts_def erroneous_def IncrRequestErrors_def RecordLatency_def IncrRequestCount_def
      split: if_splits intro: metrics_ok_record [unfolded RecordLatency_def IncrRequestCount_def, simplified]
      metrics_ok_error [OF metrics_ok_record, unfolded RecordLatency_def IncrRequestCount_def IncrRequestErrors_def, simplified])

lemma serve_each_counts:
  assumes "serve_each st qs s = (lg, s')" "metrics_ok (sv_metrics s)"
  shows "mt_requestCount (sv_metrics s') = mt_requestCount (sv_metrics s) + how_many measured lg \<and>
    mt_requestErrors (sv_metrics s') = mt_requestErrors (sv_metrics s) + how_many erroneous lg \<and>
    metrics_ok (sv_metrics s')"
  using assms
proof (induction qs arbitrary: s lg)
  case (Cons q qs)
  obtain c s1 where run: "run_state (ServeHTTP st q) s = (c, s1)" by fastforce
  obtain rest where rest: "serve_each st qs s1 = (rest, s')" and lg: "lg = (q, c) # rest"
    using Cons.prems(1) by (auto simp: run split: prod.splits)
  note one = counts_effect [OF wp_run [OF ServeHTTP_counts run]]
  from Cons.IH [OF rest one(3) [OF Cons.prems(2)]] show ?case
    by (simp add: lg one(1,2) algebra_simps)
qed simp

lemma handled_run:
  assumes "handled (\<lambda>_ _. True) st q s c s'" "sv_calls s' \<noteq> sv_calls s"
  obtains rt t x r tr x' where "hq_endpoint q = Api rt" "admitted q = Some t"
    "serve (RegisterRoutes rt (st_handler st) (tenant_request st q t)) x = (r, tr, x')"
    "sv_calls s' = sv_calls s @ tr"
proof -
  from assms obtain e where "\<exists>t x. hq_endpoint q = Api e \<and> admitted q = Some t \<and>
    (case serve (RegisterRoutes e (st_handler st) (tenant_request st q t)) x of
       (r, tr, x') \<Rightarrow> sv_calls s' = sv_calls s @ tr)"
    by (auto simp: handled_def split: prod.splits)
  then show thesis
  proof (elim exE conjE)
    fix t x
    assume ex: "hq_endpoint q = Api e" "admitted q = Some t"
      "case serve (RegisterRoutes e (st_handler st) (tenant_request st q t)) x of
         (r, tr, x') \<Rightarrow> sv_calls s' = sv_calls s @ tr"
    obtain r tr x' where run: "serve (RegisterRoutes e (st_handler st) (tenant_request st q t)) x = (r, tr, x')"
      by (metis prod.exhaust)
    with ex(3) have "sv_calls s' = sv_calls s @ tr" by simp
    with ex(1,2) run show thesis by (rule that)
  qed
qed

subsection \<open>Properties\<close>

text \<open>C6: Only an admitted request reaches a handler of the API, and every request is answered. The
  stack ends without a panic for any request to any endpoint. A request to the API either makes no
  call and is refused by the first thing written (429 over its rate, 204 for a preflight, 400 or 401
  when it is not admitted), or it runs the handler of its route for the tenant it was admitted for and
  the handler's answer is the first thing written. Admitted is a request that is no preflight, whose
  tenant header is not empty once sanitized, and whose authorization header, if it has one, is a
  well-formed bearer token. A request to any other endpoint makes no call.\<close>

theorem only_admitted_requests_are_handled:
  "case run_state (middleware st q (newContext q)) s of (r, s') \<Rightarrow>
     \<exists>c. r = Finished c \<and> run_state (ServeHTTP st q) s = (c, s') \<and> handled (\<lambda>_ _. True) st q s c s'"
proof -
  obtain r s' where run: "run_state (middleware st q (newContext q)) s = (r, s')" by fastforce
  from wp_run [OF any_site.middleware_finishes run] obtain c where
    c: "r = Finished c" "handled (\<lambda>_ _. True) st q s c s'" by blast
  with run show ?thesis by (simp add: ServeHTTP_def Recovery_def)
qed

text \<open>C5: Tenants are isolated at the HTTP level: through any request to a route that names an intent,
  every write, signature, submission, record and reconciliation comes after that intent was loaded
  and found to belong to the tenant of the request's own tenant header.\<close>

theorem http_isolates_tenants:
  assumes "hq_endpoint q = Api rt" "by_id_route rt"
  shows "case run_state (ServeHTTP st q) s of (c, s') \<Rightarrow>
    sv_calls s' = sv_calls s \<or>
    (\<exists>tr t. sv_calls s' = sv_calls s @ tr \<and> t = SanitizeTenantID (hq_header q ''X-Tenant-ID'') \<and>
       t \<noteq> [] \<and> guarded (owner_ok (tenant_request st q t)) changes [] tr)"
proof -
  obtain c s' where run: "run_state (ServeHTTP st q) s = (c, s')" by fastforce
  have handled: "handled (\<lambda>_ _. True) st q s c s'" by (rule wp_run [OF any_site.ServeHTTP_handled run])
  show ?thesis
  proof (cases "sv_calls s' = sv_calls s")
    case False
    from handled_run [OF handled this] assms(1) obtain t x r tr x' where
      t: "admitted q = Some t" and calls: "sv_calls s' = sv_calls s @ tr"
      and ran: "serve (RegisterRoutes rt (st_handler st) (tenant_request st q t)) x = (r, tr, x')"
      by (metis endpoint.inject)
    from appends_serve [OF routes_owner [OF assms(2)] ran]
    have "guarded (owner_ok (tenant_request st q t)) changes [] tr" by blast
    with t calls show ?thesis by (auto simp: run admitted_def Let_def split: if_splits)
  qed (simp add: run)
qed

text \<open>C40: The metrics count the requests. Over any sequence of requests, to whatever endpoints, the
  request counter grows by the number of them that are neither a preflight nor answered 429 by the rate
  limiter (both are answered before the metrics middleware), the error counter by the number of those
  whose final status is 400 or above, and the latency buckets stay among the seven documented ones,
  each at most once, with counts that sum to the request counter.\<close>

theorem metrics_add_up:
  assumes "serve_each st qs s = (lg, s')" "metrics_ok (sv_metrics s)"
  shows "mt_requestCount (sv_metrics s') = mt_requestCount (sv_metrics s) + how_many measured lg \<and>
    mt_requestErrors (sv_metrics s') = mt_requestErrors (sv_metrics s) + how_many erroneous lg \<and>
    metrics_ok (sv_metrics s')"
  by (rule serve_each_counts [OF assms])

text \<open>The limit is per spelling of the tenant header, not per tenant: adding a character that the
  sanitizer drops keeps the tenant a request is admitted for and gives it a fresh bucket.\<close>

theorem spelling_evades_the_limit:
  assumes "admitted q = Some t" "hq_header q' = (hq_header q)(''X-Tenant-ID'' := w)"
    and "w = hq_header q ''X-Tenant-ID'' @ ''!''" "hq_method q' = hq_method q"
    and "limiter_ok rl" "1 \<le> rl_burst rl" "rl_buckets rl w = None" "t0 \<le> t1"
  shows "admitted q' = Some t \<and> fst (Allow rl w t0 t1)"
proof
  have "SanitizeTenantID w = SanitizeTenantID (hq_header q ''X-Tenant-ID'')"
    by (simp add: assms(3) SanitizeTenantID_bytes tenant_rune_def alnum_rune_def ord_def)
  with assms(1) show "admitted q' = Some t"
    by (auto simp: admitted_def assms(2,4) Let_def split: if_splits)
  show "fst (Allow rl w t0 t1)"
    using fresh_bucket_allows [OF assms(5-8)] .
qed

lemma spelling_evades_the_limit_witness:
  "\<exists>q. admitted q = Some ''acme'' \<and> hq_header q ''X-Tenant-ID'' = ''acme!'' \<and>
     fst (Allow (NewRateLimiter 100 200) ''acme!'' 0 0)"
proof -
  define q where "q = (\<lambda>w. \<lparr>hq_method = ''GET'', hq_path = [],
    hq_header = (\<lambda>_. [])(''X-Tenant-ID'' := w), hq_endpoint = NoRoute, hq_param = [],
    hq_query = (\<lambda>_. []), hq_bind = (\<lambda>_. Inl [])\<rparr>)"
  have acme: "SanitizeTenantID ''acme'' = ''acme''" 
    by (simp add: SanitizeTenantID_bytes tenant_rune_def alnum_rune_def ord_def)
  have "admitted (q ''acme'') = Some ''acme''"
    using acme by (simp add: admitted_def q_def Let_def)
  moreover have "hq_header (q ''acme!'') = (hq_header (q ''acme''))(''X-Tenant-ID'' := ''acme!'')"
    unfolding q_def http_request.simps fun_upd_upd ..
  moreover have "''acme!'' = hq_header (q ''acme'') ''X-Tenant-ID'' @ ''!''"
    by (simp add: q_def)
  moreover have "hq_method (q ''acme!'') = hq_method (q ''acme'')"
    unfolding q_def http_request.simps ..
  moreover have "limiter_ok (NewRateLimiter 100 200)" "1 \<le> rl_burst (NewRateLimiter 100 200)"
    "rl_buckets (NewRateLimiter 100 200) ''acme!'' = None"
    by (simp_all add: limiter_ok_def NewRateLimiter_def)
  ultimately have "admitted (q ''acme!'') = Some ''acme'' \<and> fst (Allow (NewRateLimiter 100 200) ''acme!'' 0 0)"
    by (rule spelling_evades_the_limit [OF _ _ _ _ _ _ _ order_refl])
  then show ?thesis by (intro exI [of _ "q ''acme!''"]) (simp add: q_def)
qed

end
