(* ===== verification/VF_Service.thy ===== *)
theory VF_Service
  imports VF_Main VF_Gateway
begin

section \<open>The service behind its router\<close>

text \<open>
  \<open>main\<close> of \<open>services/api/main.go\<close>: loading and checking the configuration, opening and migrating the
  database, setting up its pool, and the site that serves the requests. A history here is a list of
  HTTP requests and reconciler runs; the lemmas carry the life cycle of intents and the bound on
  submissions through the middleware.
\<close>

subsection \<open>Starting up\<close>

text \<open>What \<open>main\<close> needs to open the database: \<open>gorm.Open\<close> and \<open>AutoMigrate\<close>.\<close>

record 'x startup =
  up_open :: "string \<Rightarrow> ('x, error option) op"
  up_migrate :: "('x, error option) op"
  up_sqlDB :: "'x sqlDB"

definition main_site ::
  "golib \<Rightarrow> (time \<Rightarrow> string) \<Rightarrow> Config \<Rightarrow> 'x machine \<Rightarrow> ('x, byte list) op \<Rightarrow> 'x gorm \<Rightarrow> 'x sqlDB \<Rightarrow>
     string \<Rightarrow> (int \<Rightarrow> string) \<Rightarrow> (int \<Rightarrow> string) \<Rightarrow> int \<Rightarrow> 'x site"
where
  "main_site L time_json cfg mc rand db sqlDB version show_duration show_uptime goroutines =
    \<lparr> st_config = cfg, st_logger = NewLogger (cf_Environment cfg) (cf_LogLevel cfg),
      st_clock = mc_clock mc,
      st_handler = main_handler L time_json (cf_SolanaRPCURL cfg) mc rand db,
      st_health = NewHealthChecker sqlDB
        (Some (solana_submitter L mc (NewSolanaClient (cf_SolanaRPCURL cfg)))),
      st_version = version, st_show_duration = show_duration, st_show_uptime = show_uptime,
      st_goroutines = goroutines \<rparr>"

text \<open>
  Up to the point where it listens, \<open>main\<close> ends early on the first error; what it starts with
  otherwise is the configuration, the limiter and the metrics.
\<close>

definition main ::
  "(string \<Rightarrow> int option) \<Rightarrow> environment \<Rightarrow> 'x machine \<Rightarrow> 'x startup \<Rightarrow>
     ('x, error + Config \<times> RateLimiter \<times> MetricsCollector) op"
where
  "main parseDuration env mc up =
    (let cfg = LoadConfig parseDuration env in
     case Validate cfg of
       Some err \<Rightarrow> State_Monad.return (Inl (''invalid configuration: '' @ err))
     | None \<Rightarrow> do {
         o1 \<leftarrow> up_open up (cf_DatabaseURL cfg);
         (case o1 of
            Some err \<Rightarrow> State_Monad.return (Inl ''failed to connect to database'')
          | None \<Rightarrow> do {
              o2 \<leftarrow> sq_DB (up_sqlDB up);
              (case o2 of
                 Some err \<Rightarrow> State_Monad.return (Inl ''failed to get underlying SQL DB'')
               | None \<Rightarrow> do {
                   sq_SetMaxOpenConns (up_sqlDB up) 25;
                   sq_SetMaxIdleConns (up_sqlDB up) 5;
                   sq_SetConnMaxLifetime (up_sqlDB up) (5 * 60 * second);
                   o3 \<leftarrow> up_migrate up;
                   (case o3 of
                      Some err \<Rightarrow> State_Monad.return (Inl ''failed to migrate database'')
                    | None \<Rightarrow> do {
                        now \<leftarrow> mc_clock mc;
                        State_Monad.return (Inr (cfg, NewRateLimiter 100 200, NewMetricsCollector now))
                      })
                 })
            })
       })"

text \<open>
  After the signal \<open>main\<close> drains the server, waits half a second and closes the pool; when draining
  fails it exits with status 1 at once. \<open>http.Server.Shutdown\<close> and \<open>sql.DB.Close\<close> are parameters,
  and the number of goroutines is the runtime's.
\<close>

record 'x stopping =
  stp_Shutdown :: "int \<Rightarrow> ('x, error option) op"
  stp_Close :: "('x, error option) op"
  stp_goroutines :: "('x, int) op"

definition main_stop ::
  "Logger \<Rightarrow> Config \<Rightarrow> 'x machine \<Rightarrow> 'x stopping \<Rightarrow> string \<Rightarrow> ('x, nat \<times> entry list) op"
where
  "main_stop logger cfg mc stp signal = do {
     n \<leftarrow> stp_goroutines stp;
     let es1 = log_at Info logger ''shutdown signal received''
           [AStr ''signal'' signal, AInt ''goroutines'' n];
     r \<leftarrow> stp_Shutdown stp (cf_ShutdownTimeout cfg);
     (case r of
        Some err \<Rightarrow> State_Monad.return
          (1, es1 @ log_at Error logger ''server forced to shutdown'' [AStr ''error'' err])
      | None \<Rightarrow> do {
          mc_sleep mc (second div 2);
          n \<leftarrow> stp_goroutines stp;
          let es2 = log_at Info logger ''draining complete'' [AInt ''goroutines_remaining'' n];
          r \<leftarrow> stp_Close stp;
          let es3 = (case r of None \<Rightarrow> [] | Some err \<Rightarrow>
            log_at Error logger ''failed to close database connection'' [AStr ''error'' err]);
          State_Monad.return
            (0, es1 @ es2 @ es3 @ log_at Info logger ''VaultForge API stopped gracefully'' [])
        })
   }"

subsection \<open>Requests and reconciler runs\<close>

datatype visit = Visit http_request | Run string

fun take_visit :: "'x site \<Rightarrow> 'x ReconcilerImpl \<Rightarrow> visit \<Rightarrow> 'x server \<Rightarrow> call list \<times> 'x server" where
  "take_visit st r (Visit q) s =
    (case run_state (ServeHTTP st q) s of
       (c, s') \<Rightarrow> (drop (length (sv_calls s)) (sv_calls s'), s'))"
| "take_visit st r (Run iid) s =
    (case serve (Start r iid) (sv_ext s) of (u, tr, x) \<Rightarrow> (tr, s\<lparr>sv_ext := x\<rparr>))"

type_synonym visit_log = "(visit \<times> call list) list"

fun visit_all ::
  "'x site \<Rightarrow> 'x ReconcilerImpl \<Rightarrow> visit list \<Rightarrow> 'x server \<Rightarrow> visit_log \<times> 'x server"
where
  "visit_all st r [] s = ([], s)"
| "visit_all st r (v # vs) s =
    (case take_visit st r v s of (tr, s1) \<Rightarrow>
       case visit_all st r vs s1 of (lg, s2) \<Rightarrow> ((v, tr) # lg, s2))"

text \<open>The intent a visit names, and how often the visits for an intent submitted it.\<close>

fun visit_intent :: "visit \<Rightarrow> string" where
  "visit_intent (Visit q) = hq_param q"
| "visit_intent (Run iid) = iid"

definition visit_submissions :: "string \<Rightarrow> visit_log \<Rightarrow> nat" where
  "visit_submissions iid lg =
     sum_list (map (\<lambda>(v, tr). if visit_intent v = iid then chain_calls tr else 0) lg)"

definition visit_recreates :: "string \<Rightarrow> visit_log \<Rightarrow> bool" where
  "visit_recreates iid lg \<longleftrightarrow>
     list_ex (\<lambda>(v, tr). list_ex (\<lambda>e. case e of Created i _ \<Rightarrow> i_ID i = iid | _ \<Rightarrow> False) tr) lg"

lemma visit_log_simps [simp]:
  "visit_submissions iid [] = 0"
  "visit_submissions iid ((v, tr) # lg) =
     (if visit_intent v = iid then chain_calls tr else 0) + visit_submissions iid lg"
  "visit_recreates iid [] = False"
  "visit_recreates iid ((v, tr) # lg) \<longleftrightarrow>
     list_ex (\<lambda>e. case e of Created i _ \<Rightarrow> i_ID i = iid | _ \<Rightarrow> False) tr \<or> visit_recreates iid lg"
  by (simp_all add: visit_submissions_def visit_recreates_def)

text \<open>Visits that are no requests to create an intent create none.\<close>

fun visit_creates :: "visit \<Rightarrow> bool" where
  "visit_creates (Visit q) = (hq_endpoint q = Api PostIntent)"
| "visit_creates (Run iid) = False"

lemma visit_creates_nothing:
  assumes "\<not> visit_creates v"
  shows "\<not> list_ex is_created (fst (take_visit st r v s))"
proof (cases v)
  case (Visit q)
  obtain c s' where run: "run_state (ServeHTTP st q) s = (c, s')" by fastforce
  have handled: "handled (\<lambda>_ _. True) st q s c s'" by (rule wp_run [OF any_site.ServeHTTP_handled run])
  show ?thesis
  proof (cases "sv_calls s' = sv_calls s")
    case False
    from handled_run [OF handled this] obtain rt t x u tr x' where
      rt: "hq_endpoint q = Api rt" and calls: "sv_calls s' = sv_calls s @ tr"
      and ran: "serve (RegisterRoutes rt (st_handler st) (tenant_request st q t)) x = (u, tr, x')" .
    from assms rt have "rt \<noteq> PostIntent" by (simp add: Visit)
    from appends_serve [OF routes_create_nothing [OF this] ran] calls show ?thesis
      by (simp add: Visit run)
  qed (simp add: Visit run)
next
  case (Run iid)
  obtain u tr x' where run: "serve (Start r iid) (sv_ext s) = (u, tr, x')" by (metis prod.exhaust)
  from appends_serve [OF Start_passive run] show ?thesis by (simp add: Run run)
qed

lemma visits_recreate_nothing:
  "list_all (\<lambda>v. \<not> visit_creates v) vs \<Longrightarrow> \<not> visit_recreates iid (fst (visit_all st r vs s))"
proof (induction vs arbitrary: s)
  case (Cons v vs)
  obtain tr s1 where run: "take_visit st r v s = (tr, s1)" by fastforce
  have "\<not> list_ex is_created tr"
    using visit_creates_nothing [of v st r s] Cons.prems run by simp
  then have "\<not> list_ex (\<lambda>e. case e of Created i _ \<Rightarrow> i_ID i = iid | _ \<Rightarrow> False) tr"
    by (auto simp: list_ex_iff split: call.splits)
  with Cons.prems run Cons.IH [of s1] show ?case
    by (cases "visit_all st r vs s1") simp
qed simp

subsection \<open>What the served site relies on\<close>

text \<open>Beside the contract of the database and the machine, that probing the pool leaves the intents alone.\<close>

locale served_service =
  wired_service L time_json "cf_SolanaRPCURL cfg" mc rand db view
  for L :: golib and time_json :: "time \<Rightarrow> string" and cfg :: Config and mc :: "'x machine"
    and rand :: "('x, byte list) op" and db :: "'x gorm" and view :: "'x \<Rightarrow> intents" +
  fixes pool :: "'x sqlDB" and version :: string and show_duration show_uptime :: "int \<Rightarrow> string"
    and goroutines :: int
  assumes probes: "keeps view (sq_DB pool)" "keeps view (sq_SetMaxOpenConns pool n)"
    "keeps view (sq_SetMaxIdleConns pool n)" "keeps view (sq_SetConnMaxLifetime pool n)"
    "keeps view (sq_Ping pool)" "keeps view (sq_Stats pool)"
begin

abbreviation "the_site \<equiv> main_site L time_json cfg mc rand db pool version show_duration show_uptime goroutines"

lemma keeps_readiness: "keeps view (readiness (st_health the_site))"
  unfolding readiness_def checkDB_def checkSolana_def Let_def
  by (simp add: main_site_def NewHealthChecker_def;
      intro keeps_bind keeps_return keeps_option keeps_solana probes)

lemma keeps_pool_stats: "keeps view (GetDBPoolStats show_duration pool)"
  unfolding GetDBPoolStats_def
  by (intro keeps_bind keeps_return keeps_option probes)

end

lemma keeps_stays_in: "keeps view m \<Longrightarrow> stays_in (\<lambda>x x'. view x' = view x) m"
  unfolding stays_in_def keeps_def by (metis snd_conv)

sublocale served_service \<subseteq> infrastructure "\<lambda>x x'. view x' = view x"
  "main_site L time_json cfg mc rand db pool version show_duration show_uptime goroutines"
proof
  show "stays_in (\<lambda>x x'. view x' = view x) (st_clock the_site)"
    using keeps_stays_in [OF machine(1)] by (simp add: main_site_def)
  show "stays_in (\<lambda>x x'. view x' = view x) (readiness (st_health the_site))"
    by (rule keeps_stays_in [OF keeps_readiness])
  show "stays_in (\<lambda>x x'. view x' = view x)
      (GetDBPoolStats (st_show_duration the_site) (hc_db (st_health the_site)))"
    using keeps_stays_in [OF keeps_pool_stats] by (simp add: main_site_def NewHealthChecker_def)
qed simp_all

context served_service begin

abbreviation "the_service_reconciler \<equiv> main_reconciler L time_json (cf_SolanaRPCURL cfg) mc db"

text \<open>A visit is a turn of the wired service, or leaves the intents alone.\<close>

lemma visit_turn:
  assumes "take_visit the_site the_service_reconciler v s = (tr, s')"
  obtains (quiet) "tr = []" "view (sv_ext s') = view (sv_ext s)"
  | (turn) t y y' where "view y = view (sv_ext s)" "take_turn (st_handler the_site) the_service_reconciler t y = (tr, y')"
      "view (sv_ext s') = view y'" "turn_intent t = visit_intent v"
proof (cases v)
  case (Visit q)
  obtain c where run: "run_state (ServeHTTP the_site q) s = (c, s')"
    and tr: "tr = drop (length (sv_calls s)) (sv_calls s')"
    using assms by (auto simp: Visit split: prod.splits)
  have "handled (\<lambda>x x'. view x' = view x) the_site q s c s'"
    by (rule wp_run [OF ServeHTTP_handled run])
  then show thesis
    unfolding handled_def
  proof (elim disjE exE conjE)
    assume "sv_calls s' = sv_calls s" "view (sv_ext s') = view (sv_ext s)"
    with tr show thesis by (intro quiet) simp_all
  next
    fix rt t x
    assume x: "view x = view (sv_ext s)" and
      out: "case serve (RegisterRoutes rt (st_handler the_site) (tenant_request the_site q t)) x of
        (r, tr, x') \<Rightarrow> sv_calls s' = sv_calls s @ tr \<and> view (sv_ext s') = view x' \<and>
          (\<exists>code p. r = Json code p \<and> c_writes c \<noteq> [] \<and> hd (c_writes c) = (code, HandlerAnswer p))"
    obtain r tr' x' where run': "serve (RegisterRoutes rt (st_handler the_site) (tenant_request the_site q t)) x = (r, tr', x')"
      by (metis prod.exhaust)
    with out have "sv_calls s' = sv_calls s @ tr'" "view (sv_ext s') = view x'" by auto
    with x run' tr show thesis
      by (intro turn [of x "Request rt (tenant_request the_site q t)" x'])
        (auto simp: Visit tenant_request_def)
  qed
next
  case (Run iid)
  with assms obtain u x where run: "serve (Start the_service_reconciler iid) (sv_ext s) = (u, tr, x)"
    and s': "s' = s\<lparr>sv_ext := x\<rparr>"
    by (auto split: prod.splits)
  show thesis
    by (rule turn [of "sv_ext s" "Reconcile iid" x]) (simp_all add: Run run s')
qed

lemma visits_run:
  "visit_all the_site the_service_reconciler vs s = (lg, s') \<Longrightarrow>
     \<exists>tlog. runs (st_handler the_site) the_service_reconciler view (sv_ext s) tlog (sv_ext s') \<and>
       submitted_times iid tlog = visit_submissions iid lg \<and>
       recreates iid tlog = visit_recreates iid lg"
proof (induction vs arbitrary: s lg)
  case Nil
  then show ?case by (auto intro!: exI [of _ "[]"] runs.rest)
next
  case (Cons v vs)
  obtain tr s1 where step: "take_visit the_site the_service_reconciler v s = (tr, s1)" by fastforce
  obtain log1 where rest: "visit_all the_site the_service_reconciler vs s1 = (log1, s')"
    and lg: "lg = (v, tr) # log1"
    using Cons.prems by (auto simp: step split: prod.splits)
  from Cons.IH [OF rest] obtain tlog where IH:
    "runs (st_handler the_site) the_service_reconciler view (sv_ext s1) tlog (sv_ext s')"
    "submitted_times iid tlog = visit_submissions iid log1" "recreates iid tlog = visit_recreates iid log1"
    by blast
  from step show ?case
  proof (cases rule: visit_turn)
    case quiet
    with IH show ?thesis by (auto simp: lg chain_calls_def intro!: exI [of _ tlog] intro: runs_before)
  next
    case (turn t y y')
    have "runs (st_handler the_site) the_service_reconciler view (sv_ext s) ((t, tr) # tlog) (sv_ext s')"
      by (rule runs.turn [OF turn(1,2) runs_before [OF IH(1) turn(3)]])
    with IH turn(4) show ?thesis by (auto simp: lg intro!: exI [of _ "(t, tr) # tlog"])
  qed
qed

lemma the_handler_eq: "st_handler the_site = main_handler L time_json (cf_SolanaRPCURL cfg) mc rand db"
  by (simp add: main_site_def)

lemma visits_submissions:
  assumes "visit_all the_site the_service_reconciler vs s = (lg, s')" "\<not> visit_recreates iid lg"
    "keyed (view (sv_ext s))"
  shows "visit_submissions iid lg \<le> 1"
proof -
  from visits_run [OF assms(1), of iid] obtain tlog where
    "runs (st_handler the_site) the_service_reconciler view (sv_ext s) tlog (sv_ext s')"
    "submitted_times iid tlog = visit_submissions iid lg" "recreates iid tlog = visit_recreates iid lg"
    by blast
  with runs_submissions [of "sv_ext s" tlog "sv_ext s'" iid] assms(2,3) show ?thesis
    by (auto simp: the_handler_eq split: option.splits if_splits)
qed

lemma visits_lifecycle:
  assumes "visit_all the_site the_service_reconciler vs s = (lg, s')" "\<not> visit_recreates iid lg"
    "keyed (view (sv_ext s))"
  shows "view (sv_ext s') iid = view (sv_ext s) iid \<or>
    (\<exists>i j. view (sv_ext s) iid = Some i \<and> view (sv_ext s') iid = Some j \<and> same_order i j \<and>
       lifecycle_step\<^sup>*\<^sup>* (i_Status i) (i_Status j))"
proof -
  from visits_run [OF assms(1), of iid] obtain tlog where
    "runs (st_handler the_site) the_service_reconciler view (sv_ext s) tlog (sv_ext s')"
    "recreates iid tlog = visit_recreates iid lg"
    by blast
  with runs_lifecycle [of "sv_ext s" tlog "sv_ext s'" iid] assms(2,3) show ?thesis
    by (simp add: the_handler_eq)
qed

end

end
