(* ===== verification/VF_MemDB.thy ===== *)
theory VF_MemDB
  imports VF_Service
begin

section \<open>A database in memory\<close>

text \<open>
  An implementation of the database parameter: tables are lists of rows, \<open>Save\<close> replaces or appends a
  row, \<open>Create\<close> rejects a key that is taken. With it the locale \<open>wired_service\<close> is interpreted, so
  that its assumptions hold together, and the properties of the wired service are evaluated. Nothing
  in it is the program's; the machine answers every request with a fixed reply and drops goroutines,
  which a history runs as turns.
\<close>

record mem_world =
  mm_intents :: "Intent list"
  mm_wallets :: "Wallet list"
  mm_tenants :: "Tenant list"
  mm_transactions :: "Transaction list"
  mm_audit :: "AuditEvent list"
  mm_policies :: "Policy list"
  mm_shares :: "MPCShareRecord list"
  mm_endpoints :: "WebhookEndpoint list"
  mm_now :: time

fun holds :: "(string \<Rightarrow> 'r \<Rightarrow> string) \<Rightarrow> ('r \<Rightarrow> bool) \<Rightarrow> 'r \<Rightarrow> cond \<Rightarrow> bool" where
  "holds col active r (ColEq c v) = (col c r = v)"
| "holds col active r (ColIs c b) = (active r = b)"
| "holds col active r (OrElse p q) = (holds col active r p \<or> holds col active r q)"

definition mem_table ::
  "(mem_world \<Rightarrow> 'r list) \<Rightarrow> (('r list \<Rightarrow> 'r list) \<Rightarrow> mem_world \<Rightarrow> mem_world) \<Rightarrow> (string \<Rightarrow> 'r \<Rightarrow> string) \<Rightarrow>
     ('r \<Rightarrow> bool) \<Rightarrow> ('r \<Rightarrow> time) \<Rightarrow> (mem_world, 'r) dbtable"
where
  "mem_table get put col active created =
    \<lparr> tb_first = (\<lambda>q. State_Monad.State (\<lambda>m.
        (case List.find (\<lambda>r. list_all (holds col active r) q) (get m) of
           Some r \<Rightarrow> Inr r | None \<Rightarrow> Inl ''record not found'', m))),
      tb_find = (\<lambda>q ord. State_Monad.State (\<lambda>m.
        (Inr ((if ord = CreatedAtDesc then sort_key (\<lambda>r. - created r) else id)
           (filter (\<lambda>r. list_all (holds col active r) q) (get m))), m))),
      tb_create = (\<lambda>r. State_Monad.State (\<lambda>m.
        if list_ex (\<lambda>r'. col ''id'' r' = col ''id'' r) (get m)
        then ((Some ''duplicate key value violates unique constraint'', r), m)
        else ((None, r), put (\<lambda>rs. rs @ [r]) m))),
      tb_save = (\<lambda>r. State_Monad.State (\<lambda>m.
        ((None, r), put (\<lambda>rs. if list_ex (\<lambda>r'. col ''id'' r' = col ''id'' r) rs
           then map (\<lambda>r'. if col ''id'' r' = col ''id'' r then r else r') rs else rs @ [r]) m))) \<rparr>"

definition intent_col :: "string \<Rightarrow> Intent \<Rightarrow> string" where
  "intent_col c i = (if c = ''id'' then i_ID i else if c = ''tenant_id'' then i_TenantID i
     else if c = ''nonce'' then i_Nonce i else if c = ''status'' then i_Status i else [])"

definition tx_col :: "string \<Rightarrow> Transaction \<Rightarrow> string" where
  "tx_col c x = (if c = ''id'' then x_ID x else if c = ''tenant_id'' then x_TenantID x
     else if c = ''intent_id'' then x_IntentID x else [])"

definition mem_db :: "mem_world gorm" where
  "mem_db =
    \<lparr> g_tenants = mem_table mm_tenants mm_tenants_update (\<lambda>c t. if c = ''id'' then t_ID t else [])
        (\<lambda>_. True) t_CreatedAt,
      g_wallets = mem_table mm_wallets mm_wallets_update
        (\<lambda>c w. if c = ''id'' then w_ID w else if c = ''tenant_id'' then w_TenantID w else [])
        (\<lambda>_. True) w_CreatedAt,
      g_intents = mem_table mm_intents mm_intents_update intent_col (\<lambda>_. True) i_CreatedAt,
      g_transactions = mem_table mm_transactions mm_transactions_update tx_col (\<lambda>_. True) x_CreatedAt,
      g_audit = mem_table mm_audit mm_audit_update
        (\<lambda>c e. if c = ''id'' then a_ID e else if c = ''tenant_id'' then a_TenantID e
           else if c = ''action'' then a_Action e else []) (\<lambda>_. True) a_CreatedAt,
      g_policies = mem_table mm_policies mm_policies_update
        (\<lambda>c p. if c = ''id'' then p_ID p else if c = ''tenant_id'' then p_TenantID p else [])
        p_IsActive p_CreatedAt,
      g_shares = mem_table mm_shares mm_shares_update
        (\<lambda>c s. if c = ''id'' then m_ID s else if c = ''share_type'' then m_ShareType s else [])
        (\<lambda>_. True) m_CreatedAt,
      g_endpoints = mem_table mm_endpoints mm_endpoints_update
        (\<lambda>c e. if c = ''id'' then e_ID e else if c = ''tenant_id'' then e_TenantID e
           else if c = ''event_type'' then e_EventType e else []) e_IsActive e_CreatedAt \<rparr>"

definition mem_view :: "mem_world \<Rightarrow> intents" where
  "mem_view m = map_of (map (\<lambda>i. (i_ID i, i)) (mm_intents m))"

definition mem_machine :: "(string \<Rightarrow> string \<Rightarrow> http_result) \<Rightarrow> mem_world machine" where
  "mem_machine reply =
    \<lparr> mc_clock = State_Monad.State (\<lambda>m. (mm_now m, m\<lparr>mm_now := mm_now m + 1\<rparr>)),
      mc_sleep = (\<lambda>d. State_Monad.State (\<lambda>m. ((), m\<lparr>mm_now := mm_now m + d\<rparr>))),
      mc_go = (\<lambda>_. State_Monad.return ()),
      mc_post = (\<lambda>url hs body. State_Monad.return (reply url body)) \<rparr>"

subsection \<open>It keeps the contract\<close>

lemma find_row: "List.find (\<lambda>i. i_ID i = k) is = map_of (map (\<lambda>i. (i_ID i, i)) is) k"
  by (induction "is") auto

lemma map_of_replace:
  assumes "list_ex (\<lambda>r. i_ID r = i_ID i) is"
  shows "map_of (map (\<lambda>r. (i_ID r, r)) (map (\<lambda>r. if i_ID r = i_ID i then i else r) is))
    = (map_of (map (\<lambda>r. (i_ID r, r)) is))(i_ID i \<mapsto> i)"
proof -
  have "map_of (map (\<lambda>r. (i_ID r, r)) (map (\<lambda>r. if i_ID r = i_ID i then i else r) js)) k =
      (if k = i_ID i then if list_ex (\<lambda>r. i_ID r = i_ID i) js then Some i else None
       else map_of (map (\<lambda>r. (i_ID r, r)) js) k)" for js k
    by (induction js) auto
  with assms show ?thesis by fastforce
qed

lemma map_of_append_new:
  assumes "\<not> list_ex (\<lambda>r. i_ID r = i_ID i) is"
  shows "map_of (map (\<lambda>r. (i_ID r, r)) (is @ [i])) = (map_of (map (\<lambda>r. (i_ID r, r)) is))(i_ID i \<mapsto> i)"
proof -
  have "map_of (map (\<lambda>r. (i_ID r, r)) is) (i_ID i) = None"
    using assms by (force simp: map_of_eq_None_iff list_ex_iff)
  then show ?thesis by (auto simp: map_add_def fun_eq_iff split: option.splits)
qed

lemma mem_keeps_other:
  "\<lbrakk>\<And>f m. mm_intents (put f m) = mm_intents m\<rbrakk> \<Longrightarrow>
     keeps mem_view (tb_create (mem_table get put col active created) r) \<and>
     keeps mem_view (tb_save (mem_table get put col active created) r)"
  by (auto simp: keeps_def mem_table_def mem_view_def)

lemma mem_keeps_query:
  "keeps mem_view (tb_first (mem_table get put col active created) q)"
  "keeps mem_view (tb_find (mem_table get put col active created) q o1)"
  by (simp_all add: keeps_def mem_table_def)

interpretation mem: wired_service lib tj url "mem_machine reply"
  "State_Monad.return (replicate 32 1)" mem_db mem_view
  for lib tj url reply
proof
  fix iid x i x'
  assume "run_state (tb_first (g_intents mem_db) (by_id iid)) x = (Inr i, x')"
  then show "mem_view x iid = Some i"
    by (auto simp: mem_db_def mem_table_def by_id_def intent_col_def find_row mem_view_def
        split: option.splits)
next
  fix i x e j x'
  assume "run_state (tb_save (g_intents mem_db) i) x = ((e, j), x')"
  then show "stored_as i j \<and>
      (mem_view x' = (mem_view x)(i_ID i \<mapsto> j) \<or> (e \<noteq> None \<and> mem_view x' = mem_view x))"
    using map_of_replace [of i "mm_intents x"] map_of_append_new [of i "mm_intents x"]
    by (auto simp: mem_db_def mem_table_def intent_col_def mem_view_def split: if_splits)
next
  fix i x e j x'
  assume "run_state (tb_create (g_intents mem_db) i) x = ((e, j), x')"
  then show "created_as i j \<and>
      (mem_view x' = (mem_view x)(i_ID i \<mapsto> j) \<or> (e \<noteq> None \<and> mem_view x' = mem_view x))"
    using map_of_append_new [of i "mm_intents x"]
    by (auto simp: mem_db_def mem_table_def intent_col_def mem_view_def split: if_splits)
qed (simp_all add: mem_db_def mem_keeps_query mem_keeps_other,
    simp_all add: keeps_def mem_machine_def mem_view_def)

text \<open>A pool that is always there.\<close>

definition mem_pool :: "mem_world sqlDB" where
  "mem_pool =
    \<lparr> sq_DB = State_Monad.return None, sq_SetMaxOpenConns = (\<lambda>_. State_Monad.return ()),
      sq_SetMaxIdleConns = (\<lambda>_. State_Monad.return ()),
      sq_SetConnMaxLifetime = (\<lambda>_. State_Monad.return ()), sq_Ping = State_Monad.return None,
      sq_Stats = State_Monad.return
        \<lparr>dbs_OpenConnections = 0, dbs_InUse = 0, dbs_Idle = 0, dbs_WaitCount = 0, dbs_WaitDuration = 0,
         dbs_MaxIdleClosed = 0, dbs_MaxIdleTimeClosed = 0, dbs_MaxLifetimeClosed = 0\<rparr> \<rparr>"

interpretation mem_served: served_service lib tj cfg "mem_machine reply"
  "State_Monad.return (replicate 32 1)" mem_db mem_view mem_pool version sd su g
  for lib tj cfg reply version sd su g
  by unfold_locales (simp_all add: mem_pool_def)

end
