(* ===== verification/VF_Examples.thy ===== *)
theory VF_Examples
  imports VF_MemDB
begin

section \<open>A concrete service\<close>

text \<open>
  One instance of everything the development takes as a parameter, on which the properties with
  hypotheses are evaluated: a library whose hash is constant and whose JSON scanner knows no text,
  the in-memory world of the repository's tests with one wallet, one tenant and an approved intent,
  and requests of that tenant.
\<close>

definition ex_lib :: golib where
  "ex_lib = \<lparr>gl_unicode = \<lparr>u_fold = (=), u_lower = id, u_quote = id\<rparr>,
     gl_json = \<lparr>js_parse = (\<lambda>_. None), js_print = (\<lambda>_. ''null''), js_float = (\<lambda>_. None),
                js_conv = (\<lambda>_. 0), js_error = id,
                js_type_error = (\<lambda>_. ''type''), js_show = (\<lambda>_. ''value'')\<rparr>,
     gl_parse3339 = (\<lambda>_. None), gl_format3339 = (\<lambda>_. ''2026-01-01T00:00:00Z''),
     gl_sha256 = (\<lambda>_. replicate 32 1)\<rparr>"

definition ex_wallet :: Wallet where
  "ex_wallet = \<lparr>w_ID = ''wallet-1'', w_TenantID = ''tenant-1'', w_Name = [], w_DailyLimit = 100000,
     w_Status = ''active'', w_CreatedAt = 0, w_UpdatedAt = 0\<rparr>"

definition ex_intent :: "string \<Rightarrow> Intent" where
  "ex_intent status = (NewIntent 1 2 3 ''tenant-1'' ''wallet-1'' ''dest-addr'' ''SOL'' ''solana''
     ''user-1'' 1000)\<lparr>i_ID := ''i1'', i_Status := status\<rparr>"

definition ex_world :: "string \<Rightarrow> mock_world" where
  "ex_world status =
    \<lparr> mw_store = NewMockIntentStore\<lparr>mk_Intents := [(''i1'', ex_intent status)],
        mk_Wallets := [(''wallet-1'', ex_wallet)]\<rparr>,
      mw_txs = [],
      mw_policy = \<lparr>mp_Wallets = [(''wallet-1'', ex_wallet)],
        mp_Tenants = [(''tenant-1'', \<lparr>t_ID = ''tenant-1'', t_Name = [], t_Domain = [],
          t_CreatedAt = 0, t_UpdatedAt = 0\<rparr>)], mp_Policies = []\<rparr>,
      mw_started = [], mw_now = 10 \<rparr>"

definition ex_handler :: "mock_world IntentHandler" where
  "ex_handler = setupMockHandler ex_lib id None None None"

definition ex_request :: request where
  "ex_request = \<lparr>q_id = ''i1'', q_tenant = Some ''tenant-1'', q_requestID = ''r'', q_actor = [],
     q_idempotencyKey = [], q_status = [], q_action = [], q_body = Inl ''EOF''\<rparr>"

lemmas ex_defs = ex_lib_def ex_wallet_def ex_intent_def ex_world_def ex_handler_def ex_request_def
  NewMockIntentStore_def setupMockHandler_def

lemma ex_service: "intent_service ex_handler mock_view"
  unfolding ex_handler_def by (rule mock.intent_service_axioms)

lemma ex_keyed: "keyed (mock_view (ex_world status))"
  by (simp add: keyed_def mock_view_def ex_defs)

lemmas ex_run = ex_defs mock_defs serve_def act_def handler_defs call_defs exec_defs request_id_def
  Evaluate_def Simulate_def computeTxHash_def Build_def NewTransactionBuilder_def SetBlockhash_def
  NewIntent_def chain_calls_def Let_def

lemma ex_session:
  "submissions ''i1'' (fst (session ex_handler [(PostExecute, ex_request), (PostExecute, ex_request)]
     (ex_world ''approved''))) = 1"
  by (simp add: ex_run parse_int64_show_i64)

lemma ex_keeps_updates: "update_keeps ex_handler"
  by (rule intent_service.update_kept [OF ex_service])

lemma ex_success:
  "case serve (ExecuteIntent ex_handler ex_request) (ex_world ''approved'') of (r, tr, x') \<Rightarrow>
     list_ex is_signed tr \<and> list_ex is_submitted tr \<and> executed r"
  by (simp add: ex_run parse_int64_show_i64 executed_def)

subsection \<open>The wired service\<close>

text \<open>The same wallet, tenant and intent in the database, with two key shares; no request to the
  network gets an answer.\<close>

definition ex_share :: "string \<Rightarrow> u32 \<Rightarrow> MPCShareRecord" where
  "ex_share i n = \<lparr>m_ID = i, m_ShareID = n, m_TenantID = ''tenant-1'', m_EncryptedShare = [1],
     m_ShareType = ''frost'', m_CreatedAt = 0\<rparr>"

definition ex_mem :: "string \<Rightarrow> mem_world" where
  "ex_mem status =
    \<lparr> mm_intents = [ex_intent status], mm_wallets = [ex_wallet],
      mm_tenants = [\<lparr>t_ID = ''tenant-1'', t_Name = [], t_Domain = [], t_CreatedAt = 0, t_UpdatedAt = 0\<rparr>],
      mm_transactions = [], mm_audit = [], mm_policies = [],
      mm_shares = [ex_share ''s1'' 1, ex_share ''s2'' 2], mm_endpoints = [], mm_now = 10 \<rparr>"

definition ex_offline :: "mem_world machine" where
  "ex_offline = mem_machine (\<lambda>_ _. NoResponse ''offline'')"

definition ex_main :: "mem_world IntentHandler" where
  "ex_main = main_handler ex_lib (\<lambda>_. []) [] ex_offline (State_Monad.return (replicate 32 1)) mem_db"

definition ex_reconciler :: "mem_world ReconcilerImpl" where
  "ex_reconciler = main_reconciler ex_lib (\<lambda>_. []) [] ex_offline mem_db"

lemma ex_wired:
  "wired_service ex_offline (State_Monad.return (replicate 32 1)) mem_db mem_view"
  unfolding ex_offline_def by (rule mem.wired_service_axioms)

lemma ex_mem_keyed: "keyed (mem_view (ex_mem status))"
  by (simp add: keyed_def mem_view_def ex_mem_def)

definition ex_turns :: "turn list" where
  "ex_turns = [Request PostExecute ex_request, Request PostExecute ex_request, Reconcile ''i1'']"

lemma ex_turns_create_nothing: "list_all (\<lambda>t. \<not> creating t) ex_turns"
  by (simp add: ex_turns_def)

subsection \<open>The served site\<close>

definition ex_config :: Config where
  "ex_config = LoadConfig (\<lambda>_. None) (\<lambda>_. [])"

definition ex_site :: "mem_world site" where
  "ex_site = main_site ex_lib (\<lambda>_. []) ex_config ex_offline (State_Monad.return (replicate 32 1)) mem_db
     mem_pool ''dev'' (\<lambda>_. []) (\<lambda>_. []) 1"

definition ex_site_reconciler :: "mem_world ReconcilerImpl" where
  "ex_site_reconciler = main_reconciler ex_lib (\<lambda>_. []) (cf_SolanaRPCURL ex_config) ex_offline mem_db"

definition ex_server :: "string \<Rightarrow> mem_world server" where
  "ex_server status = \<lparr>sv_ext = ex_mem status, sv_limiter = NewRateLimiter 100 200,
     sv_metrics = NewMetricsCollector 0, sv_log = [], sv_calls = []\<rparr>"

definition ex_http :: http_request where
  "ex_http = \<lparr>hq_method = ''POST'', hq_path = ''/v1/intents/i1/execute'',
     hq_header = (\<lambda>k. if k = ''X-Tenant-ID'' then ''tenant-1'' else []),
     hq_endpoint = Api PostExecute, hq_param = ''i1'', hq_query = (\<lambda>_. []), hq_bind = (\<lambda>_. Inl ''EOF'')\<rparr>"

definition ex_visits :: "visit list" where
  "ex_visits = [Visit ex_http, Visit ex_http, Run ''i1'']"

lemma ex_visits_create_nothing: "list_all (\<lambda>v. \<not> visit_creates v) ex_visits"
  by (simp add: ex_visits_def ex_http_def)

lemma ex_served:
  "served_service ex_offline (State_Monad.return (replicate 32 1)) mem_db mem_view mem_pool"
  unfolding ex_offline_def by (rule mem_served.served_service_axioms)

lemma ex_server_keyed: "keyed (mem_view (sv_ext (ex_server status)))"
  by (simp add: ex_server_def ex_mem_keyed)

end
