(* ===== verification/VF_Witnesses.thy ===== *)
theory VF_Witnesses
  imports VF_Examples VF_MPC VF_ZK
begin

section \<open>The properties of the components on concrete inputs\<close>

text \<open>
  The policy engine on the tenant of \<open>VF_Examples\<close> with one policy, a proof generated with a JSON
  library that knows one text, and a signature from the two shares of the in-memory database.
\<close>

subsection \<open>Policies\<close>

definition ex_policy :: "string \<Rightarrow> Policy" where
  "ex_policy rule = \<lparr>p_ID = ''p1'', p_TenantID = ''tenant-1'', p_Name = ''cap'', p_RuleType = rule,
     p_Config = ''{'', p_IsActive = True, p_Version = [], p_CreatedAt = 0, p_UpdatedAt = 0\<rparr>"

definition ex_policies :: "string \<Rightarrow> mock_world" where
  "ex_policies rule = (ex_world ''approved'')\<lparr>mw_policy := (mw_policy (ex_world ''approved''))
     \<lparr>mp_Policies := [(''tenant-1'', [ex_policy rule])]\<rparr>\<rparr>"

definition ex_still :: "time mock_op" where
  "ex_still = State_Monad.return 5"

definition ex_tenant :: Tenant where
  "ex_tenant = \<lparr>t_ID = ''tenant-1'', t_Name = [], t_Domain = [], t_CreatedAt = 0, t_UpdatedAt = 0\<rparr>"

lemmas policy_run = ex_tenant_def mock_PolicyDB_def gets_def lookup_err_def ex_policies_def ex_policy_def ex_defs
  NewIntent_def

lemma unreadable_rules_pass_witness:
  "rule_passes ex_lib 0 (ex_policy ''allowed_recipients'') (ex_intent ''approved'') ex_wallet \<and>
   \<not> rule_passes ex_lib 0 (ex_policy ''required_signatures'') (ex_intent ''approved'') ex_wallet"
proof -
  have unreadable: "js_parse (gl_json ex_lib) (p_Config (ex_policy rule)) = None" for rule
    by (simp add: ex_lib_def)
  show ?thesis
    using unreadable_rules_pass [OF unreadable] by (simp add: ex_policy_def ex_intent_def NewIntent_def)
qed

lemma ex_lookups:
  "run_state (db_GetWallet mock_PolicyDB (i_WalletID (ex_intent status))) (ex_policies rule) = (Inr ex_wallet, ex_policies rule)"
  "run_state (db_GetTenant mock_PolicyDB (w_TenantID ex_wallet)) (ex_policies rule)
     = (Inr ex_tenant, ex_policies rule)"
  "run_state (db_ListPolicies mock_PolicyDB (t_ID ex_tenant)) (ex_policies rule) = (Inr [ex_policy rule], ex_policies rule)"
  by (simp_all add: policy_run)

lemma policy_verdict_witness:
  "\<exists>r. run_state (Evaluate ex_lib mock_PolicyDB ex_still (ex_intent ''approved''))
      (ex_policies ''required_signatures'') = (Inr r, ex_policies ''required_signatures'') \<and>
     \<not> pr_Allow r \<and> pr_Reason r = ''required sigs: cap''"
proof -
  have still: "run_state ex_still x = (5, x)" for x by (simp add: ex_still_def)
  have "\<not> rule_passes ex_lib 5 (ex_policy ''required_signatures'') (ex_intent ''approved'') ex_wallet"
    and "denials ex_lib 5 (ex_intent ''approved'') ex_wallet [ex_policy ''required_signatures''] = [''required sigs: cap'']"
    by (simp_all add: rule_passes_def rule_verdict_def denials_def evaluateRequiredSigs_def
        parseConfigInt_def unmarshal_object_def policy_run)
  moreover have "p_IsActive (ex_policy rule)" for rule by (simp add: ex_policy_def)
  ultimately show ?thesis
    using policy_verdict [OF still ex_lookups, of ex_lib "''approved''" "''required_signatures''"] by auto
qed

lemma allow_means_all_rules_pass_witness:
  "rule_passes ex_lib 0 (ex_policy ''daily_limit'') (ex_intent ''approved'') ex_wallet"
proof -
  let ?x = "ex_policies ''daily_limit''"
  have "parseIntentAmount (i_Amount (ex_intent ''approved'')) = 1000"
    using parseIntentAmount_show [of 1000] by (simp add: ex_intent_def NewIntent_def AmountToString_def)
  then have "run_state (Evaluate ex_lib mock_PolicyDB ex_still (ex_intent ''approved'')) ?x =
      (Inr \<lparr>pr_Allow = True, pr_Reason = []\<rparr>, ?x)"
    by (simp add: Evaluate_def evaluate_rule_def evaluateDailyLimit_def parseConfigInt64_def
        unmarshal_object_def policy_run Let_def)
  from allow_means_all_rules_pass [OF this, where now = 0] show ?thesis
    by (auto simp: mock_PolicyDB_def gets_def lookup_err_def ex_policies_def ex_world_def
        ex_intent_def NewIntent_def ex_wallet_def ex_policy_def reads_clock_def)
qed

subsection \<open>Proofs\<close>

definition ex_inputs :: PolicyInputs where
  "ex_inputs = \<lparr>pi_Amount = ''1000'', pi_DailyLimit = Some 100000, pi_Recipient = ''dest'',
     pi_PolicyVersion = ''v1'', pi_IntentID = ''i1'', pi_WalletID = ''w1''\<rparr>"

definition ex_proof :: json where
  "ex_proof = proof_json (honest_proof (\<lambda>_. replicate 32 1) ex_inputs 100000 1000 [] [] [])"

text \<open>A JSON library that knows the text of this proof.\<close>

definition ex_json_lib :: golib where
  "ex_json_lib = ex_lib\<lparr>gl_json := (gl_json ex_lib)
     \<lparr>js_print := (\<lambda>j. if j = ex_proof then ''proof'' else []), js_parse := (\<lambda>_. Some ex_proof)\<rparr>\<rparr>"

lemma ex_json_print: "js_print (gl_json ex_json_lib) ex_proof = ''proof''"
  by (simp add: ex_json_lib_def)

lemma ex_utf8: "to_valid_utf8 (pi_IntentID ex_inputs) = pi_IntentID ex_inputs"
  "to_valid_utf8 (pi_PolicyVersion ex_inputs) = pi_PolicyVersion ex_inputs"
  "to_valid_utf8 (pi_WalletID ex_inputs) = pi_WalletID ex_inputs"
  by (simp_all add: ex_inputs_def to_valid_utf8_ascii is_ascii_def ord_def)

lemma generated_proofs_verify_witness:
  "\<exists>proof x'. run_state (GenerateProof ex_json_lib (State_Monad.return []) ex_still ex_inputs)
       (ex_world ''approved'') = (Inr proof, x') \<and> VerifyPolicyProof ex_json_lib (Some proof) = Inr True"
proof -
  have big: "parse_big (pi_Amount ex_inputs) = Some 1000"
    by (simp add: parse_big_def ex_inputs_def is_digit_def ord_def)
  have "\<exists>p x'. run_state (GenerateProof ex_json_lib (State_Monad.return []) ex_still ex_inputs)
      (ex_world ''approved'') = (Inr p, x')"
    unfolding GenerateProof_def big
    by (simp add: Let_def ex_inputs_def ex_json_lib_def ex_lib_def ex_still_def)
  then obtain p x' where gen: "run_state (GenerateProof ex_json_lib (State_Monad.return []) ex_still ex_inputs)
      (ex_world ''approved'') = (Inr p, x')" by blast
  define hp where "hp = honest_proof (gl_sha256 ex_json_lib) ex_inputs (limit_of ex_inputs) (word_of_int 1000) [] [] []"
  have hp: "proof_json hp = ex_proof" "non_trivial hp"
    by (simp_all add: hp_def ex_proof_def ex_json_lib_def ex_lib_def limit_of_def ex_inputs_def
        non_trivial_def honest_proof_def Let_def computeCommitment_def computeResponseCheck_def to32_def
        isAllZero_iff)
  have "json_roundtrip_at (gl_json ex_json_lib) (proof_json hp)"
    by (simp add: json_roundtrip_at_def hp ex_json_lib_def)
  from generated_proofs_verify [OF gen _ _ _ big _ _ ex_utf8 hp_def this] hp(2) gen show ?thesis
    by (auto simp: ex_inputs_def)
qed

text \<open>A proof for an amount over a limit of 100, made without a secret.\<close>

definition ex_over :: PolicyInputs where
  "ex_over = ex_inputs\<lparr>pi_DailyLimit := Some 100\<rparr>"

definition ex_forged :: ZKProofInternal where
  "ex_forged = forge (\<lambda>_. replicate 32 1) (replicate 32 7) (replicate 32 8) (replicate 32 9) 1000
     (pi_PolicyVersion ex_inputs) (pi_IntentID ex_inputs) (pi_WalletID ex_inputs)"

definition ex_forged_lib :: golib where
  "ex_forged_lib = ex_lib\<lparr>gl_json := (gl_json ex_lib)
     \<lparr>js_print := (\<lambda>_. ''forged''), js_parse := (\<lambda>_. Some (proof_json ex_forged))\<rparr>\<rparr>"

lemma any_amount_can_be_proved_witness:
  "isl (fst (run_state (GenerateProof ex_forged_lib (State_Monad.return []) ex_still ex_over)
     (ex_world ''approved''))) \<and>
   VerifyPolicyProof ex_forged_lib (Some \<lparr>z_ProofID = [], z_PublicInputs = JNull, z_ProofBytes = ''forged''\<rparr>)
     = Inr True"
proof (rule any_amount_can_be_proved [where n = 1000 and p = ex_forged and cd = "replicate 32 7"
      and ca = "replicate 32 8" and cf = "replicate 32 9"])
  show "parse_big (pi_Amount ex_over) = Some 1000"
    by (simp add: parse_big_def ex_over_def ex_inputs_def is_digit_def ord_def)
  show "non_trivial ex_forged"
    by (simp add: ex_forged_def forge_def non_trivial_def Let_def computeResponseCheck_def to32_def isAllZero_iff)
  show "ex_forged = forge (gl_sha256 ex_forged_lib) (replicate 32 7) (replicate 32 8) (replicate 32 9)
      (word_of_int 1000) (pi_PolicyVersion ex_over) (pi_IntentID ex_over) (pi_WalletID ex_over)"
    by (simp add: ex_forged_def ex_forged_lib_def ex_lib_def ex_over_def)
  show "json_roundtrip_at (gl_json ex_forged_lib) (proof_json ex_forged)"
    by (simp add: json_roundtrip_at_def ex_forged_lib_def)
qed (use ex_utf8 in \<open>simp_all add: ex_over_def ex_inputs_def limit_of_def ex_forged_lib_def\<close>)

subsection \<open>Signatures\<close>

definition ex_signing :: SigningInput where
  "ex_signing = \<lparr>si_IntentHash = [1], si_TxHash = ''ab'', si_Chain = ''solana'', si_Context = []\<rparr>"

lemma signing_outcome_witness:
  "\<exists>sr x'. run_state (Sign (\<lambda>_. replicate 32 1) mem_db ex_signing) (ex_mem ''approved'') = (Inr sr, x') \<and>
     sr_Participants sr = [1, 2] \<and> drop 32 (sr_Signature sr) = replicate 32 0"
proof -
  have H: "digest32 (\<lambda>_. replicate 32 1)" by (simp add: digest32_def)
  have shares: "run_state (tb_find (g_shares mem_db) [ColEq ''share_type'' ''frost''] Unordered) (ex_mem ''approved'')
      = (Inr [ex_share ''s1'' 1, ex_share ''s2'' 2], ex_mem ''approved'')"
    by (simp add: mem_db_def mem_table_def ex_mem_def ex_share_def)
  obtain r x' where run: "run_state (Sign (\<lambda>_. replicate 32 1) mem_db ex_signing) (ex_mem ''approved'') = (r, x')"
    by fastforce
  with signing_outcome [OF H, where db = mem_db and input = ex_signing and x = "ex_mem ''approved''"] shares show ?thesis
    by (cases r) (auto simp: ex_signing_def ex_share_def)
qed

end
