(* ===== verification/VF_Outcomes.thy ===== *)
theory VF_Outcomes
  imports VF_Protocol
begin

section \<open>How executions end\<close>

text \<open>
  The error behaviour of \<open>ExecuteIntent\<close> and the statuses the handlers of
  \<open>services/api/routes/intent_routes.go\<close> write, for every implementation of the interfaces. A fault
  is a call whose result stops an execution as failed; an obstacle is any result that keeps it from
  succeeding.
\<close>

subsection \<open>Faults and obstacles\<close>

fun fault_of :: "call \<Rightarrow> (string \<times> error) option" where
  "fault_of (Simulated b (Inl err)) = Some (SimulationFailed, ''transaction simulation failed'')"
| "fault_of (Simulated b (Inr r)) =
    (if sim_Allowed r then None else Some (SimulationFailed, ''transaction simulation denied''))"
| "fault_of (Evaluated i (Inl err)) =
    Some (PolicyDenied, ''policy verification failed before signing'')"
| "fault_of (Evaluated i (Inr r)) =
    (if pr_Allow r then None else Some (PolicyDenied, ''policy verification failed before signing''))"
| "fault_of (Signed input (Inl err)) = Some (SigningFailed, ''MPC signing failed'')"
| "fault_of (Submitted bs (Inl err)) = Some (SubmissionFailed, ''Solana submission failed'')"
| "fault_of (Submitted bs (Inr r)) =
    (if sub_Success r then None
     else Some (SubmissionFailed, ''Solana submission rejected: '' @ sub_Error r))"
| "fault_of _ = None"

text \<open>
  How a run ends after its calls: after the first fault there is one write as failed with its reason,
  one audit entry, one notification, and its message in the response. An intent that cannot be
  loaded, or cannot be written as executing or submitted, ends the run at once and is not settled.
  Without one of these the response is neither 404 nor 500, whatever error the other calls had.
\<close>

fun settled :: "response \<Rightarrow> call list \<Rightarrow> bool" where
  "settled r [] = (case r of Json code _ \<Rightarrow> code \<noteq> 500 \<and> code \<noteq> 404 | Panic \<Rightarrow> True)"
| "settled r (Loaded _ (Inl _) # es) \<longleftrightarrow> es = [] \<and> r = fail 404 ''intent not found''"
| "settled r (Updated i err # es) \<longleftrightarrow>
    (if err \<noteq> None \<and> (i_Status i = ''executing'' \<or> i_Status i = ''submitted'')
     then es = [] \<and> r = fail 500 ''failed to update intent'' else settled r es)"
| "settled r (e # es) \<longleftrightarrow>
    (case fault_of e of
       None \<Rightarrow> settled r es
     | Some (reason, msg) \<Rightarrow>
       (case es of
          [Updated i _, Audited _, Notified j _] \<Rightarrow>
            i_Status i = ''failed'' \<and> i_FailureReason i = FailureReason reason \<and>
            r = Json 500 (ExecuteBody j [] msg)
        | _ \<Rightarrow> False))"

definition obstacle :: "request \<Rightarrow> call \<Rightarrow> bool" where
  "obstacle c e \<longleftrightarrow> fault_of e \<noteq> None \<or>
    (case e of
       Loaded _ (Inl _) \<Rightarrow> True
     | Loaded _ (Inr i) \<Rightarrow> q_tenant c \<noteq> Some (i_TenantID i) \<or> i_Status i \<noteq> ''approved''
     | NonceChecked _ (Inr (Some _)) \<Rightarrow> True
     | Updated i err \<Rightarrow> err \<noteq> None \<or> i_Status i = ''expired''
     | _ \<Rightarrow> False)"

lemma ExecuteIntent_settled: "appends (\<lambda>es r. settled r es) (ExecuteIntent h c)"
  unfolding ExecuteIntent_def handler_flat
  by (intro appends_rules) simp_all

lemma ExecuteIntent_obstacle:
  "appends (\<lambda>es r. executed r = (\<not> list_ex (obstacle c) es)) (ExecuteIntent h c)"
  unfolding ExecuteIntent_def handler_flat
  by (intro appends_rules) (simp_all add: executed_def obstacle_def)

text \<open>C9: How a failed call ends an execution. In every run of \<open>ExecuteIntent\<close> a simulation, evaluation,
  signature or submission that fails or is refused is the last thing attempted: what follows is one
  write of the intent as failed with the reason for that fault, one audit entry and one notification,
  and the response is 500 with the message for that fault. An intent that cannot be loaded ends the
  run with 404, and one that cannot be written as executing or submitted with 500 and nothing more: it is not settled.
  The errors of the other calls (the nonce lookup, the blockhash, the transaction store, the write of
  an expired intent) are dropped: without one of the former the response is neither 404 nor 500.\<close>

theorem execute_settles_faults:
  "case serve (ExecuteIntent h c) x of (r, tr, x') \<Rightarrow> settled r tr"
  by (rule appends_case [OF ExecuteIntent_settled])

text \<open>C8: An execution succeeds unless something stands in its way: the response is 202 without an error
  exactly when no call had a result that is an obstacle, that is, the intent was not found, not the
  tenant's, not approved or expired, had a transaction under its nonce, could not be written, or one
  of the faults happened. Failing to record the transaction is none. (The OpenAPI document gives 200 for
  an execution; the code answers 202, and 200 for an expired intent.)\<close>

theorem execute_succeeds_without_obstacle:
  "case serve (ExecuteIntent h c) x of (r, tr, x') \<Rightarrow> executed r = (\<not> list_ex (obstacle c) tr)"
  by (rule appends_case [OF ExecuteIntent_obstacle])

subsection \<open>What the handlers write\<close>

text \<open>The states of an intent that the handlers may write, and the form of what they create.\<close>

fun well_typed :: "call \<Rightarrow> bool" where
  "well_typed (Created i _) \<longleftrightarrow> i_Status i = ''pending'' \<and> i_FailureReason i = None \<and>
     (case parse_int64 (i_Amount i) of Inr n \<Rightarrow> 0 < n \<and> n \<le> maxInt64 div 2 | Inl _ \<Rightarrow> False) \<and> i_Expiry i = i_CreatedAt i + 3600 * second"
| "well_typed (Updated i _) \<longleftrightarrow> i_Status i \<in>
     {''approved'', ''rejected'', ''expired'', ''executing'', ''failed'', ''submitted''}"
| "well_typed (TxCreated tx _) \<longleftrightarrow> x_Status tx = ''submitted'' \<and> x_ConfirmedAt tx = None \<and>
     x_SubmittedAt tx = Some (x_CreatedAt tx)"
| "well_typed _ = True"

lemma routes_well_typed: "appends (\<lambda>es r. list_all well_typed es) (RegisterRoutes rt h c)"
  by (cases rt; simp only: RegisterRoutes.simps handler_defs handler_flat; (intro appends_rules)?)
    (simp_all add: NewIntent_def parse_int64_show_i64 ValidateIntentInput_Nil)

text \<open>C14: The rows the handlers write are well formed: a new intent is pending, with a decimal amount from
  one to half the largest int64, an expiry one hour after its creation and no failure reason; a rewritten
  one has one of the six other statuses the handlers know; a new transaction is submitted and not
  confirmed. There is no status draft and no status cancelled: the comment on \<open>NewIntent\<close> and the
  documents that name them do not describe the code.\<close>

theorem routes_write_well_formed_rows:
  "case serve (RegisterRoutes rt h c) x of (r, tr, x') \<Rightarrow> list_all well_typed tr"
  by (rule appends_case [OF routes_well_typed])

end
