(* ===== verification/VF_Race.thy ===== *)
theory VF_Race
  imports VF_Examples VF_Outcomes
begin

section \<open>Two executions at once\<close>

text \<open>
  \<open>ExecuteIntent\<close> of \<open>services/api/routes/intent_routes.go\<close> loads the intent, checks its status, looks
  for a transaction under its nonce and writes it back without a lock, a transaction or a condition on
  the status. The bound on submissions holds for requests one after the other; here, on the in-memory
  stores, a second request is served between the nonce check of the first and its write, where no
  check of the code is left to stop it.
\<close>

text \<open>A store on which \<open>f\<close> happens to the world right after a lookup by nonce.\<close>

definition interrupted :: "(mock_world \<Rightarrow> mock_world) \<Rightarrow> mock_world IntentHandler \<Rightarrow> mock_world IntentHandler" where
  "interrupted f h = h\<lparr>h_store := (h_store h)\<lparr>is_GetTransactionByNonce := (\<lambda>n. State_Monad.State (\<lambda>x.
     case run_state (is_GetTransactionByNonce (h_store h) n) x of (r, x1) \<Rightarrow> (r, f x1)))\<rparr>\<rparr>"

definition ex_other :: "mock_world \<Rightarrow> mock_world" where
  "ex_other x = (case serve (ExecuteIntent ex_handler ex_request) x of (r, tr, x') \<Rightarrow> x')"

text \<open>The world as the second request finds it, its intent still approved, and as it leaves it.\<close>

definition ex_between :: mock_world where
  "ex_between = (ex_world ''approved'')\<lparr>mw_now := 11\<rparr>"

definition ex_after :: mock_world where
  "ex_after = ex_other ex_between"

lemma ex_after_sel:
  "mw_started ex_after = [''i1'']" "mw_policy ex_after = mw_policy (ex_world ''approved'')"
  by (simp_all add: ex_after_def ex_between_def ex_other_def ex_run parse_int64_show_i64)

lemmas race_run = ex_run interrupted_def ex_after_sel executed_def parse_int64_show_i64

text \<open>Nothing in the handler orders two executions of one intent: when a second request is served
  after the first has passed its last check, both are answered with success, both submit the
  transaction to the chain, and reconciliation is started twice.\<close>

theorem interleaved_executions_submit_twice:
  "(case serve (ExecuteIntent ex_handler ex_request) ex_between of
      (r, tr, x') \<Rightarrow> executed r \<and> chain_calls tr = 1 \<and> mw_started x' = [''i1'']) \<and>
   (case serve (ExecuteIntent (interrupted (\<lambda>x. if x = ex_between then ex_after else x) ex_handler) ex_request) (ex_world ''approved'') of
      (r, tr, x') \<Rightarrow> executed r \<and> chain_calls tr = 1 \<and> mw_started x' = [''i1'', ''i1''])"
  by (simp add: race_run ex_between_def)

end
