(* ===== verification/VF_Amounts.thy ===== *)
theory VF_Amounts
  imports VF_Policy VF_ZK VF_Validation
begin

section \<open>One amount, four readers\<close>

text \<open>
  An amount is stored as a string and read back in four places of \<open>services/api/core\<close>: by
  \<open>parseIntentAmount\<close> for the limits, by \<open>strconv.ParseInt\<close> in the simulation, by \<open>big.Int\<close> in
  \<open>GenerateProof\<close> and by \<open>ValidateAmountString\<close>. On what \<open>AmountToString\<close> writes they agree.
\<close>

lemma dec_nat_ascii: "is_ascii (dec_nat n)" "list_all (\<lambda>c. is_digit (ord c)) (dec_nat n)"
  using dec_nat_digits [of _ n] by (fastforce simp: is_ascii_def list_all_iff is_digit_def)+

lemma foldl_dec_nat_int: "foldl (\<lambda>v c. v * 10 + (ord c - 48)) 0 (dec_nat n) = int n"
proof (induction n rule: dec_nat.induct)
  case (1 n)
  show ?case
  proof (cases "n < 10")
    case False
    have "int (n div 10) * 10 + int (n mod 10) = int n" by presburger
    with False 1 show ?thesis
      by (subst dec_nat.simps) (simp add: ord_digit del: of_nat_div of_nat_mod)
  qed (simp add: dec_nat.simps ord_digit)
qed

lemma parse_big_dec_nat: "parse_big (dec_nat n) = Some (int n)"
proof -
  have "hd (dec_nat n) \<noteq> CHR ''-''" "hd (dec_nat n) \<noteq> CHR ''+''"
    using dec_nat_digits [of "hd (dec_nat n)" n] dec_nat_nonempty [of n]
    by (auto simp: is_digit_def ord_def)
  then show ?thesis
    using dec_nat_ascii(2) [of n] foldl_dec_nat_int [of n] dec_nat_nonempty [of n]
    by (simp add: parse_big_def)
qed

lemma digits_value_dec_nat: "digits_value (runes (dec_nat n)) = n"
proof -
  have "int (foldl (\<lambda>v c. v * 10 + nat (ord c - 48)) a s) = foldl (\<lambda>v c. v * 10 + (ord c - 48)) (int a) s"
    if "list_all (\<lambda>c. is_digit (ord c)) s" for a s
    using that by (induction s arbitrary: a) (auto simp: is_digit_def)
  from this [OF dec_nat_ascii(2), of 0 n] show ?thesis
    by (simp add: digits_value_def runes_ascii dec_nat_ascii(1) foldl_map foldl_dec_nat_int)
qed

lemma ValidateAmountString_dec_nat:
  "n < 2 ^ 63 \<Longrightarrow> ValidateAmountString (dec_nat n) = Inr (of_nat n)"
  using ValidateAmountString_accepts [of "dec_nat n"] dec_nat_nonempty [of n] dec_nat_ascii(2) [of n]
  by (simp add: digits_value_dec_nat runes_digits_iff)

text \<open>C35: An amount survives being stored: all four readers of the program get back the value that
  \<open>AmountToString\<close> wrote, for every amount that is not negative.\<close>

theorem amounts_survive_printing:
  assumes "0 \<le> sint v"
  shows "parseIntentAmount (AmountToString v) = v \<and>
    parse_int64 (AmountToString v) = Inr (sint v) \<and>
    parse_big (AmountToString v) = Some (sint v) \<and>
    ValidateAmountString (AmountToString v) = Inr v"
proof -
  have v: "AmountToString v = dec_nat (nat (sint v))"
    using assms by (simp add: AmountToString_def show_i64_def show_int_def)
  have lt: "nat (sint v) < 2 ^ 63" using sint_i64_range(2) [of v] assms by (simp add: nat_less_iff)
  have "ValidateAmountString (AmountToString v) = Inr v"
    using ValidateAmountString_dec_nat [OF lt] assms by (simp add: v i64_of_nat_sint)
  moreover have "parse_big (AmountToString v) = Some (sint v)"
    using assms by (simp add: v parse_big_dec_nat)
  moreover have "parse_int64 (AmountToString v) = Inr (sint v)"
    by (simp add: AmountToString_def parse_int64_show_i64)
  ultimately show ?thesis using parseIntentAmount_show [OF assms] by blast
qed

lemma amounts_survive_printing_witness:
  "parseIntentAmount (AmountToString 9223372036854775807) = 9223372036854775807 \<and>
   parse_big (AmountToString 9223372036854775807) = Some 9223372036854775807"
  using amounts_survive_printing [of 9223372036854775807] by simp

end
