(* ===== verification/VF_E2E.thy ===== *)
theory VF_E2E
  imports VF_Solana
begin

section \<open>The end-to-end harness\<close>

text \<open>
  \<open>services/api/cmd/e2e/main.go\<close>: a command that builds a real transfer with the library \<open>solana-go\<close>,
  signs it with the sender's key, submits it through the chain client of \<open>core/solana_client.go\<close> and
  waits for its confirmation. The library is a parameter, with keys and hashes in their base58 form;
  the result is the list of printed lines and the message of \<open>log.Fatalf\<close>, if the command ends there.
\<close>

record 't solana_go =
  sg_PrivateKeyFromSolanaKeygenFile :: "string \<Rightarrow> error + string"
  sg_PublicKey :: "string \<Rightarrow> string"
  sg_PublicKeyFromBase58 :: "string \<Rightarrow> error + string"
  sg_HashFromBase58 :: "string \<Rightarrow> error + string"
  sg_NewTransfer :: "u64 \<Rightarrow> string \<Rightarrow> string \<Rightarrow> string \<Rightarrow> error + 't"
  sg_Sign :: "(string \<Rightarrow> string option) \<Rightarrow> 't \<Rightarrow> error + 't"
  sg_MarshalBinary :: "'t \<Rightarrow> error + byte list"

record e2e_flags =
  fl_sender :: string
  fl_to :: string
  fl_amount :: u64
  fl_rpc :: string

type_synonym printed = "string list \<times> error option"

abbreviation fatal :: "string list \<Rightarrow> error \<Rightarrow> ('x, printed) op" where
  "fatal out msg \<equiv> State_Monad.return (out, Some msg)"

text \<open>The transaction the command signs and serializes, all of it without the network.\<close>

definition e2e_transaction ::
  "'t solana_go \<Rightarrow> e2e_flags \<Rightarrow> string \<Rightarrow> string \<Rightarrow> string \<Rightarrow> error + byte list"
where
  "e2e_transaction G fl senderKey recipientPub blockhash =
    (let senderPub = sg_PublicKey G senderKey in
     case sg_NewTransfer G (fl_amount fl) senderPub recipientPub blockhash of
       Inl err \<Rightarrow> Inl (''failed to build transaction: '' @ err)
     | Inr tx \<Rightarrow>
       (case sg_Sign G (\<lambda>key. if key = senderPub then Some senderKey else None) tx of
          Inl err \<Rightarrow> Inl (''failed to sign transaction: '' @ err)
        | Inr tx \<Rightarrow>
          (case sg_MarshalBinary G tx of
             Inl err \<Rightarrow> Inl (''failed to serialize transaction: '' @ err)
           | Inr txBytes \<Rightarrow> Inr txBytes)))"

text \<open>\<open>show_duration\<close> is rounding to the millisecond and \<open>Duration.String\<close>.\<close>

definition e2e_submit ::
  "golib \<Rightarrow> 'x machine \<Rightarrow> (int \<Rightarrow> string) \<Rightarrow> SolanaClient \<Rightarrow> byte list \<Rightarrow> string list \<Rightarrow> ('x, printed) op"
where
  "e2e_submit L mc show_duration client txBytes out = do {
     let out = out @ [''tx size:   '' @ show_int (int (length txBytes)) @ '' bytes''];
     submitStart \<leftarrow> mc_clock mc;
     r \<leftarrow> SubmitTransaction L mc client txBytes;
     (case r of
        Inl err \<Rightarrow> fatal out (''submit failed: '' @ err)
      | Inr res \<Rightarrow>
        if \<not> sub_Success res then fatal out (''submit returned error: '' @ sub_Error res)
        else do {
          now \<leftarrow> mc_clock mc;
          let out = out @ [''submitted in '' @ show_duration (now - submitStart),
                ''signature: '' @ sub_Signature res];
          r \<leftarrow> WaitForConfirmation L mc client (sub_Signature res);
          (case r of
             Inl err \<Rightarrow> fatal out (''confirmation failed: '' @ err)
           | Inr confirmed \<Rightarrow> State_Monad.return
               (out @ (if confirmed then [''CONFIRMED''] else []) @
                [''explorer:  https://explorer.solana.com/tx/'' @ sub_Signature res @ ''?cluster=devnet''],
                None))
        })
   }"

definition e2e_main ::
  "golib \<Rightarrow> 'x machine \<Rightarrow> 't solana_go \<Rightarrow> (int \<Rightarrow> string) \<Rightarrow> e2e_flags \<Rightarrow> ('x, printed) op"
where
  "e2e_main L mc G show_duration fl =
    (if fl_sender fl = [] \<or> fl_to fl = [] then
       fatal [] ''usage: e2e -sender <keypair.json> -to <pubkey> [-amount lamports] [-rpc url]''
     else case sg_PrivateKeyFromSolanaKeygenFile G (fl_sender fl) of
       Inl err \<Rightarrow> fatal [] (''failed to load sender keypair: '' @ err)
     | Inr senderKey \<Rightarrow>
       (case sg_PublicKeyFromBase58 G (fl_to fl) of
          Inl err \<Rightarrow> fatal [] (''invalid recipient pubkey: '' @ err)
        | Inr recipientPub \<Rightarrow> do {
            let out = [''sender:    '' @ sg_PublicKey G senderKey, ''recipient: '' @ recipientPub,
                  ''amount:    '' @ dec_nat (unat (fl_amount fl)) @ '' lamports''];
            let client = NewSolanaClient (fl_rpc fl);
            r \<leftarrow> GetRecentBlockhash L mc client;
            (case r of
               Inl err \<Rightarrow> fatal out (''failed to get recent blockhash: '' @ err)
             | Inr blockhashStr \<Rightarrow>
               (case sg_HashFromBase58 G blockhashStr of
                  Inl err \<Rightarrow> fatal out (''invalid blockhash from RPC: '' @ err)
                | Inr blockhash \<Rightarrow> do {
                    let out = out @ [''blockhash: '' @ blockhashStr];
                    (case e2e_transaction G fl senderKey recipientPub blockhash of
                       Inl err \<Rightarrow> fatal out err
                     | Inr txBytes \<Rightarrow> e2e_submit L mc show_duration client txBytes out)
                  }))
          }))"

subsection \<open>What a run does\<close>

text \<open>The clock of the harness leaves no trace in the trail.\<close>

definition unnoted :: "('x, 'a) op \<Rightarrow> ('x net, 'a) op" where
  "unnoted m = State_Monad.State (\<lambda>s. case run_state m (ext s) of (a, x) \<Rightarrow> (a, s\<lparr>ext := x\<rparr>))"

lemma appends_unnoted: "(\<And>a. P [] a) \<Longrightarrow> appends P (unnoted m)"
  by (auto simp: appends_def unnoted_def wp_State split: prod.splits)

lemma appends_unnoted_bind:
  "(\<And>a. appends P (f a)) \<Longrightarrow> appends P (State_Monad.bind (unnoted m) f)"
  by (rule appends_bind, rule appends_unnoted) simp

lemma noting_clock: "mc_clock (noting mc go clock) = clock"
  by (simp add: noting_def)

text \<open>The requests for a blockhash and for the status of one signature, and what a reply to the former says.\<close>

definition blockhash_request :: "golib \<Rightarrow> string" where
  "blockhash_request L = js_print (gl_json L)
     (rpc_request ''getLatestBlockhash'' [JObj [(''commitment'', json_str ''confirmed'')]])"

definition status_request :: "golib \<Rightarrow> string \<Rightarrow> string" where
  "status_request L signature = js_print (gl_json L)
     (rpc_request ''getSignatureStatuses''
       [JArr [json_str signature], JObj [(''searchTransactionHistory'', JBool True)]])"

definition blockhash_reply :: "golib \<Rightarrow> http_result \<Rightarrow> error + string" where
  "blockhash_reply L r =
    (case rpc_reply L r of
       Inl err \<Rightarrow> Inl (''failed to get recent blockhash: '' @ err)
     | Inr resp \<Rightarrow>
       (case unmarshal_result L (rr_Result resp) [''value'']
               (\<lambda>f v s. um_struct (gl_unicode L) [''blockhash''] (\<lambda>f v s. um_str s v) v s) [] of
          Inl err \<Rightarrow> Inl (''failed to parse blockhash: '' @ err)
        | Inr bh \<Rightarrow> Inr bh))"

text \<open>How a run ends: with a message of failure, or with CONFIRMED and the signature.\<close>

definition failed :: "printed \<Rightarrow> error \<Rightarrow> bool" where
  "failed r msg \<longleftrightarrow> snd r = Some msg \<and> ''CONFIRMED'' \<notin> set (fst r)"

definition confirmed :: "printed \<Rightarrow> string \<Rightarrow> bool" where
  "confirmed r sig \<longleftrightarrow> snd r = None \<and> ''CONFIRMED'' \<in> set (fst r) \<and>
     ''signature: '' @ sig \<in> set (fst r) \<and>
     last (fst r) = ''explorer:  https://explorer.solana.com/tx/'' @ sig @ ''?cluster=devnet''"

text \<open>
  From the submission of the serialized transaction on: the submission follows its protocol, the wait
  asks for nothing but the status of the signature that was submitted, and its result is what the run reports.
\<close>

definition wait_outcome :: "golib \<Rightarrow> string \<Rightarrow> string \<Rightarrow> net_call list \<Rightarrow> printed \<Rightarrow> bool" where
  "wait_outcome L url sig es r \<longleftrightarrow>
     list_all (\<lambda>q. q = (sc_rpcURL (NewSolanaClient url), status_request L sig)) (sent es) \<and>
     (\<exists>w. wait_protocol L (NewSolanaClient url) 30 es w \<and>
        (case w of Inl err \<Rightarrow> failed r (''confirmation failed: '' @ err)
         | Inr ok \<Rightarrow> ok \<and> confirmed r sig))"

definition submit_outcome :: "golib \<Rightarrow> string \<Rightarrow> byte list \<Rightarrow> net_call list \<Rightarrow> printed \<Rightarrow> bool" where
  "submit_outcome L url txBytes es r \<longleftrightarrow>
     (\<exists>es1 es2 v. es = es1 @ es2 \<and> submit_protocol L url txBytes es1 v \<and>
        (case v of
           Inl err \<Rightarrow> es2 = [] \<and> failed r (''submit failed: '' @ err)
         | Inr res \<Rightarrow>
           if sub_Success res then wait_outcome L url (sub_Signature res) es2 r
           else es2 = [] \<and> failed r (''submit returned error: '' @ sub_Error res)))"

text \<open>
  The whole run: the sender's key and the recipient are those of the flags, the blockhash is the one
  the chain gave, and the transfer of the amount from the key to the recipient is built, signed with
  the key and serialized before it is submitted. Every step that fails ends the run with its message
  and nothing more is sent.
\<close>

definition transfer_outcome ::
  "golib \<Rightarrow> 't solana_go \<Rightarrow> e2e_flags \<Rightarrow> string \<Rightarrow> string \<Rightarrow> string \<Rightarrow> net_call list \<Rightarrow> printed \<Rightarrow> bool"
where
  "transfer_outcome L G fl key recipient blockhash es r \<longleftrightarrow>
    (case sg_NewTransfer G (fl_amount fl) (sg_PublicKey G key) recipient blockhash of
       Inl err \<Rightarrow> es = [] \<and> failed r (''failed to build transaction: '' @ err)
     | Inr tx \<Rightarrow>
       (case sg_Sign G ((\<lambda>_. None)(sg_PublicKey G key \<mapsto> key)) tx of
          Inl err \<Rightarrow> es = [] \<and> failed r (''failed to sign transaction: '' @ err)
        | Inr stx \<Rightarrow>
          (case sg_MarshalBinary G stx of
             Inl err \<Rightarrow> es = [] \<and> failed r (''failed to serialize transaction: '' @ err)
           | Inr txBytes \<Rightarrow> submit_outcome L (fl_rpc fl) txBytes es r)))"

definition blockhash_outcome ::
  "golib \<Rightarrow> 't solana_go \<Rightarrow> e2e_flags \<Rightarrow> string \<Rightarrow> string \<Rightarrow> net_call list \<Rightarrow> printed \<Rightarrow> bool"
where
  "blockhash_outcome L G fl key recipient es r \<longleftrightarrow>
    (case es of
       Posted u body reply # es2 \<Rightarrow>
         u = sc_rpcURL (NewSolanaClient (fl_rpc fl)) \<and> body = blockhash_request L \<and>
         (case blockhash_reply L reply of
            Inl err \<Rightarrow> es2 = [] \<and> failed r (''failed to get recent blockhash: '' @ err)
          | Inr bh \<Rightarrow>
            (case sg_HashFromBase58 G bh of
               Inl err \<Rightarrow> es2 = [] \<and> failed r (''invalid blockhash from RPC: '' @ err)
             | Inr blockhash \<Rightarrow> transfer_outcome L G fl key recipient blockhash es2 r))
     | _ \<Rightarrow> False)"

definition e2e_outcome ::
  "golib \<Rightarrow> 't solana_go \<Rightarrow> e2e_flags \<Rightarrow> net_call list \<Rightarrow> printed \<Rightarrow> bool"
where
  "e2e_outcome L G fl es r \<longleftrightarrow>
    (if fl_sender fl = [] \<or> fl_to fl = [] then
       es = [] \<and> failed r ''usage: e2e -sender <keypair.json> -to <pubkey> [-amount lamports] [-rpc url]''
     else case sg_PrivateKeyFromSolanaKeygenFile G (fl_sender fl) of
       Inl err \<Rightarrow> es = [] \<and> failed r (''failed to load sender keypair: '' @ err)
     | Inr key \<Rightarrow>
       (case sg_PublicKeyFromBase58 G (fl_to fl) of
          Inl err \<Rightarrow> es = [] \<and> failed r (''invalid recipient pubkey: '' @ err)
        | Inr recipient \<Rightarrow> blockhash_outcome L G fl key recipient es r))"

lemma client_commitment [simp]:
  "sc_commitment (NewSolanaClient url) = ''confirmed''"
  by (simp_all add: NewSolanaClient_def)

lemma wait_loop_sends:
  "appends (\<lambda>es r. list_all (\<lambda>q. q = (sc_rpcURL (NewSolanaClient url), status_request L sig)) (sent es))
     (wait_loop L (noting mc go clock) (NewSolanaClient url) sig n)"
proof (induction n)
  case (Suc n)
  have again: "appends (\<lambda>es r. list_all (\<lambda>q. q = (sc_rpcURL (NewSolanaClient url), status_request L sig)) (sent (Posted u b a # es)))
      (do { act (mc_sleep mc d) (\<lambda>_. Slept d); wait_loop L (noting mc go clock) (NewSolanaClient url) sig n })"
    if "(u, b) = (sc_rpcURL (NewSolanaClient url), status_request L sig)" for u b a d
    by (rule appends_act_bind, rule appends_mono [OF Suc]) (use that in simp)
  show ?case
    unfolding wait_loop.simps GetSignatureStatus_def sendRPC_def noting_sel
      State_Monad.bind_assoc State_Monad.bind_left_identity
    by (intro appends_rules again) (simp_all add: status_request_def)
qed (simp add: appends_return)

lemma WaitForConfirmation_appends:
  "appends (\<lambda>es w. wait_protocol L (NewSolanaClient url) 30 es w \<and>
       list_all (\<lambda>q. q = (sc_rpcURL (NewSolanaClient url), status_request L sig)) (sent es))
     (WaitForConfirmation L (noting mc go clock) (NewSolanaClient url) sig)"
proof -
  have "nat (sc_maxRetries (NewSolanaClient url) * 10) = 30" by (simp add: NewSolanaClient_def)
  then show ?thesis
    unfolding WaitForConfirmation_def by (simp add: appends_conj wait_loop_protocol wait_loop_sends)
qed

lemma wait_protocol_answer: "wait_protocol L c n es r \<Longrightarrow> r \<noteq> Inr False"
  by (auto simp: wait_protocol_def Let_def split: if_splits sum.splits option.splits)

lemma GetRecentBlockhash_appends:
  "appends (\<lambda>es r. \<exists>reply. es = [Posted (sc_rpcURL (NewSolanaClient url)) (blockhash_request L) reply] \<and> r = blockhash_reply L reply)
     (GetRecentBlockhash L (noting mc go clock) (NewSolanaClient url))"
  unfolding GetRecentBlockhash_def sendRPC_def noting_sel State_Monad.bind_assoc State_Monad.bind_left_identity
  by (intro appends_rules) (simp_all add: blockhash_reply_def blockhash_request_def)

lemma submit_outcome_ends:
  "submit_protocol L url txBytes es (Inl err) \<Longrightarrow> failed r (''submit failed: '' @ err) \<Longrightarrow>
     submit_outcome L url txBytes es r"
  "submit_protocol L url txBytes es (Inr res) \<Longrightarrow> \<not> sub_Success res \<Longrightarrow>
     failed r (''submit returned error: '' @ sub_Error res) \<Longrightarrow> submit_outcome L url txBytes es r"
  unfolding submit_outcome_def
  by (rule exI [of _ es], rule exI [of _ "[]"], rule exI [of _ "Inl err"], simp)
    (rule exI [of _ es], rule exI [of _ "[]"], rule exI [of _ "Inr res"], simp)

lemma e2e_submit_outcome:
  assumes "''CONFIRMED'' \<notin> set out"
  shows "appends (submit_outcome L url txBytes)
    (e2e_submit L (noting mc go (unnoted clock)) sd (NewSolanaClient url) txBytes out)"
  unfolding e2e_submit_def Let_def noting_clock
proof (rule appends_unnoted_bind, rule appends_bind, rule appends_mono [OF SubmitTransaction_protocol],
    intro appends_sum appends_if appends_return appends_unnoted_bind)
  fix es r start res now
  assume es: "submit_protocol L url txBytes es r" and r: "r = Inr res" "\<not> \<not> sub_Success res"
  have through: "submit_outcome L url txBytes (es @ es2) p"
    if "wait_outcome L url (sub_Signature res) es2 p" for es2 p
    unfolding submit_outcome_def
    by (rule exI [of _ es], rule exI [of _ es2], rule exI [of _ r]) (use es r that in simp)
  show "appends (\<lambda>es2. submit_outcome L url txBytes (es @ es2))
      (State_Monad.bind (WaitForConfirmation L (noting mc go (unnoted clock)) (NewSolanaClient url) (sub_Signature res))
        (case_sum
          (\<lambda>err. fatal ((out @ [''tx size:   '' @ show_int (int (length txBytes)) @ '' bytes'']) @
             [''submitted in '' @ sd (now - start), ''signature: '' @ sub_Signature res])
             (''confirmation failed: '' @ err))
          (\<lambda>confirmed. State_Monad.return
             (((out @ [''tx size:   '' @ show_int (int (length txBytes)) @ '' bytes'']) @
               [''submitted in '' @ sd (now - start), ''signature: '' @ sub_Signature res]) @
              (if confirmed then [''CONFIRMED''] else []) @
              [''explorer:  https://explorer.solana.com/tx/'' @ sub_Signature res @ ''?cluster=devnet''], None))))"
    by (intro appends_bind appends_mono [OF WaitForConfirmation_appends] appends_sum appends_return through)
      (use assms in \<open>auto simp: wait_outcome_def failed_def confirmed_def dest: wait_protocol_answer\<close>)
next
  fix es r err
  assume "submit_protocol L url txBytes es r" "r = Inl err"
  then show "submit_outcome L url txBytes (es @ [])
      (out @ [''tx size:   '' @ show_int (int (length txBytes)) @ '' bytes''], Some (''submit failed: '' @ err))"
    using assms by (intro submit_outcome_ends(1)) (auto simp: failed_def)
next
  fix es r res
  assume "submit_protocol L url txBytes es r" "r = Inr res" "\<not> sub_Success res"
  then show "submit_outcome L url txBytes (es @ [])
      (out @ [''tx size:   '' @ show_int (int (length txBytes)) @ '' bytes''],
       Some (''submit returned error: '' @ sub_Error res))"
    using assms by (intro submit_outcome_ends(2)) (auto simp: failed_def)
qed

lemma transfer_submits:
  assumes "''CONFIRMED'' \<notin> set out"
  shows "appends (transfer_outcome L G fl key recipient blockhash)
    (case e2e_transaction G fl key recipient blockhash of
       Inl err \<Rightarrow> fatal out err
     | Inr txBytes \<Rightarrow>
         e2e_submit L (noting mc go (unnoted clock)) sd (NewSolanaClient (fl_rpc fl)) txBytes out)"
proof -
  have only: "(\<lambda>k. if k = pub then Some key else None) = (\<lambda>_. None)(pub \<mapsto> key)" for pub
    by auto
  show ?thesis
    unfolding transfer_outcome_def e2e_transaction_def Let_def only
    using e2e_submit_outcome [OF assms] assms
    by (auto split: sum.splits intro!: appends_return simp: failed_def)
qed

lemma e2e_main_outcome:
  "appends (e2e_outcome L G fl) (e2e_main L (noting mc go (unnoted clock)) G sd fl)"
proof (cases "fl_sender fl = [] \<or> fl_to fl = []")
  case False
  have hash: "appends (blockhash_outcome L G fl key recipient)
      (State_Monad.bind (GetRecentBlockhash L (noting mc go (unnoted clock)) (NewSolanaClient (fl_rpc fl))) f)"
    if "\<And>reply. appends (\<lambda>es2. blockhash_outcome L G fl key recipient
        (Posted (sc_rpcURL (NewSolanaClient (fl_rpc fl))) (blockhash_request L) reply # es2))
        (f (blockhash_reply L reply))" for f key recipient
    by (rule appends_bind, rule appends_mono [OF GetRecentBlockhash_appends]) (use that in auto)
  have rest: "appends (\<lambda>es2. blockhash_outcome L G fl key recipient
      (Posted (sc_rpcURL (NewSolanaClient (fl_rpc fl))) (blockhash_request L) reply # es2))
    (case blockhash_reply L reply of
       Inl err \<Rightarrow> fatal out (''failed to get recent blockhash: '' @ err)
     | Inr blockhashStr \<Rightarrow>
       (case sg_HashFromBase58 G blockhashStr of
          Inl err \<Rightarrow> fatal out (''invalid blockhash from RPC: '' @ err)
        | Inr blockhash \<Rightarrow>
            (case e2e_transaction G fl key recipient blockhash of
               Inl err \<Rightarrow> fatal (out @ [''blockhash: '' @ blockhashStr]) err
             | Inr txBytes \<Rightarrow> e2e_submit L (noting mc go (unnoted clock)) sd (NewSolanaClient (fl_rpc fl)) txBytes
                 (out @ [''blockhash: '' @ blockhashStr]))))"
    if "''CONFIRMED'' \<notin> set out" for key recipient reply out
  proof (cases "blockhash_reply L reply")
    case (Inl err)
    with that show ?thesis by (auto simp: blockhash_outcome_def failed_def intro!: appends_return)
  next
    case (Inr bh)
    show ?thesis
    proof (cases "sg_HashFromBase58 G bh")
      case (Inl err)
      with \<open>blockhash_reply L reply = Inr bh\<close> that show ?thesis
        by (auto simp: blockhash_outcome_def failed_def intro!: appends_return)
    next
      case hash: (Inr b)
      from that have out: "''CONFIRMED'' \<notin> set (out @ [''blockhash: '' @ bh])" by auto
      show ?thesis
        unfolding Inr hash sum.case
        by (rule appends_mono [OF transfer_submits [OF out]]) (simp add: blockhash_outcome_def Inr hash)
    qed
  qed
  show ?thesis
  proof (cases "sg_PrivateKeyFromSolanaKeygenFile G (fl_sender fl)")
    case key: (Inr key)
    show ?thesis
    proof (cases "sg_PublicKeyFromBase58 G (fl_to fl)")
      case (Inr recipient)
      show ?thesis
        unfolding e2e_main_def Let_def e2e_outcome_def if_not_P [OF False] key Inr sum.case
        by (rule hash, rule rest) simp
    qed (use False key in \<open>auto simp: e2e_main_def e2e_outcome_def failed_def intro!: appends_return\<close>)
  qed (use False in \<open>auto simp: e2e_main_def e2e_outcome_def failed_def intro!: appends_return\<close>)
qed (auto simp: e2e_main_def e2e_outcome_def failed_def intro!: appends_return)

subsection \<open>Properties\<close>

text \<open>C30: The harness reports exactly what the chain answers. A run asks once for a blockhash, builds the
  transfer of the amount from the sender's key to the recipient of the flags with that blockhash, signs
  it with that key, submits the serialized transaction by the protocol of submissions, and, if it was
  accepted, polls the status of the signature it got and of nothing else. It prints CONFIRMED, that
  signature and its explorer link exactly when the wait ended with a confirmation; the first step that
  fails ends it with the message for that step and no further request.\<close>

theorem e2e_confirms:
  "case serve (e2e_main L (noting mc go (unnoted clock)) G sd fl) x of (r, es, x') \<Rightarrow>
     e2e_outcome L G fl es r"
  by (rule appends_case [OF e2e_main_outcome])

end
