(* ===== verification/Spec2Isabelle.thy ===== *)
theory Spec2Isabelle
  imports VF_Witnesses VF_Race VF_Amounts VF_E2E
begin

text \<open>
  A verification development of VaultForge's API service, the Go code under \<open>src/services/api\<close>. The
  service takes orders to move funds ("intents"), checks them against the policies of a tenant, has
  them proved, signed by a threshold signer and submitted to the Solana chain, and follows them until
  they are confirmed. Names below are those of the code.

  \<^bold>\<open>How the program is put together.\<close> \<open>main.go\<close> reads a configuration, opens the database, wires the
  services and serves a gin router. A request passes the middleware stack (security headers, CORS,
  request id, timeout, body limit, rate limit, metrics, logging, then, for the API, authentication)
  and reaches a handler of \<open>routes/intent_routes.go\<close>. The handlers reach everything else through the
  interfaces of \<open>core/interfaces.go\<close>: stores, policy engine, proof verifier, signer, audit log,
  webhooks, chain client, reconciler. The state is the database; an intent's life is its \<open>Status\<close>.
  \<open>ExecuteIntent\<close> starts one reconciler run per submitted intent, which polls the chain and writes the
  final status.

  \<^bold>\<open>How the model is built.\<close> A stateful operation is a program in the state monad over a type \<open>'x\<close>, the
  state of everything outside the code. An interface of the code is a record of such operations, a
  method call is a field applied to its arguments, an error is a value (\<open>error + 'a\<close> or an option). A
  handler runs over \<open>'x\<close> together with a trail, the list of the interface calls it made with their
  results; a property of the order of calls is a property of the trail that holds for every
  implementation of the interfaces. Go's \<open>int64\<close> and \<open>uint64\<close> are 64-bit words, \<open>byte\<close> an 8-bit word,
  strings are lists of bytes with UTF-8 decoding where the code ranges over runes, \<open>float64\<close> is a
  rational number rounded after every operation, times are nanoseconds.

  \<^bold>\<open>Theories and sources.\<close>
  \<^item> \<open>VF_Prelude\<close>, \<open>VF_Trace\<close>: the state monad with its weakest preconditions, the trail and its rules.
  \<^item> \<open>Go_Text\<close>, \<open>Go_Json\<close>, \<open>Go_Float\<close>: what the code uses of Go's library: UTF-8, decimal numbers,
    \<open>strings\<close>, decoding JSON into Go values, rounding to \<open>float64\<close>.
  \<^item> \<open>VF_Domain\<close> (\<open>core/domain.go\<close>, \<open>failure_reasons.go\<close>), \<open>VF_Interfaces\<close> (\<open>interfaces.go\<close>).
  \<^item> \<open>VF_Validation\<close> (\<open>validation.go\<close>), \<open>VF_Auth\<close> (\<open>auth.go\<close>), \<open>VF_Policy\<close> (\<open>policy_engine.go\<close>),
    \<open>VF_TxBuilder\<close> (\<open>transaction_builder.go\<close>), \<open>VF_ZK\<close> (\<open>zk_verifier.go\<close>), \<open>VF_MPC\<close>
    (\<open>mpc_signer.go\<close>), \<open>VF_Amounts\<close> (the readers of an amount in four of them).
  \<^item> \<open>VF_Gorm\<close> (the database interface), \<open>VF_Stores\<close> (\<open>stores.go\<close>), \<open>VF_Audit\<close> (\<open>audit.go\<close>),
    \<open>VF_Net\<close> (HTTP, sleeping, goroutines), \<open>VF_Solana\<close> (\<open>solana_client.go\<close>), \<open>VF_Webhook\<close>
    (\<open>webhook.go\<close>), \<open>VF_Reconciler\<close> (\<open>reconciler.go\<close>), \<open>VF_Mocks\<close> (\<open>mocks.go\<close>), \<open>VF_E2E\<close>
    (\<open>cmd/e2e/main.go\<close>).
  \<^item> \<open>VF_Handlers\<close> (\<open>routes/intent_routes.go\<close>), \<open>VF_Protocol\<close> and \<open>VF_Outcomes\<close> (what the handlers do at
    their interfaces and how executions end), \<open>VF_Lifecycle\<close> (the effect on the stored intents).
  \<^item> \<open>VF_RateLimit\<close> (\<open>ratelimit.go\<close>), \<open>VF_Config\<close> (\<open>config.go\<close>), \<open>VF_Health\<close> (\<open>health.go\<close>), \<open>VF_Metrics\<close>
    (\<open>metrics.go\<close>), \<open>VF_Logger\<close> (\<open>logger.go\<close>), \<open>VF_Middleware\<close> (\<open>routes/middleware.go\<close>, \<open>cors.go\<close>,
    \<open>bodylimit.go\<close>, the router of \<open>main.go\<close>), \<open>VF_Gateway\<close> (properties of the stack).
  \<^item> \<open>VF_Main\<close> (the wiring of \<open>main.go\<close> and histories of handler and reconciler runs), \<open>VF_Service\<close>
    (start, stop, histories of HTTP requests and reconciler runs), \<open>VF_MemDB\<close> (an in-memory database
    that keeps the contracts), \<open>VF_Examples\<close>, \<open>VF_Witnesses\<close>, \<open>VF_Race\<close> (concrete runs).

  \<^bold>\<open>Interfaces as locales.\<close> \<open>intent_service\<close> is what the handlers rely on in a store (a save stores the
  order it was given, other calls leave the intents alone); \<open>wired_service\<close> is the same for the
  database and machine below the wired services; \<open>served_service\<close> adds the connection pool;
  \<open>infrastructure\<close> is what the middleware needs of clock and probes. They are interpreted on the
  repository's mocks, on the in-memory database under the wired services, and on any site.

  \<^bold>\<open>What the properties show.\<close> Of the whole service: an intent is submitted at most once and moves only
  along \<open>lifecycle_step\<close>, over every history of requests and reconciler runs one after the other;
  tenants are isolated from the HTTP headers down. Of the handlers: what precedes a signature, a
  submission, an approval, all of it tied to the intent that was loaded; what a success means, what
  prevents one and how a failed call ends an execution; audit, reasons and rows of every write. Of the
  router: which requests reach a handler, that it never panics, what the metrics count. Of the components: exact results of the policy engine,
  verifier, signer, input, key and configuration checks; bounds of the rate limiter; termination and
  shape of the chain client, webhook and reconciler loops; round trips of amounts and proofs. Some
  theorems record weaknesses: two interleaved executions submit twice (\<open>VF_Race\<close>), rules with unreadable
  configurations pass, proofs do not bind the limit, transaction bytes do not fix the amount. Where the
  documents of the repository say something else than the code, the properties state what the code
  does: a new intent is \<open>pending\<close>, cancelling writes \<open>rejected\<close>, an execution answers 202, and signing
  cannot be switched off.

  \<^bold>\<open>Bounds.\<close> The loops of the code are bounded and are modelled by recursion on their counter: four
  submissions, thirty polls of a confirmation, sixty polls of the reconciler, five deliveries of a
  webhook. No fuel is used. The bound of the rate limiter assumes fewer than about \<open>2 ^ 50\<close> requests
  times burst, so that the rounding of \<open>float64\<close> stays below one token.

  \<^bold>\<open>Parameters.\<close> SHA-256, the JSON scanner and printer, RFC 3339, Unicode tables beyond ASCII, gorm and
  PostgreSQL, \<open>database/sql\<close>, \<open>solana-go\<close>, the HTTP transport, randomness, the clock, the scheduler of goroutines,
  gin's routing and binding. Hypotheses about them are named (\<open>digest32\<close>,
  \<open>json_roundtrip_at\<close>, \<open>keyed\<close>, \<open>update_keeps\<close>) and hold on the instances of \<open>VF_Examples\<close> and \<open>VF_Witnesses\<close>.

  \<^bold>\<open>Not modelled.\<close> Preemption inside a request (a history is a sequence of requests and runs; \<open>VF_Race\<close>
  shows one interleaving), mutexes, log lines of the services, the listener and signal handling of
  \<open>main\<close>, timing of \<open>SecureCompare\<close>, types that no code uses (\<open>SigningContext\<close>, \<open>MPCShare\<close>,
  \<open>ReplayKey\<close>), and the Rust crates, on-chain program and
  deployment files of the repository, which are not Go code of the service.
\<close>

section \<open>The service as a whole\<close>

text \<open>C1: The service submits an intent to the chain at most once. For the router, the handlers and the
  reconciler wired as in \<open>main.go\<close>, on any database, machine and connection pool that keep the
  contract \<open>served_service\<close>, and for any history of HTTP requests and reconciler runs one after the
  other, the visits that name one intent call \<open>SubmitTransaction\<close> at most once in all (no row being
  created again under its identifier).\<close>

theorem http_submits_at_most_once:
  assumes "served_service mc rand db view pool" "keyed (view (sv_ext s))"
    and "visit_all (main_site L tj cfg mc rand db pool ver sd su g)
      (main_reconciler L tj (cf_SolanaRPCURL cfg) mc db) vs s = (lg, s')"
    and "\<not> visit_recreates iid lg"
  shows "visit_submissions iid lg \<le> 1"
  by (rule served_service.visits_submissions [OF assms(1,3,4,2)])

lemma http_submits_at_most_once_witness:
  "visit_submissions ''i1'' (fst (visit_all ex_site ex_site_reconciler ex_visits (ex_server ''approved''))) \<le> 1"
  unfolding ex_site_def ex_site_reconciler_def
  by (rule http_submits_at_most_once [OF ex_served ex_server_keyed prod.collapse [symmetric]
        visits_recreate_nothing [OF ex_visits_create_nothing]])

text \<open>C2: The service refines the life cycle of intents. Over any such history an existing intent keeps
  its order (identifier, tenant, wallet, destination, token, amount, chain, nonce, creator, expiry
  and creation time) and its status moves along \<open>lifecycle_step\<close>; nothing else happens to it.\<close>

theorem http_refines_lifecycle:
  assumes "served_service mc rand db view pool" "keyed (view (sv_ext s))"
    and "visit_all (main_site L tj cfg mc rand db pool ver sd su g)
      (main_reconciler L tj (cf_SolanaRPCURL cfg) mc db) vs s = (lg, s')"
    and "\<not> visit_recreates iid lg"
  shows "view (sv_ext s') iid = view (sv_ext s) iid \<or>
    (\<exists>i j. view (sv_ext s) iid = Some i \<and> view (sv_ext s') iid = Some j \<and> same_order i j \<and>
       lifecycle_step\<^sup>*\<^sup>* (i_Status i) (i_Status j))"
  by (rule served_service.visits_lifecycle [OF assms(1,3,4,2)])

lemma http_refines_lifecycle_witness:
  "\<exists>j. mem_view (sv_ext (snd (visit_all ex_site ex_site_reconciler ex_visits (ex_server ''approved'')))) ''i1'' = Some j \<and>
       i_Amount j = show_i64 1000 \<and> lifecycle_step\<^sup>*\<^sup>* ''approved'' (i_Status j)"
proof -
  have i: "mem_view (sv_ext (ex_server s)) ''i1'' = Some (ex_intent s)" for s
    by (simp add: mem_view_def ex_mem_def ex_intent_def ex_server_def)
  have s: "i_Status (ex_intent s) = s" "i_Amount (ex_intent s) = show_i64 1000" for s
    by (simp_all add: ex_intent_def NewIntent_def)
  show ?thesis
    using http_refines_lifecycle [where s = "ex_server ''approved''" and iid = "''i1''" and
        L = ex_lib and tj = "\<lambda>_. []" and cfg = ex_config and vs = ex_visits and ver = "''dev''" and
        sd = "\<lambda>_. []" and su = "\<lambda>_. []" and g = 1,
        OF ex_served ex_server_keyed prod.collapse [symmetric]
        visits_recreate_nothing [OF ex_visits_create_nothing]]
    unfolding ex_site_def ex_site_reconciler_def
    by (auto simp: i s same_order_def)
qed

text \<open>The same bound below the router: for the handlers and the reconciler
  wired as in \<open>main.go\<close>, on any database and machine that keep the contract \<open>wired_service\<close>, and for
  any history of requests and reconciler runs one after the other, the turns for one intent call
  \<open>SubmitTransaction\<close> at most once in all (no row being created again under its identifier).\<close>

theorem service_submits_at_most_once:
  assumes "wired_service mc rand db view" "keyed (view x)"
    and "history (main_handler L tj url mc rand db) (main_reconciler L tj url mc db) ts x = (lg, x')"
    and "\<not> recreates iid lg"
  shows "submitted_times iid lg \<le> 1"
  using wired_service.history_submissions [OF assms(1,3,4,2)]
  by (auto split: option.splits if_splits)

lemma service_submits_at_most_once_witness:
  "submitted_times ''i1'' (fst (history ex_main ex_reconciler ex_turns (ex_mem ''approved''))) \<le> 1"
  unfolding ex_main_def ex_reconciler_def
  by (rule service_submits_at_most_once [OF ex_wired ex_mem_keyed prod.collapse [symmetric]
        history_recreates [OF ex_turns_create_nothing]])

text \<open>The same refinement below the router, for histories of requests to the handlers and reconciler
  runs.\<close>

theorem service_refines_lifecycle:
  assumes "wired_service mc rand db view" "keyed (view x)"
    and "history (main_handler L tj url mc rand db) (main_reconciler L tj url mc db) ts x = (lg, x')"
    and "\<not> recreates iid lg"
  shows "view x' iid = view x iid \<or>
    (\<exists>i j. view x iid = Some i \<and> view x' iid = Some j \<and> same_order i j \<and>
       lifecycle_step\<^sup>*\<^sup>* (i_Status i) (i_Status j))"
  by (rule wired_service.history_lifecycle [OF assms(1,3,4,2)])

lemma service_refines_lifecycle_witness:
  "\<exists>j. mem_view (snd (history ex_main ex_reconciler ex_turns (ex_mem ''approved''))) ''i1'' = Some j \<and>
       i_Amount j = show_i64 1000 \<and> lifecycle_step\<^sup>*\<^sup>* ''approved'' (i_Status j)"
proof -
  have i: "mem_view (ex_mem s) ''i1'' = Some (ex_intent s)" for s
    by (simp add: mem_view_def ex_mem_def ex_intent_def)
  have s: "i_Status (ex_intent s) = s" "i_Amount (ex_intent s) = show_i64 1000" for s
    by (simp_all add: ex_intent_def NewIntent_def)
  show ?thesis
    using service_refines_lifecycle [where x = "ex_mem ''approved''" and iid = "''i1''" and
        L = ex_lib and tj = "\<lambda>_. []" and url = "[]" and ts = ex_turns,
        OF ex_wired ex_mem_keyed prod.collapse [symmetric] history_recreates [OF ex_turns_create_nothing]]
    unfolding ex_main_def ex_reconciler_def
    by (auto simp: i s same_order_def)
qed

text \<open>C15: The same bound for the handlers alone over any implementation of the interfaces, the
  in-memory ones of the tests among them, that keeps the contract \<open>intent_service\<close>: over any
  sequence of requests one intent is submitted at most once.\<close>

theorem execute_at_most_once:
  assumes "intent_service h view" "keyed (view x)" "session h qs x = (lg, x')" "\<not> creates iid lg"
  shows "submissions iid lg \<le> 1"
  using intent_service.session_submissions [OF assms(1) assms(3,4,2)]
  by (auto split: option.splits if_splits)

lemma execute_at_most_once_witness:
  "submissions ''i1'' (fst (session ex_handler [(PostExecute, ex_request), (PostExecute, ex_request)]
     (ex_world ''approved''))) \<le> 1 \<and>
   submissions ''i1'' (fst (session ex_handler [(PostExecute, ex_request), (PostExecute, ex_request)]
     (ex_world ''approved''))) = 1"
proof -
  have "\<not> creates ''i1'' (fst (session ex_handler [(PostExecute, ex_request), (PostExecute, ex_request)]
     (ex_world ''approved'')))"
    by (simp add: ex_run parse_int64_show_i64)
  from execute_at_most_once [OF ex_service ex_keyed prod.collapse [symmetric] this] ex_session
  show ?thesis by blast
qed

section \<open>Properties of the router on a concrete site\<close>

lemma http_isolates_tenants_witness:
  "case run_state (ServeHTTP ex_site ex_http) (ex_server ''pending'') of (c, s') \<Rightarrow>
     sv_calls s' = [] \<or>
     (\<exists>tr t. sv_calls s' = tr \<and> t = SanitizeTenantID ''tenant-1'' \<and> t \<noteq> [] \<and>
        guarded (owner_ok (tenant_request ex_site ex_http t)) changes [] tr)"
proof -
  have endpoint: "hq_endpoint ex_http = Api PostExecute"
    and header: "hq_header ex_http ''X-Tenant-ID'' = ''tenant-1''"
    and calls: "sv_calls (ex_server ''pending'') = []"
    by (simp_all add: ex_http_def ex_server_def)
  have route: "by_id_route PostExecute" by (simp add: by_id_route_def)
  show ?thesis
    using http_isolates_tenants [OF endpoint route, where st = ex_site and s = "ex_server ''pending''"]
    unfolding header calls by simp
qed

lemma metrics_add_up_witness:
  "case serve_each ex_site [ex_http, ex_http] (ex_server ''pending'') of (lg, s') \<Rightarrow>
     mt_requestCount (sv_metrics s') = how_many measured lg \<and>
     mt_requestErrors (sv_metrics s') = how_many erroneous lg \<and> metrics_ok (sv_metrics s')"
proof -
  obtain lg s' where run: "serve_each ex_site [ex_http, ex_http] (ex_server ''pending'') = (lg, s')" by fastforce
  have start: "sv_metrics (ex_server ''pending'') = NewMetricsCollector 0" by (simp add: ex_server_def)
  have zero: "mt_requestCount (NewMetricsCollector 0) = 0" "mt_requestErrors (NewMetricsCollector 0) = 0"
    by (simp_all add: NewMetricsCollector_def)
  have "metrics_ok (sv_metrics (ex_server ''pending''))" unfolding start by (rule metrics_ok_new)
  from metrics_add_up [OF run this] show ?thesis by (simp add: run start zero del: serve_each.simps)
qed

section \<open>Properties of the intent handlers\<close>

text \<open>C3: A signature is asked for only after every gate. In every run of \<open>ExecuteIntent\<close>, whatever
  the interfaces answer (the store's \<open>Update\<close> leaving the intent it is given alone but for
  \<open>UpdatedAt\<close>), each call of \<open>Sign\<close> comes after the intent was loaded as approved by the requesting
  tenant and found not expired by the clock reading that follows; after that very intent was marked
  executing by an accepted write, the transaction built from its wallet, token, amount and destination
  was simulated and allowed, and the policy engine allowed it. The signing input carries the hash of
  that intent as marked, its chain and the hash of that transaction.\<close>

theorem execute_signs_only_cleared:
  assumes "update_keeps h"
  shows "case serve (ExecuteIntent h c) x of (r, tr, x') \<Rightarrow>
    guarded (sign_ok (h_lib h) c) is_signed [] tr"
  by (rule appends_case [OF ExecuteIntent_signs [OF assms]])

lemma execute_signs_only_cleared_witness:
  "case serve (ExecuteIntent ex_handler ex_request) (ex_world ''approved'') of (r, tr, x') \<Rightarrow>
     guarded (sign_ok (h_lib ex_handler) ex_request) is_signed [] tr \<and> list_ex is_signed tr"
  using execute_signs_only_cleared [OF ex_keeps_updates, of ex_request "ex_world ''approved''"] ex_success
  by (auto split: prod.splits)

text \<open>C4: A transaction is submitted only after a signature has come back and was audited, and that
  signature was asked for as in the previous property; the bytes are those \<open>Build\<close> returned for the
  transaction built from the loaded intent, which was simulated and allowed; one request submits at
  most once. The code has no mode without signing: nothing reads \<open>MPC_ENABLED\<close>.\<close>

theorem execute_submits_only_signed:
  assumes "update_keeps h"
  shows "case serve (ExecuteIntent h c) x of (r, tr, x') \<Rightarrow>
     guarded (submit_ok (h_lib h) c) is_submitted [] tr \<and> chain_calls tr \<le> 1"
  by (rule appends_case [OF ExecuteIntent_submits [OF assms]])

lemma execute_submits_only_signed_witness:
  "case serve (ExecuteIntent ex_handler ex_request) (ex_world ''approved'') of (r, tr, x') \<Rightarrow>
     guarded (submit_ok (h_lib ex_handler) ex_request) is_submitted [] tr \<and> list_ex is_submitted tr"
  using execute_submits_only_signed [OF ex_keeps_updates, of ex_request "ex_world ''approved''"] ex_success
  by (auto split: prod.splits)

text \<open>C7: An execution reports success (202 without an error) exactly when the loaded intent was
  written as submitted, exactly when a transaction record was handed to the transaction store (whose
  error the code drops), and exactly when reconciliation was started. Each of these comes after a submission
  that the chain accepted and is made from the loaded intent and that submission: the write changes
  status, execution time and signature alone, the record names the intent, its tenant and wallet and
  holds the submitted bytes and the signature, the reconciliation is of that intent. The response
  shows the intent so written and the signature.\<close>

theorem execute_outcome:
  assumes "update_keeps h"
  shows "case serve (ExecuteIntent h c) x of (r, tr, x') \<Rightarrow> execution_outcome c tr r"
  by (rule appends_case [OF ExecuteIntent_outcome [OF assms]])

lemma execute_outcome_witness:
  "case serve (ExecuteIntent ex_handler ex_request) (ex_world ''approved'') of (r, tr, x') \<Rightarrow>
     execution_outcome ex_request tr r \<and> executed r"
  using execute_outcome [OF ex_keeps_updates, of ex_request "ex_world ''approved''"] ex_success
  by (auto split: prod.splits)

text \<open>C10: \<open>ApproveIntent\<close> writes the status approved only for an intent loaded as pending by the
  requesting tenant, which it changes in status and approval time alone, after the policy engine
  allowed it and the verifier accepted the proof generated from its own fields.\<close>

theorem approve_only_allowed_and_proved:
  "case serve (ApproveIntent h c) x of (r, tr, x') \<Rightarrow> guarded (approve_ok c) is_updated [] tr"
  by (rule appends_case [OF ApproveIntent_approves])

text \<open>C16: Tenants are isolated. On the routes that name an intent, every write, signature, submission,
  record and reconciliation comes after that intent was loaded and found to be the requesting
  tenant's, and a response shows an intent only after that.\<close>

theorem routes_isolate_tenants:
  assumes "by_id_route rt"
  shows "case serve (RegisterRoutes rt h c) x of (r, tr, x') \<Rightarrow>
    guarded (owner_ok c) changes [] tr \<and> (shows_intent r \<longrightarrow> owned c (\<lambda>_. True) tr)"
  by (rule appends_case [OF routes_owner [OF assms]])

lemma routes_isolate_tenants_witness:
  "case serve (RegisterRoutes PostReject ex_handler ex_request) (ex_world ''pending'') of
     (r, tr, x') \<Rightarrow> shows_intent r \<and> owned ex_request (\<lambda>_. True) tr"
  using routes_isolate_tenants [where rt = PostReject and h = ex_handler and c = ex_request
      and x = "ex_world ''pending''"]
  by (simp add: by_id_route_def ex_run shows_intent_def)

text \<open>C11: \<open>CreateIntent\<close> stores at most one intent, changes nothing else, and answers 201 exactly when
  the store accepted it; what it stores is pending, belongs to the requesting tenant, carries the
  validated input and an expiry one hour after its creation, and with an idempotency key equals no
  intent the store listed.\<close>

theorem create_stores_validated:
  "case serve (CreateIntent h c) x of (r, tr, x') \<Rightarrow> creation_outcome (h_lib h) c tr r"
  by (rule appends_case [OF CreateIntent_creates])

text \<open>C12: On every route each successful write of an intent is audited before the next write and
  before the response.\<close>

theorem routes_audit_every_write:
  "case serve (RegisterRoutes rt h c) x of (r, tr, x') \<Rightarrow> answered False tr"
  by (rule appends_case [OF routes_answered])


end
